(* ===== verification/Prelude.thy ===== *)
theory Prelude
  imports Complex_Main "HOL-Library.AList" "HOL-Library.Sublist"
begin

text \<open>
  Shared ground of the development: the rule collections the component theories fill, the model of
  Python's exceptions and of effectful (async) code as a state-and-exception computation, the small
  part of Python's strings and dictionaries the program uses, and rows of an SQL table.

  An awaited call is a function from the state of the world to a result and the next state; the
  result is \<open>Inl e\<close> when the call raises \<open>e\<close>.  Nothing here is specific to one component.
\<close>

named_theorems io_simps \<open>evaluation of effectful computations\<close>
named_theorems io_rules \<open>introduction rules for postconditions of effectful computations\<close>
named_theorems keeps_rules \<open>preservation of an invariant by effectful computations, whatever they return\<close>
named_theorems cancel_rules \<open>computations that raise nothing but cancellation\<close>
named_theorems sql_simps \<open>rewriting of table operations\<close>

section \<open>Time\<close>

text \<open>
  A \<open>datetime\<close> has microsecond resolution and all of the program's datetimes are UTC, so it is the
  number of microseconds since the epoch.  \<open>time.time()\<close> and \<open>time.monotonic()\<close> return floats,
  modelled as reals (rounding is not modelled).
\<close>

type_synonym datetime = int
type_synonym seconds = real

definition timedelta_seconds :: "int \<Rightarrow> int" where
  "timedelta_seconds n = n * 1000000"

section \<open>Exceptions\<close>

text \<open>core/errors.py: the error codes and the attributes of \<open>CodeHubError\<close>.\<close>

datatype error_code =
    UNAUTHORIZED | FORBIDDEN | WORKSPACE_NOT_FOUND | TOO_MANY_REQUESTS
  | RUNNING_LIMIT_EXCEEDED | UPSTREAM_UNAVAILABLE

record codehub_error =
  err_code :: error_code
  err_message :: string
  err_status :: int
  err_retry_after :: "int option"

text \<open>
  The exceptions the program raises, catches or classifies.  \<open>CancelledError\<close> is a
  \<open>BaseException\<close>: an \<open>except Exception\<close> clause does not catch it.  \<open>OtherError\<close> stands for
  every exception class the program does not name.
\<close>

datatype exn =
    CodeHubError codehub_error
  | CancelledError
  | TimeoutError
  | CircuitOpenError string seconds
  | VolumeInUseError string
  | HTTPStatusError int
  | HttpxConnectError | HttpxConnectTimeout | HttpxReadTimeout | HttpxWriteTimeout
  | HttpxPoolTimeout | HttpxInvalidURL | HttpxTooManyRedirects
  | ClientError string
  | RedisError string
  | WebSocketError string
  | RuntimeError string
  | OtherError string

fun is_Exception :: "exn \<Rightarrow> bool" where
  "is_Exception CancelledError = False"
| "is_Exception _ = True"

section \<open>Effectful computations\<close>

type_synonym ('s, 'a) io = "'s \<Rightarrow> (exn + 'a) \<times> 's"

definition io_return :: "'a \<Rightarrow> ('s, 'a) io" where
  "io_return a s = (Inr a, s)"

definition io_raise :: "exn \<Rightarrow> ('s, 'a) io" where
  "io_raise e s = (Inl e, s)"

definition io_bind :: "('s, 'a) io \<Rightarrow> ('a \<Rightarrow> ('s, 'b) io) \<Rightarrow> ('s, 'b) io" where
  "io_bind m f s = (case m s of (Inl e, t) \<Rightarrow> (Inl e, t) | (Inr a, t) \<Rightarrow> f a t)"

definition io_get :: "('s, 's) io" where
  "io_get s = (Inr s, s)"

definition io_seq :: "('s, 'a) io \<Rightarrow> ('s, 'b) io \<Rightarrow> ('s, 'b) io" where
  "io_seq m n = io_bind m (\<lambda>_. n)"

text \<open>\<open>try: m except Exception as e: h e\<close>\<close>

definition io_try :: "('s, 'a) io \<Rightarrow> (exn \<Rightarrow> ('s, 'a) io) \<Rightarrow> ('s, 'a) io" where
  "io_try m h s =
     (case m s of
        (Inl e, t) \<Rightarrow> if is_Exception e then h e t else (Inl e, t)
      | (Inr a, t) \<Rightarrow> (Inr a, t))"

text \<open>\<open>try: m\<close> with several \<open>except\<close> clauses: \<open>h e = None\<close> when no clause matches \<open>e\<close>.\<close>

definition io_except :: "('s, 'a) io \<Rightarrow> (exn \<Rightarrow> ('s, 'a) io option) \<Rightarrow> ('s, 'a) io" where
  "io_except m h s =
     (case m s of
        (Inl e, t) \<Rightarrow> (case h e of None \<Rightarrow> (Inl e, t) | Some k \<Rightarrow> k t)
      | (Inr a, t) \<Rightarrow> (Inr a, t))"

text \<open>\<open>try: m finally: f\<close>: an exception of the cleanup replaces the result.\<close>

definition io_finally :: "('s, 'a) io \<Rightarrow> ('s, unit) io \<Rightarrow> ('s, 'a) io" where
  "io_finally m f s =
     (case m s of (r, t) \<Rightarrow>
       (case f t of (Inl e, u) \<Rightarrow> (Inl e, u) | (Inr _, u) \<Rightarrow> (r, u)))"

text \<open>\<open>asyncio.wait_for(m, timeout)\<close>: when the timer fires the inner task is cancelled and the caller
  sees a \<open>TimeoutError\<close>.  That the timer fires is a \<open>CancelledError\<close> at one of the awaits of \<open>m\<close>.\<close>

definition io_wait_for :: "('s, 'a) io \<Rightarrow> ('s, 'a) io" where
  "io_wait_for m s =
     (case m s of (Inl CancelledError, t) \<Rightarrow> (Inl TimeoutError, t) | r \<Rightarrow> r)"

lemmas io_defs = io_return_def io_raise_def io_bind_def io_seq_def io_try_def io_except_def
  io_finally_def io_wait_for_def

lemma io_return_apply [io_simps]: "io_return a s = (Inr a, s)"
  by (simp add: io_return_def)

lemma io_raise_apply [io_simps]: "io_raise e s = (Inl e, s)"
  by (simp add: io_raise_def)

lemma io_bind_Inr [io_simps]: "m s = (Inr a, t) \<Longrightarrow> io_bind m f s = f a t"
  by (simp add: io_bind_def)

lemma io_bind_Inl [io_simps]: "m s = (Inl e, t) \<Longrightarrow> io_bind m f s = (Inl e, t)"
  by (simp add: io_bind_def)

lemma io_seq_Inr [io_simps]: "m s = (Inr a, t) \<Longrightarrow> io_seq m n s = n t"
  by (simp add: io_seq_def io_bind_def)

lemma io_seq_Inl [io_simps]: "m s = (Inl e, t) \<Longrightarrow> io_seq m n s = (Inl e, t)"
  by (simp add: io_seq_def io_bind_def)

lemma io_bind_return_left [io_simps]: "io_bind (io_return a) f = f a"
  by (simp add: fun_eq_iff io_defs)

lemma io_bind_return_right [io_simps]: "io_bind m io_return = m"
  by (auto simp: fun_eq_iff io_defs split: prod.split sum.split)

lemma io_bind_get [simp]: "io_bind io_get f s = f s s"
  by (simp add: io_bind_def io_get_def)

lemma io_bind_assoc: "io_bind (io_bind m f) g = io_bind m (\<lambda>a. io_bind (f a) g)"
  by (auto simp: fun_eq_iff io_defs split: prod.split sum.split)

lemma io_bind_raise [io_simps]: "io_bind (io_raise e) f = io_raise e"
  by (simp add: fun_eq_iff io_defs)

lemma io_try_return [io_simps]: "io_try (io_return a) h = io_return a"
  by (simp add: fun_eq_iff io_defs)

lemma io_try_Inr [io_simps]: "m s = (Inr a, t) \<Longrightarrow> io_try m h s = (Inr a, t)"
  by (simp add: io_try_def)

lemma io_try_Inl [io_simps]:
  "m s = (Inl e, t) \<Longrightarrow> io_try m h s = (if is_Exception e then h e t else (Inl e, t))"
  by (simp add: io_try_def)

lemma io_finally_apply [io_simps]:
  "m s = (r, t) \<Longrightarrow> f t = (Inr x, u) \<Longrightarrow> io_finally m f s = (r, u)"
  by (simp add: io_finally_def)

subsection \<open>Postconditions\<close>

text \<open>\<open>io_post m Q E s\<close>: from \<open>s\<close>, a return of \<open>m\<close> satisfies \<open>Q\<close> and a raise satisfies \<open>E\<close>.\<close>

definition io_post ::
  "('s, 'a) io \<Rightarrow> ('a \<Rightarrow> 's \<Rightarrow> bool) \<Rightarrow> (exn \<Rightarrow> 's \<Rightarrow> bool) \<Rightarrow> 's \<Rightarrow> bool" where
  "io_post m Q E s = (case m s of (Inr a, t) \<Rightarrow> Q a t | (Inl e, t) \<Rightarrow> E e t)"

lemma io_postD_Inr: "io_post m Q E s \<Longrightarrow> m s = (Inr a, t) \<Longrightarrow> Q a t"
  by (simp add: io_post_def)

lemma io_postD_Inl: "io_post m Q E s \<Longrightarrow> m s = (Inl e, t) \<Longrightarrow> E e t"
  by (simp add: io_post_def)

lemma io_postI:
  "(\<And>a t. m s = (Inr a, t) \<Longrightarrow> Q a t) \<Longrightarrow> (\<And>e t. m s = (Inl e, t) \<Longrightarrow> E e t) \<Longrightarrow> io_post m Q E s"
  by (auto simp: io_post_def split: prod.split sum.split)

lemma io_post_weaken:
  "io_post m Q E s \<Longrightarrow> (\<And>a t. Q a t \<Longrightarrow> Q' a t) \<Longrightarrow> (\<And>e t. E e t \<Longrightarrow> E' e t) \<Longrightarrow> io_post m Q' E' s"
  by (auto simp: io_post_def split: prod.splits sum.splits)

lemma io_post_return [io_rules]: "Q a s \<Longrightarrow> io_post (io_return a) Q E s"
  by (simp add: io_post_def io_defs)

lemma io_post_raise [io_rules]: "E e s \<Longrightarrow> io_post (io_raise e) Q E s"
  by (simp add: io_post_def io_defs)

lemma io_post_bind [io_rules]:
  "io_post m (\<lambda>a. io_post (f a) Q E) E s \<Longrightarrow> io_post (io_bind m f) Q E s"
  by (auto simp: io_post_def io_defs split: prod.splits sum.splits)

lemma io_post_seq [io_rules]:
  "io_post m (\<lambda>_. io_post n Q E) E s \<Longrightarrow> io_post (io_seq m n) Q E s"
  by (simp add: io_seq_def io_post_bind)

lemma io_post_try [io_rules]:
  "io_post m Q (\<lambda>e t. if is_Exception e then io_post (h e) Q E t else E e t) s
   \<Longrightarrow> io_post (io_try m h) Q E s"
  by (auto simp: io_post_def io_defs split: prod.splits sum.splits if_splits)

lemma io_post_finally [io_rules]:
  "io_post m (\<lambda>a. io_post f (\<lambda>_. Q a) E) (\<lambda>e. io_post f (\<lambda>_. E e) E) s
   \<Longrightarrow> io_post (io_finally m f) Q E s"
  by (auto simp: io_post_def io_defs split: prod.splits sum.splits)

subsection \<open>Running a computation on a component of the state\<close>

definition io_fst :: "('s, 'a) io \<Rightarrow> ('s \<times> 't, 'a) io" where
  "io_fst m = (\<lambda>(s, t). case m s of (r, s') \<Rightarrow> (r, (s', t)))"

lemma io_fst_apply [io_simps]: "m s = (r, s') \<Longrightarrow> io_fst m (s, t) = (r, (s', t))"
  by (simp add: io_fst_def)

lemma io_fst_eq: "io_fst m (s, t) = (r, x) \<longleftrightarrow> (\<exists>s'. m s = (r, s') \<and> x = (s', t))"
  by (auto simp: io_fst_def split: prod.splits)

text \<open>What a sequence that returned did.\<close>

lemma io_bind_Inr_iff:
  "io_bind m f s = (Inr b, t) \<longleftrightarrow> (\<exists>a u. m s = (Inr a, u) \<and> f a u = (Inr b, t))"
  by (auto simp: io_bind_def split: prod.splits sum.splits)

lemma io_seq_Inr_iff:
  "io_seq m n s = (Inr b, t) \<longleftrightarrow> (\<exists>a u. m s = (Inr a, u) \<and> n u = (Inr b, t))"
  by (simp add: io_seq_def io_bind_Inr_iff)

lemma io_finally_Inr_iff:
  "io_finally m f s = (Inr a, t) \<longleftrightarrow> (\<exists>u x. m s = (Inr a, u) \<and> f u = (Inr x, t))"
  by (auto simp: io_finally_def split: prod.splits sum.splits)

lemma io_try_Inr_iff:
  "io_try m h s = (Inr a, t) \<longleftrightarrow>
     m s = (Inr a, t) \<or> (\<exists>e u. m s = (Inl e, u) \<and> is_Exception e \<and> h e u = (Inr a, t))"
  by (auto simp: io_try_def split: prod.splits sum.splits if_splits)

lemma io_except_Inr_iff:
  "io_except m h s = (Inr a, t) \<longleftrightarrow>
     m s = (Inr a, t) \<or> (\<exists>e u k. m s = (Inl e, u) \<and> h e = Some k \<and> k u = (Inr a, t))"
  by (auto simp: io_except_def split: prod.splits sum.splits option.splits)

lemma io_return_Inr [simp]: "io_return a s = (Inr b, t) \<longleftrightarrow> a = b \<and> t = s"
  by (auto simp: io_return_def)

lemma io_raise_Inr [simp]: "io_raise e s \<noteq> (Inr b, t)"
  by (simp add: io_raise_def)

lemmas io_Inr_iffs = io_bind_Inr_iff io_seq_Inr_iff io_finally_Inr_iff io_try_Inr_iff io_except_Inr_iff

text \<open>A loop over a list whose body never raises.\<close>

fun io_for :: "('x \<Rightarrow> ('s, unit) io) \<Rightarrow> 'x list \<Rightarrow> ('s, unit) io" where
  "io_for f [] = io_return ()"
| "io_for f (x # xs) = io_seq (f x) (io_for f xs)"

fun io_mapM :: "('x \<Rightarrow> ('s, 'a) io) \<Rightarrow> 'x list \<Rightarrow> ('s, 'a list) io" where
  "io_mapM f [] = io_return []"
| "io_mapM f (x # xs) = io_bind (f x) (\<lambda>a. io_bind (io_mapM f xs) (\<lambda>as. io_return (a # as)))"

text \<open>A computation on a part of a larger state, given by its reader and its writer.\<close>

definition io_zoom ::
  "('s \<Rightarrow> 't) \<Rightarrow> ('t \<Rightarrow> 's \<Rightarrow> 's) \<Rightarrow> ('t, 'a) io \<Rightarrow> ('s, 'a) io" where
  "io_zoom g p m s = (case m (g s) of (r, t) \<Rightarrow> (r, p t s))"

lemma io_zoom_apply [io_simps]: "m (g s) = (r, t) \<Longrightarrow> io_zoom g p m s = (r, p t s)"
  by (simp add: io_zoom_def)

subsection \<open>Invariants kept by every outcome\<close>

text \<open>\<open>keeps I m\<close>: a run of \<open>m\<close> keeps \<open>I\<close>, whether it returns, fails or is cancelled.\<close>

definition keeps :: "('s \<Rightarrow> bool) \<Rightarrow> ('s, 'a) io \<Rightarrow> bool" where
  "keeps I m \<longleftrightarrow> (\<forall>s. I s \<longrightarrow> I (snd (m s)))"

lemma keepsI: "(\<And>s r t. I s \<Longrightarrow> m s = (r, t) \<Longrightarrow> I t) \<Longrightarrow> keeps I m"
  by (metis keeps_def prod.exhaust_sel)

lemma keepsD: "keeps I m \<Longrightarrow> I s \<Longrightarrow> m s = (r, t) \<Longrightarrow> I t"
  by (metis keeps_def snd_conv)

lemma keeps_return [keeps_rules]: "keeps I (io_return a)"
  by (simp add: keeps_def io_return_def)

lemma keeps_raise [keeps_rules]: "keeps I (io_raise e)"
  by (simp add: keeps_def io_raise_def)

lemma keeps_get [keeps_rules]: "keeps I io_get"
  by (simp add: keeps_def io_get_def)

lemma keeps_case [keeps_rules]: "(\<And>a b. keeps I (f a b)) \<Longrightarrow> keeps I (case p of (a, b) \<Rightarrow> f a b)"
  by (simp add: split_beta)

lemma keeps_bind [keeps_rules]: "keeps I m \<Longrightarrow> (\<And>a. keeps I (f a)) \<Longrightarrow> keeps I (io_bind m f)"
  by (auto simp: io_bind_def intro!: keepsI split: prod.splits sum.splits; (meson keepsD)+)

lemma keeps_seq [keeps_rules]: "keeps I m \<Longrightarrow> keeps I n \<Longrightarrow> keeps I (io_seq m n)"
  by (simp add: io_seq_def keeps_bind)

lemma keeps_try [keeps_rules]: "keeps I m \<Longrightarrow> (\<And>e. keeps I (h e)) \<Longrightarrow> keeps I (io_try m h)"
  by (auto simp: io_try_def intro!: keepsI split: prod.splits sum.splits if_splits; (meson keepsD)+)

lemma keeps_except [keeps_rules]:
  "keeps I m \<Longrightarrow> (\<And>e k. h e = Some k \<Longrightarrow> keeps I k) \<Longrightarrow> keeps I (io_except m h)"
  by (auto simp: io_except_def intro!: keepsI split: prod.splits sum.splits option.splits; (meson keepsD)+)

lemma keeps_finally [keeps_rules]: "keeps I m \<Longrightarrow> keeps I f \<Longrightarrow> keeps I (io_finally m f)"
  by (auto simp: io_finally_def intro!: keepsI split: prod.splits sum.splits; (meson keepsD)+)

lemma keeps_wait_for [keeps_rules]: "keeps I m \<Longrightarrow> keeps I (io_wait_for m)"
  by (auto simp: io_wait_for_def intro!: keepsI split: prod.splits sum.splits exn.splits; (meson keepsD)+)

lemma keeps_for [keeps_rules]: "(\<And>x. x \<in> set xs \<Longrightarrow> keeps I (f x)) \<Longrightarrow> keeps I (io_for f xs)"
  by (induction xs) (auto intro: keeps_rules)

lemma keeps_mapM [keeps_rules]: "(\<And>x. x \<in> set xs \<Longrightarrow> keeps I (f x)) \<Longrightarrow> keeps I (io_mapM f xs)"
  by (induction xs) (auto intro!: keeps_rules)

lemma keeps_if [keeps_rules]:
  "(b \<Longrightarrow> keeps I m) \<Longrightarrow> (\<not> b \<Longrightarrow> keeps I n) \<Longrightarrow> keeps I (if b then m else n)"
  by simp

lemma io_post_keeps:
  "keeps I m \<Longrightarrow> I s \<Longrightarrow> (\<And>a t. I t \<Longrightarrow> Q a t) \<Longrightarrow> (\<And>e t. I t \<Longrightarrow> E e t) \<Longrightarrow> io_post m Q E s"
  by (rule io_postI) (blast dest: keepsD)+

text \<open>A bind whose first part establishes something stronger, \<open>K\<close>, that the second part needs.\<close>

lemma keeps_bind_via:
  assumes "\<And>s e t. I s \<Longrightarrow> m s = (Inl e, t) \<Longrightarrow> I t"
    and "\<And>s a t. I s \<Longrightarrow> m s = (Inr a, t) \<Longrightarrow> K a t"
    and "\<And>a. keeps (K a) (f a)" and "\<And>a s. K a s \<Longrightarrow> I s"
  shows "keeps I (io_bind m f)"
proof (rule keepsI)
  fix s r t
  assume I: "I s" and step: "io_bind m f s = (r, t)"
  obtain r1 t1 where m: "m s = (r1, t1)" by fastforce
  show "I t"
  proof (cases r1)
    case (Inl e)
    with assms(1) I m step show ?thesis by (auto simp: io_bind_def)
  next
    case (Inr a)
    have "K a t1" using assms(2) I m Inr by blast
    then have "K a t" using keepsD [OF assms(3), of a t1 r t] m Inr step by (simp add: io_bind_def)
    then show ?thesis by (rule assms(4))
  qed
qed

lemma keeps_seq_via:
  assumes "\<And>s e t. I s \<Longrightarrow> m s = (Inl e, t) \<Longrightarrow> I t"
    and "\<And>s a t. I s \<Longrightarrow> m s = (Inr a, t) \<Longrightarrow> K t"
    and "keeps K n" and "\<And>s. K s \<Longrightarrow> I s"
  shows "keeps I (io_seq m n)"
  unfolding io_seq_def
  by (rule keeps_bind_via [where K = "\<lambda>_. K"])
     (erule (1) assms(1), erule (1) assms(2), rule assms(3), erule assms(4))

lemma keeps_zoom: "keeps J m \<Longrightarrow> (\<And>s. I s \<Longrightarrow> J (g s)) \<Longrightarrow> (\<And>s t. I s \<Longrightarrow> J t \<Longrightarrow> I (p t s))
    \<Longrightarrow> keeps I (io_zoom g p m)"
  by (auto simp: io_zoom_def intro!: keepsI split: prod.splits; (meson keepsD)+)

lemma keeps_fst: "keeps J m \<Longrightarrow> keeps (\<lambda>(s, t). J s) (io_fst m)"
  by (auto simp: io_fst_def intro!: keepsI split: prod.splits; (meson keepsD)+)

lemma keeps_fst_other [keeps_rules]: "keeps (\<lambda>(s, t). K t) (io_fst m)"
  by (auto simp: io_fst_def intro!: keepsI split: prod.splits)

lemma keeps_diag: "(\<And>s. I s \<Longrightarrow> keeps I (f s)) \<Longrightarrow> keeps I (\<lambda>s. f s s)"
  by (simp add: keeps_def)

text \<open>\<open>gives I Q m\<close>: moreover, what \<open>m\<close> returns satisfies \<open>Q\<close>.\<close>

definition gives :: "('s \<Rightarrow> bool) \<Rightarrow> ('a \<Rightarrow> bool) \<Rightarrow> ('s, 'a) io \<Rightarrow> bool" where
  "gives I Q m \<longleftrightarrow> keeps I m \<and> (\<forall>s a t. I s \<longrightarrow> m s = (Inr a, t) \<longrightarrow> Q a)"

lemma givesI: "keeps I m \<Longrightarrow> (\<And>s a t. I s \<Longrightarrow> m s = (Inr a, t) \<Longrightarrow> Q a) \<Longrightarrow> gives I Q m"
  by (auto simp: gives_def)

lemma gives_keeps: "gives I Q m \<Longrightarrow> keeps I m"
  by (simp add: gives_def)

lemma gives_result: "gives I Q m \<Longrightarrow> I s \<Longrightarrow> m s = (Inr a, t) \<Longrightarrow> Q a"
  by (auto simp: gives_def)

lemma gives_return [keeps_rules]: "Q a \<Longrightarrow> gives I Q (io_return a)"
  by (auto simp: io_return_def keeps_return intro!: givesI)

lemma gives_raise [keeps_rules]: "gives I Q (io_raise e)"
  by (auto simp: io_raise_def keeps_raise intro!: givesI)

lemma gives_bind:
  assumes "gives I P m" and "\<And>a. P a \<Longrightarrow> gives I Q (f a)"
  shows "gives I Q (io_bind m f)"
proof (rule givesI)
  show "keeps I (io_bind m f)"
    using assms
    by (auto simp: io_bind_def gives_def intro!: keepsI split: prod.splits sum.splits; (meson keepsD)+)
next
  fix s a t
  assume "I s" "io_bind m f s = (Inr a, t)"
  then show "Q a"
    using assms keepsD [OF gives_keeps [OF assms(1)]]
    by (auto simp: io_bind_def split: prod.splits sum.splits; (meson gives_result)+)
qed

lemma keeps_gives_bind:
  "gives I P m \<Longrightarrow> (\<And>a. P a \<Longrightarrow> keeps I (f a)) \<Longrightarrow> keeps I (io_bind m f)"
  by (rule gives_keeps [where Q = "\<lambda>_. True"], erule gives_bind) (auto intro: givesI)

lemma gives_keeps_bind: "keeps I m \<Longrightarrow> (\<And>a. gives I Q (f a)) \<Longrightarrow> gives I Q (io_bind m f)"
  by (rule gives_bind [where P = "\<lambda>_. True"]) (auto intro: givesI)

lemma gives_seq [keeps_rules]: "keeps I m \<Longrightarrow> gives I Q n \<Longrightarrow> gives I Q (io_seq m n)"
  by (simp add: io_seq_def gives_keeps_bind)

lemma gives_if [keeps_rules]:
  "(b \<Longrightarrow> gives I Q m) \<Longrightarrow> (\<not> b \<Longrightarrow> gives I Q n) \<Longrightarrow> gives I Q (if b then m else n)"
  by simp

lemma gives_weaken: "gives I P m \<Longrightarrow> (\<And>a. P a \<Longrightarrow> Q a) \<Longrightarrow> gives I Q m"
  by (auto simp: gives_def)

text \<open>A computation that raises nothing but cancellation.\<close>

definition cancel_only :: "('s, 'a) io \<Rightarrow> bool" where
  "cancel_only m \<longleftrightarrow> (\<forall>s e t. m s = (Inl e, t) \<longrightarrow> e = CancelledError)"

lemma cancel_onlyI: "(\<And>s e t. m s = (Inl e, t) \<Longrightarrow> e = CancelledError) \<Longrightarrow> cancel_only m"
  by (simp add: cancel_only_def)

lemma cancel_onlyD: "cancel_only m \<Longrightarrow> m s = (Inl e, t) \<Longrightarrow> e = CancelledError"
  unfolding cancel_only_def by blast

lemma not_Exception_iff: "\<not> is_Exception e \<longleftrightarrow> e = CancelledError"
  by (cases e) simp_all

lemma cancel_only_return [cancel_rules]: "cancel_only (io_return a)"
  by (simp add: cancel_only_def io_return_def)

lemma cancel_only_get [cancel_rules]: "cancel_only io_get"
  by (simp add: cancel_only_def io_get_def)

lemma cancel_only_bind [cancel_rules]:
  "cancel_only m \<Longrightarrow> (\<And>a. cancel_only (f a)) \<Longrightarrow> cancel_only (io_bind m f)"
  by (rule cancel_onlyI) (auto simp: io_bind_def dest: cancel_onlyD split: prod.splits sum.splits)

lemma cancel_only_seq [cancel_rules]: "cancel_only m \<Longrightarrow> cancel_only n \<Longrightarrow> cancel_only (io_seq m n)"
  by (simp add: io_seq_def cancel_only_bind)

lemma cancel_only_try [cancel_rules]: "(\<And>e. cancel_only (h e)) \<Longrightarrow> cancel_only (io_try m h)"
  by (rule cancel_onlyI)
     (auto simp: io_try_def not_Exception_iff dest: cancel_onlyD split: prod.splits sum.splits if_splits)

lemma cancel_only_except:
  assumes "\<And>e. is_Exception e \<Longrightarrow> h e \<noteq> None" "\<And>e k. h e = Some k \<Longrightarrow> cancel_only k"
  shows "cancel_only (io_except m h)"
proof (rule cancel_onlyI)
  fix s e t
  assume "io_except m h s = (Inl e, t)"
  then obtain e' u where m: "m s = (Inl e', u)"
      "(case h e' of None \<Rightarrow> (Inl e', u) | Some k \<Rightarrow> k u) = (Inl e, t)"
    by (auto simp: io_except_def split: prod.splits sum.splits)
  show "e = CancelledError"
  proof (cases "h e'")
    case None
    then show ?thesis using m(2) assms(1) [of e'] not_Exception_iff [of e] by auto
  next
    case (Some k)
    then show ?thesis using m(2) assms(2) by (auto dest: cancel_onlyD)
  qed
qed

lemma cancel_only_handled [cancel_rules]:
  "(\<And>e. cancel_only (h e)) \<Longrightarrow> cancel_only (io_except m (\<lambda>e. Some (h e)))"
  by (rule cancel_only_except) auto

lemma cancel_only_if [cancel_rules]:
  "(b \<Longrightarrow> cancel_only m) \<Longrightarrow> (\<not> b \<Longrightarrow> cancel_only n) \<Longrightarrow> cancel_only (if b then m else n)"
  by simp

lemma cancel_only_case [cancel_rules]: "(\<And>a b. cancel_only (f a b)) \<Longrightarrow> cancel_only (case p of (a, b) \<Rightarrow> f a b)"
  by (simp add: split_beta)

lemma cancel_only_diag: "(\<And>s. cancel_only (f s)) \<Longrightarrow> cancel_only (\<lambda>s. f s s)"
  by (rule cancel_onlyI) (blast dest: cancel_onlyD)

section \<open>Strings and dictionaries\<close>

text \<open>\<open>s.startswith(p)\<close>, \<open>s.endswith(p)\<close>, \<open>s[len(p):]\<close>, and the truth of an optional string.\<close>

definition py_startswith :: "string \<Rightarrow> string \<Rightarrow> bool" where
  "py_startswith s p = (take (length p) s = p)"

definition py_endswith :: "string \<Rightarrow> string \<Rightarrow> bool" where
  "py_endswith s p = (drop (length s - length p) s = p \<and> length p \<le> length s)"

definition py_truthy :: "string option \<Rightarrow> bool" where
  "py_truthy x = (case x of None \<Rightarrow> False | Some s \<Rightarrow> s \<noteq> [])"

text \<open>\<open>a or b\<close> on optional strings.\<close>

definition py_or :: "string option \<Rightarrow> string option \<Rightarrow> string option" where
  "py_or a b = (if py_truthy a then a else b)"

lemma py_startswith_append [simp]: "py_startswith (p @ s) p"
  by (simp add: py_startswith_def)

lemma py_endswith_append [simp]: "py_endswith (s @ p) p"
  by (simp add: py_endswith_def)

lemma py_startswith_iff: "py_startswith s p \<longleftrightarrow> (\<exists>r. s = p @ r)"
  by (auto simp: py_startswith_def) (metis append_take_drop_id)

lemma py_endswith_iff: "py_endswith s p \<longleftrightarrow> (\<exists>r. s = r @ p)"
  by (auto simp: py_endswith_def) (metis append_take_drop_id)

text \<open>\<open>s.split(c)\<close> for a one-character separator.\<close>

fun py_split :: "char \<Rightarrow> string \<Rightarrow> string list" where
  "py_split c [] = [[]]"
| "py_split c (x # xs) =
     (if x = c then [] # py_split c xs
      else (case py_split c xs of [] \<Rightarrow> [[x]] | p # ps \<Rightarrow> (x # p) # ps))"

lemma py_split_not_Nil [simp]: "py_split c s \<noteq> []"
  by (induction s) (auto split: list.split)

lemma py_split_no_sep: "c \<notin> set s \<Longrightarrow> py_split c s = [s]"
  by (induction s) auto

lemma py_split_sep: "c \<notin> set p \<Longrightarrow> py_split c (p @ c # s) = p # py_split c s"
  by (induction p) auto

text \<open>\<open>s.lower()\<close> on ASCII text.\<close>

definition lower_char :: "char \<Rightarrow> char" where
  "lower_char c = (let n = (of_char c :: nat) in if 65 \<le> n \<and> n \<le> 90 then char_of (n + 32) else c)"

definition py_lower :: "string \<Rightarrow> string" where
  "py_lower s = map lower_char s"

text \<open>\<open>re.sub(pattern, r, s)\<close> for a pattern that matches no empty text, given by the length of its match at
  the head of a text: every match from the left is replaced.  The second argument counts the characters
  of the current match that are still to be skipped.  \<open>s.replace(p, r)\<close> is the special case of a text.\<close>

fun re_sub_from :: "(string \<Rightarrow> nat option) \<Rightarrow> nat \<Rightarrow> string \<Rightarrow> string \<Rightarrow> string" where
  "re_sub_from m k r [] = []"
| "re_sub_from m (Suc k) r (c # cs) = re_sub_from m k r cs"
| "re_sub_from m 0 r (c # cs) =
     (case m (c # cs) of
        None \<Rightarrow> c # re_sub_from m 0 r cs
      | Some n \<Rightarrow> r @ re_sub_from m (n - 1) r cs)"

definition re_sub :: "(string \<Rightarrow> nat option) \<Rightarrow> string \<Rightarrow> string \<Rightarrow> string" where
  "re_sub m r s = re_sub_from m 0 r s"

definition py_replace :: "string \<Rightarrow> string \<Rightarrow> string \<Rightarrow> string" where
  "py_replace p r s = re_sub (\<lambda>t. if py_startswith t p then Some (length p) else None) r s"

lemma re_sub_from_skip: "k \<le> length s \<Longrightarrow> re_sub_from m k r s = re_sub_from m 0 r (drop k s)"
proof (induction k arbitrary: s)
  case (Suc k)
  then show ?case by (cases s) auto
qed simp

lemma re_sub_match:
  assumes "m s = Some n" and "0 < n" and "n \<le> length s"
  shows "re_sub m r s = r @ re_sub m r (drop n s)"
proof (cases s)
  case (Cons c cs)
  then show ?thesis
    using assms re_sub_from_skip [of "n - 1" cs m r] by (cases n) (auto simp: re_sub_def)
qed (use assms in simp)

lemma re_sub_none: "(\<And>t. t \<noteq> [] \<Longrightarrow> suffix t s \<Longrightarrow> m t = None) \<Longrightarrow> re_sub m r s = s"
  unfolding re_sub_def
proof (induction s)
  case (Cons c s)
  have "m (c # s) = None" using Cons.prems [of "c # s"] by simp
  moreover have "re_sub_from m 0 r s = s" using Cons.prems by (intro Cons.IH) (auto simp: suffix_Cons)
  ultimately show ?case by simp
qed simp

text \<open>Decimal rendering of a non-negative integer (\<open>str(n)\<close>).\<close>

fun str_nat :: "nat \<Rightarrow> string" where
  "str_nat n = (if n < 10 then [char_of (48 + n)] else str_nat (n div 10) @ [char_of (48 + n mod 10)])"

declare str_nat.simps [simp del]

definition str_int :: "int \<Rightarrow> string" where
  "str_int i = (if i < 0 then CHR ''-'' # str_nat (nat (- i)) else str_nat (nat i))"

section \<open>JSON\<close>

text \<open>Parsed JSON.  \<open>d.get(k, default)\<close> on anything but an object is an error of the language.\<close>

datatype json = JNull | JBool bool | JInt int | JStr string | JArr "json list" | JObj "(string \<times> json) list"

definition json_get :: "json \<Rightarrow> string \<Rightarrow> json \<Rightarrow> exn + json" where
  "json_get j k dflt =
     (case j of
        JObj d \<Rightarrow> Inr (case map_of d k of None \<Rightarrow> dflt | Some v \<Rightarrow> v)
      | _ \<Rightarrow> Inl (OtherError ''AttributeError''))"

fun json_truthy :: "json \<Rightarrow> bool" where
  "json_truthy JNull = False"
| "json_truthy (JBool b) = b"
| "json_truthy (JInt i) = (i \<noteq> 0)"
| "json_truthy (JStr s) = (s \<noteq> [])"
| "json_truthy (JArr xs) = (xs \<noteq> [])"
| "json_truthy (JObj d) = (d \<noteq> [])"

text \<open>A computation without effects that may raise, and lifting it.\<close>

definition ex_bind :: "exn + 'a \<Rightarrow> ('a \<Rightarrow> exn + 'b) \<Rightarrow> exn + 'b" where
  "ex_bind m f = (case m of Inl e \<Rightarrow> Inl e | Inr a \<Rightarrow> f a)"

fun ex_mapM :: "('x \<Rightarrow> exn + 'a) \<Rightarrow> 'x list \<Rightarrow> exn + 'a list" where
  "ex_mapM f [] = Inr []"
| "ex_mapM f (x # xs) = ex_bind (f x) (\<lambda>a. ex_bind (ex_mapM f xs) (\<lambda>as. Inr (a # as)))"

definition io_of :: "exn + 'a \<Rightarrow> ('s, 'a) io" where
  "io_of m s = (m, s)"

lemma ex_bind_simps [simp]: "ex_bind (Inr a) f = f a" "ex_bind (Inl e) f = Inl e"
  by (simp_all add: ex_bind_def)

lemma json_get_Inr_iff:
  "json_get j k dflt = Inr v \<longleftrightarrow> (\<exists>d. j = JObj d \<and> v = (case map_of d k of None \<Rightarrow> dflt | Some x \<Rightarrow> x))"
  by (cases j) (auto simp: json_get_def)

lemma io_of_Inr [simp]: "io_of m s = (Inr a, t) \<longleftrightarrow> m = Inr a \<and> t = s"
  by (auto simp: io_of_def)

lemma ex_bind_Inr_iff: "ex_bind m f = Inr b \<longleftrightarrow> (\<exists>a. m = Inr a \<and> f a = Inr b)"
  by (cases m) simp_all

lemma ex_mapM_Inr_iff: "ex_mapM f xs = Inr ys \<longleftrightarrow> list_all2 (\<lambda>x y. f x = Inr y) xs ys"
  by (induction xs arbitrary: ys) (auto simp: ex_bind_Inr_iff list_all2_Cons1)

lemma list_all2_right: "list_all2 P xs ys \<Longrightarrow> y \<in> set ys \<Longrightarrow> \<exists>x \<in> set xs. P x y"
  by (induction rule: list_all2_induct) auto

lemma list_all2_left: "list_all2 P xs ys \<Longrightarrow> x \<in> set xs \<Longrightarrow> \<exists>y \<in> set ys. P x y"
  by (induction rule: list_all2_induct) auto

lemma keeps_io_of [keeps_rules]: "keeps I (io_of m)"
  by (simp add: keeps_def io_of_def)

section \<open>Rows of a table\<close>

text \<open>
  A table is the list of its rows.  \<open>UPDATE t SET .. WHERE p\<close> changes the rows that satisfy \<open>p\<close>,
  \<open>SELECT .. WHERE p\<close> returns them in the table's order, and \<open>RETURNING\<close> or \<open>rowcount\<close> count them.
\<close>

definition sql_update :: "('r \<Rightarrow> bool) \<Rightarrow> ('r \<Rightarrow> 'r) \<Rightarrow> 'r list \<Rightarrow> 'r list" where
  "sql_update p f rs = map (\<lambda>r. if p r then f r else r) rs"

definition sql_select :: "('r \<Rightarrow> bool) \<Rightarrow> 'r list \<Rightarrow> 'r list" where
  "sql_select p rs = filter p rs"

definition sql_count :: "('r \<Rightarrow> bool) \<Rightarrow> 'r list \<Rightarrow> nat" where
  "sql_count p rs = length (filter p rs)"

text \<open>\<open>scalar_one_or_none\<close>; a query on the primary key has at most one row, so the multiple-rows error
  of the library does not arise.\<close>

definition sql_one_or_none :: "('r \<Rightarrow> bool) \<Rightarrow> 'r list \<Rightarrow> 'r option" where
  "sql_one_or_none p rs = (case filter p rs of [] \<Rightarrow> None | r # _ \<Rightarrow> Some r)"

lemma length_sql_update [simp]: "length (sql_update p f rs) = length rs"
  by (simp add: sql_update_def)

lemma sql_update_Nil [sql_simps]: "sql_update p f [] = []"
  by (simp add: sql_update_def)

lemma sql_update_Cons [sql_simps]:
  "sql_update p f (r # rs) = (if p r then f r else r) # sql_update p f rs"
  by (simp add: sql_update_def)

lemma set_sql_update: "set (sql_update p f rs) = (\<lambda>r. if p r then f r else r) ` set rs"
  by (simp add: sql_update_def)

lemma set_sql_select [sql_simps]: "set (sql_select p rs) = {r \<in> set rs. p r}"
  by (simp add: sql_select_def)

lemma sql_update_id: "(\<And>r. r \<in> set rs \<Longrightarrow> p r \<Longrightarrow> f r = r) \<Longrightarrow> sql_update p f rs = rs"
  by (auto simp: sql_update_def intro: map_idI)

lemma sql_update_none: "sql_count p rs = 0 \<Longrightarrow> sql_update p f rs = rs"
  by (auto simp: sql_count_def filter_empty_conv intro: sql_update_id)

lemma map_sql_update:
  "(\<And>r. k (f r) = k r) \<Longrightarrow> map k (sql_update p f rs) = map k rs"
  by (simp add: sql_update_def)

lemma sql_one_or_none_Some:
  "sql_one_or_none p rs = Some r \<Longrightarrow> r \<in> set rs \<and> p r"
  by (induction rs) (auto simp: sql_one_or_none_def split: if_splits)

lemma sql_one_or_none_None: "sql_one_or_none p rs = None \<longleftrightarrow> (\<forall>r \<in> set rs. \<not> p r)"
  by (induction rs) (auto simp: sql_one_or_none_def)

lemma sql_one_or_none_update:
  "(\<And>r. p (f r) = p r) \<Longrightarrow>
   sql_one_or_none p (sql_update q f rs) = map_option (\<lambda>r. if q r then f r else r) (sql_one_or_none p rs)"
  by (induction rs) (auto simp: sql_one_or_none_def sql_update_def)

lemma sql_select_update:
  "(\<And>r. p (f r) = p r) \<Longrightarrow>
   sql_select p (sql_update q f rs) = sql_update q f (sql_select p rs)"
  by (induction rs) (auto simp: sql_select_def sql_update_def)

section \<open>Keyed tables\<close>

text \<open>
  The contract the three tables of the schema share: a primary key, and updates that never write it.
  Everything the services need about looking a row up after an update follows once and for all.
\<close>

locale keyed_table =
  fixes key :: "'r \<Rightarrow> string"
    and writes :: "('r \<Rightarrow> 'r) \<Rightarrow> bool"
  assumes writes_keep_key: "writes f \<Longrightarrow> key (f r) = key r"
begin

lemma keys_update: "writes f \<Longrightarrow> map key (sql_update p f rs) = map key rs"
  by (simp add: map_sql_update writes_keep_key)

lemma distinct_update:
  "writes f \<Longrightarrow> distinct (map key rs) \<Longrightarrow> distinct (map key (sql_update p f rs))"
  by (simp add: keys_update)

lemma same_key_same_row:
  "distinct (map key rs) \<Longrightarrow> r \<in> set rs \<Longrightarrow> r' \<in> set rs \<Longrightarrow> key r = key r' \<Longrightarrow> r = r'"
  by (metis distinct_map inj_on_def)

lemma one_of_key:
  "distinct (map key rs) \<Longrightarrow> r \<in> set rs \<Longrightarrow> p r \<Longrightarrow> (\<And>x. p x \<Longrightarrow> key x = key r)
   \<Longrightarrow> sql_one_or_none p rs = Some r"
proof (induction rs)
  case Nil
  then show ?case by simp
next
  case (Cons x rs)
  show ?case
  proof (cases "p x")
    case True
    then have "key x = key r" using Cons.prems(4) by blast
    then have "x = r"
      using same_key_same_row [OF Cons.prems(1) _ Cons.prems(2)] by simp
    with True show ?thesis by (simp add: sql_one_or_none_def)
  next
    case False
    with Cons.prems(2,3) have r: "r \<in> set rs" by auto
    from Cons.prems(1) have "distinct (map key rs)" by simp
    then have "sql_one_or_none p rs = Some r"
      using r Cons.prems(3,4) by (rule Cons.IH)
    with False show ?thesis by (simp add: sql_one_or_none_def)
  qed
qed

lemma count_key_le_one:
  "distinct (map key rs) \<Longrightarrow> sql_count (\<lambda>r. key r = k \<and> q r) rs \<le> 1"
proof (induction rs)
  case (Cons x rs)
  then show ?case
    by (auto simp: sql_count_def filter_empty_conv image_iff)
qed (simp add: sql_count_def)

lemma frame_update:
  "r \<in> set rs \<Longrightarrow> \<not> p r \<Longrightarrow> r \<in> set (sql_update p f rs)"
  by (force simp: set_sql_update)

lemma hit_update:
  "r \<in> set rs \<Longrightarrow> p r \<Longrightarrow> f r \<in> set (sql_update p f rs)"
  by (force simp: set_sql_update)

end

section \<open>Runs of an event machine\<close>

text \<open>The contract of every deterministic state machine of the program: one step keeps the invariant.\<close>

locale event_machine =
  fixes step :: "'e \<Rightarrow> 's \<Rightarrow> 's"
    and inv :: "'s \<Rightarrow> bool"
  assumes step_inv: "inv s \<Longrightarrow> inv (step e s)"
begin

lemma run_inv: "inv s \<Longrightarrow> inv (fold step es s)"
  by (induction es arbitrary: s) (auto simp: step_inv)

lemma run_append_inv: "inv s \<Longrightarrow> inv (fold step (es @ [e]) s)"
  by (simp add: run_inv step_inv)

end

end
