(* ===== verification/Domain.thy ===== *)
theory Domain
  imports Config
begin

text \<open>
  The domain model: the enums of core/domain/workspace.py, the exception classes of core/errors.py,
  the observation models of core/interfaces, the condition summary of core/domain/conditions.py and
  the database rows of core/models.  Enum members are written with their class, as in the source:
  \<open>phase.RUNNING\<close>, \<open>operation.DELETING\<close>, \<open>desired_state.DELETED\<close>.
\<close>

section \<open>Enums\<close>

datatype phase = PENDING | ARCHIVED | STANDBY | RUNNING | ERROR | DELETING | DELETED

datatype operation = NONE | PROVISIONING | RESTORING | STARTING | STOPPING | ARCHIVING
  | CREATE_EMPTY_ARCHIVE | DELETING

datatype desired_state = DELETED | ARCHIVED | STANDBY | RUNNING

datatype error_reason = TIMEOUT | RETRY_EXCEEDED | ACTION_FAILED | DATA_LOST | UNREACHABLE
  | IMAGE_PULL_FAILED | CONTAINER_WITHOUT_VOLUME | ARCHIVE_CORRUPTED

fun phase_value :: "phase \<Rightarrow> string" where
  "phase_value phase.PENDING = ''PENDING''"
| "phase_value phase.ARCHIVED = ''ARCHIVED''"
| "phase_value phase.STANDBY = ''STANDBY''"
| "phase_value phase.RUNNING = ''RUNNING''"
| "phase_value phase.ERROR = ''ERROR''"
| "phase_value phase.DELETING = ''DELETING''"
| "phase_value phase.DELETED = ''DELETED''"

fun operation_value :: "operation \<Rightarrow> string" where
  "operation_value operation.NONE = ''NONE''"
| "operation_value operation.PROVISIONING = ''PROVISIONING''"
| "operation_value operation.RESTORING = ''RESTORING''"
| "operation_value operation.STARTING = ''STARTING''"
| "operation_value operation.STOPPING = ''STOPPING''"
| "operation_value operation.ARCHIVING = ''ARCHIVING''"
| "operation_value operation.CREATE_EMPTY_ARCHIVE = ''CREATE_EMPTY_ARCHIVE''"
| "operation_value operation.DELETING = ''DELETING''"

fun desired_value :: "desired_state \<Rightarrow> string" where
  "desired_value desired_state.DELETED = ''DELETED''"
| "desired_value desired_state.ARCHIVED = ''ARCHIVED''"
| "desired_value desired_state.STANDBY = ''STANDBY''"
| "desired_value desired_state.RUNNING = ''RUNNING''"

fun error_reason_value :: "error_reason \<Rightarrow> string" where
  "error_reason_value TIMEOUT = ''Timeout''"
| "error_reason_value RETRY_EXCEEDED = ''RetryExceeded''"
| "error_reason_value ACTION_FAILED = ''ActionFailed''"
| "error_reason_value DATA_LOST = ''DataLost''"
| "error_reason_value UNREACHABLE = ''Unreachable''"
| "error_reason_value IMAGE_PULL_FAILED = ''ImagePullFailed''"
| "error_reason_value CONTAINER_WITHOUT_VOLUME = ''ContainerWithoutVolume''"
| "error_reason_value ARCHIVE_CORRUPTED = ''ArchiveCorrupted''"

definition ERROR_TERMINAL_REASONS :: "error_reason list" where
  "ERROR_TERMINAL_REASONS =
     [TIMEOUT, DATA_LOST, IMAGE_PULL_FAILED, CONTAINER_WITHOUT_VOLUME, ARCHIVE_CORRUPTED]"

text \<open>\<open>Phase(s)\<close>: the member with the value \<open>s\<close>, \<open>ValueError\<close> (here \<open>None\<close>) for another string.\<close>

definition all_phases :: "phase list" where
  "all_phases = [phase.PENDING, phase.ARCHIVED, phase.STANDBY, phase.RUNNING, phase.ERROR,
     phase.DELETING, phase.DELETED]"

definition phase_of_value :: "string \<Rightarrow> phase option" where
  "phase_of_value s = find (\<lambda>p. phase_value p = s) all_phases"

lemma phase_of_value_phase_value [simp]: "phase_of_value (phase_value p) = Some p"
  by (cases p) (simp_all add: phase_of_value_def all_phases_def)

lemma phase_value_inj [simp]: "phase_value p = phase_value q \<longleftrightarrow> p = q"
  by (cases p; cases q) simp_all

lemma desired_value_inj [simp]: "desired_value p = desired_value q \<longleftrightarrow> p = q"
  by (cases p; cases q) simp_all

subsection \<open>The order of the desired states\<close>

text \<open>How much of a workspace a desired state keeps up: nothing, its archive, its volume, its container.\<close>

fun desired_level :: "desired_state \<Rightarrow> nat" where
  "desired_level desired_state.DELETED = 0"
| "desired_level desired_state.ARCHIVED = 1"
| "desired_level desired_state.STANDBY = 2"
| "desired_level desired_state.RUNNING = 3"

lemma desired_level_inj [simp]: "desired_level x = desired_level y \<longleftrightarrow> x = y"
  by (cases x; cases y) simp_all

instantiation desired_state :: linorder
begin

definition less_eq_desired_state :: "desired_state \<Rightarrow> desired_state \<Rightarrow> bool" where
  "less_eq_desired_state x y \<longleftrightarrow> desired_level x \<le> desired_level y"

definition less_desired_state :: "desired_state \<Rightarrow> desired_state \<Rightarrow> bool" where
  "less_desired_state x y \<longleftrightarrow> desired_level x < desired_level y"

instance
  by standard (auto simp: less_eq_desired_state_def less_desired_state_def)

end

section \<open>Exception classes\<close>

fun error_code_value :: "error_code \<Rightarrow> string" where
  "error_code_value UNAUTHORIZED = ''UNAUTHORIZED''"
| "error_code_value FORBIDDEN = ''FORBIDDEN''"
| "error_code_value WORKSPACE_NOT_FOUND = ''WORKSPACE_NOT_FOUND''"
| "error_code_value TOO_MANY_REQUESTS = ''TOO_MANY_REQUESTS''"
| "error_code_value RUNNING_LIMIT_EXCEEDED = ''RUNNING_LIMIT_EXCEEDED''"
| "error_code_value UPSTREAM_UNAVAILABLE = ''UPSTREAM_UNAVAILABLE''"

definition mk_codehub_error :: "error_code \<Rightarrow> string \<Rightarrow> int \<Rightarrow> exn" where
  "mk_codehub_error c m st =
     CodeHubError \<lparr>err_code = c, err_message = m, err_status = st, err_retry_after = None\<rparr>"

definition UnauthorizedError :: "string \<Rightarrow> exn" where
  "UnauthorizedError m = mk_codehub_error UNAUTHORIZED m 401"

definition ForbiddenError :: "string \<Rightarrow> exn" where
  "ForbiddenError m = mk_codehub_error FORBIDDEN m 403"

definition WorkspaceNotFoundError :: exn where
  "WorkspaceNotFoundError = mk_codehub_error WORKSPACE_NOT_FOUND ''Workspace not found'' 404"

definition TooManyRequestsError :: "int \<Rightarrow> string \<Rightarrow> exn" where
  "TooManyRequestsError ra m =
     CodeHubError \<lparr>err_code = TOO_MANY_REQUESTS, err_message = m, err_status = 429,
                   err_retry_after = Some ra\<rparr>"

definition RunningLimitExceededError :: exn where
  "RunningLimitExceededError =
     mk_codehub_error RUNNING_LIMIT_EXCEEDED ''Running workspace limit exceeded'' 429"

definition UpstreamUnavailableError :: exn where
  "UpstreamUnavailableError =
     mk_codehub_error UPSTREAM_UNAVAILABLE ''Upstream service unavailable'' 502"

definition auth_required :: string where
  "auth_required = ''Authentication required''"

definition permission_denied :: string where
  "permission_denied = ''Permission denied''"

lemmas codehub_error_defs = mk_codehub_error_def UnauthorizedError_def ForbiddenError_def
  WorkspaceNotFoundError_def TooManyRequestsError_def RunningLimitExceededError_def
  UpstreamUnavailableError_def

text \<open>\<open>to_response\<close> and main.py's exception handler: the HTTP status with the code and message.\<close>

definition to_response :: "codehub_error \<Rightarrow> string \<times> string" where
  "to_response e = (error_code_value (err_code e), err_message e)"

definition codehub_error_handler :: "codehub_error \<Rightarrow> int \<times> string \<times> string" where
  "codehub_error_handler e = (err_status e, to_response e)"

section \<open>Observations\<close>

record container_info =
  ci_workspace_id :: string
  ci_running :: bool
  ci_reason :: string
  ci_message :: string

record volume_info =
  vi_workspace_id :: string
  vi_exists :: bool
  vi_reason :: string
  vi_message :: string

record archive_info =
  ai_workspace_id :: string
  ai_archive_key :: "string option"
  ai_exists :: bool
  ai_reason :: string
  ai_message :: string

text \<open>
  The conditions column: a JSON object whose entries the Observer writes as the dump of an observation
  or as null.  A missing key and a null are both \<open>None\<close>: the reader treats them alike.
\<close>

record conditions =
  cond_container :: "container_info option"
  cond_volume :: "volume_info option"
  cond_archive :: "archive_info option"

definition no_conditions :: conditions where
  "no_conditions = \<lparr>cond_container = None, cond_volume = None, cond_archive = None\<rparr>"

record condition_input =
  container_ready :: bool
  volume_ready :: bool
  archive_ready :: bool

definition from_conditions :: "conditions \<Rightarrow> condition_input" where
  "from_conditions c =
     \<lparr>container_ready = (case cond_container c of None \<Rightarrow> False | Some x \<Rightarrow> ci_running x),
      volume_ready = (case cond_volume c of None \<Rightarrow> False | Some x \<Rightarrow> vi_exists x),
      archive_ready = (case cond_archive c of None \<Rightarrow> False | Some x \<Rightarrow> ai_exists x)\<rparr>"

lemma from_no_conditions [simp]:
  "from_conditions no_conditions = \<lparr>container_ready = False, volume_ready = False, archive_ready = False\<rparr>"
  by (simp add: from_conditions_def no_conditions_def)

section \<open>Database rows\<close>

record workspace =
  ws_id :: string
  ws_owner_user_id :: string
  ws_name :: string
  ws_description :: "string option"
  ws_memo :: "string option"
  ws_image_ref :: string
  ws_instance_backend :: string
  ws_storage_backend :: string
  ws_home_store_key :: string
  ws_home_ctx :: "(string \<times> string) list option"
  ws_conditions :: conditions
  ws_phase :: phase
  ws_operation :: operation
  ws_op_started_at :: "datetime option"
  ws_op_id :: "string option"
  ws_desired_state :: desired_state
  ws_archive_key :: "string option"
  ws_observed_at :: "datetime option"
  ws_last_access_at :: "datetime option"
  ws_phase_changed_at :: "datetime option"
  ws_error_reason :: "error_reason option"
  ws_error_count :: int
  ws_created_at :: datetime
  ws_updated_at :: datetime
  ws_deleted_at :: "datetime option"

record user =
  user_id :: string
  user_username :: string
  user_password_hash :: string
  user_failed_login_attempts :: int
  user_locked_until :: "datetime option"
  user_last_failed_at :: "datetime option"

record session =
  session_id :: string
  session_user_id :: string
  session_created_at :: datetime
  session_expires_at :: datetime
  session_revoked_at :: "datetime option"

definition ws_live :: "workspace \<Rightarrow> bool" where
  "ws_live w \<longleftrightarrow> ws_deleted_at w = None"

interpretation ws_table: keyed_table ws_id "\<lambda>f. \<forall>w. ws_id (f w) = ws_id w"
  by unfold_locales auto

interpretation user_table: keyed_table user_id "\<lambda>f. \<forall>u. user_id (f u) = user_id u"
  by unfold_locales auto

interpretation session_table: keyed_table session_id "\<lambda>f. \<forall>x. session_id (f x) = session_id x"
  by unfold_locales auto

end
