(* ===== verification/Judge.thy ===== *)
theory Judge
  imports Domain
begin

text \<open>
  control/coordinator/wc_judge.py: the phase of a workspace as a pure function of the observed
  conditions and of the delete mark.  The abstract specification is the table of the priority order
  (user intent, then system invariants, then resources), stated as \<open>judge_spec\<close>.
\<close>

section \<open>Model\<close>

record judge_input =
  ji_conditions :: condition_input
  ji_deleted_at :: bool

record judge_output =
  jo_phase :: phase
  jo_healthy :: bool
  jo_error_reason :: "error_reason option"

definition check_invariants :: "condition_input \<Rightarrow> bool \<times> error_reason option" where
  "check_invariants c =
     (if container_ready c \<and> \<not> volume_ready c then (False, Some CONTAINER_WITHOUT_VOLUME)
      else (True, None))"

definition judge :: "judge_input \<Rightarrow> judge_output" where
  "judge i =
     (let cond = ji_conditions i;
          has_resources = container_ready cond \<or> volume_ready cond \<or> archive_ready cond
      in if ji_deleted_at i then
           \<lparr>jo_phase = (if has_resources then phase.DELETING else phase.DELETED),
            jo_healthy = True, jo_error_reason = None\<rparr>
         else (case check_invariants cond of (healthy, error_reason) \<Rightarrow>
           if \<not> healthy then
             \<lparr>jo_phase = phase.ERROR, jo_healthy = False, jo_error_reason = error_reason\<rparr>
           else if container_ready cond \<and> volume_ready cond then
             \<lparr>jo_phase = phase.RUNNING, jo_healthy = True, jo_error_reason = None\<rparr>
           else if volume_ready cond then
             \<lparr>jo_phase = phase.STANDBY, jo_healthy = True, jo_error_reason = None\<rparr>
           else if archive_ready cond then
             \<lparr>jo_phase = phase.ARCHIVED, jo_healthy = True, jo_error_reason = None\<rparr>
           else \<lparr>jo_phase = phase.PENDING, jo_healthy = True, jo_error_reason = None\<rparr>))"

section \<open>Specification\<close>

text \<open>Which observations a phase stands for; the rows of the phase table of the specification.\<close>

inductive judge_spec :: "bool \<Rightarrow> condition_input \<Rightarrow> phase \<Rightarrow> bool" where
  deleted: "\<not> container_ready c \<Longrightarrow> \<not> volume_ready c \<Longrightarrow> \<not> archive_ready c
     \<Longrightarrow> judge_spec True c phase.DELETED"
| deleting: "container_ready c \<or> volume_ready c \<or> archive_ready c
     \<Longrightarrow> judge_spec True c phase.DELETING"
| broken: "container_ready c \<Longrightarrow> \<not> volume_ready c \<Longrightarrow> judge_spec False c phase.ERROR"
| running: "container_ready c \<Longrightarrow> volume_ready c \<Longrightarrow> judge_spec False c phase.RUNNING"
| standby: "\<not> container_ready c \<Longrightarrow> volume_ready c \<Longrightarrow> judge_spec False c phase.STANDBY"
| archived: "\<not> container_ready c \<Longrightarrow> \<not> volume_ready c \<Longrightarrow> archive_ready c
     \<Longrightarrow> judge_spec False c phase.ARCHIVED"
| pending: "\<not> container_ready c \<Longrightarrow> \<not> volume_ready c \<Longrightarrow> \<not> archive_ready c
     \<Longrightarrow> judge_spec False c phase.PENDING"

inductive_simps judge_spec_simps [simp]: "judge_spec d c p"

lemma judge_spec_judge: "judge_spec d c (jo_phase (judge \<lparr>ji_conditions = c, ji_deleted_at = d\<rparr>))"
  by (auto simp: judge_def check_invariants_def Let_def)

lemma judge_spec_functional: "judge_spec d c p \<Longrightarrow> judge_spec d c q \<Longrightarrow> p = q"
  by auto

lemma judge_phase:
  "jo_phase (judge i) =
     (if ji_deleted_at i then
        (if container_ready (ji_conditions i) \<or> volume_ready (ji_conditions i)
            \<or> archive_ready (ji_conditions i) then phase.DELETING else phase.DELETED)
      else if container_ready (ji_conditions i) then
        (if volume_ready (ji_conditions i) then phase.RUNNING else phase.ERROR)
      else if volume_ready (ji_conditions i) then phase.STANDBY
      else if archive_ready (ji_conditions i) then phase.ARCHIVED
      else phase.PENDING)"
  by (auto simp: judge_def check_invariants_def Let_def)

lemma judge_error_iff:
  "jo_phase (judge i) = phase.ERROR \<longleftrightarrow> jo_error_reason (judge i) = Some CONTAINER_WITHOUT_VOLUME"
  by (auto simp: judge_def check_invariants_def Let_def)

lemma judge_healthy_iff: "jo_healthy (judge i) \<longleftrightarrow> jo_phase (judge i) \<noteq> phase.ERROR"
  by (auto simp: judge_def check_invariants_def Let_def)

text \<open>C1: the judge computes exactly the phase table: a phase is the output of the judge if and only
  if it is the one the table assigns to the delete mark and the three conditions; the output is
  unhealthy exactly in the ERROR row, and that row alone carries a reason, the container without its
  volume.\<close>
theorem judge_implements_table:
  "(jo_phase (judge i) = p \<longleftrightarrow> judge_spec (ji_deleted_at i) (ji_conditions i) p)
   \<and> (jo_healthy (judge i) \<longleftrightarrow> jo_phase (judge i) \<noteq> phase.ERROR)
   \<and> jo_error_reason (judge i) =
       (if jo_phase (judge i) = phase.ERROR then Some CONTAINER_WITHOUT_VOLUME else None)"
proof (intro conjI)
  show "jo_phase (judge i) = p \<longleftrightarrow> judge_spec (ji_deleted_at i) (ji_conditions i) p"
    by (auto simp: judge_phase)
  show "jo_healthy (judge i) \<longleftrightarrow> jo_phase (judge i) \<noteq> phase.ERROR"
    by (rule judge_healthy_iff)
  show "jo_error_reason (judge i) =
      (if jo_phase (judge i) = phase.ERROR then Some CONTAINER_WITHOUT_VOLUME else None)"
    by (auto simp: judge_def check_invariants_def Let_def)
qed

end
