(* ===== verification/Planner.thy ===== *)
theory Planner
  imports Judge
begin

text \<open>
  control/coordinator/wc_planner.py: which operation a workspace needs next, as a pure function of its
  row.  The clock (\<open>datetime.now(UTC)\<close>) and the fresh operation id (\<open>uuid4()\<close>) are arguments.
\<close>

section \<open>Model\<close>

record plan_input =
  pi_id :: string
  pi_phase :: phase
  pi_operation :: operation
  pi_desired_state :: desired_state
  pi_conditions :: conditions
  pi_archive_key :: "string option"
  pi_op_started_at :: "datetime option"
  pi_op_id :: "string option"
  pi_deleted_at :: "datetime option"
  pi_home_ctx :: "(string \<times> string) list option"

definition from_workspace :: "workspace \<Rightarrow> plan_input" where
  "from_workspace w =
     \<lparr>pi_id = ws_id w, pi_phase = ws_phase w, pi_operation = ws_operation w,
      pi_desired_state = ws_desired_state w, pi_conditions = ws_conditions w,
      pi_archive_key = ws_archive_key w, pi_op_started_at = ws_op_started_at w,
      pi_op_id = ws_op_id w, pi_deleted_at = ws_deleted_at w, pi_home_ctx = ws_home_ctx w\<rparr>"

record plan_action =
  pa_operation :: operation
  pa_phase :: phase
  pa_error_reason :: "error_reason option"
  pa_archive_key :: "string option"
  pa_op_id :: "string option"
  pa_complete :: bool
  pa_restore_marker :: "string option"

text \<open>\<open>PlanAction(operation=o, phase=p)\<close>, the other fields at their defaults.\<close>

definition PlanAction :: "operation \<Rightarrow> phase \<Rightarrow> plan_action" where
  "PlanAction oper p =
     \<lparr>pa_operation = oper, pa_phase = p, pa_error_reason = None, pa_archive_key = None,
      pa_op_id = None, pa_complete = False, pa_restore_marker = None\<rparr>"

definition is_timeout :: "datetime \<Rightarrow> datetime \<Rightarrow> seconds \<Rightarrow> bool" where
  "is_timeout now op_started_at timeout_seconds \<longleftrightarrow>
     real_of_int (now - op_started_at) / 1000000 > timeout_seconds"

fun phase_from_desired :: "desired_state \<Rightarrow> phase" where
  "phase_from_desired desired_state.RUNNING = phase.RUNNING"
| "phase_from_desired desired_state.STANDBY = phase.STANDBY"
| "phase_from_desired desired_state.ARCHIVED = phase.ARCHIVED"
| "phase_from_desired desired_state.DELETED = phase.DELETED"

definition select_operation :: "phase \<Rightarrow> desired_state \<Rightarrow> operation" where
  "select_operation current_phase desired =
     (if desired = desired_state.DELETED then operation.DELETING
      else (case current_phase of
        phase.PENDING \<Rightarrow>
          if desired = desired_state.ARCHIVED then CREATE_EMPTY_ARCHIVE
          else if desired \<in> {desired_state.STANDBY, desired_state.RUNNING} then PROVISIONING
          else NONE
      | phase.ARCHIVED \<Rightarrow>
          if desired \<in> {desired_state.STANDBY, desired_state.RUNNING} then RESTORING else NONE
      | phase.STANDBY \<Rightarrow>
          if desired = desired_state.RUNNING then STARTING
          else if desired = desired_state.ARCHIVED then ARCHIVING
          else NONE
      | phase.RUNNING \<Rightarrow>
          if desired \<in> {desired_state.STANDBY, desired_state.ARCHIVED} then STOPPING else NONE
      | _ \<Rightarrow> NONE))"

text \<open>\<open>home_ctx.get("restore_marker")\<close> on an optional dictionary, with Python's truth of the value.\<close>

definition restore_marker_of :: "(string \<times> string) list option \<Rightarrow> string option" where
  "restore_marker_of ctx =
     (case ctx of None \<Rightarrow> None | Some d \<Rightarrow> map_of d ''restore_marker'')"

definition check_completion :: "operation \<Rightarrow> plan_input \<Rightarrow> bool" where
  "check_completion oper i =
     (let cond = from_conditions (pi_conditions i) in
      case oper of
        PROVISIONING \<Rightarrow> volume_ready cond
      | RESTORING \<Rightarrow>
          if py_truthy (restore_marker_of (pi_home_ctx i))
          then volume_ready cond \<and> restore_marker_of (pi_home_ctx i) = pi_archive_key i
          else volume_ready cond
      | STARTING \<Rightarrow> container_ready cond
      | STOPPING \<Rightarrow> \<not> container_ready cond
      | ARCHIVING \<Rightarrow> \<not> volume_ready cond \<and> archive_ready cond
      | CREATE_EMPTY_ARCHIVE \<Rightarrow> archive_ready cond
      | operation.DELETING \<Rightarrow> \<not> container_ready cond \<and> \<not> volume_ready cond
      | NONE \<Rightarrow> False)"

definition handle_in_progress ::
  "datetime \<Rightarrow> plan_input \<Rightarrow> judge_output \<Rightarrow> seconds \<Rightarrow> plan_action" where
  "handle_in_progress now i jo timeout_seconds =
     (if check_completion (pi_operation i) i then
        (PlanAction NONE (jo_phase jo))\<lparr>pa_complete := True\<rparr>
      else if (case pi_op_started_at i of None \<Rightarrow> False
               | Some t \<Rightarrow> is_timeout now t timeout_seconds) then
        (PlanAction NONE phase.ERROR)\<lparr>pa_error_reason := Some TIMEOUT\<rparr>
      else (PlanAction (pi_operation i) (pi_phase i))\<lparr>pa_op_id := pi_op_id i\<rparr>)"

definition plan :: "datetime \<Rightarrow> string \<Rightarrow> plan_input \<Rightarrow> seconds \<Rightarrow> plan_action" where
  "plan now uuid i timeout_seconds =
     (let jo = judge \<lparr>ji_conditions = from_conditions (pi_conditions i),
                      ji_deleted_at = (pi_deleted_at i \<noteq> None)\<rparr>
      in if pi_operation i \<noteq> NONE then handle_in_progress now i jo timeout_seconds
         else if jo_phase jo = phase.ERROR then
           (if pi_desired_state i = desired_state.DELETED then
              (PlanAction operation.DELETING phase.DELETING)\<lparr>pa_op_id := Some uuid\<rparr>
            else (PlanAction NONE phase.ERROR)\<lparr>pa_error_reason := jo_error_reason jo\<rparr>)
         else if jo_phase jo = phase_from_desired (pi_desired_state i) then
           PlanAction NONE (jo_phase jo)
         else
           (let oper = select_operation (jo_phase jo) (pi_desired_state i)
            in if oper = NONE then PlanAction NONE (jo_phase jo)
               else (PlanAction oper (jo_phase jo))\<lparr>pa_op_id := Some uuid\<rparr>))"

definition needs_execute :: "plan_action \<Rightarrow> operation \<Rightarrow> bool" where
  "needs_execute a current_operation =
     (if pa_operation a = NONE \<or> pa_complete a then False
      else current_operation = NONE \<or> current_operation = pa_operation a)"

lemmas plan_defs = plan_def handle_in_progress_def PlanAction_def Let_def

section \<open>The ordered state machine\<close>

text \<open>The level of a phase in the documented order of the active phases, and an operation's target.\<close>

fun phase_level :: "phase \<Rightarrow> nat option" where
  "phase_level phase.PENDING = Some 0"
| "phase_level phase.ARCHIVED = Some 5"
| "phase_level phase.STANDBY = Some 10"
| "phase_level phase.RUNNING = Some 20"
| "phase_level _ = None"

fun operation_target :: "operation \<Rightarrow> phase option" where
  "operation_target PROVISIONING = Some phase.STANDBY"
| "operation_target RESTORING = Some phase.STANDBY"
| "operation_target STARTING = Some phase.RUNNING"
| "operation_target STOPPING = Some phase.STANDBY"
| "operation_target ARCHIVING = Some phase.ARCHIVED"
| "operation_target CREATE_EMPTY_ARCHIVE = Some phase.ARCHIVED"
| "operation_target operation.DELETING = Some phase.DELETED"
| "operation_target NONE = None"

definition between :: "nat \<Rightarrow> nat \<Rightarrow> nat \<Rightarrow> bool" where
  "between a x b \<longleftrightarrow> (a < x \<and> x \<le> b) \<or> (b \<le> x \<and> x < a)"

text \<open>C4: for an active phase that is not the desired one, an operation is always chosen, and its
  target lies strictly closer to the desired phase on the documented order of levels: every path is
  monotone, and none overshoots.\<close>
theorem select_operation_monotone:
  assumes "phase_level p = Some l" and "desired \<noteq> desired_state.DELETED"
    and "phase_level (phase_from_desired desired) = Some ld" and "l \<noteq> ld"
  shows "\<exists>t lt. operation_target (select_operation p desired) = Some t
     \<and> phase_level t = Some lt \<and> between l lt ld"
  using assms
  by (cases p; cases desired) (auto simp: select_operation_def between_def)

theorem select_operation_monotone_witness:
  "\<exists>t lt. operation_target (select_operation phase.RUNNING desired_state.ARCHIVED) = Some t
     \<and> phase_level t = Some lt \<and> between 20 lt 5"
  using select_operation_monotone [of phase.RUNNING 20 desired_state.ARCHIVED 5] by simp

section \<open>Branches of the planner\<close>

text \<open>The judgement the planner starts from.\<close>

definition judged :: "plan_input \<Rightarrow> judge_output" where
  "judged i = judge \<lparr>ji_conditions = from_conditions (pi_conditions i),
                    ji_deleted_at = (pi_deleted_at i \<noteq> None)\<rparr>"

lemma plan_idle:
  assumes "pi_operation i = NONE"
  shows "plan now u i t =
     (if jo_phase (judged i) = phase.ERROR then
        (if pi_desired_state i = desired_state.DELETED
         then (PlanAction operation.DELETING phase.DELETING)\<lparr>pa_op_id := Some u\<rparr>
         else (PlanAction NONE phase.ERROR)\<lparr>pa_error_reason := jo_error_reason (judged i)\<rparr>)
      else if jo_phase (judged i) = phase_from_desired (pi_desired_state i)
           \<or> select_operation (jo_phase (judged i)) (pi_desired_state i) = NONE
        then PlanAction NONE (jo_phase (judged i))
      else (PlanAction (select_operation (jo_phase (judged i)) (pi_desired_state i))
              (jo_phase (judged i)))\<lparr>pa_op_id := Some u\<rparr>)"
  using assms by (simp add: plan_def judged_def Let_def)

lemma plan_busy:
  "pi_operation i \<noteq> NONE \<Longrightarrow> plan now u i t = handle_in_progress now i (judged i) t"
  by (simp add: plan_def judged_def Let_def)

text \<open>The planner writes none of the fields the executor fills in.\<close>

lemma plan_leaves_results:
  "pa_archive_key (plan now u i t) = None" "pa_restore_marker (plan now u i t) = None"
  by (simp_all add: plan_defs)

lemma plan_complete_only_busy: "pa_complete (plan now u i t) \<Longrightarrow> pi_operation i \<noteq> NONE"
  by (auto simp: plan_defs split: if_splits)

lemma plan_complete_NONE: "pa_complete (plan now u i t) \<Longrightarrow> pa_operation (plan now u i t) = NONE"
  by (auto simp: plan_defs split: if_splits)

lemma plan_new_operation_has_id:
  "pi_operation i = NONE \<Longrightarrow> pa_operation (plan now u i t) \<noteq> NONE
   \<Longrightarrow> pa_op_id (plan now u i t) = Some u"
  by (auto simp: plan_defs split: if_splits)

lemma plan_error_phase:
  "(pi_phase i = phase.ERROR \<longrightarrow> pi_operation i = NONE)
   \<Longrightarrow> pa_phase (plan now u i t) = phase.ERROR \<Longrightarrow> pa_operation (plan now u i t) = NONE"
  by (auto simp: plan_defs split: if_splits)

section \<open>Properties\<close>

text \<open>C2: operations are not preempted: while an operation is in progress the planner answers with
  that operation and its id, or with none; it ends the operation exactly when its completion
  condition is observed or its time is over, and the second is a TIMEOUT error.\<close>
theorem plan_non_preemptive:
  assumes "pi_operation i \<noteq> NONE"
  shows "(check_completion (pi_operation i) i \<longrightarrow>
            pa_complete (plan now u i t) \<and> pa_operation (plan now u i t) = NONE
            \<and> pa_error_reason (plan now u i t) = None)
     \<and> (\<not> check_completion (pi_operation i) i \<longrightarrow>
         (if \<exists>s. pi_op_started_at i = Some s \<and> is_timeout now s t
          then pa_operation (plan now u i t) = NONE \<and> pa_phase (plan now u i t) = phase.ERROR
               \<and> pa_error_reason (plan now u i t) = Some TIMEOUT
          else pa_operation (plan now u i t) = pi_operation i
               \<and> pa_op_id (plan now u i t) = pi_op_id i
               \<and> needs_execute (plan now u i t) (pi_operation i)))"
  using assms by (auto simp: plan_busy handle_in_progress_def PlanAction_def needs_execute_def
      split: option.splits)

definition sample_input :: "operation \<Rightarrow> desired_state \<Rightarrow> conditions \<Rightarrow> plan_input" where
  "sample_input oper d c =
     \<lparr>pi_id = ''w'', pi_phase = phase.PENDING, pi_operation = oper, pi_desired_state = d,
      pi_conditions = c, pi_archive_key = None, pi_op_started_at = Some 0, pi_op_id = Some ''op'',
      pi_deleted_at = None, pi_home_ctx = None\<rparr>"

theorem plan_non_preemptive_witness:
  "pa_operation (plan 5000000 ''u'' (sample_input PROVISIONING desired_state.ARCHIVED no_conditions) 300)
     = PROVISIONING
   \<and> pa_error_reason (plan 301000000 ''u'' (sample_input PROVISIONING desired_state.ARCHIVED no_conditions) 300)
     = Some TIMEOUT"
  using plan_non_preemptive [of "sample_input PROVISIONING desired_state.ARCHIVED no_conditions" 5000000 "''u''" 300]
    plan_non_preemptive [of "sample_input PROVISIONING desired_state.ARCHIVED no_conditions" 301000000 "''u''" 300]
  by (simp add: sample_input_def check_completion_def is_timeout_def)

text \<open>An ERROR phase is never written together with an operation: if the row satisfies this
  invariant, so does the planner's answer, whatever the conditions.\<close>
theorem plan_error_has_no_operation:
  assumes "pi_phase i = phase.ERROR \<Longrightarrow> pi_operation i = NONE"
    and "pa_phase (plan now u i t) = phase.ERROR"
  shows "pa_operation (plan now u i t) = NONE"
  using assms by (auto intro: plan_error_phase)

theorem plan_error_has_no_operation_witness:
  "pa_operation (plan 0 ''u'' (sample_input NONE desired_state.RUNNING
     (no_conditions\<lparr>cond_container := Some \<lparr>ci_workspace_id = ''w'', ci_running = True,
        ci_reason = [], ci_message = []\<rparr>\<rparr>)) 300) = NONE"
  by (rule plan_error_has_no_operation)
     (simp_all add: sample_input_def plan_defs judge_phase from_conditions_def no_conditions_def)

lemma select_operation_ERROR:
  "select_operation phase.ERROR d = (if d = desired_state.DELETED then operation.DELETING else NONE)"
  by (simp add: select_operation_def)

lemma plan_idle_operation:
  assumes "pi_operation i = NONE"
  shows "pa_operation (plan now u i t) =
      (if jo_phase (judged i) = phase_from_desired (pi_desired_state i) then NONE
       else select_operation (jo_phase (judged i)) (pi_desired_state i))"
  using assms
  by (cases "jo_phase (judged i) = phase.ERROR"; cases "pi_desired_state i")
     (simp_all add: plan_idle PlanAction_def select_operation_ERROR)



end
