(* ===== verification/Breaker.thy ===== *)
theory Breaker
  imports Prelude
begin

text \<open>
  core/circuit_breaker.py: the breaker's state, its transitions, the guarded call and the registry of
  named breakers.  A transition is atomic (the code holds the breaker's lock and does not await in
  between), so the clock is read once per transition.  Calls of several tasks interleave at the awaits
  of the guarded operation: \<open>cb_event\<close> lists the atomic transitions they interleave.
\<close>

section \<open>Model\<close>

datatype circuit_state = CLOSED | OPEN | HALF_OPEN

record breaker =
  cb_name :: string
  cb_failure_threshold :: int
  cb_success_threshold :: int
  cb_timeout :: seconds
  cb_error_classifier :: "(exn \<Rightarrow> string) option"
  cb_state :: circuit_state
  cb_failure_count :: int
  cb_success_count :: int
  cb_last_failure_time :: "seconds option"

definition new_breaker :: "string \<Rightarrow> (exn \<Rightarrow> string) option \<Rightarrow> breaker" where
  "new_breaker name classifier =
     \<lparr>cb_name = name, cb_failure_threshold = 5, cb_success_threshold = 2, cb_timeout = 60,
      cb_error_classifier = classifier, cb_state = CLOSED, cb_failure_count = 0,
      cb_success_count = 0, cb_last_failure_time = None\<rparr>"

text \<open>A float is true when it is not zero: a failure time of exactly 0 counts as none.\<close>

definition check_state_transition :: "seconds \<Rightarrow> breaker \<Rightarrow> breaker" where
  "check_state_transition now b =
     (if cb_state b = OPEN
         \<and> (case cb_last_failure_time b of None \<Rightarrow> False
            | Some t \<Rightarrow> t \<noteq> 0 \<and> now - t \<ge> cb_timeout b)
      then b\<lparr>cb_state := HALF_OPEN, cb_success_count := 0\<rparr>
      else b)"

definition on_success :: "breaker \<Rightarrow> breaker" where
  "on_success b =
     (case cb_state b of
        HALF_OPEN \<Rightarrow>
          (let b1 = b\<lparr>cb_success_count := cb_success_count b + 1\<rparr>
           in if cb_success_count b1 \<ge> cb_success_threshold b1
              then b1\<lparr>cb_state := CLOSED, cb_failure_count := 0\<rparr> else b1)
      | CLOSED \<Rightarrow> b\<lparr>cb_failure_count := 0\<rparr>
      | OPEN \<Rightarrow> b)"

definition on_failure :: "seconds \<Rightarrow> breaker \<Rightarrow> breaker" where
  "on_failure now b =
     (let b1 = b\<lparr>cb_failure_count := cb_failure_count b + 1, cb_last_failure_time := Some now\<rparr>
      in case cb_state b1 of
           HALF_OPEN \<Rightarrow> b1\<lparr>cb_state := OPEN\<rparr>
         | CLOSED \<Rightarrow> if cb_failure_count b1 \<ge> cb_failure_threshold b1
                    then b1\<lparr>cb_state := OPEN\<rparr> else b1
         | OPEN \<Rightarrow> b1)"

definition counts_as_failure :: "breaker \<Rightarrow> exn \<Rightarrow> bool" where
  "counts_as_failure b e =
     (case cb_error_classifier b of None \<Rightarrow> True | Some f \<Rightarrow> f e \<noteq> ''permanent'')"

definition retry_after :: "seconds \<Rightarrow> breaker \<Rightarrow> seconds" where
  "retry_after now b =
     max 0 (cb_timeout b - (now - (case cb_last_failure_time b of None \<Rightarrow> 0 | Some t \<Rightarrow> t)))"

definition cb_call :: "('s \<Rightarrow> seconds) \<Rightarrow> ('s, 'a) io \<Rightarrow> (breaker \<times> 's, 'a) io" where
  "cb_call clock oper = (\<lambda>(b, s).
     let b1 = check_state_transition (clock s) b in
     if cb_state b1 = OPEN then
       (Inl (CircuitOpenError (cb_name b1) (retry_after (clock s) b1)), (b1, s))
     else (case oper s of
         (Inr a, t) \<Rightarrow> (Inr a, (on_success b1, t))
       | (Inl e, t) \<Rightarrow>
           if is_Exception e \<and> counts_as_failure b1 e
           then (Inl e, (on_failure (clock t) b1, t))
           else (Inl e, (b1, t))))"

type_synonym registry = "(string \<times> breaker) list"

definition get_circuit_breaker ::
  "string \<Rightarrow> (exn \<Rightarrow> string) option \<Rightarrow> registry \<Rightarrow> breaker \<times> registry" where
  "get_circuit_breaker name classifier reg =
     (case map_of reg name of
        Some b \<Rightarrow> (b, reg)
      | None \<Rightarrow> (let b = new_breaker name classifier in (b, AList.update name b reg)))"

definition reset_all_circuit_breakers :: "registry \<Rightarrow> registry" where
  "reset_all_circuit_breakers reg = []"

lemmas breaker_defs = check_state_transition_def on_success_def on_failure_def Let_def

section \<open>Invariant\<close>

datatype cb_event = Check seconds | Success | Failure seconds

fun cb_step :: "cb_event \<Rightarrow> breaker \<Rightarrow> breaker" where
  "cb_step (Check now) b = check_state_transition now b"
| "cb_step Success b = on_success b"
| "cb_step (Failure now) b = on_failure now b"

definition cb_inv :: "breaker \<Rightarrow> bool" where
  "cb_inv b \<longleftrightarrow>
     0 < cb_failure_threshold b \<and> 0 < cb_success_threshold b \<and> 0 \<le> cb_failure_count b \<and>
     0 \<le> cb_success_count b \<and>
     (case cb_state b of
        CLOSED \<Rightarrow> cb_failure_count b < cb_failure_threshold b
      | HALF_OPEN \<Rightarrow> cb_success_count b < cb_success_threshold b \<and> cb_last_failure_time b \<noteq> None
      | OPEN \<Rightarrow> cb_last_failure_time b \<noteq> None)"

lemma cb_inv_new [simp]: "cb_inv (new_breaker n c)"
  by (simp add: cb_inv_def new_breaker_def)

lemma cb_inv_step: "cb_inv b \<Longrightarrow> cb_inv (cb_step e b)"
  by (cases e; cases "cb_state b")
     (auto simp: cb_inv_def breaker_defs split: option.splits)

interpretation cb_machine: event_machine cb_step cb_inv
  by unfold_locales (rule cb_inv_step)

lemma cb_step_config:
  "cb_name (cb_step e b) = cb_name b" "cb_timeout (cb_step e b) = cb_timeout b"
  "cb_failure_threshold (cb_step e b) = cb_failure_threshold b"
  "cb_success_threshold (cb_step e b) = cb_success_threshold b"
  "cb_error_classifier (cb_step e b) = cb_error_classifier b"
  by (cases e; auto simp: breaker_defs split: circuit_state.split)+

text \<open>Every call is a run of atomic transitions, so the invariant covers calls as well.\<close>

lemma cb_call_run: "\<exists>es. fst (snd (cb_call clock oper (b, s))) = fold cb_step es b"
proof -
  let ?b = "check_state_transition (clock s) b"
  have "fst (snd (cb_call clock oper (b, s))) \<in> {?b, on_success ?b} \<union> range (\<lambda>t. on_failure t ?b)"
    by (auto simp: cb_call_def Let_def split: prod.split sum.split)
  then have "fst (snd (cb_call clock oper (b, s))) = fold cb_step [Check (clock s)] b
      \<or> fst (snd (cb_call clock oper (b, s))) = fold cb_step [Check (clock s), Success] b
      \<or> (\<exists>t. fst (snd (cb_call clock oper (b, s))) = fold cb_step [Check (clock s), Failure t] b)"
    by auto
  then show ?thesis by metis
qed

section \<open>When a closed breaker opens\<close>

text \<open>The abstract view of a closed breaker: a counter of consecutive failures, tripped at \<open>n\<close>.\<close>

fun trips :: "nat \<Rightarrow> nat \<Rightarrow> bool list \<Rightarrow> bool" where
  "trips n k [] = False"
| "trips n k (ok # os) = (if ok then trips n 0 os else Suc k \<ge> n \<or> trips n (Suc k) os)"

lemma trips_replicate: "trips n k (replicate m False @ os) \<longleftrightarrow> (m > 0 \<and> n \<le> k + m) \<or> trips n (k + m) os"
  by (induction m arbitrary: k) auto

lemma trips_mono: "trips n k os \<Longrightarrow> k \<le> l \<Longrightarrow> trips n l os"
  by (induction n k os arbitrary: l rule: trips.induct) (auto split: if_splits)

lemma trips_append: "trips n 0 os \<Longrightarrow> trips n k (ps @ os)"
  by (induction ps arbitrary: k) (auto intro: trips_mono)

lemma trips_imp_run:
  "trips n k os \<Longrightarrow> 0 < n \<Longrightarrow> \<exists>ps qs. replicate k False @ os = ps @ replicate n False @ qs"
proof (induction os arbitrary: k)
  case Nil
  then show ?case by simp
next
  case (Cons ok os)
  show ?case
  proof (cases ok)
    case True
    with Cons.prems Cons.IH [of 0] obtain ps qs where "os = ps @ replicate n False @ qs" by auto
    then have "replicate k False @ ok # os = (replicate k False @ ok # ps) @ replicate n False @ qs"
      by simp
    then show ?thesis by blast
  next
    case False
    have shift: "replicate k False @ ok # os = replicate (Suc k) False @ os"
      using False by (simp add: replicate_app_Cons_same)
    show ?thesis
    proof (cases "Suc k \<ge> n")
      case True
      then have "replicate (Suc k) False = replicate n False @ replicate (Suc k - n) False"
        by (simp flip: replicate_add)
      then show ?thesis by (metis shift append_Nil append_assoc)
    next
      case False
      with \<open>\<not> ok\<close> Cons.prems have "trips n (Suc k) os" by simp
      then show ?thesis using Cons.IH [of "Suc k"] Cons.prems(2) shift by metis
    qed
  qed
qed

lemma trips_iff_run:
  assumes "0 < n"
  shows "trips n 0 os \<longleftrightarrow> (\<exists>ps qs. os = ps @ replicate n False @ qs)"
proof
  assume "trips n 0 os"
  then show "\<exists>ps qs. os = ps @ replicate n False @ qs"
    using trips_imp_run [of n 0 os] assms by simp
next
  assume "\<exists>ps qs. os = ps @ replicate n False @ qs"
  then obtain ps qs where "os = ps @ replicate n False @ qs" by blast
  moreover have "trips n 0 (replicate n False @ qs)" using assms by (simp add: trips_replicate)
  ultimately show "trips n 0 os" using trips_append by blast
qed

text \<open>A history of completed calls: \<open>None\<close> for a success, the time for a failure that counts.\<close>

fun outcome_event :: "seconds option \<Rightarrow> cb_event" where
  "outcome_event None = Success"
| "outcome_event (Some t) = Failure t"

lemma open_absorbs: "cb_state b = OPEN \<Longrightarrow> cb_state (fold cb_step (map outcome_event hs) b) = OPEN"
proof (induction hs arbitrary: b)
  case (Cons h hs)
  have "cb_state (cb_step (outcome_event h) b) = OPEN"
    using Cons.prems by (cases h) (auto simp: breaker_defs)
  then show ?case using Cons.IH by simp
qed simp

lemma closed_history:
  assumes "cb_inv b" and "cb_state b = CLOSED"
  shows "cb_state (fold cb_step (map outcome_event hs) b) =
     (if trips (nat (cb_failure_threshold b)) (nat (cb_failure_count b)) (map (\<lambda>h. h = None) hs)
      then OPEN else CLOSED)"
  using assms
proof (induction hs arbitrary: b)
  case Nil
  then show ?case by simp
next
  case (Cons h hs)
  let ?b = "cb_step (outcome_event h) b"
  have inv: "cb_inv ?b" using Cons.prems(1) by (rule cb_inv_step)
  show ?case
  proof (cases h)
    case None
    then have "?b = b\<lparr>cb_failure_count := 0\<rparr>"
      using Cons.prems(2) by (simp add: on_success_def)
    with None Cons.IH [OF inv] Cons.prems(2) show ?thesis by simp
  next
    case (Some t)
    show ?thesis
    proof (cases "cb_failure_count b + 1 \<ge> cb_failure_threshold b")
      case True
      then have "cb_state ?b = OPEN"
        using Some Cons.prems(2) by (simp add: on_failure_def Let_def)
      then have "cb_state (fold cb_step (map outcome_event hs) ?b) = OPEN" by (rule open_absorbs)
      moreover have "Suc (nat (cb_failure_count b)) \<ge> nat (cb_failure_threshold b)"
        using True Cons.prems(1) by (auto simp: cb_inv_def)
      ultimately show ?thesis using Some by simp
    next
      case False
      then have st: "cb_state ?b = CLOSED" "cb_failure_count ?b = cb_failure_count b + 1"
        "cb_failure_threshold ?b = cb_failure_threshold b"
        using Some Cons.prems(2) by (simp_all add: on_failure_def Let_def)
      have "nat (cb_failure_count b + 1) = Suc (nat (cb_failure_count b))"
        using Cons.prems(1) by (simp add: cb_inv_def nat_add_distrib)
      moreover have "\<not> Suc (nat (cb_failure_count b)) \<ge> nat (cb_failure_threshold b)"
        using False Cons.prems(1) by (auto simp: cb_inv_def)
      ultimately show ?thesis using Some Cons.IH [OF inv st(1)] st by simp
    qed
  qed
qed

section \<open>Properties\<close>

text \<open>C6: the breaker's invariant (bounded counters per state, a failure time in OPEN and HALF_OPEN)
  holds in every state reachable from a new breaker, however the transitions of concurrent calls
  interleave.\<close>
theorem breaker_invariant:
  "cb_inv (fold cb_step es (new_breaker name classifier))"
  by (rule cb_machine.run_inv) simp

text \<open>C5: a new breaker opens exactly when five calls in a row fail with an error that counts: a
  success in between resets the count.\<close>
theorem breaker_opens_iff_five_consecutive_failures:
  "cb_state (fold cb_step (map outcome_event hs) (new_breaker name classifier)) = OPEN \<longleftrightarrow>
     (\<exists>ps qs. map (\<lambda>h. h = None) hs = ps @ replicate 5 False @ qs)"
proof -
  have "cb_state (fold cb_step (map outcome_event hs) (new_breaker name classifier)) =
      (if trips 5 0 (map (\<lambda>h. h = None) hs) then OPEN else CLOSED)"
    using closed_history [of "new_breaker name classifier" hs] by (simp add: new_breaker_def cb_inv_def)
  then show ?thesis by (simp add: trips_iff_run)
qed

text \<open>An open breaker fails fast: until its timeout has passed since the last failure, a call raises
  CircuitOpenError with the remaining time, changes nothing and never starts the operation; afterwards
  the operation is run.\<close>
theorem open_breaker_rejects:
  assumes "cb_state b = OPEN" and "cb_last_failure_time b = Some t" and "t \<noteq> 0"
  shows "cb_call clock oper (b, s) =
     (if clock s - t < cb_timeout b
      then (Inl (CircuitOpenError (cb_name b) (cb_timeout b - (clock s - t))), (b, s))
      else (case oper s of
          (Inr a, s1) \<Rightarrow> (Inr a, (on_success (b\<lparr>cb_state := HALF_OPEN, cb_success_count := 0\<rparr>), s1))
        | (Inl e, s1) \<Rightarrow>
            (Inl e, (if is_Exception e \<and> counts_as_failure b e
                     then b\<lparr>cb_success_count := 0, cb_failure_count := cb_failure_count b + 1,
                            cb_last_failure_time := Some (clock s1)\<rparr>
                     else b\<lparr>cb_state := HALF_OPEN, cb_success_count := 0\<rparr>, s1))))"
  using assms
  by (auto simp: cb_call_def breaker_defs retry_after_def counts_as_failure_def
      split: prod.split sum.split)

theorem open_breaker_rejects_witness:
  "cb_call (\<lambda>s. s) (io_return ()) ((new_breaker ''external'' None)\<lparr>cb_state := OPEN,
      cb_last_failure_time := Some 100\<rparr>, 130)
   = (Inl (CircuitOpenError ''external'' 30),
      ((new_breaker ''external'' None)\<lparr>cb_state := OPEN, cb_last_failure_time := Some 100\<rparr>, 130))"
  using open_breaker_rejects [of "(new_breaker ''external'' None)\<lparr>cb_state := OPEN,
      cb_last_failure_time := Some 100\<rparr>" 100 "\<lambda>s. s" "io_return ()" 130]
  by (simp add: new_breaker_def)

end
