(* ===== verification/Retry.thy ===== *)
theory Retry
  imports Breaker
begin

text \<open>
  core/retryable.py: the classification of errors and the retry loop with exponential back-off, with
  or without a circuit breaker.  The clock, the random numbers and \<open>asyncio.sleep\<close> are an argument
  of the loop (\<open>env\<close>).  The state of a guarded run is the breaker registry with the world.
\<close>

section \<open>Classification\<close>

fun HTTPX_RETRYABLE :: "exn \<Rightarrow> bool" where
  "HTTPX_RETRYABLE HttpxConnectError = True"
| "HTTPX_RETRYABLE HttpxConnectTimeout = True"
| "HTTPX_RETRYABLE HttpxReadTimeout = True"
| "HTTPX_RETRYABLE HttpxWriteTimeout = True"
| "HTTPX_RETRYABLE HttpxPoolTimeout = True"
| "HTTPX_RETRYABLE _ = False"

fun HTTPX_NON_RETRYABLE :: "exn \<Rightarrow> bool" where
  "HTTPX_NON_RETRYABLE HttpxInvalidURL = True"
| "HTTPX_NON_RETRYABLE HttpxTooManyRedirects = True"
| "HTTPX_NON_RETRYABLE _ = False"

definition is_httpx_retryable :: "exn \<Rightarrow> bool" where
  "is_httpx_retryable e =
     (if HTTPX_RETRYABLE e then True
      else (case e of
        HTTPStatusError status \<Rightarrow>
          (if status = 429 then True
           else if 400 \<le> status \<and> status < 500 then False
           else if status \<ge> 500 then True
           else False)
      | _ \<Rightarrow> False))"

definition S3_RETRYABLE_CODES :: "string list" where
  "S3_RETRYABLE_CODES =
     [''RequestTimeout'', ''RequestTimeoutException'', ''ServiceUnavailable'', ''Throttling'',
      ''ThrottlingException'', ''TooManyRequestsException'', ''InternalError'',
      ''InternalServerError'', ''SlowDown'']"

definition S3_NON_RETRYABLE_CODES :: "string list" where
  "S3_NON_RETRYABLE_CODES =
     [''AccessDenied'', ''InvalidAccessKeyId'', ''SignatureDoesNotMatch'', ''NoSuchBucket'',
      ''NoSuchKey'', ''InvalidBucketName'']"

definition is_s3_retryable :: "string \<Rightarrow> bool" where
  "is_s3_retryable error_code \<longleftrightarrow> error_code \<in> set S3_RETRYABLE_CODES"

definition classify_error :: "exn \<Rightarrow> string" where
  "classify_error e =
     (case e of
        TimeoutError \<Rightarrow> ''retryable''
      | VolumeInUseError _ \<Rightarrow> ''retryable''
      | HTTPStatusError _ \<Rightarrow> if is_httpx_retryable e then ''retryable'' else ''permanent''
      | ClientError error_code \<Rightarrow>
          if error_code \<in> set S3_RETRYABLE_CODES then ''retryable''
          else if error_code \<in> set S3_NON_RETRYABLE_CODES then ''permanent''
          else ''unknown''
      | _ \<Rightarrow>
          if HTTPX_RETRYABLE e then ''retryable''
          else if HTTPX_NON_RETRYABLE e then ''permanent''
          else ''unknown'')"

lemma classify_error_range:
  "classify_error e \<in> {''retryable'', ''permanent'', ''unknown''}"
  by (auto simp: classify_error_def split: exn.split)

lemma classify_HTTPStatus:
  "classify_error (HTTPStatusError st) = (if st = 429 \<or> st \<ge> 500 then ''retryable'' else ''permanent'')"
  by (auto simp: classify_error_def is_httpx_retryable_def)

lemma classify_unknown [simp]:
  "classify_error (RuntimeError m) = ''unknown''" "classify_error (OtherError m) = ''unknown''"
  "classify_error (CircuitOpenError n t) = ''unknown''"
  by (simp_all add: classify_error_def)

section \<open>The retry loop\<close>

record 's env =
  env_time :: "'s \<Rightarrow> seconds"
  env_random :: "'s \<Rightarrow> real \<times> 's"
  env_sleep :: "seconds \<Rightarrow> ('s, unit) io"

text \<open>The environment of a computation that also carries a value of its own.\<close>

definition env_fst :: "'s env \<Rightarrow> ('s \<times> 't) env" where
  "env_fst env =
     \<lparr>env_time = (\<lambda>(s, t). env_time env s),
      env_random = (\<lambda>(s, t). case env_random env s of (r, s') \<Rightarrow> (r, (s', t))),
      env_sleep = (\<lambda>d. io_fst (env_sleep env d))\<rparr>"

definition backoff_delay :: "real \<Rightarrow> real \<Rightarrow> nat \<Rightarrow> seconds" where
  "backoff_delay base_delay max_delay attempt = min (base_delay * 2 ^ attempt) max_delay"

definition jittered_delay :: "real \<Rightarrow> real \<Rightarrow> seconds" where
  "jittered_delay delay r = delay * (1/2 + r)"

text \<open>One attempt: the operation itself, or the call of the named breaker of the registry.\<close>

definition attempt_call ::
  "'s env \<Rightarrow> string option \<Rightarrow> ('s, 'a) io \<Rightarrow> (registry \<times> 's, 'a) io" where
  "attempt_call env cb oper = (\<lambda>(reg, s).
     case cb of
       None \<Rightarrow> (case oper s of (r, t) \<Rightarrow> (r, (reg, t)))
     | Some name \<Rightarrow>
         (case get_circuit_breaker name (Some classify_error) reg of (b, reg1) \<Rightarrow>
           (case cb_call (env_time env) oper (b, s) of (r, (b', t)) \<Rightarrow>
              (r, (AList.update name b' reg1, t)))))"

definition retry_sleep :: "'s env \<Rightarrow> real \<Rightarrow> real \<Rightarrow> nat \<Rightarrow> ('s, unit) io" where
  "retry_sleep env base_delay max_delay attempt = (\<lambda>s.
     case env_random env s of (r, t) \<Rightarrow>
       env_sleep env (jittered_delay (backoff_delay base_delay max_delay attempt) r) t)"

fun is_circuit_open :: "exn \<Rightarrow> bool" where
  "is_circuit_open (CircuitOpenError _ _) = True"
| "is_circuit_open _ = False"

text \<open>\<open>n\<close> iterations of the loop are left and \<open>attempt\<close> counts from 0.\<close>

fun retry_loop ::
  "'s env \<Rightarrow> string option \<Rightarrow> ('s, 'a) io \<Rightarrow> nat \<Rightarrow> real \<Rightarrow> real \<Rightarrow> nat \<Rightarrow> nat
   \<Rightarrow> exn option \<Rightarrow> (registry \<times> 's, 'a) io"
where
  "retry_loop env cb oper max_retries base_delay max_delay attempt 0 last_exc st =
     (case last_exc of
        Some e \<Rightarrow> (Inl e, st)
      | None \<Rightarrow> (Inl (RuntimeError ''Unexpected state in with_retry''), st))"
| "retry_loop env cb oper max_retries base_delay max_delay attempt (Suc n) last_exc st =
     (case attempt_call env cb oper st of
        (Inr a, st1) \<Rightarrow> (Inr a, st1)
      | (Inl e, (reg, s)) \<Rightarrow>
          if is_circuit_open e then (Inl e, (reg, s))
          else if \<not> is_Exception e then (Inl e, (reg, s))
          else if classify_error e = ''permanent'' then (Inl e, (reg, s))
          else if attempt = max_retries then (Inl e, (reg, s))
          else (case retry_sleep env base_delay max_delay attempt s of
              (Inl e', t) \<Rightarrow> (Inl e', (reg, t))
            | (Inr _, t) \<Rightarrow>
                retry_loop env cb oper max_retries base_delay max_delay (Suc attempt) n (Some e) (reg, t)))"

definition with_retry ::
  "'s env \<Rightarrow> ('s, 'a) io \<Rightarrow> nat \<Rightarrow> real \<Rightarrow> real \<Rightarrow> string option \<Rightarrow> (registry \<times> 's, 'a) io" where
  "with_retry env oper max_retries base_delay max_delay circuit_breaker =
     retry_loop env (if py_truthy circuit_breaker then circuit_breaker else None) oper max_retries
       base_delay max_delay 0 (max_retries + 1) None"

section \<open>Bounds\<close>

lemma backoff_delay_bounds:
  "0 \<le> base \<Longrightarrow> 0 \<le> mx \<Longrightarrow> 0 \<le> backoff_delay base mx a \<and> backoff_delay base mx a \<le> mx"
  by (simp add: backoff_delay_def)

lemma backoff_delay_mono:
  assumes "0 \<le> base" and "a \<le> b"
  shows "backoff_delay base mx a \<le> backoff_delay base mx b"
proof -
  have "(2::real) ^ a \<le> 2 ^ b" using assms(2) by (simp add: power_increasing)
  then have "base * 2 ^ a \<le> base * 2 ^ b" using assms(1) by (rule mult_left_mono)
  then show ?thesis by (auto simp: backoff_delay_def)
qed

text \<open>The waits between attempts grow with the attempt, never exceed the configured maximum before
  jitter, and with a random number in [0, 1) the jittered wait lies between one half and one and a half
  times the un-jittered one.\<close>
theorem retry_waits_bounded:
  assumes "0 \<le> base" and "0 \<le> mx" and "0 \<le> r" and "r < 1" and "a \<le> b"
  shows "backoff_delay base mx a \<le> backoff_delay base mx b
     \<and> backoff_delay base mx b \<le> mx
     \<and> backoff_delay base mx a / 2 \<le> jittered_delay (backoff_delay base mx a) r
     \<and> jittered_delay (backoff_delay base mx a) r \<le> 3/2 * backoff_delay base mx a"
proof (intro conjI)
  let ?d = "backoff_delay base mx a"
  have d: "0 \<le> ?d" using backoff_delay_bounds assms by blast
  show "?d \<le> backoff_delay base mx b" using backoff_delay_mono assms by blast
  show "backoff_delay base mx b \<le> mx" using backoff_delay_bounds assms by blast
  have "?d * (1/2) \<le> ?d * (1/2 + r)" using d assms(3) by (intro mult_left_mono) auto
  then show "?d / 2 \<le> jittered_delay ?d r" by (simp add: jittered_delay_def)
  have "?d * (1/2 + r) \<le> ?d * (3/2)" using d assms(4) by (intro mult_left_mono) auto
  then show "jittered_delay ?d r \<le> 3/2 * ?d" by (simp add: jittered_delay_def)
qed

theorem retry_waits_bounded_witness:
  "backoff_delay 1 30 2 = 4 \<and> backoff_delay 1 30 9 = 30
   \<and> jittered_delay (backoff_delay 1 30 2) (1/4) \<le> 3/2 * backoff_delay 1 30 2"
  using retry_waits_bounded [of 1 30 "1/4" 2 9] by (simp add: backoff_delay_def)

section \<open>What the loop returns\<close>

text \<open>
  The outcomes of the operation as a function of how often it has been called: the world is the
  number of calls so far.  An outcome is final when the loop stops at it whatever attempt it is.
\<close>

definition scripted :: "(nat \<Rightarrow> exn + 'a) \<Rightarrow> (nat, 'a) io" where
  "scripted outs n = (outs n, Suc n)"

definition final_outcome :: "exn + 'a \<Rightarrow> bool" where
  "final_outcome out =
     (case out of Inr _ \<Rightarrow> True
      | Inl e \<Rightarrow> is_circuit_open e \<or> \<not> is_Exception e \<or> classify_error e = ''permanent'')"

definition quiet_env :: "(nat \<Rightarrow> seconds) \<Rightarrow> (nat \<Rightarrow> real) \<Rightarrow> nat env" where
  "quiet_env clk rnd =
     \<lparr>env_time = clk, env_random = (\<lambda>n. (rnd n, n)), env_sleep = (\<lambda>d. io_return ())\<rparr>"

text \<open>The first number from \<open>a\<close> on with a property, when \<open>a\<close> itself does not have it.\<close>

lemma first_shift_ex:
  assumes "\<not> P a"
  shows "(\<exists>j \<le> Suc n. P (a + j)) \<longleftrightarrow> (\<exists>j \<le> n. P (Suc a + j))"
proof
  assume "\<exists>j \<le> Suc n. P (a + j)"
  then obtain j where j: "j \<le> Suc n" "P (a + j)" by blast
  with assms obtain i where "j = Suc i" by (cases j) auto
  with j show "\<exists>j \<le> n. P (Suc a + j)" by auto
next
  assume "\<exists>j \<le> n. P (Suc a + j)"
  then obtain j where "j \<le> n" "P (Suc a + j)" by blast
  then show "\<exists>j \<le> Suc n. P (a + j)" by (intro exI [of _ "Suc j"]) auto
qed

lemma first_shift_least:
  assumes "\<not> P (a::nat)" "P (Suc a + j)"
  shows "a + (LEAST j. P (a + j)) = Suc a + (LEAST j. P (Suc a + j))"
  using Least_Suc [of "\<lambda>j. P (a + j)" "Suc j"] assms by simp

lemma retry_loop_scripted:
  assumes "attempt + n = max_retries"
  shows "retry_loop (quiet_env clk rnd) None (scripted outs) max_retries b m attempt (Suc n) l (reg, attempt)
     = (let k = (if \<exists>j \<le> n. final_outcome (outs (attempt + j))
                 then attempt + (LEAST j. final_outcome (outs (attempt + j))) else max_retries)
        in (outs k, (reg, Suc k)))"
  using assms
proof (induction n arbitrary: attempt l)
  case 0
  show ?case
  proof (cases "final_outcome (outs attempt)")
    case True
    then have least: "(LEAST j. final_outcome (outs (attempt + j))) = 0" by (intro Least_equality) auto
    with True 0 show ?thesis
      by (auto simp: attempt_call_def scripted_def final_outcome_def Let_def split: sum.splits)
  next
    case False
    with 0 show ?thesis
      by (auto simp: attempt_call_def scripted_def final_outcome_def Let_def split: sum.splits)
  qed
next
  case (Suc n)
  show ?case
  proof (cases "final_outcome (outs attempt)")
    case True
    then have "(LEAST j. final_outcome (outs (attempt + j))) = 0" by (intro Least_equality) auto
    moreover have "\<exists>j \<le> Suc n. final_outcome (outs (attempt + j))" using True by auto
    ultimately show ?thesis using True
      by (auto simp: attempt_call_def scripted_def final_outcome_def Let_def split: sum.splits)
  next
    case False
    then obtain e where e: "outs attempt = Inl e" "\<not> is_circuit_open e" "is_Exception e"
        "classify_error e \<noteq> ''permanent''"
      by (auto simp: final_outcome_def split: sum.splits)
    have step: "retry_loop (quiet_env clk rnd) None (scripted outs) max_retries b m attempt (Suc (Suc n)) l (reg, attempt)
        = retry_loop (quiet_env clk rnd) None (scripted outs) max_retries b m (Suc attempt) (Suc n) (Some e) (reg, Suc attempt)"
      using e Suc.prems
      by (simp add: attempt_call_def scripted_def retry_sleep_def quiet_env_def io_return_def del: retry_loop.simps(2))
         (simp add: retry_loop.simps(2) [of _ _ _ _ _ _ attempt] attempt_call_def scripted_def retry_sleep_def quiet_env_def io_return_def del: retry_loop.simps(2))
    note ex = first_shift_ex [where P = "\<lambda>k. final_outcome (outs k)", OF False]
    have least: "attempt + (LEAST j. final_outcome (outs (attempt + j)))
        = Suc attempt + (LEAST j. final_outcome (outs (Suc attempt + j)))"
      if "\<exists>j \<le> n. final_outcome (outs (Suc attempt + j))"
      using that first_shift_least [where P = "\<lambda>k. final_outcome (outs k)", OF False] by blast
    show ?thesis using Suc.IH [of "Suc attempt" "Some e"] Suc.prems ex least unfolding step Let_def by auto
  qed
qed

text \<open>C7: without a breaker, the loop returns the outcome of the first call that succeeds, fails
  permanently or is cancelled, and after max_retries + 1 calls at the latest that of the last one; it
  makes exactly that many calls.  An error the classifier does not know is retried.\<close>
theorem with_retry_first_final_outcome:
  "with_retry (quiet_env clk rnd) (scripted outs) max_retries b m None (reg, 0)
     = (let k = (if \<exists>j \<le> max_retries. final_outcome (outs j) then LEAST j. final_outcome (outs j)
                 else max_retries)
        in (outs k, (reg, Suc k)))"
  using retry_loop_scripted [of 0 max_retries max_retries clk rnd outs b m None reg]
  by (simp add: with_retry_def py_truthy_def Let_def del: retry_loop.simps cong: if_cong)

text \<open>An exception class the classifier does not know is retried, although the documentation of
  \<open>with_retry\<close> says that only retryable errors are.\<close>

lemma with_retry_unknown_is_retried:
  "with_retry (quiet_env clk rnd) (scripted (\<lambda>n. if n = 0 then Inl (OtherError ''boom'') else Inr ()))
     3 1 30 None (reg, 0) = (Inr (), (reg, 2))"
  by (simp add: with_retry_def py_truthy_def numeral_3_eq_3 attempt_call_def scripted_def
      retry_sleep_def quiet_env_def io_return_def)

section \<open>Invariants through the loop\<close>

text \<open>What the operation keeps and the environment (clock, random numbers, sleeping) keeps, the retried
  operation keeps, with or without a breaker and in every outcome.\<close>

definition env_keeps :: "('s \<Rightarrow> bool) \<Rightarrow> 's env \<Rightarrow> bool" where
  "env_keeps I env \<longleftrightarrow>
     (\<forall>s. I s \<longrightarrow> I (snd (env_random env s))) \<and> (\<forall>d. keeps I (env_sleep env d))"

lemma env_keeps_random: "env_keeps I env \<Longrightarrow> I s \<Longrightarrow> env_random env s = (r, t) \<Longrightarrow> I t"
  by (metis env_keeps_def snd_conv)

lemma env_keeps_sleep: "env_keeps I env \<Longrightarrow> I s \<Longrightarrow> env_sleep env d s = (r, t) \<Longrightarrow> I t"
  by (meson env_keeps_def keepsD)

text \<open>What the environment may do to the world between two attempts, as a relation.\<close>

definition env_steps :: "('s \<Rightarrow> 's \<Rightarrow> bool) \<Rightarrow> 's env \<Rightarrow> bool" where
  "env_steps R env \<longleftrightarrow>
     (\<forall>s. R s (snd (env_random env s))) \<and> (\<forall>d s. R s (snd (env_sleep env d s)))"

lemma env_steps_random: "env_steps R env \<Longrightarrow> env_random env s = (r, t) \<Longrightarrow> R s t"
  by (metis env_steps_def snd_conv)

lemma env_steps_sleep: "env_steps R env \<Longrightarrow> env_sleep env d s = (r, t) \<Longrightarrow> R s t"
  by (metis env_steps_def snd_conv)

lemma env_steps_fst:
  assumes env: "env_steps R env" and J: "\<And>s s' t. J (s, t) \<Longrightarrow> R s s' \<Longrightarrow> J (s', t)"
  shows "env_keeps J (env_fst env)"
proof -
  have "J (snd (env_random (env_fst env) (s, t)))" if "J (s, t)" for s t
    using J [OF that] env_steps_random [OF env, of s]
    by (cases "env_random env s") (simp add: env_fst_def)
  moreover have "keeps J (env_sleep (env_fst env) d)" for d
  proof (rule keepsI, clarify)
    fix s t r s' t'
    assume a: "J (s, t)" "env_sleep (env_fst env) d (s, t) = (r, s', t')"
    then show "J (s', t')"
      using J [OF a(1)] env_steps_sleep [OF env, of d s]
      by (cases "env_sleep env d s") (auto simp: env_fst_def io_fst_def)
  qed
  ultimately show ?thesis by (auto simp: env_keeps_def)
qed

lemma env_steps_keeps:
  "env_steps R env \<Longrightarrow> (\<And>s s'. J s \<Longrightarrow> R s s' \<Longrightarrow> J s') \<Longrightarrow> env_keeps J env"
  by (auto simp: env_keeps_def env_steps_def keeps_def)

lemma keeps_cb_call:
  assumes "keeps I oper"
  shows "keeps (\<lambda>(b, s). I s) (cb_call clk oper)"
proof (rule keepsI, clarify)
  fix b s r b' s'
  assume I: "I s" and step: "cb_call clk oper (b, s) = (r, b', s')"
  obtain r1 t where "oper s = (r1, t)" by fastforce
  with step keepsD [OF assms I this] I show "I s'"
    by (auto simp: cb_call_def Let_def split: sum.splits if_splits)
qed

lemma keeps_attempt_call:
  assumes "keeps I oper"
  shows "keeps (\<lambda>(reg, s). I s) (attempt_call env cb oper)"
proof (rule keepsI, clarify)
  fix reg s r reg' s'
  assume I: "I s" and step: "attempt_call env cb oper (reg, s) = (r, reg', s')"
  show "I s'"
  proof (cases cb)
    case None
    then show ?thesis using I step keepsD [OF assms I] by (auto simp: attempt_call_def split: prod.splits)
  next
    case (Some name)
    obtain b reg1 where g: "get_circuit_breaker name (Some classify_error) reg = (b, reg1)" by fastforce
    obtain r2 b2 s2 where c: "cb_call (env_time env) oper (b, s) = (r2, (b2, s2))" by (metis prod_cases3)
    have "I s2" using keepsD [OF keeps_cb_call [OF assms], of "(b, s)"] I c by auto
    then show ?thesis using step Some g c by (simp add: attempt_call_def)
  qed
qed

lemma keeps_retry_loop:
  assumes "keeps I oper" and "env_keeps I env"
  shows "keeps (\<lambda>(reg, s). I s) (retry_loop env cb oper mr bd md a n l)"
proof (induction n arbitrary: a l)
  case 0
  then show ?case by (auto simp: keeps_def split: option.split)
next
  case (Suc n)
  show ?case
  proof (rule keepsI, clarify)
    fix reg s r reg' s'
    assume I: "I s" and step: "retry_loop env cb oper mr bd md a (Suc n) l (reg, s) = (r, reg', s')"
    obtain r1 reg1 s1 where c: "attempt_call env cb oper (reg, s) = (r1, reg1, s1)" by (metis prod_cases3)
    have I1: "I s1" using keepsD [OF keeps_attempt_call [OF assms(1)], of "(reg, s)"] I c by auto
    obtain r2 s2 where z: "retry_sleep env bd md a s1 = (r2, s2)" by fastforce
    have I2: "I s2"
      using env_keeps_sleep [OF assms(2)] env_keeps_random [OF assms(2) I1] z
      by (auto simp: retry_sleep_def split: prod.splits)
    have "I s'" if "retry_loop env cb oper mr bd md (Suc a) n l' (reg1, s2) = (r, reg', s')" for l'
      using keepsD [OF Suc.IH, of "(reg1, s2)"] that I2 by auto
    then show "I s'"
      using step c z I1 I2 by (auto split: sum.splits if_splits)
  qed
qed

lemma keeps_with_retry:
  "keeps I oper \<Longrightarrow> env_keeps I env \<Longrightarrow> keeps (\<lambda>(reg, s). I s) (with_retry env oper mr bd md cb)"
  unfolding with_retry_def by (rule keeps_retry_loop)

end
