(* ===== verification/Database.thy ===== *)
theory Database
  imports Domain
begin

text \<open>
  The database as the services and coordinators use it: the three tables of core/models, statements
  inside a transaction, commit and rollback (infra/postgresql.py hands out one connection or session
  per caller).  A statement or commit that fails is an input (\<open>db_faults\<close>, consumed one per
  statement); after a failed statement PostgreSQL refuses further ones until the transaction ends.
\<close>

section \<open>Tables and transactions\<close>

record tables =
  tb_users :: "user list"
  tb_sessions :: "session list"
  tb_workspaces :: "workspace list"

text \<open>A database of tables \<open>'t\<close>, as one connection sees it.\<close>

record 't database =
  db_tables :: 't
  db_committed :: 't
  db_aborted :: bool
  db_faults :: "exn option list"

type_synonym db = "tables database"

definition db_execute :: "('t \<Rightarrow> 'a \<times> 't) \<Rightarrow> ('t database, 'a) io" where
  "db_execute q d =
     (let rest = d\<lparr>db_faults := tl (db_faults d)\<rparr> in
      case db_faults d of
        Some e # _ \<Rightarrow> (Inl e, rest\<lparr>db_aborted := True\<rparr>)
      | _ \<Rightarrow> if db_aborted d then (Inl (OtherError ''InFailedSqlTransaction''), rest)
             else (case q (db_tables d) of (a, t) \<Rightarrow> (Inr a, rest\<lparr>db_tables := t\<rparr>)))"

text \<open>A commit that fails commits nothing; committing an aborted transaction rolls it back.\<close>

definition db_rolled_back :: "'t database \<Rightarrow> 't database" where
  "db_rolled_back d = d\<lparr>db_tables := db_committed d, db_aborted := False\<rparr>"

definition db_commit :: "('t database, unit) io" where
  "db_commit d =
     (let rest = d\<lparr>db_faults := tl (db_faults d)\<rparr> in
      case db_faults d of
        Some e # _ \<Rightarrow> (Inl e, db_rolled_back rest)
      | _ \<Rightarrow> (Inr (), if db_aborted d then db_rolled_back rest
                      else rest\<lparr>db_committed := db_tables d\<rparr>))"

definition db_rollback :: "('t database, unit) io" where
  "db_rollback d =
     (let rest = d\<lparr>db_faults := tl (db_faults d)\<rparr> in
      case db_faults d of
        Some e # _ \<Rightarrow> (Inl e, db_rolled_back rest)
      | _ \<Rightarrow> (Inr (), db_rolled_back rest))"

text \<open>A connection on which nothing fails.\<close>

definition db_ok :: "'t database \<Rightarrow> bool" where
  "db_ok d \<longleftrightarrow> db_faults d = [] \<and> \<not> db_aborted d"

definition db_of :: "'t \<Rightarrow> 't database" where
  "db_of t = \<lparr>db_tables = t, db_committed = t, db_aborted = False, db_faults = []\<rparr>"

lemma db_ok_db_of [simp]: "db_ok (db_of t)"
  by (simp add: db_ok_def db_of_def)

lemma db_execute_ok [io_simps]:
  "db_ok d \<Longrightarrow> db_execute q d = (Inr (fst (q (db_tables d))), d\<lparr>db_tables := snd (q (db_tables d))\<rparr>)"
  by (simp add: db_execute_def db_ok_def Let_def split: prod.split)

lemma db_commit_ok [io_simps]:
  "db_ok d \<Longrightarrow> db_commit d = (Inr (), d\<lparr>db_committed := db_tables d\<rparr>)"
  by (simp add: db_commit_def db_ok_def Let_def)

lemma db_ok_update [simp]:
  "db_ok (d\<lparr>db_tables := t\<rparr>) = db_ok d" "db_ok (d\<lparr>db_committed := t\<rparr>) = db_ok d"
  by (simp_all add: db_ok_def)

text \<open>\<open>db_inv P\<close>: both what is committed and what the open transaction sees satisfy \<open>P\<close>.\<close>

definition db_inv :: "('t \<Rightarrow> bool) \<Rightarrow> 't database \<Rightarrow> bool" where
  "db_inv P d \<longleftrightarrow> P (db_tables d) \<and> P (db_committed d)"

lemma db_inv_of [simp]: "db_inv P (db_of t) = P t"
  by (simp add: db_inv_def db_of_def)

lemma db_execute_cases:
  obtains e where "db_execute q d = (Inl e, d\<lparr>db_faults := tl (db_faults d), db_aborted := True\<rparr>)"
  | "db_execute q d = (Inr (fst (q (db_tables d))),
       d\<lparr>db_faults := tl (db_faults d), db_tables := snd (q (db_tables d))\<rparr>)" "\<not> db_aborted d"
  by (cases "db_faults d"; cases "db_aborted d"; cases "hd (db_faults d)")
     (auto simp: db_execute_def Let_def split: prod.split)

lemma db_execute_Inr:
  "db_execute q d = (Inr a, d') \<Longrightarrow> a = fst (q (db_tables d))
    \<and> db_tables d' = snd (q (db_tables d)) \<and> db_committed d' = db_committed d \<and> \<not> db_aborted d'"
  by (auto simp: db_execute_def Let_def split: list.splits option.splits if_splits prod.splits)

lemma db_execute_Inl: "db_execute q d = (Inl e, d') \<Longrightarrow> db_tables d' = db_tables d \<and> db_committed d' = db_committed d"
  by (auto simp: db_execute_def Let_def split: list.splits option.splits if_splits prod.splits)

lemma db_commit_Inr:
  "db_commit d = (Inr u, d') \<Longrightarrow> \<not> db_aborted d \<Longrightarrow> db_committed d' = db_tables d \<and> db_tables d' = db_tables d"
  by (auto simp: db_commit_def Let_def split: list.splits option.splits if_splits)

lemma db_commit_Inl: "db_commit d = (Inl e, d') \<Longrightarrow> db_committed d' = db_committed d"
  by (auto simp: db_commit_def db_rolled_back_def Let_def split: list.splits option.splits if_splits)

lemma keeps_db_execute: "(\<And>t. P t \<Longrightarrow> P (snd (q t))) \<Longrightarrow> keeps (db_inv P) (db_execute q)"
  by (rule keepsI)
     (auto simp: db_inv_def db_execute_def Let_def split: list.splits option.splits if_splits prod.splits;
      (metis snd_conv)+)

lemma keeps_db_commit [keeps_rules]: "keeps (db_inv P) db_commit"
  by (rule keepsI)
     (auto simp: db_inv_def db_commit_def db_rolled_back_def Let_def split: list.splits option.splits if_splits)

lemma keeps_db_rollback [keeps_rules]: "keeps (db_inv P) db_rollback"
  by (rule keepsI)
     (auto simp: db_inv_def db_rollback_def db_rolled_back_def Let_def split: list.splits option.splits)

section \<open>Statements on the tables\<close>

definition q_workspaces :: "(workspace \<Rightarrow> bool) \<Rightarrow> tables \<Rightarrow> workspace list \<times> tables" where
  "q_workspaces p t = (sql_select p (tb_workspaces t), t)"

definition q_workspace :: "(workspace \<Rightarrow> bool) \<Rightarrow> tables \<Rightarrow> workspace option \<times> tables" where
  "q_workspace p t = (sql_one_or_none p (tb_workspaces t), t)"

definition q_update_workspaces ::
  "(workspace \<Rightarrow> bool) \<Rightarrow> (workspace \<Rightarrow> workspace) \<Rightarrow> tables \<Rightarrow> string list \<times> tables" where
  "q_update_workspaces p f t =
     (map ws_id (sql_select p (tb_workspaces t)),
      t\<lparr>tb_workspaces := sql_update p f (tb_workspaces t)\<rparr>)"

definition q_insert_workspace :: "workspace \<Rightarrow> tables \<Rightarrow> unit \<times> tables" where
  "q_insert_workspace w t = ((), t\<lparr>tb_workspaces := tb_workspaces t @ [w]\<rparr>)"

lemma q_workspaces_simps [sql_simps]:
  "fst (q_workspaces p t) = sql_select p (tb_workspaces t)" "snd (q_workspaces p t) = t"
  by (simp_all add: q_workspaces_def)

lemma q_workspace_simps [sql_simps]:
  "fst (q_workspace p t) = sql_one_or_none p (tb_workspaces t)" "snd (q_workspace p t) = t"
  by (simp_all add: q_workspace_def)

lemma q_update_workspaces_simps [sql_simps]:
  "fst (q_update_workspaces p f t) = map ws_id (sql_select p (tb_workspaces t))"
  "snd (q_update_workspaces p f t) = t\<lparr>tb_workspaces := sql_update p f (tb_workspaces t)\<rparr>"
  by (simp_all add: q_update_workspaces_def)

lemma q_insert_workspace_simps [sql_simps]:
  "fst (q_insert_workspace w t) = ()"
  "snd (q_insert_workspace w t) = t\<lparr>tb_workspaces := tb_workspaces t @ [w]\<rparr>"
  by (simp_all add: q_insert_workspace_def)

text \<open>Keys are unique, as the primary keys demand.\<close>

definition keys_ok :: "tables \<Rightarrow> bool" where
  "keys_ok t \<longleftrightarrow> distinct (map ws_id (tb_workspaces t)) \<and> distinct (map user_id (tb_users t))
     \<and> distinct (map session_id (tb_sessions t))"

text \<open>Every row of the workspace table satisfies \<open>R\<close>.\<close>

definition all_workspaces :: "(workspace \<Rightarrow> bool) \<Rightarrow> tables \<Rightarrow> bool" where
  "all_workspaces R t \<longleftrightarrow> (\<forall>w \<in> set (tb_workspaces t). R w)"

lemma all_workspaces_update:
  "all_workspaces R t \<Longrightarrow> (\<And>w. w \<in> set (tb_workspaces t) \<Longrightarrow> R w \<Longrightarrow> p w \<Longrightarrow> R (f w))
   \<Longrightarrow> all_workspaces R (t\<lparr>tb_workspaces := sql_update p f (tb_workspaces t)\<rparr>)"
  by (auto simp: all_workspaces_def set_sql_update)

lemma sql_update_commute:
  assumes "\<And>r. p (g r) = p r" and "\<And>r. q (f r) = q r" and "\<And>r. f (g r) = g (f r)"
  shows "sql_update p f (sql_update q g rs) = sql_update q g (sql_update p f rs)"
  using assms by (simp add: sql_update_def)

end
