(* ===== verification/Sessions.thy ===== *)
theory Sessions
  imports Database
begin

text \<open>
  services/session_service.py, core/security.py and api/v1/auth.py: sessions, the login lockout, and
  the login, logout and session endpoints.  The password hash check is the argon2 library, a parameter
  (\<open>argon2\<close>); the clock and the fresh ULID of a session are arguments.
\<close>

section \<open>Passwords and lockout (core/security.py)\<close>

text \<open>The outcome of \<open>PasswordHasher.verify(hash, password)\<close>.\<close>

datatype argon2_outcome = Verified | VerifyMismatchError | HasherError exn

type_synonym argon2 = "string \<Rightarrow> string \<Rightarrow> argon2_outcome"

definition verify_password :: "argon2 \<Rightarrow> string \<Rightarrow> string \<Rightarrow> ('s, bool) io" where
  "verify_password hasher password password_hash =
     (case hasher password_hash password of
        Verified \<Rightarrow> io_return True
      | VerifyMismatchError \<Rightarrow> io_return False
      | HasherError e \<Rightarrow> io_raise e)"

definition calculate_lockout_duration :: "security_config \<Rightarrow> int \<Rightarrow> int" where
  "calculate_lockout_duration cfg failed_attempts =
     (if failed_attempts < lockout_threshold cfg then 0
      else min (lockout_base cfg * 2 ^ nat (failed_attempts - lockout_threshold cfg)) (lockout_max cfg))"

section \<open>Statements on users and sessions\<close>

definition q_user :: "(user \<Rightarrow> bool) \<Rightarrow> tables \<Rightarrow> user option \<times> tables" where
  "q_user p t = (sql_one_or_none p (tb_users t), t)"

definition q_update_user :: "string \<Rightarrow> (user \<Rightarrow> user) \<Rightarrow> tables \<Rightarrow> unit \<times> tables" where
  "q_update_user uid f t = ((), t\<lparr>tb_users := sql_update (\<lambda>u. user_id u = uid) f (tb_users t)\<rparr>)"

definition q_session :: "string \<Rightarrow> tables \<Rightarrow> session option \<times> tables" where
  "q_session sid t = (sql_one_or_none (\<lambda>x. session_id x = sid) (tb_sessions t), t)"

definition q_delete_sessions :: "string \<Rightarrow> tables \<Rightarrow> unit \<times> tables" where
  "q_delete_sessions uid t =
     ((), t\<lparr>tb_sessions := filter (\<lambda>x. session_user_id x \<noteq> uid) (tb_sessions t)\<rparr>)"

definition q_insert_session :: "session \<Rightarrow> tables \<Rightarrow> unit \<times> tables" where
  "q_insert_session x t = ((), t\<lparr>tb_sessions := tb_sessions t @ [x]\<rparr>)"

definition q_revoke_session :: "string \<Rightarrow> datetime \<Rightarrow> tables \<Rightarrow> unit \<times> tables" where
  "q_revoke_session sid now t =
     ((), t\<lparr>tb_sessions :=
        sql_update (\<lambda>x. session_id x = sid) (\<lambda>x. x\<lparr>session_revoked_at := Some now\<rparr>) (tb_sessions t)\<rparr>)"

definition q_session_user :: "string \<Rightarrow> tables \<Rightarrow> (session \<times> user) option \<times> tables" where
  "q_session_user sid t =
     (case concat (map (\<lambda>x. map (Pair x) (filter (\<lambda>u. user_id u = session_user_id x) (tb_users t)))
             (filter (\<lambda>x. session_id x = sid) (tb_sessions t))) of
        [] \<Rightarrow> None | r # _ \<Rightarrow> Some r, t)"

lemmas q_session_defs = q_user_def q_update_user_def q_session_def q_delete_sessions_def
  q_insert_session_def q_revoke_session_def q_session_user_def

section \<open>Session service (services/session_service.py)\<close>

definition session_is_valid :: "datetime \<Rightarrow> session \<Rightarrow> bool" where
  "session_is_valid now x \<longleftrightarrow>
     (if session_revoked_at x \<noteq> None then False else session_expires_at x > now)"

definition session_create ::
  "security_config \<Rightarrow> string \<Rightarrow> datetime \<Rightarrow> string \<Rightarrow> int option \<Rightarrow> (db, session) io" where
  "session_create cfg ulid now uid ttl_seconds =
     io_seq (db_execute (q_delete_sessions uid))
       (let ttl = (case ttl_seconds of None \<Rightarrow> session_ttl cfg | Some n \<Rightarrow> n);
            x = \<lparr>session_id = ulid, session_user_id = uid, session_created_at = now,
                 session_expires_at = now + timedelta_seconds ttl, session_revoked_at = None\<rparr>
        in io_seq (db_execute (q_insert_session x)) (io_seq db_commit (io_return x)))"

definition get_valid :: "datetime \<Rightarrow> string \<Rightarrow> (db, session option) io" where
  "get_valid now sid =
     io_bind (db_execute (q_session sid)) (\<lambda>r.
       case r of
         None \<Rightarrow> io_return None
       | Some x \<Rightarrow> if \<not> session_is_valid now x then io_return None else io_return (Some x))"

definition get_valid_with_user :: "datetime \<Rightarrow> string \<Rightarrow> (db, (session \<times> user) option) io" where
  "get_valid_with_user now sid =
     io_bind (db_execute (q_session_user sid)) (\<lambda>r.
       case r of
         None \<Rightarrow> io_return None
       | Some (x, u) \<Rightarrow> if \<not> session_is_valid now x then io_return None else io_return (Some (x, u)))"

definition revoke :: "datetime \<Rightarrow> string \<Rightarrow> (db, bool) io" where
  "revoke now sid =
     io_bind (db_execute (q_session sid)) (\<lambda>r.
       case r of
         None \<Rightarrow> io_return False
       | Some x \<Rightarrow>
           io_seq (db_execute (q_revoke_session sid now)) (io_seq db_commit (io_return True)))"

section \<open>Endpoints (api/v1/auth.py)\<close>

definition invalid_credentials :: exn where
  "invalid_credentials = UnauthorizedError ''Invalid username or password''"

definition locked_out :: "int \<Rightarrow> exn" where
  "locked_out retry_after =
     TooManyRequestsError retry_after
       (''Too many failed attempts. Try again in '' @ str_int retry_after @ '' seconds.'')"

text \<open>The remaining lock in whole seconds when the user is locked at \<open>now\<close>.\<close>

definition lock_remaining :: "datetime \<Rightarrow> user \<Rightarrow> int option" where
  "lock_remaining now u =
     (case user_locked_until u of
        None \<Rightarrow> None
      | Some l \<Rightarrow> if l > now then Some ((l - now) div 1000000) else None)"

text \<open>The columns the unit of work writes for a failed login: the values come from the row \<open>u\<close> that was
  loaded.\<close>

definition record_failure :: "security_config \<Rightarrow> datetime \<Rightarrow> user \<Rightarrow> user \<Rightarrow> user" where
  "record_failure cfg now u x =
     (let n = user_failed_login_attempts u + 1;
          x1 = x\<lparr>user_failed_login_attempts := n, user_last_failed_at := Some now\<rparr>;
          secs = calculate_lockout_duration cfg n
      in if secs > 0 then x1\<lparr>user_locked_until := Some (now + timedelta_seconds secs)\<rparr> else x1)"

definition record_login :: "user \<Rightarrow> user" where
  "record_login u =
     u\<lparr>user_failed_login_attempts := 0, user_locked_until := None, user_last_failed_at := None\<rparr>"

record login_result =
  lr_user_id :: string
  lr_username :: string
  lr_cookie :: string

definition login ::
  "security_config \<Rightarrow> argon2 \<Rightarrow> string \<Rightarrow> datetime \<Rightarrow> string \<Rightarrow> string \<Rightarrow> (db, login_result) io" where
  "login cfg hasher ulid now username password =
     io_bind (db_execute (q_user (\<lambda>u. user_username u = username))) (\<lambda>r.
       case r of
         None \<Rightarrow> io_raise invalid_credentials
       | Some u \<Rightarrow>
           (case lock_remaining now u of
              Some retry_after \<Rightarrow> io_raise (locked_out retry_after)
            | None \<Rightarrow>
                io_bind (verify_password hasher password (user_password_hash u)) (\<lambda>ok.
                  if \<not> ok then
                    io_seq (db_execute (q_update_user (user_id u) (record_failure cfg now u)))
                      (io_seq db_commit (io_raise invalid_credentials))
                  else
                    io_seq (db_execute (q_update_user (user_id u) record_login))
                      (io_seq db_commit
                        (io_bind (session_create cfg ulid now (user_id u) None) (\<lambda>x.
                           io_return \<lparr>lr_user_id = user_id u, lr_username = user_username u,
                                      lr_cookie = session_id x\<rparr>))))))"

definition logout :: "datetime \<Rightarrow> string option \<Rightarrow> (db, unit) io" where
  "logout now cookie =
     (if py_truthy cookie then io_bind (revoke now (the cookie)) (\<lambda>_. io_return ())
      else io_return ())"

definition get_session_info :: "datetime \<Rightarrow> string option \<Rightarrow> (db, string \<times> string) io" where
  "get_session_info now cookie =
     (case cookie of
        None \<Rightarrow> io_raise (UnauthorizedError auth_required)
      | Some sid \<Rightarrow>
          io_bind (get_valid_with_user now sid) (\<lambda>r.
            case r of
              None \<Rightarrow> io_raise (UnauthorizedError auth_required)
            | Some (_, u) \<Rightarrow> io_return (user_id u, user_username u)))"

section \<open>Branches of the login\<close>

definition find_user :: "string \<Rightarrow> tables \<Rightarrow> user option" where
  "find_user username t = sql_one_or_none (\<lambda>u. user_username u = username) (tb_users t)"

lemma record_failure_keeps [simp]:
  "user_id (record_failure cfg now u x) = user_id x"
  "user_username (record_failure cfg now u x) = user_username x"
  "user_password_hash (record_failure cfg now u x) = user_password_hash x"
  by (simp_all add: record_failure_def Let_def)

lemma record_login_keeps [simp]:
  "user_id (record_login x) = user_id x" "user_username (record_login x) = user_username x"
  by (simp_all add: record_login_def)

lemma login_locked:
  assumes "db_ok d" and "find_user username (db_tables d) = Some u" and "lock_remaining now u = Some n"
  shows "login cfg hasher ulid now username password d = (Inl (locked_out n), d)"
  using assms
  by (simp add: login_def io_simps q_user_def find_user_def io_bind_def io_raise_def)

lemma login_wrong:
  fixes cfg :: security_config and ulid :: string and now :: datetime
  assumes "db_ok d" and "find_user username (db_tables d) = Some u" and "lock_remaining now u = None"
    and "hasher (user_password_hash u) password = VerifyMismatchError"
  defines "t \<equiv> snd (q_update_user (user_id u) (record_failure cfg now u) (db_tables d))"
  shows "login cfg hasher ulid now username password d
     = (Inl invalid_credentials, d\<lparr>db_tables := t, db_committed := t\<rparr>)"
  using assms
  by (simp add: login_def io_simps io_bind_def io_seq_def q_user_def find_user_def verify_password_def)

lemma login_right:
  fixes cfg :: security_config and ulid :: string and now :: datetime
  assumes "db_ok d" and "find_user username (db_tables d) = Some u" and "lock_remaining now u = None"
    and "hasher (user_password_hash u) password = Verified"
  defines "x \<equiv> \<lparr>session_id = ulid, session_user_id = user_id u, session_created_at = now,
      session_expires_at = now + timedelta_seconds (session_ttl cfg), session_revoked_at = None\<rparr>"
  defines "t \<equiv> (db_tables d)\<lparr>
      tb_users := sql_update (\<lambda>v. user_id v = user_id u) record_login (tb_users (db_tables d)),
      tb_sessions := filter (\<lambda>y. session_user_id y \<noteq> user_id u) (tb_sessions (db_tables d)) @ [x]\<rparr>"
  shows "login cfg hasher ulid now username password d
     = (Inr \<lparr>lr_user_id = user_id u, lr_username = user_username u, lr_cookie = ulid\<rparr>,
        d\<lparr>db_tables := t, db_committed := t\<rparr>)"
  using assms
  by (simp add: login_def session_create_def io_simps io_bind_def io_seq_def q_session_defs
      find_user_def verify_password_def Let_def)

lemma find_user_after_failure:
  "find_user username (snd (q_update_user uid (record_failure cfg now u) t))
     = map_option (\<lambda>v. if user_id v = uid then record_failure cfg now u v else v) (find_user username t)"
  by (simp add: find_user_def q_update_user_def sql_one_or_none_update)

section \<open>Lockout\<close>

lemma lockout_duration_default:
  "calculate_lockout_duration default_security n =
     (if n < 5 then 0 else min (30 * 2 ^ nat (n - 5)) 1800)"
  by (simp add: calculate_lockout_duration_def default_security_def)

lemma lockout_zero_iff: "0 < lockout_base cfg \<Longrightarrow> 0 < lockout_max cfg \<Longrightarrow>
    calculate_lockout_duration cfg n = 0 \<longleftrightarrow> n < lockout_threshold cfg"
  by (auto simp: calculate_lockout_duration_def min_def)

text \<open>C11: the lockout is zero below the threshold, positive from there on, doubles with each failure
  until it reaches the maximum, never exceeds it, and never shrinks as failures accumulate.\<close>
theorem lockout_duration_backoff:
  assumes base: "0 < lockout_base cfg" and mx: "0 < lockout_max cfg"
  shows "(calculate_lockout_duration cfg n = 0 \<longleftrightarrow> n < lockout_threshold cfg)
    \<and> calculate_lockout_duration cfg n \<le> lockout_max cfg
    \<and> calculate_lockout_duration cfg n \<le> calculate_lockout_duration cfg (n + 1)
    \<and> (lockout_threshold cfg \<le> n \<and> calculate_lockout_duration cfg (n + 1) < lockout_max cfg \<longrightarrow>
        calculate_lockout_duration cfg (n + 1) = 2 * calculate_lockout_duration cfg n)"
proof (cases "n < lockout_threshold cfg")
  case True
  then show ?thesis
    using base mx by (auto simp: calculate_lockout_duration_def min_def)
next
  case False
  then obtain k where k: "nat (n - lockout_threshold cfg) = k" "nat (n + 1 - lockout_threshold cfg) = Suc k"
    by (metis Suc_nat_eq_nat_zadd1 add.commute add_diff_eq diff_ge_0_iff_ge not_less)
  have "0 < lockout_base cfg * 2 ^ k" using base by simp
  then show ?thesis
    using False base mx k by (auto simp: calculate_lockout_duration_def min_def)
qed

theorem lockout_duration_backoff_witness:
  "calculate_lockout_duration default_security 4 = 0
   \<and> calculate_lockout_duration default_security 8 = 240
   \<and> calculate_lockout_duration default_security 9 = 480
   \<and> calculate_lockout_duration default_security 10 = 960
   \<and> calculate_lockout_duration default_security 11 \<le> calculate_lockout_duration default_security 12"
  using lockout_duration_backoff [of default_security 11]
  by (simp add: default_security_def calculate_lockout_duration_def)


definition sample_user :: user where
  "sample_user = \<lparr>user_id = ''u1'', user_username = ''ann'', user_password_hash = ''h'',
     user_failed_login_attempts = 4, user_locked_until = None, user_last_failed_at = None\<rparr>"

definition sample_auth_db :: db where
  "sample_auth_db = db_of \<lparr>tb_users = [sample_user], tb_sessions = [], tb_workspaces = []\<rparr>"


text \<open>C13: a successful login leaves the user with exactly one session, the fresh one named by the
  cookie; it is valid until the session TTL is over and not a moment longer, and the sessions of all
  other users are as before.  The failure counter and the lock are cleared.\<close>
theorem login_single_session:
  fixes cfg :: security_config and ulid :: string
  assumes ok: "db_ok d" and user: "find_user username (db_tables d) = Some u"
    and unlocked: "lock_remaining now u = None"
    and right: "hasher (user_password_hash u) password = Verified"
  defines "x \<equiv> \<lparr>session_id = ulid, session_user_id = user_id u, session_created_at = now,
      session_expires_at = now + timedelta_seconds (session_ttl cfg), session_revoked_at = None\<rparr>"
  defines "t \<equiv> db_committed (snd (login cfg hasher ulid now username password d))"
  shows "fst (login cfg hasher ulid now username password d)
       = Inr \<lparr>lr_user_id = user_id u, lr_username = user_username u, lr_cookie = ulid\<rparr>
     \<and> filter (\<lambda>y. session_user_id y = user_id u) (tb_sessions t) = [x]
     \<and> (\<forall>later. session_is_valid later x \<longleftrightarrow> later < now + timedelta_seconds (session_ttl cfg))
     \<and> filter (\<lambda>y. session_user_id y \<noteq> user_id u) (tb_sessions t)
         = filter (\<lambda>y. session_user_id y \<noteq> user_id u) (tb_sessions (db_tables d))
     \<and> find_user username t = Some (record_login u)"
  using login_right [where cfg = cfg and ulid = ulid and now = now and hasher = hasher and password = password,
      OF ok user unlocked right] user
  unfolding t_def x_def
  by (simp add: session_is_valid_def find_user_def sql_one_or_none_update filter_empty_conv)

theorem login_single_session_witness:
  "fst (login default_security (\<lambda>_ _. Verified) ''s'' 0 ''ann'' ''good'' sample_auth_db)
     = Inr \<lparr>lr_user_id = ''u1'', lr_username = ''ann'', lr_cookie = ''s''\<rparr>"
  using login_single_session [of sample_auth_db "''ann''" sample_user 0 "\<lambda>_ _. Verified" "''good''"
      default_security "''s''"]
  by (simp add: sample_auth_db_def db_of_def db_ok_def find_user_def sql_one_or_none_def sample_user_def
      lock_remaining_def)

lemma revoked_rows:
  assumes "x \<in> set (sql_update (\<lambda>x. session_id x = sid) (\<lambda>x. x\<lparr>session_revoked_at := Some now\<rparr>) rs)"
    and "session_id x = sid"
  shows "\<not> session_is_valid later x"
proof -
  from assms(1) obtain y where "x = (if session_id y = sid then y\<lparr>session_revoked_at := Some now\<rparr> else y)"
    unfolding set_sql_update by (rule imageE)
  with assms(2) have "session_revoked_at x = Some now" by (cases "session_id y = sid") auto
  then show ?thesis by (simp add: session_is_valid_def)
qed

lemma q_session_user_SomeD:
  "fst (q_session_user sid t) = Some (x, u) \<Longrightarrow> x \<in> set (tb_sessions t) \<and> session_id x = sid"
proof -
  assume a: "fst (q_session_user sid t) = Some (x, u)"
  let ?l = "concat (map (\<lambda>x. map (Pair x) (filter (\<lambda>u. user_id u = session_user_id x) (tb_users t)))
             (filter (\<lambda>x. session_id x = sid) (tb_sessions t)))"
  from a have "(x, u) \<in> set ?l"
    by (cases ?l) (auto simp: q_session_user_def)
  then show ?thesis by auto
qed

lemma logout_effect:
  assumes "db_ok d" and "sid \<noteq> []"
  shows "db_ok (snd (logout now (Some sid) d))
    \<and> tb_sessions (db_tables (snd (logout now (Some sid) d)))
      = sql_update (\<lambda>x. session_id x = sid) (\<lambda>x. x\<lparr>session_revoked_at := Some now\<rparr>)
          (tb_sessions (db_tables d))"
proof (cases "sql_one_or_none (\<lambda>x. session_id x = sid) (tb_sessions (db_tables d))")
  case None
  then have "sql_update (\<lambda>x. session_id x = sid) (\<lambda>x. x\<lparr>session_revoked_at := Some now\<rparr>)
      (tb_sessions (db_tables d)) = tb_sessions (db_tables d)"
    by (intro sql_update_id) (auto simp: sql_one_or_none_None)
  with None assms show ?thesis
    by (simp add: logout_def revoke_def py_truthy_def io_simps q_session_def io_bind_def io_return_def)
next
  case (Some x)
  with assms show ?thesis
    by (simp add: logout_def revoke_def py_truthy_def io_simps q_session_defs io_bind_def io_return_def
        io_seq_def)
qed



end
