(* ===== verification/ProxyAuth.thy ===== *)
theory ProxyAuth
  imports Sessions
begin

text \<open>
  app/proxy/auth.py and infra/cache.py: the cookie and ownership checks in front of every endpoint,
  memoised for a few seconds.  The two caches are cachetools' \<open>TTLCache\<close>, a parameter: a record of
  their operations on an unknown state \<open>'c\<close>, with the documented law that a lookup only finds what was
  put less than the time to live ago.  A request runs on the caches and a database session.
\<close>

section \<open>Caches\<close>

record 'c caches =
  session_cache_get :: "seconds \<Rightarrow> string option \<Rightarrow> 'c \<Rightarrow> string option"
  session_cache_put :: "seconds \<Rightarrow> string option \<Rightarrow> string \<Rightarrow> 'c \<Rightarrow> 'c"
  workspace_cache_get :: "seconds \<Rightarrow> string \<times> string \<Rightarrow> 'c \<Rightarrow> workspace option"
  workspace_cache_put :: "seconds \<Rightarrow> string \<times> string \<Rightarrow> workspace \<Rightarrow> 'c \<Rightarrow> 'c"

type_synonym 'c web = "'c \<times> db"

definition on_db :: "(db, 'a) io \<Rightarrow> ('c web, 'a) io" where
  "on_db m = io_zoom snd (\<lambda>d (c, _). (c, d)) m"

text \<open>The decorator \<open>@cached\<close>: a hit is returned, a miss runs the function and stores what it returns;
  an exception is not stored.\<close>

definition cached ::
  "('k \<Rightarrow> 'c \<Rightarrow> 'v option) \<Rightarrow> ('k \<Rightarrow> 'v \<Rightarrow> 'c \<Rightarrow> 'c) \<Rightarrow> 'k \<Rightarrow> (db, 'v) io \<Rightarrow> ('c web, 'v) io" where
  "cached get put k m = (\<lambda>(c, d).
     case get k c of
       Some v \<Rightarrow> (Inr v, (c, d))
     | None \<Rightarrow> (case m d of
           (Inr v, d') \<Rightarrow> (Inr v, (put k v c, d'))
         | (Inl e, d') \<Rightarrow> (Inl e, (c, d'))))"

section \<open>Authentication and ownership\<close>

definition lookup_user_id :: "datetime \<Rightarrow> string option \<Rightarrow> (db, string) io" where
  "lookup_user_id now session_cookie =
     (case session_cookie of
        None \<Rightarrow> io_raise (UnauthorizedError auth_required)
      | Some sid \<Rightarrow>
          io_bind (get_valid now sid) (\<lambda>r.
            case r of
              None \<Rightarrow> io_raise (UnauthorizedError auth_required)
            | Some x \<Rightarrow> io_return (session_user_id x)))"

definition get_user_id_from_session ::
  "'c caches \<Rightarrow> seconds \<Rightarrow> datetime \<Rightarrow> string option \<Rightarrow> ('c web, string) io" where
  "get_user_id_from_session cs clk now session_cookie =
     cached (session_cache_get cs clk) (session_cache_put cs clk) session_cookie
       (lookup_user_id now session_cookie)"

definition no_access :: string where
  "no_access = ''You don'' @ [CHR 0x27] @ ''t have access to this workspace''"

definition lookup_workspace :: "string \<Rightarrow> string \<Rightarrow> (db, workspace) io" where
  "lookup_workspace workspace_id uid =
     io_bind (db_execute (q_workspace (\<lambda>w. ws_id w = workspace_id \<and> ws_live w))) (\<lambda>r.
       case r of
         None \<Rightarrow> io_raise WorkspaceNotFoundError
       | Some w \<Rightarrow> if ws_owner_user_id w \<noteq> uid then io_raise (ForbiddenError no_access) else io_return w)"

definition get_workspace_for_user ::
  "'c caches \<Rightarrow> seconds \<Rightarrow> string \<Rightarrow> string \<Rightarrow> ('c web, workspace) io" where
  "get_workspace_for_user cs clk workspace_id uid =
     cached (workspace_cache_get cs clk) (workspace_cache_put cs clk) (workspace_id, uid)
       (lookup_workspace workspace_id uid)"

section \<open>Clearing the caches (infra/cache.py)\<close>

text \<open>No endpoint calls these; a test does.\<close>

record 'c cache_api = "'c caches" +
  session_cache_clear :: "'c \<Rightarrow> 'c"
  session_cache_pop :: "string \<Rightarrow> 'c \<Rightarrow> 'c"
  workspace_cache_clear :: "'c \<Rightarrow> 'c"
  workspace_cache_pop :: "string \<times> string \<Rightarrow> 'c \<Rightarrow> 'c"
  workspace_cache_keys :: "'c \<Rightarrow> (string \<times> string) list"

definition clear_session_cache :: "'c cache_api \<Rightarrow> string option \<Rightarrow> 'c \<Rightarrow> 'c" where
  "clear_session_cache cs sid =
     (case sid of None \<Rightarrow> session_cache_clear cs | Some i \<Rightarrow> session_cache_pop cs i)"

definition clear_workspace_cache :: "'c cache_api \<Rightarrow> string option \<Rightarrow> string option \<Rightarrow> 'c \<Rightarrow> 'c" where
  "clear_workspace_cache cs wid uid c =
     (case wid of
        None \<Rightarrow> workspace_cache_clear cs c
      | Some i \<Rightarrow>
          (case uid of
             Some u \<Rightarrow> workspace_cache_pop cs (i, u) c
           | None \<Rightarrow> fold (workspace_cache_pop cs) (filter (\<lambda>k. fst k = i) (workspace_cache_keys cs c)) c))"

definition clear_all_caches :: "'c cache_api \<Rightarrow> 'c \<Rightarrow> 'c" where
  "clear_all_caches cs c = workspace_cache_clear cs (session_cache_clear cs c)"

section \<open>What the workspace cache holds\<close>

text \<open>The documented law of the caches: a lookup finds nothing but what was put under the same key.\<close>

definition cache_law :: "(seconds \<Rightarrow> 'k \<Rightarrow> 'c \<Rightarrow> 'v option) \<Rightarrow> (seconds \<Rightarrow> 'k \<Rightarrow> 'v \<Rightarrow> 'c \<Rightarrow> 'c) \<Rightarrow> bool" where
  "cache_law get put \<longleftrightarrow>
     (\<forall>clk k clk' k' v c x. get clk k (put clk' k' v c) = Some x \<longrightarrow>
        k = k' \<and> x = v \<or> (\<exists>clk''. get clk'' k c = Some x))"

definition holds :: "(seconds \<Rightarrow> 'k \<Rightarrow> 'c \<Rightarrow> 'v option) \<Rightarrow> ('k \<Rightarrow> 'v \<Rightarrow> bool) \<Rightarrow> 'c \<Rightarrow> bool" where
  "holds get P c \<longleftrightarrow> (\<forall>clk k v. get clk k c = Some v \<longrightarrow> P k v)"

lemma holds_put: "cache_law get put \<Longrightarrow> holds get P c \<Longrightarrow> P k v \<Longrightarrow> holds get P (put clk k v c)"
  unfolding holds_def cache_law_def by metis

text \<open>A memoised function gives only values that satisfy \<open>P\<close>, when the function and the cache do.\<close>

lemma cached_gives:
  assumes law: "cache_law get put" and m: "\<And>d v d'. m d = (Inr v, d') \<Longrightarrow> P k v" and c: "holds get P c"
    and run: "cached (get clk) (put clk) k m (c, d) = (r, (c', d'))"
  shows "holds get P c' \<and> (case r of Inr v \<Rightarrow> P k v | Inl _ \<Rightarrow> True)"
proof (cases "get clk k c")
  case None
  then show ?thesis
    using run c m holds_put [OF law c] by (auto simp: cached_def split: prod.splits sum.splits)
next
  case (Some v)
  then show ?thesis using c run by (auto simp: cached_def holds_def)
qed

text \<open>Every entry of the workspace cache is a workspace under its own id and owner.\<close>

definition owned_entry :: "string \<times> string \<Rightarrow> workspace \<Rightarrow> bool" where
  "owned_entry k w \<longleftrightarrow> ws_id w = fst k \<and> ws_owner_user_id w = snd k \<and> ws_live w"

lemma lookup_workspace_owned:
  "lookup_workspace wid uid d = (Inr w, d') \<Longrightarrow> owned_entry (wid, uid) w"
  by (auto simp: lookup_workspace_def owned_entry_def q_workspace_def db_execute_def io_bind_def io_return_def io_raise_def
      Let_def split: option.splits if_splits list.splits dest!: sql_one_or_none_Some)

end
