(* ===== verification/Workspaces.thy ===== *)
theory Workspaces
  imports ProxyAuth
begin

text \<open>
  services/workspace_service.py and api/v1/workspaces.py: creating, reading, changing and deleting
  workspaces, and the single entry point of every start request with its limit on running workspaces.
  The clock and the fresh workspace id are arguments.  Changing attributes of a loaded row and
  committing sends an UPDATE of exactly those columns to the row with that primary key.
\<close>

section \<open>Service\<close>

text \<open>An INSERT of a taken primary key fails.\<close>

definition db_insert_workspace :: "workspace \<Rightarrow> (db, unit) io" where
  "db_insert_workspace w d =
     (if \<exists>x \<in> set (tb_workspaces (db_tables d)). ws_id x = ws_id w
      then (Inl (OtherError ''IntegrityError''), d\<lparr>db_aborted := True\<rparr>)
      else db_execute (q_insert_workspace w) d)"

definition flush_workspace :: "string \<Rightarrow> (workspace \<Rightarrow> workspace) \<Rightarrow> (db, unit) io" where
  "flush_workspace wid f =
     io_bind (db_execute (q_update_workspaces (\<lambda>w. ws_id w = wid) f)) (\<lambda>_. io_return ())"

definition refresh_workspace :: "string \<Rightarrow> (db, workspace) io" where
  "refresh_workspace wid =
     io_bind (db_execute (q_workspace (\<lambda>w. ws_id w = wid))) (\<lambda>r.
       case r of None \<Rightarrow> io_raise (OtherError ''InvalidRequestError'') | Some w \<Rightarrow> io_return w)"

definition new_workspace ::
  "runtime_config \<Rightarrow> string \<Rightarrow> datetime \<Rightarrow> string \<Rightarrow> string \<Rightarrow> string option \<Rightarrow> string option \<Rightarrow> workspace" where
  "new_workspace rt wid now uid name description image_ref =
     \<lparr>ws_id = wid, ws_owner_user_id = uid, ws_name = name, ws_description = description, ws_memo = None,
      ws_image_ref = (if py_truthy image_ref then the image_ref else default_image rt),
      ws_instance_backend = ''local-docker'', ws_storage_backend = ''minio'',
      ws_home_store_key = resource_prefix rt @ wid @ ''-home'', ws_home_ctx = None,
      ws_conditions = no_conditions, ws_phase = phase.PENDING, ws_operation = operation.NONE,
      ws_op_started_at = None, ws_op_id = None, ws_desired_state = desired_state.RUNNING,
      ws_archive_key = None, ws_observed_at = None, ws_last_access_at = Some now,
      ws_phase_changed_at = None, ws_error_reason = None, ws_error_count = 0,
      ws_created_at = now, ws_updated_at = now, ws_deleted_at = None\<rparr>"

definition create_workspace ::
  "runtime_config \<Rightarrow> string \<Rightarrow> datetime \<Rightarrow> string \<Rightarrow> string \<Rightarrow> string option \<Rightarrow> string option
   \<Rightarrow> (db, workspace) io" where
  "create_workspace rt wid now uid name description image_ref =
     io_seq (db_insert_workspace (new_workspace rt wid now uid name description image_ref))
       (io_seq db_commit (refresh_workspace wid))"

definition get_workspace :: "string \<Rightarrow> string option \<Rightarrow> (db, workspace) io" where
  "get_workspace wid uid =
     io_bind (db_execute (q_workspace (\<lambda>w. ws_id w = wid \<and> ws_live w))) (\<lambda>r.
       case r of
         None \<Rightarrow> io_raise WorkspaceNotFoundError
       | Some w \<Rightarrow> if uid \<noteq> None \<and> Some (ws_owner_user_id w) \<noteq> uid
                   then io_raise (ForbiddenError permission_denied) else io_return w)"

definition q_list_workspaces :: "string \<Rightarrow> nat \<Rightarrow> nat \<Rightarrow> tables \<Rightarrow> workspace list \<times> tables" where
  "q_list_workspaces uid limit offset t =
     (take limit (drop offset (sort_key (\<lambda>w. - ws_created_at w)
        (sql_select (\<lambda>w. ws_owner_user_id w = uid \<and> ws_live w) (tb_workspaces t)))), t)"

definition list_workspaces :: "string \<Rightarrow> nat \<Rightarrow> nat \<Rightarrow> (db, workspace list) io" where
  "list_workspaces uid limit offset = db_execute (q_list_workspaces uid limit offset)"

text \<open>\<open>if x is not None: row.column = x\<close>\<close>

definition set_if :: "'v option \<Rightarrow> ('v \<Rightarrow> workspace \<Rightarrow> workspace) \<Rightarrow> workspace \<Rightarrow> workspace" where
  "set_if x f w = (case x of None \<Rightarrow> w | Some v \<Rightarrow> f v w)"

definition update_columns ::
  "datetime \<Rightarrow> string option \<Rightarrow> string option \<Rightarrow> string option \<Rightarrow> desired_state option
   \<Rightarrow> workspace \<Rightarrow> workspace" where
  "update_columns now name description memo desired w =
     (set_if desired (\<lambda>v x. x\<lparr>ws_desired_state := v\<rparr>)
       (set_if memo (\<lambda>v x. x\<lparr>ws_memo := Some v\<rparr>)
         (set_if description (\<lambda>v x. x\<lparr>ws_description := Some v\<rparr>)
           (set_if name (\<lambda>v x. x\<lparr>ws_name := v\<rparr>) w))))\<lparr>ws_updated_at := now\<rparr>"

definition update_workspace ::
  "datetime \<Rightarrow> string \<Rightarrow> string \<Rightarrow> string option \<Rightarrow> string option \<Rightarrow> string option
   \<Rightarrow> desired_state option \<Rightarrow> (db, workspace) io" where
  "update_workspace now wid uid name description memo desired =
     io_bind (get_workspace wid (Some uid)) (\<lambda>w.
       io_seq (flush_workspace wid (update_columns now name description memo desired))
         (io_seq db_commit (refresh_workspace wid)))"

definition delete_columns :: "datetime \<Rightarrow> workspace \<Rightarrow> workspace" where
  "delete_columns now w =
     w\<lparr>ws_deleted_at := Some now, ws_desired_state := desired_state.DELETED, ws_updated_at := now\<rparr>"

definition delete_workspace :: "datetime \<Rightarrow> string \<Rightarrow> string \<Rightarrow> (db, unit) io" where
  "delete_workspace now wid uid =
     io_bind (get_workspace wid (Some uid)) (\<lambda>w.
       io_seq (flush_workspace wid (delete_columns now)) db_commit)"

definition running_of :: "string \<Rightarrow> workspace \<Rightarrow> bool" where
  "running_of uid w \<longleftrightarrow> ws_owner_user_id w = uid \<and> ws_live w
     \<and> (ws_phase w = phase.RUNNING \<or> ws_desired_state w = desired_state.RUNNING)"

definition count_running_workspaces :: "string \<Rightarrow> (db, nat) io" where
  "count_running_workspaces uid =
     db_execute (\<lambda>t. (sql_count (running_of uid) (tb_workspaces t), t))"

definition list_running_workspaces :: "string \<Rightarrow> (db, workspace list) io" where
  "list_running_workspaces uid =
     db_execute (\<lambda>t. (sort_key (\<lambda>w. - ws_created_at w)
        (sql_select (\<lambda>w. ws_owner_user_id w = uid \<and> ws_phase w = phase.RUNNING \<and> ws_live w)
           (tb_workspaces t)), t))"

definition set_desired_state :: "datetime \<Rightarrow> string \<Rightarrow> desired_state \<Rightarrow> (db, unit) io" where
  "set_desired_state now wid desired =
     io_bind (db_execute (q_workspace (\<lambda>w. ws_id w = wid \<and> ws_live w))) (\<lambda>r.
       case r of
         None \<Rightarrow> io_raise WorkspaceNotFoundError
       | Some w \<Rightarrow>
           io_seq (flush_workspace wid (\<lambda>x. x\<lparr>ws_desired_state := desired, ws_updated_at := now\<rparr>))
             db_commit)"

definition can_start_workspace :: "limits_config \<Rightarrow> string \<Rightarrow> (db, bool) io" where
  "can_start_workspace lims uid =
     io_bind (count_running_workspaces uid) (\<lambda>n. io_return (int n < max_running_per_user lims))"

definition start_columns :: "datetime \<Rightarrow> workspace \<Rightarrow> workspace" where
  "start_columns now w = w\<lparr>ws_desired_state := desired_state.RUNNING, ws_updated_at := now\<rparr>"

definition request_start :: "limits_config \<Rightarrow> datetime \<Rightarrow> string \<Rightarrow> string \<Rightarrow> (db, workspace) io" where
  "request_start lims now wid uid =
     io_bind (get_workspace wid (Some uid)) (\<lambda>w.
       if ws_desired_state w = desired_state.RUNNING then io_return w
       else io_bind (can_start_workspace lims uid) (\<lambda>ok.
         if \<not> ok then io_raise RunningLimitExceededError
         else io_seq (flush_workspace wid (start_columns now))
                (io_seq db_commit (refresh_workspace wid))))"

section \<open>Endpoints\<close>

text \<open>The body of a request after validation, the configuration, clock and identifier of one request.\<close>

record update_request =
  ur_name :: "string option"
  ur_description :: "string option"
  ur_memo :: "string option"
  ur_desired_state :: "desired_state option"

definition valid_update_request :: "update_request \<Rightarrow> bool" where
  "valid_update_request r \<longleftrightarrow>
     (case ur_name r of None \<Rightarrow> True | Some s \<Rightarrow> 1 \<le> length s \<and> length s \<le> 255)
     \<and> (case ur_description r of None \<Rightarrow> True | Some s \<Rightarrow> length s \<le> 500)"

record create_request =
  cr_name :: string
  cr_description :: "string option"
  cr_image_ref :: string

definition valid_create_request :: "create_request \<Rightarrow> bool" where
  "valid_create_request r \<longleftrightarrow>
     1 \<le> length (cr_name r) \<and> length (cr_name r) \<le> 255
     \<and> (case cr_description r of None \<Rightarrow> True | Some s \<Rightarrow> length s \<le> 500)
     \<and> length (cr_image_ref r) \<le> 512"

record 'c request_ctx =
  rc_caches :: "'c caches"
  rc_limits :: limits_config
  rc_runtime :: runtime_config
  rc_clock :: seconds
  rc_now :: datetime
  rc_uuid :: string

definition authenticate :: "'c request_ctx \<Rightarrow> string option \<Rightarrow> ('c web, string) io" where
  "authenticate rc cookie = get_user_id_from_session (rc_caches rc) (rc_clock rc) (rc_now rc) cookie"

definition api_create_workspace ::
  "'c request_ctx \<Rightarrow> create_request \<Rightarrow> string option \<Rightarrow> ('c web, workspace) io" where
  "api_create_workspace rc r cookie =
     io_bind (authenticate rc cookie) (\<lambda>uid.
       io_bind (on_db (create_workspace (rc_runtime rc) (rc_uuid rc) (rc_now rc) uid
                  (cr_name r) (cr_description r) (Some (cr_image_ref r)))) (\<lambda>w.
         on_db (request_start (rc_limits rc) (rc_now rc) (ws_id w) uid)))"

definition api_list_workspaces ::
  "'c request_ctx \<Rightarrow> nat \<Rightarrow> nat \<Rightarrow> string option \<Rightarrow> ('c web, workspace list \<times> nat) io" where
  "api_list_workspaces rc limit offset cookie =
     io_bind (authenticate rc cookie) (\<lambda>uid.
       io_bind (on_db (list_workspaces uid limit offset)) (\<lambda>ws. io_return (ws, length ws)))"

definition api_get_workspace ::
  "'c request_ctx \<Rightarrow> string \<Rightarrow> string option \<Rightarrow> ('c web, workspace) io" where
  "api_get_workspace rc wid cookie =
     io_bind (authenticate rc cookie) (\<lambda>uid. on_db (get_workspace wid (Some uid)))"

definition api_update_workspace ::
  "'c request_ctx \<Rightarrow> string \<Rightarrow> update_request \<Rightarrow> string option \<Rightarrow> ('c web, workspace) io" where
  "api_update_workspace rc wid r cookie =
     io_bind (authenticate rc cookie) (\<lambda>uid.
       if ur_desired_state r = Some desired_state.RUNNING then
         io_bind (on_db (request_start (rc_limits rc) (rc_now rc) wid uid)) (\<lambda>w.
           if py_truthy (ur_name r) \<or> ur_description r \<noteq> None \<or> ur_memo r \<noteq> None then
             on_db (update_workspace (rc_now rc) wid uid (ur_name r) (ur_description r) (ur_memo r) None)
           else io_return w)
       else
         on_db (update_workspace (rc_now rc) wid uid (ur_name r) (ur_description r) (ur_memo r)
                  (ur_desired_state r)))"

definition api_delete_workspace ::
  "'c request_ctx \<Rightarrow> string \<Rightarrow> string option \<Rightarrow> ('c web, unit) io" where
  "api_delete_workspace rc wid cookie =
     io_bind (authenticate rc cookie) (\<lambda>uid. on_db (delete_workspace (rc_now rc) wid uid))"

section \<open>Branches on a healthy connection\<close>

definition find_live :: "string \<Rightarrow> tables \<Rightarrow> workspace option" where
  "find_live wid t = sql_one_or_none (\<lambda>w. ws_id w = wid \<and> ws_live w) (tb_workspaces t)"

lemma find_live_SomeD:
  "find_live wid t = Some w \<Longrightarrow> w \<in> set (tb_workspaces t) \<and> ws_id w = wid \<and> ws_live w"
  by (auto simp: find_live_def dest: sql_one_or_none_Some)

lemma find_live_same_id:
  "keys_ok t \<Longrightarrow> find_live wid t = Some w \<Longrightarrow> x \<in> set (tb_workspaces t) \<Longrightarrow> ws_id x = wid \<Longrightarrow> x = w"
  using ws_table.same_key_same_row [of "tb_workspaces t" x w] find_live_SomeD [of wid t w]
  by (auto simp: keys_ok_def)

lemma get_workspace_ok:
  assumes "db_ok d"
  shows "get_workspace wid uid d =
     (case find_live wid (db_tables d) of
        None \<Rightarrow> (Inl WorkspaceNotFoundError, d)
      | Some w \<Rightarrow> if uid \<noteq> None \<and> Some (ws_owner_user_id w) \<noteq> uid
                  then (Inl (ForbiddenError permission_denied), d) else (Inr w, d))"
  using assms
  by (auto simp: get_workspace_def io_simps io_bind_def find_live_def q_workspace_def io_return_def
      io_raise_def split: option.split)

lemma get_workspace_Inr:
  assumes "get_workspace wid (Some uid) d = (Inr w, d')"
  shows "find_live wid (db_tables d) = Some w \<and> ws_owner_user_id w = uid
     \<and> db_tables d' = db_tables d \<and> db_committed d' = db_committed d \<and> \<not> db_aborted d'"
  using assms
  by (auto simp: get_workspace_def io_bind_def db_execute_def Let_def find_live_def q_workspace_def
      io_return_def io_raise_def split: list.splits option.splits if_splits prod.splits)

text \<open>The row of a live workspace after a flush of columns other than the key.\<close>

definition flushed :: "string \<Rightarrow> (workspace \<Rightarrow> workspace) \<Rightarrow> tables \<Rightarrow> tables" where
  "flushed wid f t = t\<lparr>tb_workspaces := sql_update (\<lambda>w. ws_id w = wid) f (tb_workspaces t)\<rparr>"

lemma flush_commit_refresh:
  assumes "db_ok d" and "find_live wid (db_tables d) = Some w" and "keys_ok (db_tables d)"
    and "\<And>x. ws_id (f x) = ws_id x"
  shows "io_seq (flush_workspace wid f) (io_seq db_commit (refresh_workspace wid)) d
    = (Inr (f w), d\<lparr>db_tables := flushed wid f (db_tables d), db_committed := flushed wid f (db_tables d)\<rparr>)"
proof -
  have "sql_one_or_none (\<lambda>x. ws_id x = wid) (tb_workspaces (db_tables d)) = Some w"
    using assms(3) find_live_SomeD [OF assms(2)]
    by (intro ws_table.one_of_key) (auto simp: keys_ok_def)
  then have "sql_one_or_none (\<lambda>x. ws_id x = wid) (tb_workspaces (flushed wid f (db_tables d))) = Some (f w)"
    using assms(4) find_live_SomeD [OF assms(2)] by (simp add: flushed_def sql_one_or_none_update)
  then show ?thesis
    using assms(1)
    by (simp add: flush_workspace_def refresh_workspace_def io_seq_def io_bind_def io_simps sql_simps
        q_workspace_def flushed_def io_return_def)
qed

lemma columns_keep_key [simp]:
  "ws_id (set_if x f w) = (case x of None \<Rightarrow> ws_id w | Some v \<Rightarrow> ws_id (f v w))"
  "ws_id (update_columns now name description memo desired w) = ws_id w"
  "ws_id (delete_columns now w) = ws_id w" "ws_id (start_columns now w) = ws_id w"
  by (simp_all add: set_if_def update_columns_def delete_columns_def start_columns_def split: option.split)

text \<open>C8: the single entry point of a start request.  An unknown or deleted workspace answers 404, one
  of another user 403; a workspace already asked to run is returned as it is; otherwise the request is
  refused with the running limit exactly when the user's running or starting workspaces have reached
  it, and else the row alone changes: desired state RUNNING and the update time.\<close>
theorem request_start_branches:
  assumes ok: "db_ok d" and keys: "keys_ok (db_tables d)"
  shows "request_start lims now wid uid d =
     (case find_live wid (db_tables d) of
        None \<Rightarrow> (Inl WorkspaceNotFoundError, d)
      | Some w \<Rightarrow>
          if ws_owner_user_id w \<noteq> uid then (Inl (ForbiddenError permission_denied), d)
          else if ws_desired_state w = desired_state.RUNNING then (Inr w, d)
          else if max_running_per_user lims
                    \<le> int (sql_count (running_of uid) (tb_workspaces (db_tables d)))
               then (Inl RunningLimitExceededError, d)
          else let t = flushed wid (start_columns now) (db_tables d)
               in (Inr (start_columns now w), d\<lparr>db_tables := t, db_committed := t\<rparr>))"
proof (cases "find_live wid (db_tables d)")
  case None
  with ok show ?thesis by (simp add: request_start_def get_workspace_ok io_bind_def)
next
  case (Some w)
  have cnt: "can_start_workspace lims uid d =
      (Inr (int (sql_count (running_of uid) (tb_workspaces (db_tables d))) < max_running_per_user lims), d)"
    using ok by (simp add: can_start_workspace_def count_running_workspaces_def io_simps io_bind_def)
  show ?thesis
    using Some ok cnt flush_commit_refresh [OF ok Some keys, of "start_columns now"]
    by (simp add: request_start_def get_workspace_ok io_bind_def io_return_def io_raise_def Let_def)
qed

definition sample_ws :: "string \<Rightarrow> phase \<Rightarrow> desired_state \<Rightarrow> workspace" where
  "sample_ws wid p ds = (new_workspace default_runtime wid 0 ''u1'' ''demo'' None None)
     \<lparr>ws_phase := p, ws_desired_state := ds\<rparr>"

definition sample_db :: "workspace list \<Rightarrow> db" where
  "sample_db ws = db_of \<lparr>tb_users = [], tb_sessions = [], tb_workspaces = ws\<rparr>"

theorem request_start_branches_witness:
  "fst (request_start default_limits 7 ''a'' ''u1''
      (sample_db [sample_ws ''a'' phase.STANDBY desired_state.STANDBY,
                  sample_ws ''b'' phase.RUNNING desired_state.RUNNING]))
    = Inr (start_columns 7 (sample_ws ''a'' phase.STANDBY desired_state.STANDBY))"
  using request_start_branches [of "sample_db [sample_ws ''a'' phase.STANDBY desired_state.STANDBY,
      sample_ws ''b'' phase.RUNNING desired_state.RUNNING]" default_limits 7 "''a''" "''u1''"]
  by (simp add: sample_db_def db_of_def db_ok_def keys_ok_def sample_ws_def new_workspace_def find_live_def
      sql_one_or_none_def ws_live_def running_of_def sql_count_def default_limits_def Let_def)

section \<open>Isolation of the users\<close>

text \<open>The rows of the other users, and the owner of each id.\<close>

definition foreign :: "string \<Rightarrow> tables \<Rightarrow> workspace list" where
  "foreign uid t = filter (\<lambda>w. ws_owner_user_id w \<noteq> uid) (tb_workspaces t)"

definition owners :: "tables \<Rightarrow> (string \<times> string) set" where
  "owners t = set (map (\<lambda>w. (ws_id w, ws_owner_user_id w)) (tb_workspaces t))"

definition isolated :: "string \<Rightarrow> (string \<times> string) set \<Rightarrow> workspace list \<Rightarrow> tables \<Rightarrow> bool" where
  "isolated uid S F t \<longleftrightarrow> foreign uid t = F \<and> owners t \<subseteq> S"

lemma foreign_update:
  assumes "\<And>w. w \<in> set rs \<Longrightarrow> p w \<Longrightarrow> ws_owner_user_id w = uid"
    and "\<And>w. ws_owner_user_id (f w) = ws_owner_user_id w"
  shows "filter (\<lambda>w. ws_owner_user_id w \<noteq> uid) (sql_update p f rs)
     = filter (\<lambda>w. ws_owner_user_id w \<noteq> uid) rs"
  using assms by (induction rs) (auto simp: sql_update_def)

lemma isolated_flush:
  assumes "isolated uid S F t" and "single_valued S" and "(wid, uid) \<in> S"
    and "\<And>w. ws_id (f w) = ws_id w" and "\<And>w. ws_owner_user_id (f w) = ws_owner_user_id w"
  shows "isolated uid S F (t\<lparr>tb_workspaces := sql_update (\<lambda>w. ws_id w = wid) f (tb_workspaces t)\<rparr>)"
proof -
  have "ws_owner_user_id w = uid" if "w \<in> set (tb_workspaces t)" "ws_id w = wid" for w
  proof -
    have "(ws_id w, ws_owner_user_id w) \<in> S"
      using assms(1) that(1) by (auto simp: isolated_def owners_def)
    with assms(2,3) that(2) show ?thesis by (auto dest: single_valuedD)
  qed
  then have "foreign uid (t\<lparr>tb_workspaces := sql_update (\<lambda>w. ws_id w = wid) f (tb_workspaces t)\<rparr>) = foreign uid t"
    unfolding foreign_def using assms(5) by (simp add: foreign_update)
  moreover have "owners (t\<lparr>tb_workspaces := sql_update (\<lambda>w. ws_id w = wid) f (tb_workspaces t)\<rparr>) = owners t"
    unfolding owners_def using assms(4,5) by (simp del: set_map add: map_sql_update)
  ultimately show ?thesis using assms(1) by (simp add: isolated_def)
qed

lemma keeps_flush:
  assumes "single_valued S" and "(wid, uid) \<in> S"
    and "\<And>w. ws_id (f w) = ws_id w" and "\<And>w. ws_owner_user_id (f w) = ws_owner_user_id w"
  shows "keeps (db_inv (isolated uid S F)) (flush_workspace wid f)"
  unfolding flush_workspace_def
  by (intro keeps_rules keeps_db_execute) (simp add: sql_simps isolated_flush [OF _ assms])

lemma gives_query:
  assumes "\<And>t. P t \<Longrightarrow> P (snd (q t)) \<and> Q (fst (q t))"
  shows "gives (db_inv P) Q (db_execute q)"
proof (rule givesI)
  show "keeps (db_inv P) (db_execute q)" using assms by (intro keeps_db_execute) auto
next
  fix d a d'
  assume "db_inv P d" "db_execute q d = (Inr a, d')"
  then show "Q a" using assms by (auto simp: db_inv_def dest!: db_execute_Inr)
qed

lemma gives_one:
  "gives (db_inv (isolated uid S F)) (\<lambda>r. \<forall>w. r = Some w \<longrightarrow> p w \<and> (ws_id w, ws_owner_user_id w) \<in> S)
     (db_execute (q_workspace p))"
  by (rule gives_query)
     (auto simp: sql_simps isolated_def owners_def dest!: sql_one_or_none_Some)

lemma gives_get_workspace:
  "gives (db_inv (isolated uid S F)) (\<lambda>w. ws_id w = wid \<and> ws_owner_user_id w = uid \<and> (wid, uid) \<in> S)
     (get_workspace wid (Some uid))"
  unfolding get_workspace_def
  by (rule gives_bind [OF gives_one]) (auto split: option.split intro: keeps_rules)

lemma gives_refresh:
  assumes "single_valued S" and "(wid, uid) \<in> S"
  shows "gives (db_inv (isolated uid S F)) (\<lambda>w. ws_owner_user_id w = uid) (refresh_workspace wid)"
  unfolding refresh_workspace_def
  by (rule gives_bind [OF gives_one])
     (use assms in \<open>auto split: option.split intro!: keeps_rules dest: single_valuedD\<close>)

lemma columns_keep_owner [simp]:
  "ws_owner_user_id (update_columns now name description memo desired w) = ws_owner_user_id w"
  "ws_owner_user_id (delete_columns now w) = ws_owner_user_id w"
  "ws_owner_user_id (start_columns now w) = ws_owner_user_id w"
  by (simp_all add: set_if_def update_columns_def delete_columns_def start_columns_def split: option.split)

lemma gives_update_workspace:
  assumes "single_valued S"
  shows "gives (db_inv (isolated uid S F)) (\<lambda>w. ws_owner_user_id w = uid)
     (update_workspace now wid uid name description memo desired)"
  unfolding update_workspace_def
  by (rule gives_bind [OF gives_get_workspace])
     (intro keeps_rules keeps_flush gives_refresh assms; simp)

lemma gives_request_start:
  assumes "single_valued S"
  shows "gives (db_inv (isolated uid S F)) (\<lambda>w. ws_owner_user_id w = uid)
     (request_start lims now wid uid)"
  unfolding request_start_def can_start_workspace_def count_running_workspaces_def
  by (rule gives_bind [OF gives_get_workspace])
     (intro keeps_rules gives_keeps_bind keeps_db_execute keeps_flush gives_refresh assms; simp)

lemma keeps_delete_workspace:
  assumes "single_valued S"
  shows "keeps (db_inv (isolated uid S F)) (delete_workspace now wid uid)"
  unfolding delete_workspace_def
  by (rule gives_keeps [of _ "\<lambda>_. True"], rule gives_bind [OF gives_get_workspace])
     (auto intro!: keeps_rules givesI keeps_flush assms)

lemma gives_create_workspace:
  assumes "single_valued S" and "(wid, uid) \<in> S"
  shows "gives (db_inv (isolated uid S F)) (\<lambda>w. ws_owner_user_id w = uid)
     (create_workspace rt wid now uid name description image_ref)"
proof -
  have "keeps (db_inv (isolated uid S F)) (db_insert_workspace (new_workspace rt wid now uid name description image_ref))"
  proof (rule keepsI)
    let ?w = "new_workspace rt wid now uid name description image_ref"
    fix d r d'
    assume inv: "db_inv (isolated uid S F) d" and step: "db_insert_workspace ?w d = (r, d')"
    have "keeps (db_inv (isolated uid S F)) (db_execute (q_insert_workspace ?w))"
      using assms(2)
      by (intro keeps_db_execute) (auto simp: sql_simps isolated_def foreign_def owners_def new_workspace_def)
    then show "db_inv (isolated uid S F) d'"
      using inv step by (auto simp: db_insert_workspace_def db_inv_def split: if_splits dest: keepsD)
  qed
  then show ?thesis
    unfolding create_workspace_def by (intro keeps_rules gives_refresh assms)
qed

lemma keeps_on_db: "keeps (db_inv I) m \<Longrightarrow> keeps (\<lambda>(c, d). db_inv I d) (on_db m)"
  unfolding on_db_def by (erule keeps_zoom) auto

lemma gives_on_db: "gives (db_inv I) Q m \<Longrightarrow> gives (\<lambda>(c, d). db_inv I d) Q (on_db m)"
  by (rule givesI [OF keeps_on_db [OF gives_keeps]])
     (auto simp: on_db_def io_zoom_def dest: gives_result split: prod.splits)

lemma keeps_cached:
  "keeps (db_inv I) m \<Longrightarrow> keeps (\<lambda>(c, d). db_inv I d) (cached get put k m)"
  by (auto simp: cached_def intro!: keepsI split: option.splits prod.splits sum.splits; (meson keepsD)+)

lemma keeps_lookup_user_id: "keeps (db_inv I) (lookup_user_id now cookie)"
  unfolding lookup_user_id_def get_valid_def
  by (cases cookie) (auto intro!: keeps_rules keeps_db_execute simp: q_session_def split: option.split)

lemma keeps_authenticate: "keeps (\<lambda>(c, d). db_inv I d) (authenticate rc cookie)"
  unfolding authenticate_def get_user_id_from_session_def by (intro keeps_cached keeps_lookup_user_id)

text \<open>The five endpoints, by their routes, with the rows an answer shows.\<close>

datatype api_call =
    CreateCall create_request
  | ListCall nat nat
  | GetCall string
  | UpdateCall string update_request
  | DeleteCall string

definition api_answer :: "'c request_ctx \<Rightarrow> api_call \<Rightarrow> string option \<Rightarrow> ('c web, workspace list) io" where
  "api_answer rc a cookie =
     (case a of
        CreateCall r \<Rightarrow> io_bind (api_create_workspace rc r cookie) (\<lambda>w. io_return [w])
      | ListCall limit offset \<Rightarrow> io_bind (api_list_workspaces rc limit offset cookie) (\<lambda>p. io_return (fst p))
      | GetCall wid \<Rightarrow> io_bind (api_get_workspace rc wid cookie) (\<lambda>w. io_return [w])
      | UpdateCall wid r \<Rightarrow> io_bind (api_update_workspace rc wid r cookie) (\<lambda>w. io_return [w])
      | DeleteCall wid \<Rightarrow> io_seq (api_delete_workspace rc wid cookie) (io_return []))"

definition api_body :: "'c request_ctx \<Rightarrow> api_call \<Rightarrow> string \<Rightarrow> ('c web, workspace list) io" where
  "api_body rc a uid =
     (case a of
        CreateCall r \<Rightarrow>
          io_bind (on_db (create_workspace (rc_runtime rc) (rc_uuid rc) (rc_now rc) uid
                  (cr_name r) (cr_description r) (Some (cr_image_ref r)))) (\<lambda>w.
            io_bind (on_db (request_start (rc_limits rc) (rc_now rc) (ws_id w) uid)) (\<lambda>w. io_return [w]))
      | ListCall limit offset \<Rightarrow> on_db (list_workspaces uid limit offset)
      | GetCall wid \<Rightarrow> io_bind (on_db (get_workspace wid (Some uid))) (\<lambda>w. io_return [w])
      | UpdateCall wid r \<Rightarrow>
          io_bind (if ur_desired_state r = Some desired_state.RUNNING then
             io_bind (on_db (request_start (rc_limits rc) (rc_now rc) wid uid)) (\<lambda>w.
               if py_truthy (ur_name r) \<or> ur_description r \<noteq> None \<or> ur_memo r \<noteq> None then
                 on_db (update_workspace (rc_now rc) wid uid (ur_name r) (ur_description r) (ur_memo r) None)
               else io_return w)
           else
             on_db (update_workspace (rc_now rc) wid uid (ur_name r) (ur_description r) (ur_memo r)
                      (ur_desired_state r))) (\<lambda>w. io_return [w])
      | DeleteCall wid \<Rightarrow> io_seq (on_db (delete_workspace (rc_now rc) wid uid)) (io_return []))"

lemma api_answer_body: "api_answer rc a cookie = io_bind (authenticate rc cookie) (api_body rc a)"
  by (cases a)
     (simp_all add: api_answer_def api_body_def [abs_def] api_create_workspace_def api_list_workspaces_def
       api_get_workspace_def api_update_workspace_def api_delete_workspace_def io_bind_assoc io_seq_def
       io_bind_return_left io_bind_return_right)

lemma gives_api_body:
  assumes "single_valued S" and "(rc_uuid rc, uid) \<in> S"
  shows "gives (\<lambda>(c, d). db_inv (isolated uid S F) d) (\<lambda>ws. \<forall>w \<in> set ws. ws_owner_user_id w = uid)
     (api_body rc a uid)"
proof (cases a)
  case (ListCall limit offset)
  have "\<forall>w \<in> set (fst (q_list_workspaces uid limit offset t)). ws_owner_user_id w = uid" for t
    by (auto simp: q_list_workspaces_def sql_simps dest!: in_set_takeD in_set_dropD)
  moreover have "snd (q_list_workspaces uid limit offset t) = t" for t
    by (simp add: q_list_workspaces_def)
  ultimately have "gives (db_inv (isolated uid S F)) (\<lambda>ws. \<forall>w \<in> set ws. ws_owner_user_id w = uid)
      (list_workspaces uid limit offset)"
    unfolding list_workspaces_def by (intro gives_query) auto
  then show ?thesis
    unfolding ListCall api_body_def api_call.case by (rule gives_on_db)
next
  case (UpdateCall wid r)
  have "gives (\<lambda>(c, d). db_inv (isolated uid S F) d) (\<lambda>w. ws_owner_user_id w = uid)
     (if ur_desired_state r = Some desired_state.RUNNING then
             io_bind (on_db (request_start (rc_limits rc) (rc_now rc) wid uid)) (\<lambda>w.
               if py_truthy (ur_name r) \<or> ur_description r \<noteq> None \<or> ur_memo r \<noteq> None then
                 on_db (update_workspace (rc_now rc) wid uid (ur_name r) (ur_description r) (ur_memo r) None)
               else io_return w)
           else
             on_db (update_workspace (rc_now rc) wid uid (ur_name r) (ur_description r) (ur_memo r)
                      (ur_desired_state r)))"
    by (intro gives_if gives_bind [OF gives_on_db [OF gives_request_start]] gives_return
        gives_on_db gives_update_workspace assms)
  then show ?thesis
    unfolding UpdateCall api_body_def api_call.case by (rule gives_bind) (auto intro: keeps_rules)
next
  case (CreateCall r)
  show ?thesis
    unfolding CreateCall
    by (simp add: api_body_def)
       (intro gives_bind [OF gives_on_db [OF gives_create_workspace]]
          gives_bind [OF gives_on_db [OF gives_request_start]] assms gives_return, simp)
next
  case (GetCall wid)
  show ?thesis
    unfolding GetCall
    by (simp add: api_body_def)
       (rule gives_bind [OF gives_on_db [OF gives_get_workspace]], auto intro: keeps_rules)
next
  case (DeleteCall wid)
  show ?thesis
    unfolding DeleteCall
    by (simp add: api_body_def)
       (intro gives_seq keeps_on_db keeps_delete_workspace assms gives_return, simp)
qed

text \<open>C9: users are isolated.  Whatever an authenticated user asks, and whatever fails on the way, the
  rows of the other users are exactly as before, in the open transaction and in what is committed, and
  every row an answer shows belongs to the user.  A request that is not authenticated changes nothing.\<close>
theorem users_are_isolated:
  fixes rc :: "'c request_ctx" and a :: api_call and cookie :: "string option" and c :: 'c
  assumes keys: "keys_ok (db_tables d)" and start: "db_committed d = db_tables d"
    and fresh: "rc_uuid rc \<notin> ws_id ` set (tb_workspaces (db_tables d))"
  defines "after \<equiv> snd (snd (api_answer rc a cookie (c, d)))"
  shows "case authenticate rc cookie (c, d) of
      (Inl e, _) \<Rightarrow> db_tables after = db_tables d \<and> db_committed after = db_committed d
    | (Inr uid, _) \<Rightarrow>
        foreign uid (db_tables after) = foreign uid (db_tables d)
        \<and> foreign uid (db_committed after) = foreign uid (db_committed d)
        \<and> (case fst (api_answer rc a cookie (c, d)) of Inr ws \<Rightarrow> \<forall>w \<in> set ws. ws_owner_user_id w = uid
            | Inl _ \<Rightarrow> True)"
proof -
  obtain r cd where Pair: "authenticate rc cookie (c, d) = (r, cd)" by (cases "authenticate rc cookie (c, d)")
  obtain c1 d1 where cd: "cd = (c1, d1)" by (cases cd)
  have same: "db_tables d1 = db_tables d \<and> db_committed d1 = db_committed d"
    using keepsD [OF keeps_authenticate [where I = "\<lambda>t. t = db_tables d"] _ Pair] cd start
    by (auto simp: db_inv_def)
  show ?thesis
  proof (cases r)
    case (Inl e)
    then show ?thesis
      using Pair cd same unfolding after_def api_answer_body by (simp add: io_bind_def)
  next
    case (Inr uid)
    define S where "S = insert (rc_uuid rc, uid) (owners (db_tables d))"
    have "single_valued S"
      using keys fresh
      by (force simp: S_def single_valued_def owners_def keys_ok_def dest: ws_table.same_key_same_row)
    then have g: "gives (\<lambda>(c, d). db_inv (isolated uid S (foreign uid (db_tables d0))) d)
        (\<lambda>ws. \<forall>w \<in> set ws. ws_owner_user_id w = uid) (api_body rc a uid)" for d0
      by (rule gives_api_body) (simp add: S_def)
    have "db_inv (isolated uid S (foreign uid (db_tables d))) d1"
      using same start by (simp add: db_inv_def isolated_def S_def subset_insertI)
    moreover obtain r2 c2 d2 where body: "api_body rc a uid (c1, d1) = (r2, (c2, d2))"
      by (metis prod_cases3)
    ultimately have "db_inv (isolated uid S (foreign uid (db_tables d))) d2"
      "case r2 of Inr ws \<Rightarrow> \<forall>w \<in> set ws. ws_owner_user_id w = uid | Inl _ \<Rightarrow> True"
      using keepsD [OF gives_keeps [OF g [of d]] _ body] gives_result [OF g [of d], of "(c1, d1)"]
      by (auto split: sum.split)
    moreover have "api_answer rc a cookie (c, d) = (r2, (c2, d2))"
      using Pair cd Inr body by (simp add: api_answer_body io_bind_def)
    ultimately show ?thesis
      using Pair Inr start by (simp add: after_def db_inv_def isolated_def)
  qed
qed

definition no_caches :: "unit caches" where
  "no_caches = \<lparr>session_cache_get = (\<lambda>_ _ _. None), session_cache_put = (\<lambda>_ _ _ c. c),
     workspace_cache_get = (\<lambda>_ _ _. None), workspace_cache_put = (\<lambda>_ _ _ c. c)\<rparr>"

definition sample_ctx :: "unit request_ctx" where
  "sample_ctx = \<lparr>rc_caches = no_caches, rc_limits = default_limits, rc_runtime = default_runtime,
     rc_clock = 0, rc_now = 5, rc_uuid = ''new''\<rparr>"

definition sample_web_db :: db where
  "sample_web_db = db_of \<lparr>tb_users = [], tb_sessions =
        [\<lparr>session_id = ''s'', session_user_id = ''u2'', session_created_at = 0, session_expires_at = 9,
          session_revoked_at = None\<rparr>],
     tb_workspaces = [sample_ws ''a'' phase.STANDBY desired_state.STANDBY]\<rparr>"

lemma sample_authenticate:
  "authenticate sample_ctx (Some ''s'') ((), sample_web_db) = (Inr ''u2'', ((), sample_web_db))"
  by (simp add: authenticate_def get_user_id_from_session_def cached_def sample_ctx_def no_caches_def
      lookup_user_id_def get_valid_def io_bind_def io_simps q_session_def sample_web_db_def db_of_def db_ok_def
      sql_one_or_none_def session_is_valid_def io_return_def)

theorem users_are_isolated_witness:
  "foreign ''u2'' (db_committed (snd (snd (api_answer sample_ctx (DeleteCall ''a'') (Some ''s'') ((), sample_web_db)))))
   = [sample_ws ''a'' phase.STANDBY desired_state.STANDBY]"
  using users_are_isolated [of sample_web_db sample_ctx "DeleteCall ''a''" "Some ''s''" "()"]
  by (simp add: sample_authenticate)
     (simp add: sample_web_db_def db_of_def keys_ok_def sample_ctx_def foreign_def sample_ws_def
       new_workspace_def)

section \<open>Creation and the running limit\<close>

text \<open>Creating a workspace never answers 429: it succeeds whatever number of workspaces the user
  already runs, because the row is inserted with desired state RUNNING and the start request that
  follows returns at once.  The endpoint documents 429 when the limit is exceeded.\<close>
theorem create_ignores_running_limit:
  fixes rc :: "'c request_ctx" and r :: create_request
  assumes ok: "db_ok d" and keys: "keys_ok (db_tables d)"
    and fresh: "rc_uuid rc \<notin> ws_id ` set (tb_workspaces (db_tables d))"
    and auth: "authenticate rc cookie (c, d) = (Inr uid, (c', d))"
  defines "w \<equiv> new_workspace (rc_runtime rc) (rc_uuid rc) (rc_now rc) uid (cr_name r) (cr_description r)
      (Some (cr_image_ref r))"
  shows "fst (api_create_workspace rc r cookie (c, d)) = Inr w
    \<and> sql_count (running_of uid) (tb_workspaces (db_committed (snd (snd (api_create_workspace rc r cookie (c, d))))))
      = sql_count (running_of uid) (tb_workspaces (db_tables d)) + 1"
proof -
  let ?t = "(db_tables d)\<lparr>tb_workspaces := tb_workspaces (db_tables d) @ [w]\<rparr>"
  let ?d = "d\<lparr>db_tables := ?t, db_committed := ?t\<rparr>"
  have wid: "ws_id w = rc_uuid rc" "ws_owner_user_id w = uid" "ws_live w" "ws_desired_state w = desired_state.RUNNING"
    by (simp_all add: w_def new_workspace_def ws_live_def)
  have fresh_ex: "\<not> (\<exists>x \<in> set (tb_workspaces (db_tables d)). ws_id x = rc_uuid rc)"
    using fresh by (metis imageI)
  have keys': "keys_ok ?t" using keys fresh wid by (auto simp: keys_ok_def)
  have one: "sql_one_or_none (\<lambda>x. ws_id x = rc_uuid rc) (tb_workspaces ?t) = Some w"
    and live: "find_live (rc_uuid rc) ?t = Some w"
    using keys' wid by (auto simp: find_live_def keys_ok_def intro!: ws_table.one_of_key)
  have "create_workspace (rc_runtime rc) (rc_uuid rc) (rc_now rc) uid (cr_name r) (cr_description r)
      (Some (cr_image_ref r)) d = (Inr w, ?d)"
    using ok fresh one wid fresh_ex
    by (simp add: create_workspace_def w_def [symmetric] db_insert_workspace_def io_seq_def io_bind_def io_simps
        sql_simps refresh_workspace_def q_workspace_def io_return_def)
  moreover have "request_start (rc_limits rc) (rc_now rc) (rc_uuid rc) uid ?d = (Inr w, ?d)"
    using ok live wid by (simp add: request_start_def get_workspace_ok io_bind_def io_return_def)
  ultimately have "api_create_workspace rc r cookie (c, d) = (Inr w, (c', ?d))"
    using auth wid by (simp add: api_create_workspace_def io_bind_def on_db_def io_zoom_def)
  then show ?thesis using wid by (simp add: sql_count_def running_of_def)
qed

definition busy_db :: db where
  "busy_db = db_of \<lparr>tb_users = [], tb_sessions =
        [\<lparr>session_id = ''s'', session_user_id = ''u1'', session_created_at = 0, session_expires_at = 9,
          session_revoked_at = None\<rparr>],
     tb_workspaces = map (\<lambda>wid. sample_ws wid phase.RUNNING desired_state.RUNNING) [''a'', ''b'', ''c'']\<rparr>"

theorem create_ignores_running_limit_witness:
  "max_running_per_user (rc_limits sample_ctx) = 3
   \<and> sql_count (running_of ''u1'') (tb_workspaces (db_tables busy_db)) = 3
   \<and> sql_count (running_of ''u1'') (tb_workspaces (db_committed (snd (snd (api_create_workspace sample_ctx
        \<lparr>cr_name = ''n'', cr_description = None, cr_image_ref = ''img''\<rparr> (Some ''s'') ((), busy_db)))))) = 4"
proof -
  have auth: "authenticate sample_ctx (Some ''s'') ((), busy_db) = (Inr ''u1'', ((), busy_db))"
    by (simp add: authenticate_def get_user_id_from_session_def cached_def sample_ctx_def no_caches_def
        lookup_user_id_def get_valid_def io_bind_def io_simps q_session_def busy_db_def db_of_def db_ok_def
        sql_one_or_none_def session_is_valid_def io_return_def)
  have "db_ok busy_db" "keys_ok (db_tables busy_db)"
    "rc_uuid sample_ctx \<notin> ws_id ` set (tb_workspaces (db_tables busy_db))"
    by (simp_all add: busy_db_def db_of_def db_ok_def keys_ok_def sample_ws_def new_workspace_def sample_ctx_def)
  from create_ignores_running_limit [OF this auth, of "\<lparr>cr_name = ''n'', cr_description = None, cr_image_ref = ''img''\<rparr>"]
  show ?thesis
    by (simp add: busy_db_def db_of_def sql_count_def running_of_def sample_ws_def new_workspace_def ws_live_def
        sample_ctx_def default_limits_def)
qed

end
