(* ===== verification/Interfaces.thy ===== *)
theory Interfaces
  imports Domain
begin

text \<open>
  core/interfaces: the abstract classes between the control plane and the platform, each as a record
  of its methods, and the contract the coordinators rely on as a locale.  The contract speaks of four
  facts of the platform (which workspaces have a container, a running one, a volume, and which archive
  keys exist); adapters/ provides it and the theory of the Docker and S3 adapters discharges it.
\<close>

section \<open>Method records\<close>

record upstream_info =
  up_hostname :: string
  up_port :: nat

definition upstream_url :: "upstream_info \<Rightarrow> string" where
  "upstream_url u = ''http://'' @ up_hostname u @ '':'' @ str_nat (up_port u)"

definition upstream_ws_url :: "upstream_info \<Rightarrow> string" where
  "upstream_ws_url u = ''ws://'' @ up_hostname u @ '':'' @ str_nat (up_port u)"

record 'w instance_controller =
  ic_list_all :: "string \<Rightarrow> ('w, container_info list) io"
  ic_start :: "string \<Rightarrow> string \<Rightarrow> ('w, unit) io"
  ic_delete :: "string \<Rightarrow> ('w, unit) io"
  ic_is_running :: "string \<Rightarrow> ('w, bool) io"
  ic_resolve_upstream :: "string \<Rightarrow> ('w, upstream_info option) io"

record 'w storage_provider =
  sp_list_volumes :: "string \<Rightarrow> ('w, volume_info list) io"
  sp_list_archives :: "string \<Rightarrow> ('w, archive_info list) io"
  sp_list_all_archive_keys :: "string \<Rightarrow> ('w, string list) io"
  sp_provision :: "string \<Rightarrow> ('w, unit) io"
  sp_restore :: "string \<Rightarrow> string \<Rightarrow> ('w, string) io"
  sp_archive :: "string \<Rightarrow> string \<Rightarrow> ('w, string) io"
  sp_delete_volume :: "string \<Rightarrow> ('w, unit) io"
  sp_volume_exists :: "string \<Rightarrow> ('w, bool) io"
  sp_create_empty_archive :: "string \<Rightarrow> string \<Rightarrow> ('w, string) io"
  sp_delete_archive :: "string \<Rightarrow> ('w, bool) io"

record 'w volume_provider =
  vp_create :: "string \<Rightarrow> ('w, unit) io"
  vp_remove :: "string \<Rightarrow> ('w, unit) io"
  vp_exists :: "string \<Rightarrow> ('w, bool) io"
  vp_list :: "string \<Rightarrow> ('w, json list) io"

record job_result =
  jr_exit_code :: int
  jr_logs :: string

record 'w job_runner =
  jr_run_archive :: "string \<Rightarrow> string \<Rightarrow> string \<Rightarrow> string \<Rightarrow> string \<Rightarrow> ('w, job_result) io"
  jr_run_restore :: "string \<Rightarrow> string \<Rightarrow> string \<Rightarrow> string \<Rightarrow> string \<Rightarrow> ('w, job_result) io"

section \<open>The platform as the coordinators see it\<close>

record 's platform =
  pf_container :: "'s \<Rightarrow> string \<Rightarrow> bool"
  pf_running :: "'s \<Rightarrow> string \<Rightarrow> bool"
  pf_volume :: "'s \<Rightarrow> string \<Rightarrow> bool"
  pf_archive :: "'s \<Rightarrow> string \<Rightarrow> bool"

text \<open>\<open>touches v C V s t\<close>: from \<open>s\<close> to \<open>t\<close> only the containers of the workspaces \<open>C\<close> and the volumes of
  the workspaces \<open>V\<close> have changed, and no archive has gone.\<close>

definition touches :: "'s platform \<Rightarrow> string set \<Rightarrow> string set \<Rightarrow> 's \<Rightarrow> 's \<Rightarrow> bool" where
  "touches v C V s t \<longleftrightarrow>
     (\<forall>i. i \<notin> C \<longrightarrow> pf_container v t i = pf_container v s i \<and> pf_running v t i = pf_running v s i)
     \<and> (\<forall>i. i \<notin> V \<longrightarrow> pf_volume v t i = pf_volume v s i)
     \<and> (\<forall>k. pf_archive v s k \<longrightarrow> pf_archive v t k)"

lemma touches_refl [simp]: "touches v C V s s"
  by (simp add: touches_def)

lemma touches_trans: "touches v C V s t \<Longrightarrow> touches v C' V' t u \<Longrightarrow> touches v (C \<union> C') (V \<union> V') s u"
  by (auto simp: touches_def)

lemma touches_mono: "touches v C V s t \<Longrightarrow> C \<subseteq> C' \<Longrightarrow> V \<subseteq> V' \<Longrightarrow> touches v C' V' s t"
  by (auto simp: touches_def)

lemma touches_volume: "touches v C V s t \<Longrightarrow> i \<notin> V \<Longrightarrow> pf_volume v t i = pf_volume v s i"
  by (simp add: touches_def)

lemma touches_container: "touches v C V s t \<Longrightarrow> i \<notin> C \<Longrightarrow>
    pf_container v t i = pf_container v s i \<and> pf_running v t i = pf_running v s i"
  by (simp add: touches_def)

lemma touches_archive: "touches v C V s t \<Longrightarrow> pf_archive v s k \<Longrightarrow> pf_archive v t k"
  by (simp add: touches_def)

locale platform_contract =
  fixes ic :: "'s instance_controller" and sp :: "'s storage_provider"
    and v :: "'s platform" and inv :: "'s \<Rightarrow> bool"
  assumes provision: "inv s \<Longrightarrow> sp_provision sp i s = (r, t) \<Longrightarrow>
      inv t \<and> touches v {} {i} s t \<and> (pf_volume v s i \<longrightarrow> pf_volume v t i)
      \<and> (r = Inr () \<longrightarrow> pf_volume v t i)"
    and restore: "inv s \<Longrightarrow> sp_restore sp i k s = (r', t) \<Longrightarrow>
      inv t \<and> touches v {} {i} s t \<and> (pf_volume v s i \<longrightarrow> pf_volume v t i)
      \<and> (\<forall>a. r' = Inr a \<longrightarrow> a = k \<and> pf_volume v t i)"
    and archive: "inv s \<Longrightarrow> sp_archive sp i oid s = (r', t) \<Longrightarrow>
      inv t \<and> touches v {} {i} s t \<and> (pf_volume v s i \<longrightarrow> pf_volume v t i)
      \<and> (\<forall>a. r' = Inr a \<longrightarrow> pf_archive v t a)"
    and create_empty_archive: "inv s \<Longrightarrow> sp_create_empty_archive sp i oid s = (r', t) \<Longrightarrow>
      inv t \<and> touches v {} {} s t \<and> (\<forall>a. r' = Inr a \<longrightarrow> pf_archive v t a)"
    and delete_volume: "inv s \<Longrightarrow> sp_delete_volume sp i s = (r, t) \<Longrightarrow>
      inv t \<and> touches v {} {i} s t \<and> (r = Inr () \<longrightarrow> \<not> pf_volume v t i)"
    and start: "inv s \<Longrightarrow> ic_start ic i img s = (r, t) \<Longrightarrow>
      inv t \<and> touches v {i} {i} s t \<and> (pf_volume v s i \<longrightarrow> pf_volume v t i)
      \<and> (r = Inr () \<longrightarrow> pf_running v t i)"
    and delete: "inv s \<Longrightarrow> ic_delete ic i s = (r, t) \<Longrightarrow>
      inv t \<and> touches v {i} {} s t \<and> (pf_container v t i \<longrightarrow> pf_container v s i)
      \<and> (r = Inr () \<longrightarrow> \<not> pf_container v t i \<and> \<not> pf_running v t i)"

text \<open>\<open>untouched v s t\<close>: nothing of the platform has changed.\<close>

definition untouched :: "'s platform \<Rightarrow> 's \<Rightarrow> 's \<Rightarrow> bool" where
  "untouched v s t \<longleftrightarrow> pf_container v t = pf_container v s \<and> pf_running v t = pf_running v s
     \<and> pf_volume v t = pf_volume v s \<and> pf_archive v t = pf_archive v s"

lemma untouched_refl [simp]: "untouched v s s"
  by (simp add: untouched_def)

lemma untouched_trans: "untouched v s t \<Longrightarrow> untouched v t u \<Longrightarrow> untouched v s u"
  by (simp add: untouched_def)

lemma untouched_touches: "untouched v s t \<Longrightarrow> touches v C V s t"
  by (simp add: untouched_def touches_def)

text \<open>The platform facts the judge sees for workspace \<open>i\<close>; \<open>owner\<close> tells the workspace of an archive key.\<close>

definition facts :: "'s platform \<Rightarrow> (string \<Rightarrow> string option) \<Rightarrow> 's \<Rightarrow> string \<Rightarrow> condition_input" where
  "facts v owner s i =
     \<lparr>container_ready = pf_running v s i, volume_ready = pf_volume v s i,
      archive_ready = (\<exists>k. pf_archive v s k \<and> owner k = Some i)\<rparr>"

lemma facts_untouched: "untouched v s t \<Longrightarrow> facts v owner t i = facts v owner s i"
  by (simp add: untouched_def facts_def)

text \<open>The observing methods, for the resource prefix \<open>pfx\<close>: they change nothing, and what they list is
  what is there.\<close>

locale observation_contract = platform_contract ic sp v inv
  for ic :: "'s instance_controller" and sp :: "'s storage_provider" and v :: "'s platform"
    and inv :: "'s \<Rightarrow> bool" +
  fixes owner :: "string \<Rightarrow> string option" and pfx :: string
  assumes list_all: "inv s \<Longrightarrow> ic_list_all ic pfx s = (r, t) \<Longrightarrow>
      inv t \<and> untouched v s t
      \<and> (\<forall>cs. r = Inr cs \<longrightarrow>
           (\<forall>c \<in> set cs. ci_running c = pf_running v s (ci_workspace_id c))
           \<and> (\<forall>i. pf_running v s i \<longrightarrow> (\<exists>c \<in> set cs. ci_workspace_id c = i)))"
    and list_volumes: "inv s \<Longrightarrow> sp_list_volumes sp pfx s = (r', t) \<Longrightarrow>
      inv t \<and> untouched v s t
      \<and> (\<forall>xs. r' = Inr xs \<longrightarrow>
           (\<forall>x \<in> set xs. vi_exists x = pf_volume v s (vi_workspace_id x))
           \<and> (\<forall>i. pf_volume v s i \<longrightarrow> (\<exists>x \<in> set xs. vi_workspace_id x = i)))"
    and list_archives: "inv s \<Longrightarrow> sp_list_archives sp pfx s = (r'', t) \<Longrightarrow>
      inv t \<and> untouched v s t
      \<and> (\<forall>xs. r'' = Inr xs \<longrightarrow>
           (\<forall>x \<in> set xs. ai_exists x = (\<exists>k. pf_archive v s k \<and> owner k = Some (ai_workspace_id x)))
           \<and> (\<forall>i. (\<exists>k. pf_archive v s k \<and> owner k = Some i) \<longrightarrow> (\<exists>x \<in> set xs. ai_workspace_id x = i)))"
    and archive_owner: "inv s \<Longrightarrow> CHR ''/'' \<notin> set i \<Longrightarrow> sp_archive sp i oid s = (Inr k, t) \<Longrightarrow>
      owner k = Some i"
    and empty_archive_owner: "inv s \<Longrightarrow> CHR ''/'' \<notin> set i \<Longrightarrow>
      sp_create_empty_archive sp i oid s = (Inr k, t) \<Longrightarrow> owner k = Some i"

text \<open>Deleting an archive takes that key and nothing else.\<close>

locale collection_contract = observation_contract ic sp v inv owner pfx
  for ic :: "'s instance_controller" and sp :: "'s storage_provider" and v :: "'s platform"
    and inv :: "'s \<Rightarrow> bool" and owner :: "string \<Rightarrow> string option" and pfx :: string +
  assumes delete_archive: "inv s \<Longrightarrow> sp_delete_archive sp k s = (rb, t) \<Longrightarrow>
      inv t \<and> pf_container v t = pf_container v s \<and> pf_running v t = pf_running v s
      \<and> pf_volume v t = pf_volume v s
      \<and> (\<forall>k'. k' \<noteq> k \<longrightarrow> pf_archive v t k' = pf_archive v s k')"
    and list_all_archive_keys: "inv s \<Longrightarrow> sp_list_all_archive_keys sp pfx s = (rk, t) \<Longrightarrow>
      inv t \<and> untouched v s t"

end
