(* ===== verification/Observer.thy ===== *)
theory Observer
  imports Interfaces Database
begin

text \<open>
  control/coordinator/observer.py: the observer asks the platform for its containers, volumes and
  archives and writes what it saw into the conditions of every live row.  The three calls run
  concurrently in the code; here they run one after the other.  The JSON of an observation is the typed
  record it dumps (Domain.thy).  Logging and metrics are not modelled.
\<close>

section \<open>Bulk observation\<close>

text \<open>\<open>_safe\<close>: a time-out or an exception is an observation that failed, \<open>None\<close>.\<close>

definition safe_call :: "('w, 'a list) io \<Rightarrow> ('w, 'a list option) io" where
  "safe_call m =
     io_except (io_bind (io_wait_for m) (\<lambda>r. io_return (Some r)))
       (\<lambda>e. if e = TimeoutError then Some (io_return None)
            else if is_Exception e then Some (io_return None) else None)"

text \<open>A dictionary comprehension: the last entry of a key wins.\<close>

definition dict_by :: "('a \<Rightarrow> string) \<Rightarrow> 'a list \<Rightarrow> string \<rightharpoonup> 'a" where
  "dict_by key xs = map_of (rev (map (\<lambda>x. (key x, x)) xs))"

record observation =
  obs_containers :: "(string \<rightharpoonup> container_info) option"
  obs_volumes :: "(string \<rightharpoonup> volume_info) option"
  obs_archives :: "(string \<rightharpoonup> archive_info) option"

definition observe_all ::
  "'w instance_controller \<Rightarrow> 'w storage_provider \<Rightarrow> string \<Rightarrow> ('w, observation) io" where
  "observe_all ic sp pfx =
     io_bind (safe_call (ic_list_all ic pfx)) (\<lambda>c_list.
       io_bind (safe_call (sp_list_volumes sp pfx)) (\<lambda>v_list.
         io_bind (safe_call (sp_list_archives sp pfx)) (\<lambda>a_list.
           io_return \<lparr>obs_containers = map_option (dict_by ci_workspace_id) c_list,
                      obs_volumes = map_option (dict_by vi_workspace_id) v_list,
                      obs_archives = map_option (dict_by ai_workspace_id) a_list\<rparr>)))"

section \<open>Updating the conditions\<close>

definition conditions_of ::
  "(string \<rightharpoonup> container_info) \<Rightarrow> (string \<rightharpoonup> volume_info) \<Rightarrow> (string \<rightharpoonup> archive_info) \<Rightarrow> string \<Rightarrow> conditions" where
  "conditions_of containers volumes archives i =
     \<lparr>cond_container = containers i, cond_volume = volumes i, cond_archive = archives i\<rparr>"

definition observed :: "datetime \<Rightarrow> conditions \<Rightarrow> workspace \<Rightarrow> workspace" where
  "observed now c w = w\<lparr>ws_conditions := c, ws_observed_at := Some now\<rparr>"

definition load_workspace_ids :: "(db, string list) io" where
  "load_workspace_ids =
     db_execute (\<lambda>t. (remdups (map ws_id (sql_select ws_live (tb_workspaces t))), t))"

text \<open>The arrays of the statement are joined to the table by id; each id occurs once in them.\<close>

definition bulk_update_conditions ::
  "datetime \<Rightarrow> string list \<Rightarrow> (string \<rightharpoonup> container_info) \<Rightarrow> (string \<rightharpoonup> volume_info)
   \<Rightarrow> (string \<rightharpoonup> archive_info) \<Rightarrow> (db, nat) io" where
  "bulk_update_conditions now ws_ids containers volumes archives =
     io_bind (db_execute (q_update_workspaces (\<lambda>w. ws_id w \<in> set ws_ids)
                (\<lambda>w. observed now (conditions_of containers volumes archives (ws_id w)) w)))
       (\<lambda>ids. io_return (length ids))"

record 'w observer =
  ob_db :: db
  ob_world :: 'w

definition on_ob_db :: "(db, 'a) io \<Rightarrow> ('w observer, 'a) io" where
  "on_ob_db m = io_zoom ob_db (\<lambda>d s. s\<lparr>ob_db := d\<rparr>) m"

definition on_ob_world :: "('w, 'a) io \<Rightarrow> ('w observer, 'a) io" where
  "on_ob_world m = io_zoom ob_world (\<lambda>w s. s\<lparr>ob_world := w\<rparr>) m"

definition observer_reconcile ::
  "datetime \<Rightarrow> 'w instance_controller \<Rightarrow> 'w storage_provider \<Rightarrow> string \<Rightarrow> ('w observer, unit) io" where
  "observer_reconcile now ic sp pfx =
     io_bind (on_ob_db load_workspace_ids) (\<lambda>ws_ids.
       if ws_ids = [] then io_return ()
       else io_bind (on_ob_world (observe_all ic sp pfx)) (\<lambda>obs.
         case (obs_containers obs, obs_volumes obs, obs_archives obs) of
           (Some containers, Some volumes, Some archives) \<Rightarrow>
             io_bind (on_ob_db (bulk_update_conditions now ws_ids containers volumes archives)) (\<lambda>count.
               on_ob_db db_commit)
         | _ \<Rightarrow> io_return ()))"

section \<open>Lemmas\<close>

lemma observed_simps [simp]:
  "ws_id (observed now c w) = ws_id w" "ws_conditions (observed now c w) = c"
  "ws_phase (observed now c w) = ws_phase w" "ws_operation (observed now c w) = ws_operation w"
  "ws_deleted_at (observed now c w) = ws_deleted_at w"
  by (simp_all add: observed_def)

lemma dict_by_Some_iff:
  "distinct (map key xs) \<Longrightarrow> dict_by key xs i = Some x \<longleftrightarrow> x \<in> set xs \<and> key x = i"
  by (auto simp: dict_by_def map_of_eq_Some_iff rev_map [symmetric] comp_def)

lemma dict_by_None_iff: "dict_by key xs i = None \<longleftrightarrow> (\<forall>x \<in> set xs. key x \<noteq> i)"
  by (auto simp: dict_by_def map_of_eq_None_iff image_image)

lemma dict_by_SomeD: "dict_by key xs i = Some x \<Longrightarrow> x \<in> set xs \<and> key x = i"
  by (auto simp: dict_by_def dest!: map_of_SomeD)

text \<open>A safe call never raises.\<close>

lemma safe_call_cases:
  obtains x t where "m s = (Inr x, t)" "safe_call m s = (Inr (Some x), t)"
  | e t where "m s = (Inl e, t)" "safe_call m s = (Inr None, t)"
proof (cases "m s")
  case (Pair r t)
  show ?thesis
  proof (cases r)
    case (Inr x)
    with Pair that(1) show ?thesis by (simp add: safe_call_def io_except_def io_bind_def io_wait_for_def io_return_def)
  next
    case (Inl e)
    have "safe_call m s = (Inr None, t)"
      using Pair Inl
      by (cases e) (simp_all add: safe_call_def io_except_def io_bind_def io_wait_for_def io_return_def)
    with Pair Inl that(2) show ?thesis by blast
  qed
qed

lemma observe_all_returns: "\<exists>obs w'. observe_all ic sp pfx w = (Inr obs, w')"
proof -
  obtain c w1 where 1: "safe_call (ic_list_all ic pfx) w = (Inr c, w1)"
    by (rule safe_call_cases [of "ic_list_all ic pfx" w])
  obtain vs w2 where 2: "safe_call (sp_list_volumes sp pfx) w1 = (Inr vs, w2)"
    by (rule safe_call_cases [of "sp_list_volumes sp pfx" w1])
  obtain ar w3 where 3: "safe_call (sp_list_archives sp pfx) w2 = (Inr ar, w3)"
    by (rule safe_call_cases [of "sp_list_archives sp pfx" w2])
  show ?thesis using 1 2 3 by (simp add: observe_all_def io_bind_def io_return_def)
qed

definition observed_row :: "datetime \<Rightarrow> observation \<Rightarrow> workspace \<Rightarrow> workspace" where
  "observed_row now obs w =
     (case (obs_containers obs, obs_volumes obs, obs_archives obs) of
        (Some c, Some v, Some a) \<Rightarrow> if ws_live w then observed now (conditions_of c v a (ws_id w)) w else w
      | _ \<Rightarrow> w)"

lemma live_ids_update:
  assumes "distinct (map ws_id rows)"
  shows "sql_update (\<lambda>w. ws_id w \<in> set (remdups (map ws_id (sql_select ws_live rows)))) f rows
     = map (\<lambda>w. if ws_live w then f w else w) rows"
  unfolding sql_update_def
proof (rule map_cong [OF refl])
  fix w assume "w \<in> set rows"
  then have "ws_id w \<in> set (remdups (map ws_id (sql_select ws_live rows))) \<longleftrightarrow> ws_live w"
    using ws_table.same_key_same_row [OF assms] by (auto simp: sql_simps image_iff)
  then show "(if ws_id w \<in> set (remdups (map ws_id (sql_select ws_live rows))) then f w else w)
      = (if ws_live w then f w else w)" by simp
qed

text \<open>C17: the observer is all or nothing.  On a healthy connection a pass returns; when one of the three
  observations failed or timed out no row changes; when all succeeded exactly the live rows get their
  conditions, an entry for a resource that was seen and null for one that was not, and nothing else of
  any row changes.\<close>
theorem observer_all_or_nothing:
  assumes ok: "db_ok (ob_db s)" and keys: "keys_ok (db_tables (ob_db s))"
    and start: "db_committed (ob_db s) = db_tables (ob_db s)"
    and obs: "fst (observe_all ic sp pfx (ob_world s)) = Inr obs"
  shows "\<exists>s'. observer_reconcile now ic sp pfx s = (Inr (), s')
    \<and> db_committed (ob_db s') = db_tables (ob_db s')
    \<and> tb_workspaces (db_tables (ob_db s'))
       = map (observed_row now obs) (tb_workspaces (db_tables (ob_db s)))"
proof -
  let ?rows = "tb_workspaces (db_tables (ob_db s))"
  let ?ids = "remdups (map ws_id (sql_select ws_live ?rows))"
  have load: "on_ob_db load_workspace_ids s = (Inr ?ids, s)"
    using ok by (simp add: on_ob_db_def io_zoom_def load_workspace_ids_def io_simps)
  show ?thesis
  proof (cases "?ids = []")
    case True
    then have "observed_row now obs w = w" if "w \<in> set ?rows" for w
      using that by (auto simp: sql_select_def filter_empty_conv observed_row_def split: option.split)
    then have "map (observed_row now obs) ?rows = ?rows" by (simp add: map_idI)
    then show ?thesis
      using load True start by (simp add: observer_reconcile_def io_bind_def io_return_def)
  next
    case False
    obtain w' where w': "on_ob_world (observe_all ic sp pfx) s = (Inr obs, s\<lparr>ob_world := w'\<rparr>)"
      using obs by (cases "observe_all ic sp pfx (ob_world s)") (simp add: on_ob_world_def io_zoom_def)
    show ?thesis
    proof (cases "\<exists>c v a. obs_containers obs = Some c \<and> obs_volumes obs = Some v \<and> obs_archives obs = Some a")
      case True
      then obtain c v a where o: "obs_containers obs = Some c" "obs_volumes obs = Some v" "obs_archives obs = Some a"
        by blast
      have "map (observed_row now obs) ?rows
          = sql_update (\<lambda>w. ws_id w \<in> set ?ids) (\<lambda>w. observed now (conditions_of c v a (ws_id w)) w) ?rows"
        using keys by (subst live_ids_update) (auto simp: keys_ok_def o observed_row_def)
      then show ?thesis
        using load False w' o ok
        by (simp add: observer_reconcile_def io_bind_def bulk_update_conditions_def on_ob_db_def io_zoom_def
            io_simps sql_simps io_return_def)
    next
      case False
      then have "observed_row now obs = id"
        by (auto simp: fun_eq_iff observed_row_def split: option.split)
      then have "map (observed_row now obs) ?rows = ?rows" by simp
      then show ?thesis
        using load \<open>?ids \<noteq> []\<close> w' False start
        by (auto simp: observer_reconcile_def io_bind_def io_return_def split: option.split)
    qed
  qed
qed

section \<open>What is written is what is there\<close>

lemma dict_by_fact:
  assumes "\<And>x. x \<in> set xs \<Longrightarrow> val x = P (key x)" and "\<And>i. P i \<Longrightarrow> \<exists>x \<in> set xs. key x = i"
  shows "(case dict_by key xs i of None \<Rightarrow> False | Some x \<Rightarrow> val x) = P i"
proof (cases "dict_by key xs i")
  case None
  then have "\<not> P i" using assms(2) dict_by_None_iff [of key xs i] by metis
  with None show ?thesis by simp
next
  case (Some x)
  then show ?thesis using assms(1) [of x] dict_by_SomeD [OF Some] by simp
qed

context observation_contract
begin

lemma safe_call_contract:
  assumes "safe_call m s = (Inr o1, t)"
    and "\<And>r t. m s = (r, t) \<Longrightarrow> inv t \<and> untouched v s t \<and> (\<forall>x. r = Inr x \<longrightarrow> Q x)"
  shows "inv t \<and> untouched v s t \<and> (\<forall>x. o1 = Some x \<longrightarrow> Q x)"
  using assms by (cases rule: safe_call_cases [of m s]) force+

lemma observed_facts:
  assumes inv: "inv w" and run: "observe_all ic sp pfx w = (Inr obs, w')"
  shows "inv w' \<and> untouched v w w'
    \<and> (\<forall>c x a. obs_containers obs = Some c \<and> obs_volumes obs = Some x \<and> obs_archives obs = Some a \<longrightarrow>
         from_conditions (conditions_of c x a i) = facts v owner w i)"
proof -
  obtain cl w1 where 1: "safe_call (ic_list_all ic pfx) w = (Inr cl, w1)"
    by (rule safe_call_cases [of "ic_list_all ic pfx" w])
  obtain vl w2 where 2: "safe_call (sp_list_volumes sp pfx) w1 = (Inr vl, w2)"
    by (rule safe_call_cases [of "sp_list_volumes sp pfx" w1])
  obtain al w3 where 3: "safe_call (sp_list_archives sp pfx) w2 = (Inr al, w3)"
    by (rule safe_call_cases [of "sp_list_archives sp pfx" w2])
  have obs: "w' = w3" "obs_containers obs = map_option (dict_by ci_workspace_id) cl"
      "obs_volumes obs = map_option (dict_by vi_workspace_id) vl"
      "obs_archives obs = map_option (dict_by ai_workspace_id) al"
    using run 1 2 3 by (auto simp: observe_all_def io_bind_def io_return_def)
  note c1 = safe_call_contract [OF 1 list_all [OF inv]]
  then have i1: "inv w1" "untouched v w w1" by simp_all
  note c2 = safe_call_contract [OF 2 list_volumes [OF i1(1)]]
  then have i2: "inv w2" "untouched v w w2" using untouched_trans [OF i1(2)] by simp_all
  note c3 = safe_call_contract [OF 3 list_archives [OF i2(1)]]
  then have i3: "inv w3" "untouched v w w3" using untouched_trans [OF i2(2)] by simp_all
  have "from_conditions (conditions_of c x a i) = facts v owner w i"
    if o: "obs_containers obs = Some c" "obs_volumes obs = Some x" "obs_archives obs = Some a" for c x a
  proof -
    obtain cs vs rs where l: "cl = Some cs" "vl = Some vs" "al = Some rs"
      "c = dict_by ci_workspace_id cs" "x = dict_by vi_workspace_id vs" "a = dict_by ai_workspace_id rs"
      using o obs by auto
    have "(case c i of None \<Rightarrow> False | Some y \<Rightarrow> ci_running y) = pf_running v w i"
      unfolding l by (rule dict_by_fact) (use c1 l in auto)
    moreover have "(case x i of None \<Rightarrow> False | Some y \<Rightarrow> vi_exists y) = pf_volume v w1 i"
      unfolding l by (rule dict_by_fact) (use c2 l in auto)
    moreover have "(case a i of None \<Rightarrow> False | Some y \<Rightarrow> ai_exists y) = (\<exists>k. pf_archive v w2 k \<and> owner k = Some i)"
      unfolding l
      by (rule dict_by_fact [where P = "\<lambda>i. \<exists>k. pf_archive v w2 k \<and> owner k = Some i"]) (use c3 l in auto)
    ultimately show ?thesis
      using i1(2) i2(2) by (simp add: from_conditions_def conditions_of_def facts_def untouched_def)
  qed
  then show ?thesis using i3 obs(1) by blast
qed

end

end
