(* ===== verification/Activity.thy ===== *)
theory Activity
  imports Config
begin

text \<open>
  Activity tracking: app/proxy/activity.py (the memory buffer of a worker), infra/redis_kv.py (the
  shared sorted set), infra/redis_pubsub.py (wake-up messages) and control/tasks.py (the periodic
  flush).  The Redis client is a parameter, a record of the commands the code sends on an unknown world
  \<open>'w\<close>; \<open>redis_laws\<close> states the documented behaviour of those commands on a view of the sorted sets.
\<close>

section \<open>The Redis client\<close>

record 'w redis =
  rd_zadd_gt :: "string \<Rightarrow> (string \<times> seconds) list \<Rightarrow> ('w, unit) io"
  rd_zrange :: "string \<Rightarrow> ('w, (string \<times> seconds) list) io"
  rd_zrem :: "string \<Rightarrow> string list \<Rightarrow> ('w, nat) io"
  rd_zrangebyscore :: "string \<Rightarrow> seconds \<Rightarrow> ('w, string list) io"
  rd_publish :: "string \<Rightarrow> string \<Rightarrow> ('w, nat) io"

type_synonym scores = "string \<rightharpoonup> seconds"

text \<open>\<open>ZADD key GT\<close>: a new member is added, an old one only gets a greater score.\<close>

definition zadd_gt :: "(string \<times> seconds) list \<Rightarrow> scores \<Rightarrow> scores" where
  "zadd_gt xs z m =
     (case map_of xs m of
        None \<Rightarrow> z m
      | Some t \<Rightarrow> (case z m of None \<Rightarrow> Some t | Some t' \<Rightarrow> Some (max t t')))"

definition zadd_law :: "'w redis \<Rightarrow> ('w \<Rightarrow> string \<Rightarrow> scores) \<Rightarrow> bool" where
  "zadd_law rd zset \<longleftrightarrow>
     (\<forall>key xs w r w'. rd_zadd_gt rd key xs w = (r, w') \<longrightarrow>
        (r = Inr () \<longrightarrow> zset w' key = zadd_gt xs (zset w key))
        \<and> (\<forall>m. zset w' key m = zset w key m \<or> zset w' key m = zadd_gt xs (zset w key) m))"

definition zrange_law :: "'w redis \<Rightarrow> ('w \<Rightarrow> string \<Rightarrow> scores) \<Rightarrow> bool" where
  "zrange_law rd zset \<longleftrightarrow>
     (\<forall>key w r w'. rd_zrange rd key w = (r, w') \<longrightarrow>
        zset w' = zset w \<and> (\<forall>xs. r = Inr xs \<longrightarrow> distinct (map fst xs) \<and> map_of xs = zset w key))"

definition zrem_law :: "'w redis \<Rightarrow> ('w \<Rightarrow> string \<Rightarrow> scores) \<Rightarrow> bool" where
  "zrem_law rd zset \<longleftrightarrow>
     (\<forall>key ms w r w'. rd_zrem rd key ms w = (r, w') \<longrightarrow>
        (\<forall>m. m \<notin> set ms \<longrightarrow> zset w' key m = zset w key m)
        \<and> (\<forall>m. m \<in> set ms \<longrightarrow> zset w' key m = None \<or> zset w' key m = zset w key m)
        \<and> (\<forall>n. r = Inr n \<longrightarrow> (\<forall>m \<in> set ms. zset w' key m = None)))"

definition publish_law :: "'w redis \<Rightarrow> ('w \<Rightarrow> string \<Rightarrow> scores) \<Rightarrow> bool" where
  "publish_law rd zset \<longleftrightarrow> (\<forall>ch p w. zset (snd (rd_publish rd ch p w)) = zset w)"

definition redis_laws :: "'w redis \<Rightarrow> ('w \<Rightarrow> string \<Rightarrow> scores) \<Rightarrow> bool" where
  "redis_laws rd zset \<longleftrightarrow>
     zadd_law rd zset \<and> zrange_law rd zset \<and> zrem_law rd zset \<and> publish_law rd zset"

lemma redis_zadd:
  assumes "redis_laws rd zset" and "rd_zadd_gt rd key xs w = (r, w')"
  shows "r = Inr () \<longrightarrow> zset w' key = zadd_gt xs (zset w key)"
    and "zset w' key m = zset w key m \<or> zset w' key m = zadd_gt xs (zset w key) m"
  using assms by (auto simp: redis_laws_def zadd_law_def)

section \<open>The shared store (infra/redis_kv.py)\<close>

definition ACTIVITY_KEY :: string where
  "ACTIVITY_KEY = ''codehub:activity''"

definition activity_update :: "'w redis \<Rightarrow> (string \<times> seconds) list \<Rightarrow> ('w, unit) io" where
  "activity_update rd activities =
     (if activities = [] then io_return () else rd_zadd_gt rd ACTIVITY_KEY activities)"

definition activity_scan_all :: "'w redis \<Rightarrow> ('w, (string \<times> seconds) list) io" where
  "activity_scan_all rd = rd_zrange rd ACTIVITY_KEY"

definition activity_delete :: "'w redis \<Rightarrow> string list \<Rightarrow> ('w, nat) io" where
  "activity_delete rd workspace_ids =
     (if workspace_ids = [] then io_return 0 else rd_zrem rd ACTIVITY_KEY workspace_ids)"

definition activity_get_expired :: "'w redis \<Rightarrow> seconds \<Rightarrow> ('w, string list) io" where
  "activity_get_expired rd cutoff = rd_zrangebyscore rd ACTIVITY_KEY cutoff"

definition publish :: "'w redis \<Rightarrow> string \<Rightarrow> string \<Rightarrow> ('w, nat) io" where
  "publish rd channel payload = rd_publish rd channel payload"

section \<open>The memory buffer (app/proxy/activity.py)\<close>

type_synonym activity_buffer = "(string \<times> seconds) list"

definition buffer_get :: "activity_buffer \<Rightarrow> string \<Rightarrow> seconds" where
  "buffer_get b i = (case map_of b i of None \<Rightarrow> 0 | Some t \<Rightarrow> t)"

definition buffer_record :: "seconds \<Rightarrow> string \<Rightarrow> seconds \<Rightarrow> activity_buffer \<Rightarrow> activity_buffer" where
  "buffer_record throttle i now b =
     (if now - buffer_get b i < throttle then b else AList.update i now b)"

text \<open>Putting the entries of a snapshot back, each with the greater of the two times.\<close>

definition buffer_merge :: "activity_buffer \<Rightarrow> activity_buffer \<Rightarrow> activity_buffer" where
  "buffer_merge snapshot b =
     fold (\<lambda>(i, t) b. AList.update i (max t (buffer_get b i)) b) snapshot b"

fun is_RedisError :: "exn \<Rightarrow> bool" where
  "is_RedisError (RedisError _) = True"
| "is_RedisError _ = False"

text \<open>\<open>flush\<close>: the buffer is swapped for an empty one, then the store is updated.  While that call is
  awaited requests go on recording: \<open>during\<close> lists their workspaces and times.\<close>

definition buffer_flush ::
  "'w redis \<Rightarrow> seconds \<Rightarrow> (string \<times> seconds) list \<Rightarrow> (activity_buffer \<times> 'w, nat) io" where
  "buffer_flush rd throttle during = (\<lambda>(b, w).
     if b = [] then (Inr 0, (b, w))
     else (let b1 = fold (\<lambda>(i, t). buffer_record throttle i t) during [] in
       case activity_update rd b w of
         (Inr _, w') \<Rightarrow> (Inr (length b), (b1, w'))
       | (Inl e, w') \<Rightarrow>
           if is_RedisError e then (Inr 0, (buffer_merge b b1, w')) else (Inl e, (b1, w'))))"

definition pending_count :: "activity_buffer \<Rightarrow> nat" where
  "pending_count b = length b"

text \<open>One round of the flush task: an exception of the flush is logged.\<close>

definition flush_round ::
  "'w redis \<Rightarrow> seconds \<Rightarrow> (string \<times> seconds) list \<Rightarrow> (activity_buffer \<times> 'w, unit) io" where
  "flush_round rd throttle during =
     io_try (io_bind (buffer_flush rd throttle during) (\<lambda>count. io_return ())) (\<lambda>_. io_return ())"

section \<open>No activity is lost\<close>

text \<open>The latest activity of a workspace that the worker's buffer or the store knows.\<close>

definition known_at_least :: "('w \<Rightarrow> string \<Rightarrow> scores) \<Rightarrow> string \<Rightarrow> seconds \<Rightarrow> activity_buffer \<times> 'w \<Rightarrow> bool" where
  "known_at_least zset i t = (\<lambda>(b, w).
     (\<exists>x. map_of b i = Some x \<and> t \<le> x) \<or> (\<exists>x. zset w ACTIVITY_KEY i = Some x \<and> t \<le> x))"

lemma map_of_update: "map_of (AList.update k v al) = (map_of al)(k \<mapsto> v)"
  by (simp add: update_conv')

lemma distinct_buffer_record: "distinct (map fst b) \<Longrightarrow> distinct (map fst (buffer_record th i t b))"
  by (simp add: buffer_record_def distinct_update)

lemma buffer_merge_covers:
  "distinct (map fst snap) \<Longrightarrow> map_of snap i = Some t \<Longrightarrow>
   \<exists>x. map_of (buffer_merge snap b) i = Some x \<and> t \<le> x"
proof (induction snap arbitrary: b)
  case (Cons p snap)
  obtain j u where p: "p = (j, u)" by fastforce
  show ?case
  proof (cases "i = j")
    case True
    have keep: "map_of (fold (\<lambda>(i, t) b. AList.update i (max t (buffer_get b i)) b) xs b') i = map_of b' i"
      if "i \<notin> fst ` set xs" for xs and b' :: activity_buffer
      using that by (induction xs arbitrary: b') (auto simp: map_of_update)
    have "i \<notin> fst ` set snap" using Cons.prems(1) p True by simp
    then show ?thesis
      using Cons.prems(2) p True keep by (simp add: buffer_merge_def map_of_update)
  next
    case False
    then have "map_of snap i = Some t" "distinct (map fst snap)" using Cons.prems p by auto
    then show ?thesis using Cons.IH [of "AList.update j (max u (buffer_get b j)) b"]
      by (simp add: p buffer_merge_def)
  qed
qed simp

lemma zadd_gt_mono: "z m = Some t \<Longrightarrow> \<exists>x. zadd_gt xs z m = Some x \<and> t \<le> x"
  by (auto simp: zadd_gt_def split: option.split)

lemma zadd_gt_covers: "map_of xs m = Some t \<Longrightarrow> \<exists>x. zadd_gt xs z m = Some x \<and> t \<le> x"
  by (auto simp: zadd_gt_def split: option.split)

text \<open>A flush of a buffer with entries either stored them all or put them back; in both cases the store holds,
  for each member, what it held or what storing the entries gives.\<close>

lemma flush_outcome:
  assumes laws: "redis_laws rd zset" and b: "b \<noteq> []"
    and run: "buffer_flush rd throttle during (b, w) = (Inr n, (b', w'))"
  defines "b1 \<equiv> fold (\<lambda>(i, t). buffer_record throttle i t) during []"
  shows "b' = b1 \<and> zset w' ACTIVITY_KEY = zadd_gt b (zset w ACTIVITY_KEY) \<or>
    b' = buffer_merge b b1 \<and> (\<forall>i. zset w' ACTIVITY_KEY i \<in> {zset w ACTIVITY_KEY i, zadd_gt b (zset w ACTIVITY_KEY) i})"
proof -
  obtain r v where u: "rd_zadd_gt rd ACTIVITY_KEY b w = (r, v)" by fastforce
  note z = redis_zadd [OF laws u]
  show ?thesis
  proof (cases r)
    case (Inr x)
    then show ?thesis using run b u z(1) by (auto simp: buffer_flush_def activity_update_def b1_def Let_def fun_eq_iff)
  next
    case (Inl e)
    then show ?thesis using run b u z(2)
      by (auto simp: buffer_flush_def activity_update_def b1_def Let_def split: if_splits)
  qed
qed

text \<open>A stored time only grows.\<close>

lemma stored_time_kept:
  "z i = Some y \<Longrightarrow> t \<le> y \<Longrightarrow> v \<in> {z i, zadd_gt b z i} \<Longrightarrow> \<exists>x. v = Some x \<and> t \<le> x"
  using zadd_gt_mono [of z i y b] by force

text \<open>C18: a flush that returns loses no activity.  Whatever time the worker's buffer or the shared store
  knew of a workspace, one of them knows that time or a later one after the flush, also when Redis
  failed half way and the snapshot was put back, and whatever requests recorded meanwhile.\<close>
theorem flush_loses_no_activity:
  assumes laws: "redis_laws rd zset" and d: "distinct (map fst b)"
    and run: "buffer_flush rd throttle during (b, w) = (Inr n, s')"
    and known: "known_at_least zset i t (b, w)"
  shows "known_at_least zset i t s'"
proof (cases "b = []")
  case True
  with run known show ?thesis by (simp add: buffer_flush_def)
next
  case False
  let ?b1 = "fold (\<lambda>(i, t). buffer_record throttle i t) during []" and ?z = "\<lambda>w. zset w ACTIVITY_KEY"
  obtain b' w' where s': "s' = (b', w')" by fastforce
  note cases = flush_outcome [OF laws False run [unfolded s']]
  then have kept: "?z w' i \<in> {?z w i, zadd_gt b (?z w) i}" by auto
  from known consider x where "map_of b i = Some x" "t \<le> x" | x where "?z w i = Some x" "t \<le> x"
    by (auto simp: known_at_least_def)
  then show ?thesis
  proof cases
    case (1 x)
    then obtain y where y: "zadd_gt b (?z w) i = Some y" "x \<le> y" using zadd_gt_covers by blast
    obtain v where v: "map_of (buffer_merge b ?b1) i = Some v" "x \<le> v" using buffer_merge_covers [OF d] 1(1) by blast
    from cases show ?thesis using y v 1(2) by (auto simp: s' known_at_least_def)
  next
    case 2
    then have "\<exists>x. ?z w' i = Some x \<and> t \<le> x" by (rule stored_time_kept [where z = "?z w", OF _ _ kept])
    then show ?thesis by (simp add: s' known_at_least_def)
  qed
qed

section \<open>Instances of the client\<close>

text \<open>A server that is down, and one that keeps the activity set in memory.\<close>

definition down_redis :: "activity_buffer redis" where
  "down_redis = \<lparr>rd_zadd_gt = (\<lambda>_ _. io_raise (RedisError ''down'')), rd_zrange = (\<lambda>_. io_raise (RedisError ''down'')),
     rd_zrem = (\<lambda>_ _. io_raise (RedisError ''down'')), rd_zrangebyscore = (\<lambda>_ _. io_raise (RedisError ''down'')),
     rd_publish = (\<lambda>_ _. io_raise (RedisError ''down''))\<rparr>"

definition mem_zset :: "activity_buffer \<Rightarrow> string \<Rightarrow> scores" where
  "mem_zset w key = (if key = ACTIVITY_KEY then map_of w else Map.empty)"

definition mem_zadd :: "(string \<times> seconds) list \<Rightarrow> activity_buffer \<Rightarrow> activity_buffer" where
  "mem_zadd xs w =
     foldr (\<lambda>(i, t) w'. AList.update i (case map_of w i of None \<Rightarrow> t | Some t' \<Rightarrow> max t t') w') xs w"

lemma down_redis_laws: "redis_laws down_redis mem_zset"
  by (simp add: redis_laws_def zadd_law_def zrange_law_def zrem_law_def publish_law_def down_redis_def io_raise_def)

lemma map_of_mem_zadd: "map_of (mem_zadd xs w) = zadd_gt xs (map_of w)"
proof -
  have "map_of (foldr (\<lambda>(i, t) w'. AList.update i (case map_of w i of None \<Rightarrow> t | Some t' \<Rightarrow> max t t') w') xs w) m
      = zadd_gt xs (map_of w) m" for m
    by (induction xs) (auto simp: zadd_gt_def map_of_update split: option.split)
  then show ?thesis by (simp add: fun_eq_iff mem_zadd_def)
qed

definition mem_redis :: "activity_buffer redis" where
  "mem_redis = \<lparr>rd_zadd_gt = (\<lambda>key xs w. (Inr (), if key = ACTIVITY_KEY then mem_zadd xs w else w)),
     rd_zrange = (\<lambda>key w. (Inr (if key = ACTIVITY_KEY then AList.clearjunk w else []), w)),
     rd_zrem = (\<lambda>key ms w. (Inr 0, if key = ACTIVITY_KEY then filter (\<lambda>p. fst p \<notin> set ms) w else w)),
     rd_zrangebyscore = (\<lambda>key c w. (Inr (map fst (filter (\<lambda>p. snd p \<le> c) w)), w)),
     rd_publish = (\<lambda>_ _ w. (Inr 0, w))\<rparr>"

theorem flush_loses_no_activity_witness:
  "buffer_flush down_redis 1 [(''b'', 7)] ([(''a'', 5)], []) = (Inr 0, ([(''b'', 7), (''a'', 5)], []))
   \<and> known_at_least mem_zset ''a'' 5 ([(''b'', 7), (''a'', 5)], [])"
proof -
  have run: "buffer_flush down_redis 1 [(''b'', 7)] ([(''a'', 5)], []) = (Inr 0, ([(''b'', 7), (''a'', 5)], []))"
    by (simp add: buffer_flush_def activity_update_def down_redis_def io_raise_def buffer_record_def buffer_get_def
        buffer_merge_def Let_def)
  show ?thesis
    using flush_loses_no_activity [OF down_redis_laws _ run, of "''a''" 5] run
    by (simp add: known_at_least_def)
qed

end
