(* ===== verification/Scheduler.thy ===== *)
theory Scheduler
  imports Interfaces Database Retry Activity
begin

text \<open>
  control/coordinator/scheduler.py, scheduler_ttl.py and scheduler_gc.py: the periodic tasks.  The TTL
  runner moves the activity times of Redis into the table and lowers the desired state of workspaces
  that idled too long; the garbage collector deletes archives, containers and volumes that no row
  claims.  A set is the list of its elements in the order the code visits them.
\<close>

section \<open>State\<close>

record 'w sched =
  sd_db :: db
  sd_registry :: registry
  sd_world :: 'w
  sd_last_ttl :: seconds
  sd_last_gc :: seconds

definition on_sd_db :: "(db, 'a) io \<Rightarrow> ('w sched, 'a) io" where
  "on_sd_db m = io_zoom sd_db (\<lambda>d s. s\<lparr>sd_db := d\<rparr>) m"

definition on_sd_world :: "('w, 'a) io \<Rightarrow> ('w sched, 'a) io" where
  "on_sd_world m = io_zoom sd_world (\<lambda>w s. s\<lparr>sd_world := w\<rparr>) m"

definition on_sd_guarded :: "(registry \<times> 'w, 'a) io \<Rightarrow> ('w sched, 'a) io" where
  "on_sd_guarded m =
     io_zoom (\<lambda>s. (sd_registry s, sd_world s)) (\<lambda>(reg, w) s. s\<lparr>sd_registry := reg, sd_world := w\<rparr>) m"

section \<open>TTL runner (scheduler_ttl.py)\<close>

text \<open>\<open>datetime.fromtimestamp\<close>: to the nearest microsecond, a tie to the even one.\<close>

definition from_timestamp :: "seconds \<Rightarrow> datetime" where
  "from_timestamp t =
     (let x = t * 1000000; f = \<lfloor>x\<rfloor>; d = x - real_of_int f
      in if d < 1/2 then f else if d > 1/2 then f + 1 else if even f then f else f + 1)"

definition synced :: "(string \<times> seconds) list \<Rightarrow> workspace \<Rightarrow> workspace" where
  "synced activities w =
     (case map_of activities (ws_id w) of
        None \<Rightarrow> w
      | Some t \<Rightarrow> w\<lparr>ws_last_access_at := Some (from_timestamp t)\<rparr>)"

definition delete_synced :: "'w redis \<Rightarrow> string list \<Rightarrow> ('w sched, unit) io" where
  "delete_synced rd updated_ids =
     (if updated_ids \<noteq> [] then
        io_bind (on_sd_world (activity_delete rd updated_ids)) (\<lambda>_. io_return ())
      else io_return ())"

definition sync_to_db :: "'w redis \<Rightarrow> ('w sched, nat) io" where
  "sync_to_db rd =
     io_bind (on_sd_world (activity_scan_all rd)) (\<lambda>activities.
       if activities = [] then io_return 0
       else io_bind (on_sd_db (db_execute (q_update_workspaces
                (\<lambda>w. ws_id w \<in> fst ` set activities) (synced activities)))) (\<lambda>updated_ids.
              io_seq (delete_synced rd updated_ids) (io_return (length updated_ids))))"

definition standby_expired :: "ttl_config \<Rightarrow> datetime \<Rightarrow> workspace \<Rightarrow> bool" where
  "standby_expired cfg db_now w \<longleftrightarrow>
     ws_phase w = phase.RUNNING \<and> ws_operation w = operation.NONE \<and> ws_live w
     \<and> (case ws_last_access_at w of None \<Rightarrow> False
        | Some t \<Rightarrow> db_now - t > timedelta_seconds (standby_seconds cfg))"

definition archive_expired :: "ttl_config \<Rightarrow> datetime \<Rightarrow> workspace \<Rightarrow> bool" where
  "archive_expired cfg db_now w \<longleftrightarrow>
     ws_phase w = phase.STANDBY \<and> ws_operation w = operation.NONE \<and> ws_live w
     \<and> (case ws_phase_changed_at w of None \<Rightarrow> False
        | Some t \<Rightarrow> db_now - t > timedelta_seconds (archive_seconds cfg))"

definition set_desired :: "desired_state \<Rightarrow> workspace \<Rightarrow> workspace" where
  "set_desired ds w = w\<lparr>ws_desired_state := ds\<rparr>"

definition check_standby_ttl :: "ttl_config \<Rightarrow> datetime \<Rightarrow> (db, nat) io" where
  "check_standby_ttl cfg db_now =
     io_bind (db_execute (q_update_workspaces (standby_expired cfg db_now) (set_desired desired_state.STANDBY)))
       (\<lambda>ids. io_return (length ids))"

definition check_archive_ttl :: "ttl_config \<Rightarrow> datetime \<Rightarrow> (db, nat) io" where
  "check_archive_ttl cfg db_now =
     io_bind (db_execute (q_update_workspaces (archive_expired cfg db_now) (set_desired desired_state.ARCHIVED)))
       (\<lambda>ids. io_return (length ids))"

definition wc_channel :: "redis_channel_config \<Rightarrow> string" where
  "wc_channel ch = wake_prefix ch @ '':wc''"

definition ttl_statements ::
  "ttl_config \<Rightarrow> redis_channel_config \<Rightarrow> datetime \<Rightarrow> 'w redis \<Rightarrow> ('w sched, unit) io" where
  "ttl_statements cfg ch db_now rd =
     io_bind (sync_to_db rd) (\<lambda>_.
       io_bind (on_sd_db (check_standby_ttl cfg db_now)) (\<lambda>standby.
         io_bind (on_sd_db (check_archive_ttl cfg db_now)) (\<lambda>archive.
           if standby > 0 \<or> archive > 0 then
             io_bind (on_sd_world (publish rd (wc_channel ch) [])) (\<lambda>_. io_return ())
           else io_return ())))"

definition ttl_run :: "ttl_config \<Rightarrow> redis_channel_config \<Rightarrow> datetime \<Rightarrow> 'w redis \<Rightarrow> ('w sched, unit) io" where
  "ttl_run cfg ch db_now rd = io_seq (ttl_statements cfg ch db_now rd) (on_sd_db db_commit)"

section \<open>Garbage collector (scheduler_gc.py)\<close>

definition list_archive_keys :: "'w storage_provider \<Rightarrow> string \<Rightarrow> ('w sched, string list option) io" where
  "list_archive_keys sp pfx =
     io_try (io_bind (on_sd_world (sp_list_all_archive_keys sp pfx)) (\<lambda>ks. io_return (Some ks)))
       (\<lambda>_. io_return None)"

definition operation_archive_path :: "string \<Rightarrow> string \<Rightarrow> string \<Rightarrow> string" where
  "operation_archive_path pfx wid op_id = pfx @ wid @ ''/'' @ op_id @ ''/home.tar.zst''"

definition protected_paths :: "string \<Rightarrow> workspace list \<Rightarrow> string list" where
  "protected_paths pfx rows =
     remdups (List.map_filter ws_archive_key (sql_select ws_live rows)
       @ List.map_filter (\<lambda>w. map_option (operation_archive_path pfx (ws_id w)) (ws_op_id w))
           (sql_select ws_live rows))"

definition get_protected_paths :: "string \<Rightarrow> (db, string list) io" where
  "get_protected_paths pfx = db_execute (\<lambda>t. (protected_paths pfx (tb_workspaces t), t))"

definition valid_workspace_ids :: "workspace list \<Rightarrow> string list" where
  "valid_workspace_ids rows = remdups (map ws_id (sql_select ws_live rows))"

definition get_valid_workspace_ids :: "(db, string list) io" where
  "get_valid_workspace_ids = db_execute (\<lambda>t. (valid_workspace_ids (tb_workspaces t), t))"

definition external :: "'w env \<Rightarrow> ('w, 'a) io \<Rightarrow> ('w sched, 'a) io" where
  "external env m = on_sd_guarded (with_retry env m 3 1 30 (Some ''external''))"

definition delete_archives :: "'w env \<Rightarrow> 'w storage_provider \<Rightarrow> string list \<Rightarrow> ('w sched, nat) io" where
  "delete_archives env sp keys =
     io_bind (io_mapM (\<lambda>key. io_try (external env (sp_delete_archive sp key)) (\<lambda>_. io_return False)) keys)
       (\<lambda>rs. io_return (length (filter id rs)))"

definition cleanup_orphan_archives ::
  "'w env \<Rightarrow> 'w storage_provider \<Rightarrow> string \<Rightarrow> ('w sched, unit) io" where
  "cleanup_orphan_archives env sp pfx =
     io_bind (list_archive_keys sp pfx) (\<lambda>r.
       case r of
         None \<Rightarrow> io_return ()
       | Some s3_archives \<Rightarrow>
           if s3_archives = [] then io_return ()
           else io_bind (on_sd_db (get_protected_paths pfx)) (\<lambda>protected.
             (let orphans = filter (\<lambda>k. k \<notin> set protected) (remdups s3_archives)
              in if orphans = [] then io_return ()
                 else io_bind (delete_archives env sp orphans) (\<lambda>deleted. io_return ()))))"

definition cleanup_orphan_resources ::
  "'w env \<Rightarrow> 'w instance_controller \<Rightarrow> 'w storage_provider \<Rightarrow> string \<Rightarrow> ('w sched, unit) io" where
  "cleanup_orphan_resources env ic sp pfx =
     io_bind (on_sd_world (ic_list_all ic pfx)) (\<lambda>containers.
       io_bind (on_sd_world (sp_list_volumes sp pfx)) (\<lambda>volumes.
         (let container_ids = remdups (map ci_workspace_id containers);
              volume_ids = remdups (map vi_workspace_id volumes)
          in if container_ids = [] \<and> volume_ids = [] then io_return ()
             else io_bind (on_sd_db get_valid_workspace_ids) (\<lambda>valid.
               io_seq (io_for (\<lambda>i. io_try (external env (ic_delete ic i)) (\<lambda>_. io_return ()))
                         (filter (\<lambda>i. i \<notin> set valid) container_ids))
                 (io_for (\<lambda>i. io_try (external env (sp_delete_volume sp i)) (\<lambda>_. io_return ()))
                         (filter (\<lambda>i. i \<notin> set valid) volume_ids))))))"

definition gc_run ::
  "'w env \<Rightarrow> 'w instance_controller \<Rightarrow> 'w storage_provider \<Rightarrow> string \<Rightarrow> ('w sched, unit) io" where
  "gc_run env ic sp pfx =
     io_seq (cleanup_orphan_archives env sp pfx) (cleanup_orphan_resources env ic sp pfx)"

section \<open>Scheduler (scheduler.py)\<close>

definition scheduler_reconcile ::
  "coordinator_config \<Rightarrow> ttl_config \<Rightarrow> redis_channel_config \<Rightarrow> seconds \<Rightarrow> datetime \<Rightarrow> 'w redis \<Rightarrow> 'w env
   \<Rightarrow> 'w instance_controller \<Rightarrow> 'w storage_provider \<Rightarrow> string \<Rightarrow> ('w sched, unit) io" where
  "scheduler_reconcile cfg ttl ch now db_now rd env ic sp pfx =
     io_seq
       (\<lambda>s. (if now - sd_last_ttl s \<ge> ttl_interval cfg then
               io_seq (ttl_run ttl ch db_now rd) (\<lambda>s. (Inr (), s\<lparr>sd_last_ttl := now\<rparr>))
             else io_return ()) s)
       (\<lambda>s. (if now - sd_last_gc s \<ge> gc_interval cfg then
               io_seq (gc_run env ic sp pfx) (\<lambda>s. (Inr (), s\<lparr>sd_last_gc := now\<rparr>))
             else io_return ()) s)"

section \<open>What a TTL pass does to the rows\<close>

lemma on_sd_db_eq: "on_sd_db m s = (r, t) \<longleftrightarrow> (\<exists>d. m (sd_db s) = (r, d) \<and> t = s\<lparr>sd_db := d\<rparr>)"
  by (auto simp: on_sd_db_def io_zoom_def split: prod.splits)

lemma on_sd_world_eq: "on_sd_world m s = (r, t) \<longleftrightarrow> (\<exists>w. m (sd_world s) = (r, w) \<and> t = s\<lparr>sd_world := w\<rparr>)"
  by (auto simp: on_sd_world_def io_zoom_def split: prod.splits)

text \<open>The row after a pass that read \<open>activities\<close> from Redis.\<close>

definition ttl_row :: "ttl_config \<Rightarrow> datetime \<Rightarrow> (string \<times> seconds) list \<Rightarrow> workspace \<Rightarrow> workspace" where
  "ttl_row cfg db_now activities w =
     (let w1 = synced activities w in
      if standby_expired cfg db_now w1 then set_desired desired_state.STANDBY w1
      else if archive_expired cfg db_now w1 then set_desired desired_state.ARCHIVED w1
      else w1)"

lemma synced_update:
  "sql_update (\<lambda>w. ws_id w \<in> fst ` set acts) (synced acts) rows = map (synced acts) rows"
  by (auto simp: sql_update_def synced_def map_of_eq_None_iff split: option.split
      dest!: map_of_SomeD intro: rev_image_eqI)

lemma ttl_row_steps:
  "sql_update (archive_expired cfg n) (set_desired desired_state.ARCHIVED)
     (sql_update (standby_expired cfg n) (set_desired desired_state.STANDBY) (map (synced acts) rows))
   = map (ttl_row cfg n acts) rows"
  by (auto simp: sql_update_def ttl_row_def Let_def standby_expired_def archive_expired_def set_desired_def
      ws_live_def split: option.splits)

lemma sync_to_db_Inr:
  assumes "sync_to_db rd s = (Inr n, t)" and "rd_zrange rd ACTIVITY_KEY (sd_world s) = (Inr acts, w)"
  shows "tb_workspaces (db_tables (sd_db t)) = map (synced acts) (tb_workspaces (db_tables (sd_db s)))
    \<and> db_committed (sd_db t) = db_committed (sd_db s)"
proof (cases "acts = []")
  case True
  then have "synced acts = id" by (auto simp: synced_def)
  with True assms show ?thesis
    by (auto simp: sync_to_db_def io_bind_Inr_iff on_sd_world_eq activity_scan_all_def io_return_apply)
next
  case False
  have tail: "sd_db t = sd_db s1"
    if "io_seq (delete_synced rd ids) (io_return (length ids)) s1 = (Inr n, t)" for ids and s1 :: "'a sched"
    using that
    by (auto simp: io_seq_Inr_iff io_bind_Inr_iff on_sd_world_eq io_return_apply delete_synced_def split: if_splits)
  obtain ids d where e: "db_execute (q_update_workspaces (\<lambda>w. ws_id w \<in> fst ` set acts) (synced acts)) (sd_db s) = (Inr ids, d)"
    and "io_seq (delete_synced rd ids) (io_return (length ids)) (s\<lparr>sd_world := w, sd_db := d\<rparr>) = (Inr n, t)"
    using False assms by (auto simp: sync_to_db_def activity_scan_all_def io_bind_Inr_iff on_sd_world_eq on_sd_db_eq)
  then have "sd_db t = d" using tail by fastforce
  then show ?thesis using db_execute_Inr [OF e] by (simp add: sql_simps synced_update)
qed

lemma ttl_statements_Inr:
  assumes "ttl_statements cfg ch db_now rd s = (Inr u, t)"
    and "rd_zrange rd ACTIVITY_KEY (sd_world s) = (Inr acts, w)"
  shows "tb_workspaces (db_tables (sd_db t)) = map (ttl_row cfg db_now acts) (tb_workspaces (db_tables (sd_db s)))
    \<and> \<not> db_aborted (sd_db t)"
proof -
  obtain n s1 where 1: "sync_to_db rd s = (Inr n, s1)"
    and 2: "io_bind (on_sd_db (check_standby_ttl cfg db_now)) (\<lambda>standby.
         io_bind (on_sd_db (check_archive_ttl cfg db_now)) (\<lambda>archive.
           if standby > 0 \<or> archive > 0 then
             io_bind (on_sd_world (publish rd (wc_channel ch) [])) (\<lambda>_. io_return ())
           else io_return ())) s1 = (Inr u, t)"
    using assms(1) by (auto simp: ttl_statements_def io_bind_Inr_iff)
  then obtain d1 d2 where d: "db_execute (q_update_workspaces (standby_expired cfg db_now) (set_desired desired_state.STANDBY)) (sd_db s1) = (Inr d1, d2)"
    and 3: "\<exists>a d3. db_execute (q_update_workspaces (archive_expired cfg db_now) (set_desired desired_state.ARCHIVED)) d2 = (Inr a, d3)
        \<and> sd_db t = d3"
    by (auto simp: io_bind_Inr_iff on_sd_db_eq check_standby_ttl_def check_archive_ttl_def io_return_apply
        on_sd_world_eq split: if_splits)
  show ?thesis
    using 3 db_execute_Inr [OF d] sync_to_db_Inr [OF 1 assms(2)]
    by (auto simp: sql_simps ttl_row_steps dest!: db_execute_Inr)
qed

lemma keeps_committed: "keeps (\<lambda>d. db_committed d = C) (db_execute q)"
  by (rule keepsI) (metis db_execute_Inl db_execute_Inr sum.exhaust)

lemma keeps_sd_committed: "keeps (\<lambda>d. db_committed d = C) m \<Longrightarrow> keeps (\<lambda>s. db_committed (sd_db s) = C) (on_sd_db m)"
  unfolding on_sd_db_def by (erule keeps_zoom) auto

lemma keeps_sd_world: "keeps (\<lambda>s. K (sd_db s)) (on_sd_world m)"
  by (auto simp: on_sd_world_def io_zoom_def intro!: keepsI split: prod.splits)

lemma ttl_statements_keep_committed:
  "keeps (\<lambda>s. db_committed (sd_db s) = C) (ttl_statements cfg ch n rd)"
  unfolding ttl_statements_def sync_to_db_def delete_synced_def check_standby_ttl_def check_archive_ttl_def
  by (intro keeps_bind keeps_seq keeps_if keeps_return keeps_sd_committed keeps_committed
      keeps_sd_world [where K = "\<lambda>d. db_committed d = C"])

text \<open>C19: a TTL pass is atomic on the table.  If it returns, what is committed is every row with its
  activity time from Redis, the idle running ones asked to go to STANDBY and the old standby ones to
  ARCHIVED, and no other column changed; if any step fails, nothing is committed.\<close>
theorem ttl_pass_is_atomic:
  assumes scan: "rd_zrange rd ACTIVITY_KEY (sd_world s) = (Inr acts, w)"
  shows "case ttl_run cfg ch db_now rd s of
      (Inr _, s') \<Rightarrow> tb_workspaces (db_committed (sd_db s'))
          = map (ttl_row cfg db_now acts) (tb_workspaces (db_tables (sd_db s)))
    | (Inl _, s') \<Rightarrow> db_committed (sd_db s') = db_committed (sd_db s)"
proof -
  obtain r s1 where 1: "ttl_statements cfg ch db_now rd s = (r, s1)" by fastforce
  have c: "db_committed (sd_db s1) = db_committed (sd_db s)"
    using keepsD [OF ttl_statements_keep_committed _ 1] by simp
  show ?thesis
  proof (cases r)
    case (Inl e)
    with 1 c show ?thesis by (simp add: ttl_run_def io_seq_def io_bind_def)
  next
    case (Inr u)
    obtain r2 d2 where 2: "db_commit (sd_db s1) = (r2, d2)" by fastforce
    have run: "ttl_run cfg ch db_now rd s = (r2, s1\<lparr>sd_db := d2\<rparr>)"
      using 1 2 Inr by (simp add: ttl_run_def io_seq_def io_bind_def on_sd_db_def io_zoom_def)
    show ?thesis
    proof (cases r2)
      case (Inl e)
      with run 2 c db_commit_Inl [of "sd_db s1" e d2] show ?thesis by simp
    next
      case (Inr u')
      with run 2 ttl_statements_Inr [OF 1 [unfolded \<open>r = Inr u\<close>] scan] db_commit_Inr [of "sd_db s1" u' d2]
      show ?thesis by simp
    qed
  qed
qed

definition ttl_sample_ws :: "string \<Rightarrow> phase \<Rightarrow> desired_state \<Rightarrow> workspace" where
  "ttl_sample_ws i p ds =
     \<lparr>ws_id = i, ws_owner_user_id = ''u1'', ws_name = ''demo'', ws_description = None, ws_memo = None,
      ws_image_ref = ''img'', ws_instance_backend = ''local-docker'', ws_storage_backend = ''minio'',
      ws_home_store_key = ''k'', ws_home_ctx = None, ws_conditions = no_conditions, ws_phase = p,
      ws_operation = operation.NONE, ws_op_started_at = None, ws_op_id = None, ws_desired_state = ds,
      ws_archive_key = None, ws_observed_at = None, ws_last_access_at = Some 0,
      ws_phase_changed_at = Some 0, ws_error_reason = None, ws_error_count = 0,
      ws_created_at = 0, ws_updated_at = 0, ws_deleted_at = None\<rparr>"

definition ttl_sample :: "workspace list \<Rightarrow> exn option list \<Rightarrow> activity_buffer \<Rightarrow> activity_buffer sched" where
  "ttl_sample rows faults acts =
     \<lparr>sd_db = (db_of \<lparr>tb_users = [], tb_sessions = [], tb_workspaces = rows\<rparr>)\<lparr>db_faults := faults\<rparr>,
      sd_registry = [], sd_world = acts, sd_last_ttl = 0, sd_last_gc = 0\<rparr>"

lemmas ttl_eval = ttl_run_def ttl_statements_def sync_to_db_def delete_synced_def check_standby_ttl_def
  check_archive_ttl_def io_seq_def io_bind_def on_sd_db_def on_sd_world_def io_zoom_def io_return_def
  activity_scan_all_def activity_delete_def mem_redis_def db_execute_def db_commit_def db_rolled_back_def
  Let_def q_update_workspaces_def sql_update_def sql_select_def synced_def standby_expired_def
  archive_expired_def set_desired_def ws_live_def timedelta_seconds_def default_ttl_def publish_def
  ttl_sample_def ttl_sample_ws_def db_of_def from_timestamp_def

theorem ttl_pass_is_atomic_witness:
  "map ws_desired_state (tb_workspaces (db_committed (sd_db (snd (ttl_run default_ttl default_redis_channel
      601000000 mem_redis (ttl_sample [ttl_sample_ws ''a'' phase.RUNNING desired_state.RUNNING,
        ttl_sample_ws ''b'' phase.RUNNING desired_state.RUNNING] [] [(''b'', 5)]))))))
    = [desired_state.STANDBY, desired_state.RUNNING]"
proof -
  let ?s = "ttl_sample [ttl_sample_ws ''a'' phase.RUNNING desired_state.RUNNING,
        ttl_sample_ws ''b'' phase.RUNNING desired_state.RUNNING] [] [(''b'', 5)]"
  have "rd_zrange mem_redis ACTIVITY_KEY (sd_world ?s) = (Inr [(''b'', 5)], [(''b'', 5)])"
    by (simp add: mem_redis_def ttl_sample_def)
  from ttl_pass_is_atomic [where cfg = default_ttl and ch = default_redis_channel and db_now = 601000000, OF this]
  show ?thesis
    by (auto simp: ttl_eval ttl_row_def)
qed

text \<open>A workspace whose owner has just asked it to start (desired state RUNNING, the controller has not
  ticked yet) and whose archive TTL is over is sent to the archive: the check does not look at the
  desired state.\<close>

lemma ttl_overrides_start_request:
  assumes "ws_phase w = phase.STANDBY" "ws_operation w = operation.NONE" "ws_live w"
    and "ws_desired_state w = desired_state.RUNNING"
    and "ws_phase_changed_at w = Some t" "db_now - t > timedelta_seconds (archive_seconds cfg)"
  shows "ws_desired_state (ttl_row cfg db_now acts w) = desired_state.ARCHIVED"
  using assms
  by (auto simp: ttl_row_def Let_def standby_expired_def archive_expired_def synced_def set_desired_def ws_live_def
      split: option.split)

text \<open>A TTL pass starts nothing: it keeps a desired state, lowers it, or raises it to STANDBY at most.  The
  last does happen: a request to archive a running workspace that the controller has not seen yet is
  replaced by STANDBY when the standby TTL is over, too.\<close>

lemma ttl_never_starts: "ws_desired_state (ttl_row cfg db_now acts w) \<le> max (ws_desired_state w) desired_state.STANDBY"
  by (cases "ws_desired_state w")
     (auto simp: ttl_row_def Let_def synced_def set_desired_def max_def less_eq_desired_state_def split: option.split)

lemma ttl_raises_archive_request:
  assumes "standby_expired cfg db_now (synced acts w)" and "ws_desired_state w = desired_state.ARCHIVED"
  shows "ws_desired_state w < ws_desired_state (ttl_row cfg db_now acts w)"
  using assms by (simp add: ttl_row_def set_desired_def less_desired_state_def)

text \<open>The activity is deleted from Redis before the commit: when a later statement of the pass fails the
  time is neither in Redis nor in the table.\<close>

lemma ttl_failure_loses_activity:
  "let s' = snd (ttl_run default_ttl default_redis_channel 601000000 mem_redis
      (ttl_sample [ttl_sample_ws ''a'' phase.RUNNING desired_state.RUNNING] [None, Some (OtherError ''db'')] [(''a'', 500)]))
   in sd_world s' = [] \<and> map ws_last_access_at (tb_workspaces (db_committed (sd_db s'))) = [Some 0]"
  by (simp add: ttl_eval)

section \<open>The collector spares what a row claims\<close>

text \<open>What the live rows claim, stated on the rows themselves: an archive by its key, or as the one that the
  workspace's last operation writes.\<close>

definition claims_archive :: "string \<Rightarrow> workspace list \<Rightarrow> string \<Rightarrow> bool" where
  "claims_archive pfx rows k \<longleftrightarrow>
     (\<exists>w \<in> set rows. ws_live w \<and>
        (ws_archive_key w = Some k \<or> (\<exists>op. ws_op_id w = Some op \<and> k = pfx @ ws_id w @ ''/'' @ op @ ''/home.tar.zst'')))"

text \<open>Nothing that the rows claim has changed since \<open>w0\<close>: the containers and volumes of the live
  workspaces, and the archives they claim.\<close>

definition spared :: "'w platform \<Rightarrow> string \<Rightarrow> workspace list \<Rightarrow> 'w \<Rightarrow> 'w \<Rightarrow> bool" where
  "spared v pfx rows w0 w \<longleftrightarrow>
     (\<forall>r \<in> set rows. ws_live r \<longrightarrow>
        pf_container v w (ws_id r) = pf_container v w0 (ws_id r) \<and> pf_running v w (ws_id r) = pf_running v w0 (ws_id r)
        \<and> pf_volume v w (ws_id r) = pf_volume v w0 (ws_id r))
     \<and> (\<forall>k. claims_archive pfx rows k \<longrightarrow> pf_archive v w0 k \<longrightarrow> pf_archive v w k)"

lemma in_map_filter: "k \<in> set (List.map_filter f xs) \<longleftrightarrow> (\<exists>x \<in> set xs. f x = Some k)"
  by (induction xs) (auto simp: map_filter_simps split: option.split)

lemma protected_paths_claimed: "k \<in> set (protected_paths pfx rows) \<longleftrightarrow> claims_archive pfx rows k"
  by (auto simp: protected_paths_def claims_archive_def sql_select_def in_map_filter operation_archive_path_def)

lemma spared_queries:
  "spared v pfx rows w0 w \<longleftrightarrow>
     (\<forall>i \<in> set (valid_workspace_ids rows).
        pf_container v w i = pf_container v w0 i \<and> pf_running v w i = pf_running v w0 i
        \<and> pf_volume v w i = pf_volume v w0 i)
     \<and> (\<forall>k \<in> set (protected_paths pfx rows). pf_archive v w0 k \<longrightarrow> pf_archive v w k)"
  by (auto simp: spared_def protected_paths_claimed valid_workspace_ids_def sql_select_def)

lemma spared_refl [simp]: "spared v pfx rows w w"
  by (simp add: spared_queries)

lemma spared_touches:
  "spared v pfx rows w0 w \<Longrightarrow> touches v C V w w' \<Longrightarrow> C \<inter> set (valid_workspace_ids rows) = {}
   \<Longrightarrow> V \<inter> set (valid_workspace_ids rows) = {} \<Longrightarrow> spared v pfx rows w0 w'"
  by (auto simp: spared_queries touches_def disjoint_iff)

lemma keeps_query: "keeps (\<lambda>d. db_tables d = T) (db_execute (\<lambda>t. (f t, t)))"
  by (rule keepsI)
     (auto simp: db_execute_def Let_def split: list.splits option.splits if_splits)

lemma query_result: "db_execute (\<lambda>t. (f t, t)) d = (Inr a, d') \<Longrightarrow> a = f (db_tables d)"
  by (auto simp: db_execute_def Let_def split: list.splits option.splits if_splits)

context collection_contract
begin

lemma gives_gc_query:
  "gives (\<lambda>s. db_tables (sd_db s) = T \<and> J (sd_world s)) (\<lambda>a. a = f T) (on_sd_db (db_execute (\<lambda>t. (f t, t))))"
proof (rule givesI)
  show "keeps (\<lambda>s. db_tables (sd_db s) = T \<and> J (sd_world s)) (on_sd_db (db_execute (\<lambda>t. (f t, t))))"
    unfolding on_sd_db_def by (rule keeps_zoom [OF keeps_query [of T]]) auto
next
  fix s a t
  assume "db_tables (sd_db s) = T \<and> J (sd_world s)"
    "on_sd_db (db_execute (\<lambda>t. (f t, t))) s = (Inr a, t)"
  then show "a = f T"
    by (auto simp: on_sd_db_def io_zoom_def split: prod.splits dest: query_result)
qed

lemma keeps_gc_world:
  "keeps J m \<Longrightarrow> keeps (\<lambda>s. db_tables (sd_db s) = T \<and> J (sd_world s)) (on_sd_world m)"
  unfolding on_sd_world_def by (erule keeps_zoom) auto

lemma keeps_external:
  assumes "keeps J m" and "env_keeps J env"
  shows "keeps (\<lambda>s. db_tables (sd_db s) = T \<and> J (sd_world s)) (external env m)"
  unfolding external_def on_sd_guarded_def
  by (rule keeps_zoom [OF keeps_with_retry [OF assms]]) auto

text \<open>In every outcome a collection spares what the rows claim when it starts.\<close>

lemma gc_spares:
  fixes T :: tables
  defines "rows \<equiv> tb_workspaces T"
  assumes env: "env_steps (\<lambda>s t. inv s \<longrightarrow> inv t \<and> touches v {} {} s t) env"
  shows "keeps (\<lambda>s. db_tables (sd_db s) = T \<and> (inv (sd_world s) \<and> spared v pfx rows w0 (sd_world s)))
     (gc_run env ic sp pfx)"
  (is "keeps ?K _")
proof -
  let ?J = "\<lambda>w. inv w \<and> spared v pfx rows w0 w"
  have e: "env_keeps ?J env"
    by (rule env_steps_keeps [OF env]) (auto intro: spared_touches)
  have keys: "keeps ?K (on_sd_world (sp_list_all_archive_keys sp pfx))"
    by (rule keeps_gc_world, rule keepsI, drule list_all_archive_keys [rotated])
       (auto intro: spared_touches untouched_touches)
  have conts: "keeps ?K (on_sd_world (ic_list_all ic pfx))"
    by (rule keeps_gc_world, rule keepsI, drule list_all [rotated])
       (auto intro: spared_touches untouched_touches)
  have vols: "keeps ?K (on_sd_world (sp_list_volumes sp pfx))"
    by (rule keeps_gc_world, rule keepsI, drule list_volumes [rotated])
       (auto intro: spared_touches untouched_touches)
  have key: "keeps ?K (external env (sp_delete_archive sp k))" if "k \<notin> set (protected_paths pfx rows)" for k
    by (rule keeps_external [OF _ e], rule keepsI, drule delete_archive [rotated])
       (use that in \<open>auto simp: spared_queries\<close>)
  have cont: "keeps ?K (external env (ic_delete ic i))" if "i \<notin> set (valid_workspace_ids rows)" for i
    by (rule keeps_external [OF _ e], rule keepsI, drule delete [rotated])
       (use that in \<open>auto intro: spared_touches [where C = "{i}" and V = "{}"]\<close>)
  have vol: "keeps ?K (external env (sp_delete_volume sp i))" if "i \<notin> set (valid_workspace_ids rows)" for i
    by (rule keeps_external [OF _ e], rule keepsI, drule delete_volume [rotated])
       (use that in \<open>auto intro: spared_touches [where C = "{}" and V = "{i}"]\<close>)
  have protected: "gives ?K (\<lambda>p. p = protected_paths pfx rows) (on_sd_db (get_protected_paths pfx))"
    unfolding get_protected_paths_def rows_def by (rule gives_gc_query)
  have valid: "gives ?K (\<lambda>p. p = valid_workspace_ids rows) (on_sd_db get_valid_workspace_ids)"
    unfolding get_valid_workspace_ids_def rows_def by (rule gives_gc_query)
  have drop: "keeps ?K (delete_archives env sp ks)" if "set ks \<inter> set (protected_paths pfx rows) = {}" for ks
    unfolding delete_archives_def by (intro keeps_bind keeps_mapM keeps_try keeps_return key) (use that in auto)
  have list_keys: "keeps ?K (list_archive_keys sp pfx)"
    unfolding list_archive_keys_def by (intro keeps_try keeps_bind keys keeps_return)
  have orphans: "keeps ?K (io_bind (on_sd_db (get_protected_paths pfx)) (\<lambda>protected.
             (let orphans = filter (\<lambda>k. k \<notin> set protected) (remdups ks)
              in if orphans = [] then io_return ()
                 else io_bind (delete_archives env sp orphans) (\<lambda>deleted. io_return ()))))" for ks
    by (rule keeps_gives_bind [OF protected])
       (auto simp: Let_def intro!: keeps_bind drop keeps_return)
  have archives: "keeps ?K (cleanup_orphan_archives env sp pfx)"
    unfolding cleanup_orphan_archives_def
    by (rule keeps_bind [OF list_keys]) (auto intro!: orphans keeps_return split: option.split)
  have resources: "keeps ?K (cleanup_orphan_resources env ic sp pfx)"
    unfolding cleanup_orphan_resources_def Let_def
    by (intro keeps_bind conts vols keeps_if keeps_return keeps_gives_bind [OF valid] keeps_seq keeps_for
        keeps_try cont vol) auto
  show ?thesis
    unfolding gc_run_def by (rule keeps_seq [OF archives resources])
qed

end

end
