(* ===== verification/Controller.thy ===== *)
theory Controller
  imports Interfaces Database Retry Planner
begin

text \<open>
  control/coordinator/wc.py: the workspace controller.  One reconcile loads the rows that need work,
  plans each, executes the planned operations against the platform, and persists every outcome by a
  compare-and-set on the row's operation.  The platform is a record of methods (Interfaces.thy); the
  clocks and fresh ids of one pass are a record of functions of the workspace id.  The executions of a
  pass run concurrently in the code; here they run one after the other, each on the world the previous
  one left.  Logging and metrics are not modelled.
\<close>

section \<open>Execution\<close>

record tick_inputs =
  ti_plan_now :: "string \<Rightarrow> datetime"
  ti_plan_uuid :: "string \<Rightarrow> string"
  ti_persist_now :: "string \<Rightarrow> datetime"
  ti_persist_uuid :: "string \<Rightarrow> string"
  ti_db_now :: "string \<Rightarrow> datetime"

definition judge_and_plan :: "tick_inputs \<Rightarrow> seconds \<Rightarrow> workspace \<Rightarrow> plan_action" where
  "judge_and_plan ti op_timeout ws =
     plan (ti_plan_now ti (ws_id ws)) (ti_plan_uuid ti (ws_id ws)) (from_workspace ws) op_timeout"

text \<open>The executor's state: the platform and the plan's action, which it fills in as it goes.\<close>

definition set_action :: "(plan_action \<Rightarrow> plan_action) \<Rightarrow> ('w \<times> plan_action, unit) io" where
  "set_action f = (\<lambda>(w, a). (Inr (), (w, f a)))"

definition op_id_of :: "('w \<Rightarrow> string) \<Rightarrow> workspace \<Rightarrow> 'w \<times> plan_action \<Rightarrow> string" where
  "op_id_of uuid ws s = the (py_or (py_or (pa_op_id (snd s)) (ws_op_id ws)) (Some (uuid (fst s))))"

text \<open>The branch that the state \<open>s\<close> selects.\<close>

definition execute_branch ::
  "'w instance_controller \<Rightarrow> 'w storage_provider \<Rightarrow> ('w \<Rightarrow> string) \<Rightarrow> workspace
   \<Rightarrow> 'w \<times> plan_action \<Rightarrow> ('w \<times> plan_action, unit) io" where
  "execute_branch ic sp uuid ws s =
     (case pa_operation (snd s) of
        PROVISIONING \<Rightarrow> io_fst (sp_provision sp (ws_id ws))
      | RESTORING \<Rightarrow>
          if py_truthy (ws_archive_key ws) then
            io_bind (io_fst (sp_restore sp (ws_id ws) (the (ws_archive_key ws)))) (\<lambda>_.
              set_action (\<lambda>a. a\<lparr>pa_restore_marker := ws_archive_key ws\<rparr>))
          else io_return ()
      | STARTING \<Rightarrow> io_fst (ic_start ic (ws_id ws) (ws_image_ref ws))
      | STOPPING \<Rightarrow> io_fst (ic_delete ic (ws_id ws))
      | ARCHIVING \<Rightarrow>
          io_bind (io_fst (sp_archive sp (ws_id ws) (op_id_of uuid ws s))) (\<lambda>archive_key.
            io_seq (set_action (\<lambda>a. a\<lparr>pa_archive_key := Some archive_key\<rparr>))
              (io_seq (io_fst (ic_delete ic (ws_id ws)))
                (io_fst (sp_delete_volume sp (ws_id ws)))))
      | CREATE_EMPTY_ARCHIVE \<Rightarrow>
          io_bind (io_fst (sp_create_empty_archive sp (ws_id ws) (op_id_of uuid ws s))) (\<lambda>archive_key.
            set_action (\<lambda>a. a\<lparr>pa_archive_key := Some archive_key\<rparr>))
      | operation.DELETING \<Rightarrow>
          io_seq (io_fst (ic_delete ic (ws_id ws))) (io_fst (sp_delete_volume sp (ws_id ws)))
      | NONE \<Rightarrow> io_return ())"

definition execute ::
  "'w instance_controller \<Rightarrow> 'w storage_provider \<Rightarrow> ('w \<Rightarrow> string) \<Rightarrow> workspace
   \<Rightarrow> ('w \<times> plan_action, unit) io" where
  "execute ic sp uuid ws s = execute_branch ic sp uuid ws s s"

text \<open>The \<open>except\<close> clauses log the time-out or the failure; the row is persisted in any case.\<close>

definition swallow :: "exn \<Rightarrow> ('s, unit) io option" where
  "swallow e =
     (if e = TimeoutError then Some (io_return ())
      else if is_Exception e then Some (io_return ()) else None)"

definition execute_one ::
  "'w env \<Rightarrow> 'w instance_controller \<Rightarrow> 'w storage_provider \<Rightarrow> ('w \<Rightarrow> string) \<Rightarrow> workspace \<Rightarrow> plan_action
   \<Rightarrow> (registry \<times> 'w, workspace \<times> plan_action) io" where
  "execute_one env ic sp uuid ws action = (\<lambda>(reg, w).
     if \<not> needs_execute action (ws_operation ws) then (Inr (ws, action), (reg, w))
     else (case io_except
             (io_wait_for (with_retry (env_fst env) (execute ic sp uuid ws) 3 1 30 (Some ''external'')))
             swallow (reg, (w, action)) of
         (Inr _, (reg', (w', action'))) \<Rightarrow> (Inr (ws, action'), (reg', w'))
       | (Inl e, (reg', (w', action'))) \<Rightarrow> (Inl e, (reg', w'))))"

section \<open>Database operations\<close>

definition needs_reconcile :: "workspace \<Rightarrow> bool" where
  "needs_reconcile w \<longleftrightarrow>
     ws_live w
     \<and> (ws_operation w \<noteq> NONE \<or> phase_value (ws_phase w) \<noteq> desired_value (ws_desired_state w)
        \<or> ws_phase w = phase.RUNNING)"

definition load_for_reconcile :: "(db, workspace list) io" where
  "load_for_reconcile = db_execute (q_workspaces needs_reconcile)"

record cas_values =
  cv_phase :: phase
  cv_operation :: operation
  cv_op_started_at :: "datetime option"
  cv_op_id :: "string option"
  cv_archive_key :: "string option"
  cv_error_count :: int
  cv_error_reason :: "error_reason option"
  cv_home_ctx :: "(string \<times> string) list option"
  cv_updated_at :: datetime

definition cas_columns :: "datetime \<Rightarrow> cas_values \<Rightarrow> workspace \<Rightarrow> workspace" where
  "cas_columns db_now cv w =
     w\<lparr>ws_phase := cv_phase cv, ws_operation := cv_operation cv, ws_op_started_at := cv_op_started_at cv,
       ws_op_id := cv_op_id cv, ws_error_count := cv_error_count cv, ws_error_reason := cv_error_reason cv,
       ws_updated_at := cv_updated_at cv,
       ws_phase_changed_at := (if ws_phase w \<noteq> cv_phase cv then Some db_now else ws_phase_changed_at w),
       ws_archive_key := (case cv_archive_key cv of None \<Rightarrow> ws_archive_key w | Some k \<Rightarrow> Some k),
       ws_home_ctx := (case cv_home_ctx cv of None \<Rightarrow> ws_home_ctx w | Some c \<Rightarrow> Some c)\<rparr>"

definition cas_update :: "datetime \<Rightarrow> string \<Rightarrow> operation \<Rightarrow> cas_values \<Rightarrow> (db, bool) io" where
  "cas_update db_now workspace_id expected_operation cv =
     io_bind (db_execute (q_update_workspaces
         (\<lambda>w. ws_id w = workspace_id \<and> ws_operation w = expected_operation) (cas_columns db_now cv)))
       (\<lambda>ids. io_return (length ids > 0))"

definition persist_values :: "datetime \<Rightarrow> string \<Rightarrow> workspace \<Rightarrow> plan_action \<Rightarrow> cas_values" where
  "persist_values now uuid ws a =
     (let (op_started_at, op_id) =
            (if pa_operation a \<noteq> NONE \<and> ws_operation ws = NONE
             then (Some now, py_or (pa_op_id a) (Some uuid))
             else if pa_operation a = NONE then (None, ws_op_id ws)
             else (ws_op_started_at ws, ws_op_id ws));
          error_count =
            (if pa_error_reason a \<noteq> None then ws_error_count ws + 1
             else if pa_complete a then 0 else ws_error_count ws);
          home_ctx =
            (if py_truthy (pa_restore_marker a)
             then Some (AList.update ''restore_marker'' (the (pa_restore_marker a))
                    (case ws_home_ctx ws of None \<Rightarrow> [] | Some c \<Rightarrow> c))
             else None)
      in \<lparr>cv_phase = pa_phase a, cv_operation = pa_operation a, cv_op_started_at = op_started_at,
          cv_op_id = op_id, cv_archive_key = pa_archive_key a, cv_error_count = error_count,
          cv_error_reason = pa_error_reason a, cv_home_ctx = home_ctx, cv_updated_at = now\<rparr>)"

definition persist :: "tick_inputs \<Rightarrow> workspace \<Rightarrow> plan_action \<Rightarrow> (db, unit) io" where
  "persist ti ws a =
     io_bind (cas_update (ti_db_now ti (ws_id ws)) (ws_id ws) (ws_operation ws)
                (persist_values (ti_persist_now ti (ws_id ws)) (ti_persist_uuid ti (ws_id ws)) ws a))
       (\<lambda>success. db_commit)"

section \<open>Reconcile\<close>

record 'w controller =
  wc_db :: db
  wc_registry :: registry
  wc_world :: 'w

definition on_wc_db :: "(db, 'a) io \<Rightarrow> ('w controller, 'a) io" where
  "on_wc_db m = io_zoom wc_db (\<lambda>d s. s\<lparr>wc_db := d\<rparr>) m"

definition on_wc_world :: "(registry \<times> 'w, 'a) io \<Rightarrow> ('w controller, 'a) io" where
  "on_wc_world m =
     io_zoom (\<lambda>s. (wc_registry s, wc_world s)) (\<lambda>(reg, w) s. s\<lparr>wc_registry := reg, wc_world := w\<rparr>) m"

definition reconcile ::
  "tick_inputs \<Rightarrow> 'w env \<Rightarrow> 'w instance_controller \<Rightarrow> 'w storage_provider \<Rightarrow> ('w \<Rightarrow> string) \<Rightarrow> seconds
   \<Rightarrow> ('w controller, unit) io" where
  "reconcile ti env ic sp uuid op_timeout =
     io_bind (on_wc_db load_for_reconcile) (\<lambda>workspaces.
       if workspaces = [] then io_return ()
       else
         (let plans = map (\<lambda>ws. (ws, judge_and_plan ti op_timeout ws)) workspaces in
          io_bind (on_wc_world (io_mapM (\<lambda>(ws, a). execute_one env ic sp uuid ws a) plans)) (\<lambda>results.
            io_for (\<lambda>(ws, a). io_try (on_wc_db (persist ti ws a)) (\<lambda>_. io_return ())) results)))"

section \<open>The executor only fills in results\<close>

definition same_plan :: "plan_action \<Rightarrow> plan_action \<Rightarrow> bool" where
  "same_plan a b \<longleftrightarrow> pa_operation b = pa_operation a \<and> pa_phase b = pa_phase a
     \<and> pa_error_reason b = pa_error_reason a \<and> pa_op_id b = pa_op_id a \<and> pa_complete b = pa_complete a"

lemma same_plan_refl [simp]: "same_plan a a"
  by (simp add: same_plan_def)

lemma set_action_eq: "set_action f (w, a) = (r, x) \<longleftrightarrow> r = Inr () \<and> x = (w, f a)"
  by (auto simp: set_action_def)

lemma keeps_set_action: "(\<And>w a. I (w, a) \<Longrightarrow> I (w, f a)) \<Longrightarrow> keeps I (set_action f)"
  by (rule keepsI) (auto simp: set_action_def)

lemma execute_same_plan: "keeps (\<lambda>(w, b). same_plan a b) (execute ic sp uuid ws)"
  unfolding execute_def [abs_def]
  by (rule keeps_diag [where f = "execute_branch ic sp uuid ws"])
     (auto simp: execute_branch_def split: operation.split intro!: keeps_rules keeps_set_action simp: same_plan_def)

lemma env_keeps_other: "env_keeps (\<lambda>(w, b). K b) (env_fst env)"
  by (rule env_steps_fst [where R = "\<lambda>_ _. True"]) (auto simp: env_steps_def)

lemma keeps_swallow: "swallow e = Some k \<Longrightarrow> keeps I k"
  by (auto simp: swallow_def keeps_return split: if_splits)

text \<open>What the execution keeps, execute_one keeps of the final world and action.\<close>

lemma execute_one_keeps:
  assumes "keeps J (execute ic sp uuid ws)" and "env_keeps J (env_fst env)" and "J (w, a)"
    and step: "execute_one env ic sp uuid ws a (reg, w) = (r, (reg', w'))"
  obtains b where "r = Inr (ws, b)" "J (w', b)"
proof (cases "needs_execute a (ws_operation ws)")
  case False
  with step assms(3) that show ?thesis by (auto simp: execute_one_def)
next
  case True
  let ?m = "with_retry (env_fst env) (execute ic sp uuid ws) 3 1 30 (Some ''external'')"
  obtain r1 reg1 w1 b where m: "io_except (io_wait_for ?m) swallow (reg, (w, a)) = (r1, (reg1, (w1, b)))"
    by (metis prod_cases4)
  have k: "keeps (\<lambda>(reg, s). J s) (io_except (io_wait_for ?m) swallow)"
    by (rule keeps_except, intro keeps_wait_for keeps_with_retry assms(1,2), erule keeps_swallow)
  then have J: "J (w1, b)" using keepsD [OF k _ m] assms(3) by simp
  have "\<exists>u. r1 = Inr u"
    using m by (auto simp: io_except_def io_wait_for_def swallow_def io_return_def
        split: prod.splits sum.splits option.splits exn.splits if_splits)
  with step True m that J show ?thesis by (auto simp: execute_one_def)
qed

lemma execute_one_same_plan:
  assumes "execute_one env ic sp uuid ws a (reg, w) = (r, (reg', w'))"
  obtains b where "r = Inr (ws, b)" "same_plan a b"
  by (rule execute_one_keeps [OF execute_same_plan [of a] env_keeps_other _ assms]) auto

lemma execute_all:
  "\<exists>bs. fst (io_mapM (\<lambda>(ws, a). execute_one env ic sp uuid ws a) (map (\<lambda>ws. (ws, f ws)) wss) rw)
        = Inr (zip wss bs) \<and> list_all2 (\<lambda>ws b. same_plan (f ws) b) wss bs"
proof (induction wss arbitrary: rw)
  case Nil
  show ?case by (rule exI [of _ "[]"]) (simp add: io_return_def)
next
  case (Cons ws wss)
  obtain reg w where rw: "rw = (reg, w)" by (cases rw)
  obtain r reg' w' where e: "execute_one env ic sp uuid ws (f ws) (reg, w) = (r, (reg', w'))"
    by (metis prod_cases3)
  then obtain b where b: "r = Inr (ws, b)" "same_plan (f ws) b" by (rule execute_one_same_plan)
  obtain bs where bs: "fst (io_mapM (\<lambda>(ws, a). execute_one env ic sp uuid ws a)
      (map (\<lambda>ws. (ws, f ws)) wss) (reg', w')) = Inr (zip wss bs)" "list_all2 (\<lambda>ws b. same_plan (f ws) b) wss bs"
    using Cons.IH by blast
  show ?case
    by (rule exI [of _ "b # bs"])
       (use rw e b bs in \<open>auto simp: io_bind_def io_return_def split: prod.splits sum.splits\<close>)
qed

section \<open>Bookkeeping of operations\<close>

text \<open>The invariant of a row: an operation in progress has a start time and an id (which protects its
  archive from the garbage collector), a row without one has no start time, a broken workspace has no
  operation, and the error count is not negative.\<close>

definition row_ok :: "workspace \<Rightarrow> bool" where
  "row_ok w \<longleftrightarrow>
     (ws_operation w \<noteq> NONE \<longrightarrow> ws_op_started_at w \<noteq> None \<and> ws_op_id w \<noteq> None)
     \<and> (ws_operation w = NONE \<longrightarrow> ws_op_started_at w = None)
     \<and> (ws_phase w = phase.ERROR \<longrightarrow> ws_operation w = NONE)
     \<and> 0 \<le> ws_error_count w"

lemma cas_columns_simps [simp]:
  "ws_id (cas_columns n cv w) = ws_id w" "ws_operation (cas_columns n cv w) = cv_operation cv"
  "ws_phase (cas_columns n cv w) = cv_phase cv" "ws_op_started_at (cas_columns n cv w) = cv_op_started_at cv"
  "ws_op_id (cas_columns n cv w) = cv_op_id cv" "ws_error_count (cas_columns n cv w) = cv_error_count cv"
  "ws_error_reason (cas_columns n cv w) = cv_error_reason cv"
  "ws_desired_state (cas_columns n cv w) = ws_desired_state w"
  "ws_conditions (cas_columns n cv w) = ws_conditions w" "ws_deleted_at (cas_columns n cv w) = ws_deleted_at w"
  "ws_owner_user_id (cas_columns n cv w) = ws_owner_user_id w"
  "ws_archive_key (cas_columns n cv w)
     = (case cv_archive_key cv of None \<Rightarrow> ws_archive_key w | Some k \<Rightarrow> Some k)"
  "ws_home_ctx (cas_columns n cv w) = (case cv_home_ctx cv of None \<Rightarrow> ws_home_ctx w | Some c \<Rightarrow> Some c)"
  by (simp_all add: cas_columns_def)

lemma persist_values_simps [simp]:
  "cv_operation (persist_values now u ws a) = pa_operation a"
  "cv_phase (persist_values now u ws a) = pa_phase a"
  "cv_error_reason (persist_values now u ws a) = pa_error_reason a"
  "cv_archive_key (persist_values now u ws a) = pa_archive_key a"
  "cv_op_started_at (persist_values now u ws a) =
     (if pa_operation a = NONE then None else if ws_operation ws = NONE then Some now else ws_op_started_at ws)"
  "cv_op_id (persist_values now u ws a) =
     (if pa_operation a \<noteq> NONE \<and> ws_operation ws = NONE then py_or (pa_op_id a) (Some u) else ws_op_id ws)"
  "cv_error_count (persist_values now u ws a) =
     (if pa_error_reason a \<noteq> None then ws_error_count ws + 1 else if pa_complete a then 0 else ws_error_count ws)"
  by (simp_all add: persist_values_def split: prod.split)

lemma py_or_Some [simp]: "py_or a (Some b) \<noteq> None" "\<exists>y. py_or a (Some b) = Some y"
  by (auto simp: py_or_def py_truthy_def split: option.splits)

lemma plan_row_ok:
  assumes "row_ok ws" and "same_plan (judge_and_plan ti T ws) a"
  shows "row_ok (cas_columns n (persist_values now u ws a) w)"
proof -
  have "pa_phase a = phase.ERROR \<Longrightarrow> pa_operation a = NONE"
    using assms plan_error_phase [of "from_workspace ws"]
    by (simp add: row_ok_def same_plan_def judge_and_plan_def) (simp add: from_workspace_def)
  then show ?thesis using assms(1) by (auto simp: row_ok_def)
qed

lemma keeps_persist_row_ok:
  assumes "row_ok ws" and "same_plan (judge_and_plan ti T ws) a"
  shows "keeps (db_inv (all_workspaces row_ok)) (persist ti ws a)"
  unfolding persist_def cas_update_def
  by (intro keeps_rules keeps_db_execute)
     (auto simp: sql_simps intro!: all_workspaces_update plan_row_ok [OF assms])

lemma keeps_load: "keeps (db_inv P) load_for_reconcile"
  unfolding load_for_reconcile_def by (intro keeps_db_execute) (simp add: sql_simps)

lemma load_result:
  assumes "load_for_reconcile d = (Inr wss, d')"
  shows "wss = sql_select needs_reconcile (tb_workspaces (db_tables d)) \<and> db_tables d' = db_tables d"
  using assms
  by (auto simp: load_for_reconcile_def db_execute_def Let_def sql_simps q_workspaces_def
      split: list.splits option.splits if_splits)

lemma keeps_on_wc_db: "keeps (db_inv P) m \<Longrightarrow> keeps (\<lambda>s. db_inv P (wc_db s)) (on_wc_db m)"
  unfolding on_wc_db_def by (erule keeps_zoom) auto

lemma keeps_on_wc_world: "keeps (\<lambda>s. K (wc_db s)) (on_wc_world m)"
  unfolding on_wc_world_def by (auto simp: io_zoom_def intro!: keepsI split: prod.splits)

text \<open>The shape of a pass: what was loaded, the executed plans, and the persisting of each.\<close>

lemma reconcile_cases:
  obtains (load_fails) e d where "load_for_reconcile (wc_db s) = (Inl e, d)"
      "reconcile ti env ic sp uuid T s = (Inl e, s\<lparr>wc_db := d\<rparr>)"
  | (idle) d where "load_for_reconcile (wc_db s) = (Inr [], d)"
      "reconcile ti env ic sp uuid T s = (Inr (), s\<lparr>wc_db := d\<rparr>)"
  | (work) d wss bs reg w where "load_for_reconcile (wc_db s) = (Inr wss, d)" "wss \<noteq> []"
      "fst (io_mapM (\<lambda>(ws, a). execute_one env ic sp uuid ws a)
          (map (\<lambda>ws. (ws, judge_and_plan ti T ws)) wss) (wc_registry s, wc_world s)) = Inr (zip wss bs)"
      "list_all2 (\<lambda>ws b. same_plan (judge_and_plan ti T ws) b) wss bs"
      "snd (io_mapM (\<lambda>(ws, a). execute_one env ic sp uuid ws a)
          (map (\<lambda>ws. (ws, judge_and_plan ti T ws)) wss) (wc_registry s, wc_world s)) = (reg, w)"
      "reconcile ti env ic sp uuid T s
         = io_for (\<lambda>(ws, a). io_try (on_wc_db (persist ti ws a)) (\<lambda>_. io_return ())) (zip wss bs)
             (s\<lparr>wc_db := d, wc_registry := reg, wc_world := w\<rparr>)"
proof -
  obtain r d where l: "load_for_reconcile (wc_db s) = (r, d)" by fastforce
  show thesis
  proof (cases r)
    case (Inl e)
    then show ?thesis using l load_fails by (simp add: reconcile_def io_bind_def on_wc_db_def io_zoom_def)
  next
    case (Inr wss)
    show ?thesis
    proof (cases "wss = []")
      case True
      then show ?thesis
        using l Inr idle by (simp add: reconcile_def io_bind_def on_wc_db_def io_zoom_def io_return_def)
    next
      case False
      let ?m = "io_mapM (\<lambda>(ws, a). execute_one env ic sp uuid ws a)
          (map (\<lambda>ws. (ws, judge_and_plan ti T ws)) wss) (wc_registry s, wc_world s)"
      obtain bs where bs: "fst ?m = Inr (zip wss bs)"
          "list_all2 (\<lambda>ws b. same_plan (judge_and_plan ti T ws) b) wss bs"
        using execute_all by blast
      obtain reg w where w: "snd ?m = (reg, w)" by (cases "snd ?m")
      have m: "?m = (Inr (zip wss bs), (reg, w))" using bs(1) w by (metis prod.collapse)
      have "reconcile ti env ic sp uuid T s
         = io_for (\<lambda>(ws, a). io_try (on_wc_db (persist ti ws a)) (\<lambda>_. io_return ())) (zip wss bs)
             (s\<lparr>wc_db := d, wc_registry := reg, wc_world := w\<rparr>)"
        using l Inr False m by (simp add: reconcile_def io_bind_def on_wc_db_def io_zoom_def on_wc_world_def Let_def)
      with l Inr False bs w show ?thesis by (intro work) simp_all
    qed
  qed
qed

section \<open>A whole pass\<close>

lemma keeps_persist_all:
  assumes "\<And>ws b. (ws, b) \<in> set ps \<Longrightarrow> keeps (db_inv P) (persist ti ws b)"
  shows "keeps (\<lambda>s. db_inv P (wc_db s))
     (io_for (\<lambda>(ws, a). io_try (on_wc_db (persist ti ws a)) (\<lambda>_. io_return ())) ps)"
  using assms by (auto intro!: keeps_rules keeps_on_wc_db)

text \<open>C15: the bookkeeping invariant of the rows survives every pass of the controller, whatever the
  platform does, whatever fails in it or in the database, and wherever it is cancelled: an operation in
  progress has a start time and an id, an idle row has no start time, and ERROR excludes an operation.\<close>
theorem reconcile_keeps_rows_ok:
  assumes "db_inv (all_workspaces row_ok) (wc_db s)"
  shows "db_inv (all_workspaces row_ok) (wc_db (snd (reconcile ti env ic sp uuid T s)))"
proof (cases rule: reconcile_cases [of s ti env ic sp uuid T])
  case (load_fails e d)
  then show ?thesis using keepsD [OF keeps_load assms] by simp
next
  case (idle d)
  then show ?thesis using keepsD [OF keeps_load assms] by simp
next
  case (work d wss bs reg w)
  have "keeps (db_inv (all_workspaces row_ok)) (persist ti ws b)" if "(ws, b) \<in> set (zip wss bs)" for ws b
  proof (rule keeps_persist_row_ok)
    have "wss = sql_select needs_reconcile (tb_workspaces (db_tables (wc_db s)))"
      using load_result [OF work(1)] by simp
    then show "row_ok ws"
      using that assms by (auto simp: db_inv_def all_workspaces_def sql_simps dest!: set_zip_leftD)
    show "same_plan (judge_and_plan ti T ws) b"
      using work(4) that by (auto simp: list_all2_iff)
  qed
  then have "keeps (\<lambda>s. db_inv (all_workspaces row_ok) (wc_db s))
      (io_for (\<lambda>(ws, a). io_try (on_wc_db (persist ti ws a)) (\<lambda>_. io_return ())) (zip wss bs))"
    by (rule keeps_persist_all)
  moreover have "db_inv (all_workspaces row_ok) (wc_db (s\<lparr>wc_db := d, wc_registry := reg, wc_world := w\<rparr>))"
    using keepsD [OF keeps_load assms work(1)] by simp
  ultimately show ?thesis unfolding work(6) keeps_def by blast
qed

text \<open>Persisting the plans one after the other, on a healthy connection: each row is changed by its own
  plan and by no other.\<close>

definition persisted :: "tick_inputs \<Rightarrow> workspace \<Rightarrow> plan_action \<Rightarrow> workspace \<Rightarrow> workspace" where
  "persisted ti ws a =
     cas_columns (ti_db_now ti (ws_id ws))
       (persist_values (ti_persist_now ti (ws_id ws)) (ti_persist_uuid ti (ws_id ws)) ws a)"

definition persist_rows :: "tick_inputs \<Rightarrow> workspace \<Rightarrow> plan_action \<Rightarrow> workspace list \<Rightarrow> workspace list" where
  "persist_rows ti ws a = sql_update (\<lambda>w. ws_id w = ws_id ws \<and> ws_operation w = ws_operation ws) (persisted ti ws a)"

lemma persist_ok:
  fixes ti :: tick_inputs and ws :: workspace and a :: plan_action
  assumes "db_ok d"
  defines "t \<equiv> (db_tables d)\<lparr>tb_workspaces := persist_rows ti ws a (tb_workspaces (db_tables d))\<rparr>"
  shows "persist ti ws a d = (Inr (), d\<lparr>db_tables := t, db_committed := t\<rparr>)"
  using assms
  by (simp add: persist_def cas_update_def io_bind_def io_simps sql_simps persist_rows_def persisted_def [abs_def]
      io_return_def)

definition with_workspaces :: "workspace list \<Rightarrow> tables \<Rightarrow> tables" where
  "with_workspaces ws t = t\<lparr>tb_workspaces := ws\<rparr>"

lemma with_workspaces_simps [simp]:
  "tb_workspaces (with_workspaces ws t) = ws" "with_workspaces ws (with_workspaces ws' t) = with_workspaces ws t"
  "with_workspaces (tb_workspaces t) t = t"
  by (simp_all add: with_workspaces_def)

lemma persist_all_ok:
  "db_ok (wc_db s) \<Longrightarrow>
   \<exists>s'. io_for (\<lambda>(ws, a). io_try (on_wc_db (persist ti ws a)) (\<lambda>_. io_return ())) ps s = (Inr (), s')
     \<and> db_tables (wc_db s') = with_workspaces
          (fold (\<lambda>(ws, a). persist_rows ti ws a) ps (tb_workspaces (db_tables (wc_db s)))) (db_tables (wc_db s))
     \<and> (ps \<noteq> [] \<longrightarrow> db_committed (wc_db s') = db_tables (wc_db s'))
     \<and> wc_world s' = wc_world s \<and> wc_registry s' = wc_registry s \<and> db_ok (wc_db s')"
proof (induction ps arbitrary: s)
  case Nil
  then show ?case by (simp add: io_return_def)
next
  case (Cons p ps)
  obtain ws a where p: "p = (ws, a)" by fastforce
  let ?t1 = "with_workspaces (persist_rows ti ws a (tb_workspaces (db_tables (wc_db s)))) (db_tables (wc_db s))"
  let ?s1 = "s\<lparr>wc_db := (wc_db s)\<lparr>db_tables := ?t1, db_committed := ?t1\<rparr>\<rparr>"
  have step: "io_try (on_wc_db (persist ti ws a)) (\<lambda>_. io_return ()) s = (Inr (), ?s1)"
    using persist_ok [OF Cons.prems, of ti ws a]
    by (simp add: io_try_def on_wc_db_def io_zoom_def with_workspaces_def)
  have "db_ok (wc_db ?s1)" using Cons.prems by simp
  then obtain s' where s': "io_for (\<lambda>(ws, a). io_try (on_wc_db (persist ti ws a)) (\<lambda>_. io_return ())) ps ?s1 = (Inr (), s')"
      "db_tables (wc_db s') = with_workspaces (fold (\<lambda>(ws, a). persist_rows ti ws a) (p # ps)
          (tb_workspaces (db_tables (wc_db s)))) (db_tables (wc_db s))"
      "ps \<noteq> [] \<longrightarrow> db_committed (wc_db s') = db_tables (wc_db s')"
      "wc_world s' = wc_world s" "wc_registry s' = wc_registry s" "db_ok (wc_db s')"
    using Cons.IH [of ?s1] by (auto simp: p)
  have "s' = ?s1" if "ps = []" using s'(1) that by (simp add: io_return_apply)
  then have "db_committed (wc_db s') = db_tables (wc_db s')" using s'(3) by (cases "ps = []") simp_all
  moreover have "io_for (\<lambda>(ws, a). io_try (on_wc_db (persist ti ws a)) (\<lambda>_. io_return ())) (p # ps) s = (Inr (), s')"
    using s'(1) by (simp add: p io_seq_def io_bind_def step)
  ultimately show ?case using s' by blast
qed

lemma persisted_id [simp]: "ws_id (persisted ti ws a w) = ws_id w"
  by (simp add: persisted_def)

definition plan_for :: "(workspace \<times> plan_action) list \<Rightarrow> workspace \<Rightarrow> (workspace \<times> plan_action) option" where
  "plan_for ps w = find (\<lambda>(ws, a). ws_id ws = ws_id w) ps"

definition apply_plan :: "tick_inputs \<Rightarrow> (workspace \<times> plan_action) list \<Rightarrow> workspace \<Rightarrow> workspace" where
  "apply_plan ti ps w =
     (case plan_for ps w of
        None \<Rightarrow> w
      | Some (ws, a) \<Rightarrow> if ws_operation w = ws_operation ws then persisted ti ws a w else w)"

lemma fold_persist_rows:
  "distinct (map (\<lambda>p. ws_id (fst p)) ps) \<Longrightarrow>
   fold (\<lambda>(ws, a). persist_rows ti ws a) ps rows = map (apply_plan ti ps) rows"
proof (induction ps arbitrary: rows)
  case Nil
  show ?case by (simp add: apply_plan_def plan_for_def)
next
  case (Cons p ps)
  obtain ws a where p: "p = (ws, a)" by fastforce
  have none: "plan_for ps w = None" if "ws_id w = ws_id ws" for w
    using Cons.prems that by (force simp: p plan_for_def find_None_iff)
  have "apply_plan ti ps (if ws_id w = ws_id ws \<and> ws_operation w = ws_operation ws then persisted ti ws a w else w)
      = apply_plan ti (p # ps) w" for w
    using none [of w] none [of "persisted ti ws a w"]
    by (cases "ws_id w = ws_id ws") (auto simp: apply_plan_def p plan_for_def)
  then show ?case using Cons by (simp add: p persist_rows_def sql_update_def)
qed

lemma plan_for_zip:
  assumes "distinct (map ws_id rows)" and "list_all2 R (filter p rows) bs" and "w \<in> set rows"
  shows "if p w then \<exists>b. plan_for (zip (filter p rows) bs) w = Some (w, b) \<and> R w b
         else plan_for (zip (filter p rows) bs) w = None"
proof (cases "p w")
  case True
  have d: "distinct (map ws_id (filter p rows))" using assms(1) by (simp add: distinct_map_filter)
  obtain i where i: "i < length (filter p rows)" "filter p rows ! i = w"
    using True assms(3) in_set_conv_nth [of w "filter p rows"] by auto
  have len: "length bs = length (filter p rows)" using assms(2) by (simp add: list_all2_lengthD)
  have "plan_for (zip (filter p rows) bs) w = Some (w, bs ! i)"
    unfolding plan_for_def find_Some_iff
  proof (intro exI [of _ i] conjI allI impI)
    fix j assume "j < i"
    then show "\<not> (case zip (filter p rows) bs ! j of (ws, a) \<Rightarrow> ws_id ws = ws_id w)"
      using d i len nth_eq_iff_index_eq [OF d, of j i] by simp
  qed (use i len in auto)
  moreover have "R w (bs ! i)" using assms(2) i by (auto simp: list_all2_conv_all_nth)
  ultimately show ?thesis using True by auto
next
  case False
  have "plan_for (zip (filter p rows) bs) w = None"
    using False assms(3) ws_table.same_key_same_row [OF assms(1)]
    by (auto simp: plan_for_def find_None_iff dest!: set_zip_leftD) metis
  then show ?thesis using False by simp
qed

text \<open>C16: a pass of the controller is pointwise.  On a healthy connection, whatever the platform calls do
  (fail, time out, find the circuit open), the pass returns, every row that needs reconciling is
  rewritten once, by the plan of its own state with at most the executor's results filled in, and
  every other row is left alone; the result is committed.\<close>
theorem reconcile_is_pointwise:
  assumes ok: "db_ok (wc_db s)" and keys: "keys_ok (db_tables (wc_db s))"
    and start: "db_committed (wc_db s) = db_tables (wc_db s)"
  shows "\<exists>s'. reconcile ti env ic sp uuid T s = (Inr (), s')
    \<and> db_committed (wc_db s') = db_tables (wc_db s')
    \<and> list_all2 (\<lambda>w w'. if needs_reconcile w
          then \<exists>b. same_plan (judge_and_plan ti T w) b \<and> w' = persisted ti w b w
          else w' = w)
        (tb_workspaces (db_tables (wc_db s))) (tb_workspaces (db_tables (wc_db s')))"
proof -
  let ?rows = "tb_workspaces (db_tables (wc_db s))"
  have load: "load_for_reconcile (wc_db s) = (Inr (filter needs_reconcile ?rows), wc_db s)"
    using ok by (simp add: load_for_reconcile_def io_simps sql_simps sql_select_def)
  show ?thesis
  proof (cases rule: reconcile_cases [of s ti env ic sp uuid T])
    case (load_fails e d)
    then show ?thesis using load by simp
  next
    case (idle d)
    then have "\<not> needs_reconcile w" if "w \<in> set ?rows" for w
      using load that by (auto simp: filter_empty_conv)
    then show ?thesis using idle load start by (auto simp: list_all2_conv_all_nth)
  next
    case (work d wss bs reg w)
    have wss: "wss = filter needs_reconcile ?rows" and dd: "d = wc_db s"
      using work(1) unfolding load by auto
    let ?s1 = "s\<lparr>wc_db := d, wc_registry := reg, wc_world := w\<rparr>"
    have d: "distinct (map ws_id ?rows)" using keys by (simp add: keys_ok_def)
    have len: "length wss = length bs" using work(4) by (rule list_all2_lengthD)
    have "map (\<lambda>p. ws_id (fst p)) (zip wss bs) = map ws_id (map fst (zip wss bs))" by simp
    also have "\<dots> = map ws_id wss" using len by (simp del: map_map)
    finally have dz: "distinct (map (\<lambda>p. ws_id (fst p)) (zip wss bs))"
      using d by (simp add: wss distinct_map_filter)
    have ne: "zip wss bs \<noteq> []" using work(2) len by (cases wss; cases bs) auto
    obtain s' where s': "reconcile ti env ic sp uuid T s = (Inr (), s')"
      "tb_workspaces (db_tables (wc_db s')) = map (apply_plan ti (zip wss bs)) ?rows"
      "db_committed (wc_db s') = db_tables (wc_db s')"
      using persist_all_ok [of ?s1 ti "zip wss bs"] ok fold_persist_rows [OF dz] work(6) dd ne by auto
    have "if needs_reconcile w then \<exists>b. same_plan (judge_and_plan ti T w) b
             \<and> apply_plan ti (zip wss bs) w = persisted ti w b w
          else apply_plan ti (zip wss bs) w = w" if "w \<in> set ?rows" for w
      using plan_for_zip [OF d work(4) [unfolded wss] that] by (auto simp: apply_plan_def wss split: if_splits)
    then show ?thesis using s' by (auto simp: list_all2_conv_all_nth)
  qed
qed

section \<open>What an execution does to the platform\<close>

text \<open>The home of workspace \<open>i\<close> is not lost: it is in its volume, or in an archive whose key the action
  carries to the row.\<close>

definition home_safe :: "'w platform \<Rightarrow> string \<Rightarrow> 'w \<times> plan_action \<Rightarrow> bool" where
  "home_safe v i = (\<lambda>(w, a). pf_volume v w i \<or> (\<exists>k. pa_archive_key a = Some k \<and> pf_archive v w k))"

text \<open>The volume of workspace \<open>i\<close> goes only after its container.\<close>

definition container_first :: "'w platform \<Rightarrow> string \<Rightarrow> 'w \<Rightarrow> bool" where
  "container_first v i w \<longleftrightarrow> pf_volume v w i \<or> \<not> pf_container v w i"

context platform_contract
begin

lemma home_safe_step:
  assumes "\<And>s r t. inv s \<Longrightarrow> m s = (r, t) \<Longrightarrow>
      inv t \<and> touches v C {i} s t \<and> (pf_volume v s i \<longrightarrow> pf_volume v t i)"
  shows "keeps (\<lambda>(w, a). inv w \<and> home_safe v i (w, a) \<and> K a) (io_fst m)"
proof (rule keepsI, clarify)
  fix w a r w' a'
  assume "inv w" "home_safe v i (w, a)" "K a" "io_fst m (w, a) = (r, w', a')"
  then show "inv w' \<and> home_safe v i (w', a') \<and> K a'"
    using assms [of w r w'] by (auto simp: io_fst_eq home_safe_def dest: touches_archive)
qed

lemma archived_step:
  assumes "\<And>s r t. inv s \<Longrightarrow> m s = (r, t) \<Longrightarrow> inv t \<and> touches v C V s t"
  shows "keeps (\<lambda>(w, a). inv w \<and> pa_archive_key a = Some k \<and> pf_archive v w k \<and> K a) (io_fst m)"
proof (rule keepsI, clarify)
  fix w a r w' a'
  assume "inv w" "pa_archive_key a = Some k" "pf_archive v w k" "K a" "io_fst m (w, a) = (r, w', a')"
  then show "inv w' \<and> pa_archive_key a' = Some k \<and> pf_archive v w' k \<and> K a'"
    using assms [of w r w'] by (auto simp: io_fst_eq dest: touches_archive)
qed

lemma archiving_keeps_home:
  "keeps (\<lambda>(w, a). inv w \<and> home_safe v i (w, a) \<and> pa_operation a = oper)
     (io_bind (io_fst (sp_archive sp i x)) (\<lambda>archive_key.
        io_seq (set_action (\<lambda>a. a\<lparr>pa_archive_key := Some archive_key\<rparr>))
          (io_seq (io_fst (ic_delete ic i)) (io_fst (sp_delete_volume sp i)))))"
  (is "keeps ?J _")
proof (rule keeps_bind_via [where K = "\<lambda>k (w, a). ?J (w, a) \<and> pf_archive v w k"])
  have A: "keeps ?J (io_fst (sp_archive sp i x))"
    by (rule home_safe_step) (drule (1) archive, blast)
  fix s :: "'s \<times> plan_action" and t
  { fix e
    assume "?J s" "io_fst (sp_archive sp i x) s = (Inl e, t)"
    then show "?J t" by (rule keepsD [OF A])
  next
    fix k
    assume J: "?J s" and step: "io_fst (sp_archive sp i x) s = (Inr k, t)"
    obtain w b w' where "s = (w, b)" "t = (w', b)" "sp_archive sp i x w = (Inr k, w')"
      using step by (cases s) (auto simp: io_fst_eq)
    then show "case t of (w, a) \<Rightarrow> ?J (w, a) \<and> pf_archive v w k"
      using J keepsD [OF A J step] archive [of w i x "Inr k" w'] by auto }
next
  fix k
  let ?K = "\<lambda>(w, a). inv w \<and> pa_archive_key a = Some k \<and> pf_archive v w k \<and> pa_operation a = oper"
  have "keeps ?K (io_fst (ic_delete ic i))"
    by (rule archived_step [where C = "{i}" and V = "{}"]) (drule (1) delete, blast)
  moreover have "keeps ?K (io_fst (sp_delete_volume sp i))"
    by (rule archived_step [where C = "{}" and V = "{i}"]) (drule (1) delete_volume, blast)
  ultimately have "keeps ?K (io_seq (io_fst (ic_delete ic i)) (io_fst (sp_delete_volume sp i)))"
    by (rule keeps_seq)
  then show "keeps (\<lambda>(w, a). ?J (w, a) \<and> pf_archive v w k)
      (io_seq (set_action (\<lambda>a. a\<lparr>pa_archive_key := Some k\<rparr>))
        (io_seq (io_fst (ic_delete ic i)) (io_fst (sp_delete_volume sp i))))"
    by (rule keeps_seq_via [rotated 2]) (auto simp: set_action_def home_safe_def)
qed auto

lemma execute_keeps_home:
  assumes "oper \<noteq> operation.DELETING"
  shows "keeps (\<lambda>(w, a). inv w \<and> home_safe v (ws_id ws) (w, a) \<and> pa_operation a = oper)
     (execute ic sp uuid ws)"
  (is "keeps ?J _")
proof -
  have marker: "keeps ?J (set_action (\<lambda>a. a\<lparr>pa_restore_marker := m\<rparr>))" for m
    by (auto intro!: keeps_set_action simp: home_safe_def)
  have provision': "keeps ?J (io_fst (sp_provision sp (ws_id ws)))"
    by (rule home_safe_step) (drule (1) provision, blast)
  have start': "keeps ?J (io_fst (ic_start ic (ws_id ws) img))" for img
    by (rule home_safe_step) (drule (1) start, blast)
  have delete': "keeps ?J (io_fst (ic_delete ic (ws_id ws)))"
    by (rule home_safe_step [where C = "{ws_id ws}"]) (drule (1) delete, auto simp: touches_def)
  have restore': "keeps ?J (io_fst (sp_restore sp (ws_id ws) k))" for k
    by (rule home_safe_step) (drule (1) restore, blast)
  have empty': "keeps ?J (io_bind (io_fst (sp_create_empty_archive sp (ws_id ws) x))
      (\<lambda>k. set_action (\<lambda>a. a\<lparr>pa_archive_key := Some k\<rparr>)))" for x
  proof (rule keeps_bind_via [where K = "\<lambda>k (w, a). ?J (w, a) \<and> pf_archive v w k"])
    have E: "keeps ?J (io_fst (sp_create_empty_archive sp (ws_id ws) x))"
      by (rule home_safe_step [where C = "{}"]) (drule (1) create_empty_archive, auto simp: touches_def)
    fix s :: "'s \<times> plan_action" and t
    { fix e
      assume "?J s" "io_fst (sp_create_empty_archive sp (ws_id ws) x) s = (Inl e, t)"
      then show "?J t" by (rule keepsD [OF E])
    next
      fix k
      assume J: "?J s" and step: "io_fst (sp_create_empty_archive sp (ws_id ws) x) s = (Inr k, t)"
      obtain w b w' where "s = (w, b)" "t = (w', b)" "sp_create_empty_archive sp (ws_id ws) x w = (Inr k, w')"
        using step by (cases s) (auto simp: io_fst_eq)
      then show "case t of (w, a) \<Rightarrow> ?J (w, a) \<and> pf_archive v w k"
        using J keepsD [OF E J step] create_empty_archive [of w "ws_id ws" x "Inr k" w'] by auto }
  next
    fix k
    show "keeps (\<lambda>(w, a). ?J (w, a) \<and> pf_archive v w k) (set_action (\<lambda>a. a\<lparr>pa_archive_key := Some k\<rparr>))"
      by (rule keeps_set_action) (auto simp: home_safe_def)
  qed auto
  have restoring': "keeps ?J (io_bind (io_fst (sp_restore sp (ws_id ws) k)) (\<lambda>_.
      set_action (\<lambda>a. a\<lparr>pa_restore_marker := m\<rparr>)))" for k m
    using restore' marker by (rule keeps_bind)
  have branch: "keeps ?J (execute_branch ic sp uuid ws s)" if "pa_operation (snd s) \<noteq> operation.DELETING" for s
    using that
    by (cases "pa_operation (snd s)")
       (auto simp: execute_branch_def intro: provision' start' delete' restoring' empty'
          archiving_keeps_home keeps_return)
  show ?thesis
    unfolding execute_def [abs_def]
  proof (rule keeps_diag [where f = "execute_branch ic sp uuid ws"])
    fix s assume "?J s"
    then show "keeps ?J (execute_branch ic sp uuid ws s)" using assms by (intro branch) auto
  qed
qed

text \<open>Executions for different workspaces do not meet: only the container and the volume of the
  workspace itself change, and no archive goes.\<close>

lemma frame_step:
  assumes "\<And>s r t. inv s \<Longrightarrow> m s = (r, t) \<Longrightarrow> inv t \<and> touches v C V s t" and "C \<subseteq> {i}" and "V \<subseteq> {i}"
  shows "keeps (\<lambda>(w, a). inv w \<and> touches v {i} {i} w0 w) (io_fst m)"
proof (rule keepsI, clarify)
  fix w a r w' a'
  assume "inv w" "touches v {i} {i} w0 w" "io_fst m (w, a) = (r, w', a')"
  then have "inv w'" and t: "touches v {i} {i} w0 w" "touches v C V w w'"
    using assms(1) [of w r w'] by (auto simp: io_fst_eq)
  moreover have "touches v {i} {i} w0 w'"
    by (rule touches_mono [OF touches_trans [OF t]]) (use assms(2,3) in auto)
  ultimately show "inv w' \<and> touches v {i} {i} w0 w'" by simp
qed

lemma execute_frame:
  "keeps (\<lambda>(w, a). inv w \<and> touches v {ws_id ws} {ws_id ws} w0 w) (execute ic sp uuid ws)"
  (is "keeps ?J _")
proof -
  have set': "keeps ?J (set_action f)" for f by (rule keeps_set_action) simp
  have provision': "keeps ?J (io_fst (sp_provision sp (ws_id ws)))"
    by (rule frame_step) (drule (1) provision, auto)
  have start': "keeps ?J (io_fst (ic_start ic (ws_id ws) img))" for img
    by (rule frame_step) (drule (1) start, auto)
  have delete': "keeps ?J (io_fst (ic_delete ic (ws_id ws)))"
    by (rule frame_step [where V = "{}"]) (drule (1) delete, auto)
  have restore': "keeps ?J (io_fst (sp_restore sp (ws_id ws) k))" for k
    by (rule frame_step) (drule (1) restore, auto)
  have archive': "keeps ?J (io_fst (sp_archive sp (ws_id ws) x))" for x
    by (rule frame_step) (drule (1) archive, auto)
  have empty': "keeps ?J (io_fst (sp_create_empty_archive sp (ws_id ws) x))" for x
    by (rule frame_step [where C = "{}" and V = "{}"]) (drule (1) create_empty_archive, auto)
  have remove': "keeps ?J (io_fst (sp_delete_volume sp (ws_id ws)))"
    by (rule frame_step) (drule (1) delete_volume, auto)
  have "keeps ?J (execute_branch ic sp uuid ws s)" for s
    by (cases "pa_operation (snd s)")
       (auto simp: execute_branch_def intro!: set' provision' start' delete' restore' archive' empty' remove'
          keeps_bind keeps_seq keeps_return)
  then show ?thesis unfolding execute_def [abs_def] by (rule keeps_diag)
qed

text \<open>Archiving and deleting remove the container first: at no point is the volume gone under a
  container that was there.\<close>

lemma execute_container_first:
  assumes "oper = ARCHIVING \<or> oper = operation.DELETING"
  shows "keeps (\<lambda>(w, a). inv w \<and> container_first v (ws_id ws) w \<and> pa_operation a = oper)
     (execute ic sp uuid ws)"
  (is "keeps ?J _")
proof -
  have set': "keeps ?J (set_action (\<lambda>a. a\<lparr>pa_archive_key := Some k\<rparr>))" for k
    by (rule keeps_set_action) simp
  have archive': "keeps ?J (io_fst (sp_archive sp (ws_id ws) x))" for x
  proof (rule keepsI, clarify)
    fix w a r w' a'
    assume "inv w" "container_first v (ws_id ws) w" "io_fst (sp_archive sp (ws_id ws) x) (w, a) = (r, w', a')"
      "oper = pa_operation a"
    then show "inv w' \<and> container_first v (ws_id ws) w' \<and> pa_operation a' = pa_operation a"
      using archive [of w "ws_id ws" x r w'] by (auto simp: io_fst_eq container_first_def touches_def)
  qed
  have two: "keeps ?J (io_seq (io_fst (ic_delete ic (ws_id ws))) (io_fst (sp_delete_volume sp (ws_id ws))))"
  proof (rule keeps_seq_via [where K = "\<lambda>(w, a). inv w \<and> \<not> pf_container v w (ws_id ws) \<and> pa_operation a = oper"])
    fix s e t
    assume "?J s" "io_fst (ic_delete ic (ws_id ws)) s = (Inl e, t)"
    moreover obtain w a where "s = (w, a)" by fastforce
    ultimately show "?J t"
      using delete [of w "ws_id ws" "Inl e" "fst t"]
      by (auto simp: io_fst_eq container_first_def touches_def)
  next
    fix s a t
    assume "?J s" "io_fst (ic_delete ic (ws_id ws)) s = (Inr a, t)"
    moreover obtain w a where "s = (w, a)" by fastforce
    ultimately show "case t of (w, a) \<Rightarrow> inv w \<and> \<not> pf_container v w (ws_id ws) \<and> pa_operation a = oper"
      using delete [of w "ws_id ws" "Inr ()" "fst t"] by (auto simp: io_fst_eq)
  next
    show "keeps (\<lambda>(w, a). inv w \<and> \<not> pf_container v w (ws_id ws) \<and> pa_operation a = oper)
        (io_fst (sp_delete_volume sp (ws_id ws)))"
    proof (rule keepsI, clarify)
      fix w a r w' a'
      assume "inv w" "\<not> pf_container v w (ws_id ws)" "io_fst (sp_delete_volume sp (ws_id ws)) (w, a) = (r, w', a')"
        "oper = pa_operation a"
      then show "inv w' \<and> \<not> pf_container v w' (ws_id ws) \<and> pa_operation a' = pa_operation a"
        using delete_volume [of w "ws_id ws" r w'] by (auto simp: io_fst_eq touches_def)
    qed
  qed (auto simp: container_first_def)
  have branch: "keeps ?J (execute_branch ic sp uuid ws s)"
    if "pa_operation (snd s) = ARCHIVING \<or> pa_operation (snd s) = operation.DELETING" for s
    using that archive' set' two by (auto simp: execute_branch_def intro!: keeps_bind keeps_seq)
  show ?thesis
    unfolding execute_def [abs_def]
  proof (rule keeps_diag [where f = "execute_branch ic sp uuid ws"])
    fix s assume "?J s"
    then show "keeps ?J (execute_branch ic sp uuid ws s)" using assms by (intro branch) auto
  qed
qed

text \<open>What a successful execution achieves.\<close>

lemma execute_effect:
  assumes inv: "inv w" and run: "execute ic sp uuid ws (w, a) = (Inr u, (w', b))"
  shows "case pa_operation a of
      PROVISIONING \<Rightarrow> pf_volume v w' (ws_id ws)
    | RESTORING \<Rightarrow> py_truthy (ws_archive_key ws) \<longrightarrow>
        pf_volume v w' (ws_id ws) \<and> pa_restore_marker b = ws_archive_key ws
    | STARTING \<Rightarrow> pf_running v w' (ws_id ws)
    | STOPPING \<Rightarrow> \<not> pf_container v w' (ws_id ws) \<and> \<not> pf_running v w' (ws_id ws)
    | ARCHIVING \<Rightarrow> \<not> pf_container v w' (ws_id ws) \<and> \<not> pf_running v w' (ws_id ws)
        \<and> \<not> pf_volume v w' (ws_id ws) \<and> (\<exists>k. pa_archive_key b = Some k \<and> pf_archive v w' k)
    | CREATE_EMPTY_ARCHIVE \<Rightarrow> \<exists>k. pa_archive_key b = Some k \<and> pf_archive v w' k
    | operation.DELETING \<Rightarrow> \<not> pf_container v w' (ws_id ws) \<and> \<not> pf_running v w' (ws_id ws)
        \<and> \<not> pf_volume v w' (ws_id ws)
    | NONE \<Rightarrow> w' = w"
proof (cases "pa_operation a")
  case PROVISIONING
  then show ?thesis using run provision [OF inv] by (auto simp: execute_def execute_branch_def io_fst_eq)
next
  case STARTING
  then show ?thesis using run start [OF inv] by (auto simp: execute_def execute_branch_def io_fst_eq)
next
  case STOPPING
  then show ?thesis using run delete [OF inv] by (auto simp: execute_def execute_branch_def io_fst_eq)
next
  case RESTORING
  then show ?thesis
    using run restore [OF inv]
    by (auto simp: execute_def execute_branch_def io_bind_Inr_iff io_fst_eq set_action_eq split: if_splits)
next
  case CREATE_EMPTY_ARCHIVE
  then show ?thesis
    using run create_empty_archive [OF inv]
    by (auto simp: execute_def execute_branch_def io_bind_Inr_iff io_fst_eq set_action_eq)
next
  case DELETING
  obtain w1 where d: "ic_delete ic (ws_id ws) w = (Inr (), w1)" "sp_delete_volume sp (ws_id ws) w1 = (Inr (), w')"
    using run DELETING
    by (auto simp: execute_def execute_branch_def io_seq_Inr_iff io_fst_eq)
  then have "inv w1" using delete [OF inv] by blast
  then show ?thesis
    using DELETING d delete [OF inv d(1)] delete_volume [of w1 "ws_id ws" "Inr ()" w']
    by (auto simp: touches_def)
next
  case ARCHIVING
  obtain k w0 w1 where d: "sp_archive sp (ws_id ws) (op_id_of uuid ws (w, a)) w = (Inr k, w0)"
      "ic_delete ic (ws_id ws) w0 = (Inr (), w1)" "sp_delete_volume sp (ws_id ws) w1 = (Inr (), w')"
      "pa_archive_key b = Some k"
    using run ARCHIVING
    by (auto simp: execute_def execute_branch_def io_seq_Inr_iff io_bind_Inr_iff io_fst_eq set_action_eq)
  have 0: "inv w0" "pf_archive v w0 k" using archive [OF inv d(1)] by auto
  have 1: "inv w1" "pf_archive v w1 k" "\<not> pf_container v w1 (ws_id ws) \<and> \<not> pf_running v w1 (ws_id ws)"
    using delete [OF 0(1) d(2)] 0(2) by (auto dest: touches_archive)
  show ?thesis
    using ARCHIVING d(4) 1 delete_volume [OF 1(1) d(3)] by (auto simp: touches_def)
next
  case NONE
  then show ?thesis using run by (auto simp: execute_def execute_branch_def io_return_def)
qed

text \<open>The same for one execution with its retries, time-outs and breaker: the environment may only keep
  the invariant and leave this workspace's container and volume as they are.\<close>

lemma execute_one_home:
  assumes env: "env_steps (\<lambda>s t. inv s \<longrightarrow> inv t \<and> touches v (- {ws_id ws}) (- {ws_id ws}) s t) env"
    and pre: "inv w" "home_safe v (ws_id ws) (w, a)" "pa_operation a \<noteq> operation.DELETING"
    and step: "execute_one env ic sp uuid ws a (reg, w) = (r, (reg', w'))"
  obtains b where "r = Inr (ws, b)" "home_safe v (ws_id ws) (w', b)"
proof -
  let ?J = "\<lambda>(w, b). inv w \<and> home_safe v (ws_id ws) (w, b) \<and> pa_operation b = pa_operation a"
  have "env_keeps ?J (env_fst env)"
    by (rule env_steps_fst [OF env]) (auto simp: home_safe_def touches_def)
  from execute_one_keeps [OF execute_keeps_home [OF pre(3)] this _ step] pre that show thesis by auto
qed

lemma execute_one_container_first:
  assumes env: "env_steps (\<lambda>s t. inv s \<longrightarrow> inv t \<and> touches v (- {ws_id ws}) (- {ws_id ws}) s t) env"
    and pre: "inv w" "container_first v (ws_id ws) w" "pa_operation a = ARCHIVING \<or> pa_operation a = operation.DELETING"
    and step: "execute_one env ic sp uuid ws a (reg, w) = (r, (reg', w'))"
  shows "container_first v (ws_id ws) w'"
proof -
  let ?J = "\<lambda>(w, b). inv w \<and> container_first v (ws_id ws) w \<and> pa_operation b = pa_operation a"
  have "env_keeps ?J (env_fst env)"
    by (rule env_steps_fst [OF env]) (auto simp: container_first_def touches_def)
  from execute_one_keeps [OF execute_container_first [OF pre(3)] this _ step] pre show ?thesis by auto
qed

lemma execute_one_frame:
  assumes env: "env_steps (\<lambda>s t. inv s \<longrightarrow> inv t \<and> touches v {} {} s t) env" and pre: "inv w"
    and step: "execute_one env ic sp uuid ws a (reg, w) = (r, (reg', w'))"
  shows "inv w' \<and> touches v {ws_id ws} {ws_id ws} w w'"
proof -
  let ?J = "\<lambda>(w', b :: plan_action). inv w' \<and> touches v {ws_id ws} {ws_id ws} w w'"
  have "env_keeps ?J (env_fst env)"
    by (rule env_steps_fst [OF env]) (auto simp: touches_def)
  from execute_one_keeps [OF execute_frame this _ step] pre show ?thesis by auto
qed

end

end
