(* ===== verification/Docker.thy ===== *)
theory Docker
  imports Config
begin

text \<open>
  infra/docker.py: the client of the Docker Engine API.  The HTTP client and the daemon behind it are a
  parameter: a request is sent to the world and yields a response or raises (httpx's exceptions).  The
  configuration records are sent as the JSON the code builds.  Connection handling of the client
  singleton and the read time-outs are left to that parameter.
\<close>

section \<open>Requests and responses\<close>

record http_request =
  rq_method :: string
  rq_path :: string
  rq_params :: "(string \<times> string) list"
  rq_json :: "json option"
  rq_content :: "string option"

record http_response =
  rs_status :: int
  rs_json :: "json option"
  rs_content :: string

type_synonym 'w http = "http_request \<Rightarrow> ('w, http_response) io"

definition request :: "string \<Rightarrow> string \<Rightarrow> http_request" where
  "request meth path =
     \<lparr>rq_method = meth, rq_path = path, rq_params = [], rq_json = None, rq_content = None\<rparr>"

text \<open>\<open>raise_for_status\<close> raises for every status outside 200..299; \<open>resp.json()\<close> for a body that is no JSON.\<close>

definition is_success :: "int \<Rightarrow> bool" where
  "is_success st \<longleftrightarrow> 200 \<le> st \<and> st < 300"

definition raise_for_status :: "http_response \<Rightarrow> ('w, unit) io" where
  "raise_for_status r = (if is_success (rs_status r) then io_return () else io_raise (HTTPStatusError (rs_status r)))"

definition response_json :: "http_response \<Rightarrow> ('w, json) io" where
  "response_json r =
     (case rs_json r of None \<Rightarrow> io_raise (OtherError ''JSONDecodeError'') | Some j \<Rightarrow> io_return j)"

lemma keeps_response [keeps_rules]:
  "keeps I (raise_for_status r)" "keeps I (response_json r)"
  by (simp_all add: raise_for_status_def response_json_def keeps_return keeps_raise split: option.split)

lemma raise_for_status_Inr [simp]:
  "raise_for_status r s = (Inr u, t) \<longleftrightarrow> is_success (rs_status r) \<and> t = s"
  by (auto simp: raise_for_status_def io_return_def io_raise_def)

lemma response_json_Inr [simp]:
  "response_json r s = (Inr j, t) \<longleftrightarrow> rs_json r = Some j \<and> t = s"
  by (auto simp: response_json_def io_return_def io_raise_def split: option.split)

section \<open>Configuration records\<close>

record host_config =
  hc_network_mode :: string
  hc_binds :: "string list"
  hc_dns :: "string list"
  hc_dns_opt :: "string list"

definition json_strings :: "string list \<Rightarrow> json" where
  "json_strings xs = JArr (map JStr xs)"

definition host_config_to_api :: "host_config \<Rightarrow> json" where
  "host_config_to_api h =
     JObj ([(''NetworkMode'', JStr (hc_network_mode h)), (''Binds'', json_strings (hc_binds h))]
       @ (if hc_dns h \<noteq> [] then [(''Dns'', json_strings (hc_dns h))] else [])
       @ (if hc_dns_opt h \<noteq> [] then [(''DnsOptions'', json_strings (hc_dns_opt h))] else []))"

record container_config =
  cc_image :: string
  cc_name :: string
  cc_cmd :: "string list"
  cc_user :: "string option"
  cc_env :: "string list"
  cc_exposed_ports :: "string list"
  cc_host_config :: host_config

definition container_config_to_api :: "container_config \<Rightarrow> json" where
  "container_config_to_api c =
     JObj ([(''Image'', JStr (cc_image c)), (''Cmd'', json_strings (cc_cmd c)),
            (''ExposedPorts'', JObj (map (\<lambda>p. (p, JObj [])) (cc_exposed_ports c))),
            (''HostConfig'', host_config_to_api (cc_host_config c))]
       @ (if py_truthy (cc_user c) then [(''User'', JStr (the (cc_user c)))] else [])
       @ (if cc_env c \<noteq> [] then [(''Env'', json_strings (cc_env c))] else []))"

record volume_config =
  vc_name :: string
  vc_driver :: string
  vc_labels :: "(string \<times> string) list"

definition volume_config_to_api :: "volume_config \<Rightarrow> json" where
  "volume_config_to_api c =
     JObj ([(''Name'', JStr (vc_name c)), (''Driver'', JStr (vc_driver c))]
       @ (if vc_labels c \<noteq> [] then [(''Labels'', JObj (map (\<lambda>(k, v). (k, JStr v)) (vc_labels c)))] else []))"

section \<open>Containers\<close>

definition container_path :: "string \<Rightarrow> string \<Rightarrow> string" where
  "container_path name sfx = ''/containers/'' @ name @ sfx"

text \<open>The name filter of a list request, as \<open>json.dumps\<close> writes it.\<close>

definition name_filter :: "string \<Rightarrow> string" where
  "name_filter pfx = ''{\"name\": [\"'' @ pfx @ ''\"]}''"

definition expect_array :: "json \<Rightarrow> ('w, json list) io" where
  "expect_array j = (case j of JArr xs \<Rightarrow> io_return xs | _ \<Rightarrow> io_raise (OtherError ''TypeError''))"

lemma keeps_expect_array [keeps_rules]: "keeps I (expect_array j)"
  by (simp add: expect_array_def keeps_return keeps_raise split: json.split)

lemma expect_array_Inr [simp]: "expect_array j s = (Inr xs, t) \<longleftrightarrow> j = JArr xs \<and> t = s"
  by (auto simp: expect_array_def io_return_def io_raise_def split: json.split)

definition container_list :: "'w http \<Rightarrow> string option \<Rightarrow> ('w, json list) io" where
  "container_list http filters =
     io_bind (http ((request ''GET'' ''/containers/json'')\<lparr>rq_params :=
         (''all'', ''true'') # (case filters of None \<Rightarrow> [] | Some f \<Rightarrow> [(''filters'', f)])\<rparr>)) (\<lambda>r.
       io_seq (raise_for_status r) (io_bind (response_json r) expect_array))"

definition container_inspect :: "'w http \<Rightarrow> string \<Rightarrow> ('w, json option) io" where
  "container_inspect http name =
     io_bind (http (request ''GET'' (container_path name ''/json''))) (\<lambda>r.
       if rs_status r = 404 then io_return None
       else io_seq (raise_for_status r) (io_bind (response_json r) (\<lambda>j. io_return (Some j))))"

definition container_create :: "'w http \<Rightarrow> container_config \<Rightarrow> ('w, unit) io" where
  "container_create http c =
     io_bind (http ((request ''POST'' ''/containers/create'')\<lparr>rq_params := [(''name'', cc_name c)],
         rq_json := Some (container_config_to_api c)\<rparr>)) (\<lambda>r.
       if rs_status r = 409 then io_return () else raise_for_status r)"

definition container_start :: "'w http \<Rightarrow> string \<Rightarrow> ('w, unit) io" where
  "container_start http name =
     io_bind (http (request ''POST'' (container_path name ''/start''))) (\<lambda>r.
       if rs_status r \<notin> {204, 304} then raise_for_status r else io_return ())"

definition container_stop :: "'w http \<Rightarrow> string \<Rightarrow> nat \<Rightarrow> ('w, unit) io" where
  "container_stop http name timeout =
     io_bind (http ((request ''POST'' (container_path name ''/stop''))\<lparr>rq_params := [(''t'', str_nat timeout)]\<rparr>)) (\<lambda>r.
       if rs_status r \<notin> {204, 304, 404} then raise_for_status r else io_return ())"

definition container_remove :: "'w http \<Rightarrow> string \<Rightarrow> bool \<Rightarrow> ('w, unit) io" where
  "container_remove http name force =
     io_bind (http ((request ''DELETE'' (container_path name []))\<lparr>rq_params :=
         [(''force'', if force then ''true'' else ''false'')]\<rparr>)) (\<lambda>r.
       if rs_status r = 404 then io_return () else raise_for_status r)"

definition expect_int :: "json \<Rightarrow> ('w, int) io" where
  "expect_int j = (case j of JInt i \<Rightarrow> io_return i | _ \<Rightarrow> io_raise (OtherError ''TypeError''))"

lemma keeps_expect_int [keeps_rules]: "keeps I (expect_int j)"
  by (simp add: expect_int_def keeps_return keeps_raise split: json.split)

lemma expect_int_Inr [simp]: "expect_int j s = (Inr i, t) \<longleftrightarrow> j = JInt i \<and> t = s"
  by (auto simp: expect_int_def io_return_def io_raise_def split: json.split)

definition container_wait :: "'w http \<Rightarrow> string \<Rightarrow> ('w, int) io" where
  "container_wait http name =
     io_bind (http (request ''POST'' (container_path name ''/wait''))) (\<lambda>r.
       io_seq (raise_for_status r)
         (io_bind (response_json r) (\<lambda>j.
           io_bind (io_of (json_get j ''StatusCode'' (JInt (- 1)))) expect_int)))"

definition container_logs :: "'w http \<Rightarrow> string \<Rightarrow> ('w, string) io" where
  "container_logs http name =
     io_bind (http ((request ''GET'' (container_path name ''/logs''))\<lparr>rq_params :=
         [(''stdout'', ''true''), (''stderr'', ''true'')]\<rparr>)) (\<lambda>r.
       io_seq (raise_for_status r) (io_return (rs_content r)))"

definition container_get_archive :: "'w http \<Rightarrow> string \<Rightarrow> string \<Rightarrow> ('w, string) io" where
  "container_get_archive http name path =
     io_bind (http ((request ''GET'' (container_path name ''/archive''))\<lparr>rq_params := [(''path'', path)]\<rparr>)) (\<lambda>r.
       io_seq (raise_for_status r) (io_return (rs_content r)))"

definition container_put_archive :: "'w http \<Rightarrow> string \<Rightarrow> string \<Rightarrow> string \<Rightarrow> ('w, unit) io" where
  "container_put_archive http name path bytes =
     io_bind (http ((request ''PUT'' (container_path name ''/archive''))\<lparr>rq_params := [(''path'', path)],
         rq_content := Some bytes\<rparr>)) raise_for_status"

section \<open>Volumes\<close>

definition volume_path :: "string \<Rightarrow> string" where
  "volume_path name = ''/volumes/'' @ name"

definition volume_list :: "'w http \<Rightarrow> string option \<Rightarrow> ('w, json list) io" where
  "volume_list http filters =
     io_bind (http ((request ''GET'' ''/volumes'')\<lparr>rq_params :=
         (case filters of None \<Rightarrow> [] | Some f \<Rightarrow> [(''filters'', f)])\<rparr>)) (\<lambda>r.
       io_seq (raise_for_status r)
         (io_bind (response_json r) (\<lambda>j.
           io_bind (io_of (json_get j ''Volumes'' (JArr []))) expect_array)))"

definition volume_inspect :: "'w http \<Rightarrow> string \<Rightarrow> ('w, json option) io" where
  "volume_inspect http name =
     io_bind (http (request ''GET'' (volume_path name))) (\<lambda>r.
       if rs_status r = 404 then io_return None
       else io_seq (raise_for_status r) (io_bind (response_json r) (\<lambda>j. io_return (Some j))))"

definition volume_create :: "'w http \<Rightarrow> volume_config \<Rightarrow> ('w, unit) io" where
  "volume_create http c =
     io_bind (http ((request ''POST'' ''/volumes/create'')\<lparr>rq_json := Some (volume_config_to_api c)\<rparr>)) (\<lambda>r.
       if rs_status r = 409 then io_return () else raise_for_status r)"

definition volume_remove :: "'w http \<Rightarrow> string \<Rightarrow> ('w, unit) io" where
  "volume_remove http name =
     io_bind (http (request ''DELETE'' (volume_path name))) (\<lambda>r.
       if rs_status r = 404 then io_return ()
       else if rs_status r = 409
         then io_raise (VolumeInUseError (''Volume '' @ name @ '' is in use by a container''))
       else raise_for_status r)"

section \<open>Images\<close>

definition image_exists :: "'w http \<Rightarrow> string \<Rightarrow> ('w, bool) io" where
  "image_exists http image_ref =
     io_bind (http (request ''GET'' (''/images/'' @ image_ref @ ''/json''))) (\<lambda>r.
       io_return (rs_status r = 200))"

text \<open>\<open>image_ref.rsplit(":", 1)\<close>: at the last colon.\<close>

definition split_image_ref :: "string \<Rightarrow> string \<times> string" where
  "split_image_ref s =
     (if CHR '':'' \<in> set s
      then (rev (tl (dropWhile (\<lambda>c. c \<noteq> CHR '':'') (rev s))), rev (takeWhile (\<lambda>c. c \<noteq> CHR '':'') (rev s)))
      else (s, ''latest''))"

definition image_pull :: "'w http \<Rightarrow> string \<Rightarrow> ('w, unit) io" where
  "image_pull http image_ref =
     (case split_image_ref image_ref of (img, tag) \<Rightarrow>
       io_bind (http ((request ''POST'' ''/images/create'')\<lparr>rq_params :=
           [(''fromImage'', img), (''tag'', tag)]\<rparr>)) raise_for_status)"

definition image_ensure :: "'w http \<Rightarrow> string \<Rightarrow> ('w, unit) io" where
  "image_ensure http image_ref =
     io_bind (image_exists http image_ref) (\<lambda>ex. if \<not> ex then image_pull http image_ref else io_return ())"

text \<open>A reference is split back into what it was put together from; a registry with a port and no tag is
  not: the port is taken for the tag.\<close>

lemma split_image_ref_tag:
  "CHR '':'' \<notin> set tag \<Longrightarrow> split_image_ref (img @ '':'' @ tag) = (img, tag)"
  by (simp add: split_image_ref_def dropWhile_append takeWhile_append)

lemma split_image_ref_port:
  "split_image_ref ''localhost:5000/app'' = (''localhost'', ''5000/app'')"
  by (simp add: split_image_ref_def)

end
