(* ===== verification/Adapters.thy ===== *)
theory Adapters
  imports Docker Interfaces
begin

text \<open>
  adapters/: the Docker volume provider, the Docker instance controller, the Docker job runner and the
  S3 storage provider, as the method records of core/interfaces.  Each is a function of the clients it
  is built from: the HTTP client of infra/docker.py, the S3 client of infra/s3.py, the source of
  \<open>uuid4().hex[:8]\<close> and the codecs (zstd, sha256).  Logging is not modelled.
\<close>

section \<open>adapters/volume/docker.py\<close>

definition volume_config :: "string \<Rightarrow> volume_config" where
  "volume_config name = \<lparr>vc_name = name, vc_driver = ''local'', vc_labels = []\<rparr>"

definition docker_volume_provider :: "'w http \<Rightarrow> 'w volume_provider" where
  "docker_volume_provider http =
     \<lparr>vp_create = (\<lambda>name. volume_create http (volume_config name)),
      vp_remove = volume_remove http,
      vp_exists = (\<lambda>name. io_bind (volume_inspect http name) (\<lambda>data. io_return (data \<noteq> None))),
      vp_list = (\<lambda>pfx. volume_list http (Some (name_filter pfx)))\<rparr>"

section \<open>adapters/instance/docker.py\<close>

definition container_name :: "runtime_config \<Rightarrow> string \<Rightarrow> string" where
  "container_name rt workspace_id = resource_prefix rt @ workspace_id"

text \<open>\<open>s.lstrip("/")\<close> and \<open>s.capitalize()\<close> (of ASCII text), and what \<open>list_all\<close> reads of one
  container: \<open>None\<close> when the entry is skipped.\<close>

definition py_lstrip_slash :: "string \<Rightarrow> string" where
  "py_lstrip_slash = dropWhile (\<lambda>c. c = CHR ''/'')"

definition upper_char :: "char \<Rightarrow> char" where
  "upper_char c = (let n = (of_char c :: nat) in if 97 \<le> n \<and> n \<le> 122 then char_of (n - 32) else c)"

definition py_capitalize :: "string \<Rightarrow> string" where
  "py_capitalize s = (case s of [] \<Rightarrow> [] | c # cs \<Rightarrow> upper_char c # map lower_char cs)"

definition as_string :: "json \<Rightarrow> exn + string" where
  "as_string j = (case j of JStr s \<Rightarrow> Inr s | _ \<Rightarrow> Inl (OtherError ''AttributeError''))"

definition first_name :: "json \<Rightarrow> exn + string" where
  "first_name j =
     (if json_truthy j
      then (case j of JArr (n # _) \<Rightarrow> ex_bind (as_string n) (\<lambda>s. Inr (py_lstrip_slash s))
            | _ \<Rightarrow> Inl (OtherError ''TypeError''))
      else Inr [])"

definition container_entry :: "string \<Rightarrow> json \<Rightarrow> exn + container_info option" where
  "container_entry pfx container =
     ex_bind (json_get container ''Names'' (JArr [])) (\<lambda>names.
     ex_bind (first_name names) (\<lambda>name.
       if \<not> py_startswith name pfx then Inr None
       else ex_bind (json_get container ''State'' (JStr ''unknown'')) (\<lambda>state.
            ex_bind (if state = JStr ''running'' then Inr ''Running''
                     else ex_bind (as_string state) (\<lambda>s. Inr (py_capitalize s))) (\<lambda>reason.
            ex_bind (json_get container ''Status'' (JStr [])) (\<lambda>status.
            ex_bind (as_string status) (\<lambda>msg.
              Inr (Some \<lparr>ci_workspace_id = drop (length pfx) name, ci_running = (state = JStr ''running''),
                         ci_reason = reason, ci_message = msg\<rparr>)))))))"

definition keep_some :: "'a option list \<Rightarrow> 'a list" where
  "keep_some xs = map the (filter (\<lambda>x. x \<noteq> None) xs)"

definition instance_list_all :: "'w http \<Rightarrow> string \<Rightarrow> ('w, container_info list) io" where
  "instance_list_all http pfx =
     io_bind (container_list http (Some (name_filter pfx))) (\<lambda>containers.
       io_bind (io_of (ex_mapM (container_entry pfx) containers)) (\<lambda>rs. io_return (keep_some rs)))"

definition workspace_container :: "runtime_config \<Rightarrow> docker_config \<Rightarrow> string \<Rightarrow> string \<Rightarrow> container_config" where
  "workspace_container rt dk workspace_id img =
     \<lparr>cc_image = img, cc_name = container_name rt workspace_id,
      cc_cmd = [''--auth'', ''none'', ''--bind-addr'', ''0.0.0.0:'' @ str_nat (container_port rt)],
      cc_user = Some (str_nat (coder_uid dk) @ '':'' @ str_nat (coder_gid dk)),
      cc_env = [''HOME=/home/coder''],
      cc_exposed_ports = [str_nat (container_port rt) @ ''/tcp''],
      cc_host_config =
        \<lparr>hc_network_mode = network_name dk,
         hc_binds = [resource_prefix rt @ workspace_id @ ''-home:/home/coder''],
         hc_dns = dns_servers dk, hc_dns_opt = dns_options dk\<rparr>\<rparr>"

definition create_and_start :: "'w http \<Rightarrow> runtime_config \<Rightarrow> docker_config \<Rightarrow> string \<Rightarrow> string \<Rightarrow> ('w, unit) io" where
  "create_and_start http rt dk workspace_id image_ref =
     (let img = (if image_ref \<noteq> [] then image_ref else default_image rt)
      in io_seq (image_ensure http img)
          (io_seq (container_create http (workspace_container rt dk workspace_id img))
                  (container_start http (container_name rt workspace_id))))"

text \<open>A container that is there is started; if it went between the inspection and the start (404) it is
  removed and created anew.\<close>

definition instance_start :: "'w http \<Rightarrow> runtime_config \<Rightarrow> docker_config \<Rightarrow> string \<Rightarrow> string \<Rightarrow> ('w, unit) io" where
  "instance_start http rt dk workspace_id image_ref =
     (let name = container_name rt workspace_id
      in io_bind (container_inspect http name) (\<lambda>existing.
           if (case existing of None \<Rightarrow> False | Some j \<Rightarrow> json_truthy j)
           then io_bind (io_except (io_seq (container_start http name) (io_return True))
                  (\<lambda>e. if e = HTTPStatusError 404
                       then Some (io_seq (container_remove http name False) (io_return False))
                       else None))
                (\<lambda>started. if started then io_return () else create_and_start http rt dk workspace_id image_ref)
           else create_and_start http rt dk workspace_id image_ref))"

definition instance_delete :: "'w http \<Rightarrow> runtime_config \<Rightarrow> string \<Rightarrow> ('w, unit) io" where
  "instance_delete http rt workspace_id =
     (let name = container_name rt workspace_id
      in io_seq (container_stop http name 10) (container_remove http name False))"

definition running_state :: "json \<Rightarrow> exn + bool" where
  "running_state data =
     ex_bind (json_get data ''State'' (JObj [])) (\<lambda>state.
     ex_bind (json_get state ''Running'' (JBool False)) (\<lambda>running.
       if \<not> json_truthy running then Inr False
       else ex_bind (json_get state ''Health'' (JObj [])) (\<lambda>health.
            ex_bind (json_get health ''Status'' (JStr ''healthy'')) (\<lambda>status.
              Inr (status = JStr ''healthy'' \<or> status = JNull)))))"

definition instance_is_running :: "'w http \<Rightarrow> runtime_config \<Rightarrow> string \<Rightarrow> ('w, bool) io" where
  "instance_is_running http rt workspace_id =
     io_bind (container_inspect http (container_name rt workspace_id)) (\<lambda>data.
       case data of
         None \<Rightarrow> io_return False
       | Some j \<Rightarrow> if json_truthy j then io_of (running_state j) else io_return False)"

definition instance_resolve_upstream :: "runtime_config \<Rightarrow> string \<Rightarrow> ('w, upstream_info option) io" where
  "instance_resolve_upstream rt workspace_id =
     io_return (Some \<lparr>up_hostname = container_name rt workspace_id, up_port = container_port rt\<rparr>)"

definition docker_instance_controller ::
  "'w http \<Rightarrow> runtime_config \<Rightarrow> docker_config \<Rightarrow> 'w instance_controller" where
  "docker_instance_controller http rt dk =
     \<lparr>ic_list_all = instance_list_all http, ic_start = instance_start http rt dk,
      ic_delete = instance_delete http rt, ic_is_running = instance_is_running http rt,
      ic_resolve_upstream = instance_resolve_upstream rt\<rparr>"

section \<open>adapters/job/docker.py\<close>

definition force_cleanup :: "'w http \<Rightarrow> string \<Rightarrow> ('w, unit) io" where
  "force_cleanup http name =
     io_seq (io_try (container_stop http name 5) (\<lambda>_. io_return ()))
            (io_try (container_remove http name True) (\<lambda>_. io_return ()))"

definition job_env :: "string \<Rightarrow> string \<Rightarrow> string \<Rightarrow> string \<Rightarrow> string list" where
  "job_env archive_url s3_endpoint s3_access_key s3_secret_key =
     [''ARCHIVE_URL='' @ archive_url, ''AWS_ENDPOINT_URL='' @ s3_endpoint,
      ''AWS_ACCESS_KEY_ID='' @ s3_access_key, ''AWS_SECRET_ACCESS_KEY='' @ s3_secret_key]"

definition job_container ::
  "runtime_config \<Rightarrow> docker_config \<Rightarrow> string \<Rightarrow> string \<Rightarrow> string list \<Rightarrow> string \<Rightarrow> container_config" where
  "job_container rt dk name script env bind =
     \<lparr>cc_image = storage_job_image rt, cc_name = name, cc_cmd = [''-c'', script], cc_user = None,
      cc_env = env, cc_exposed_ports = [],
      cc_host_config = \<lparr>hc_network_mode = network_name dk, hc_binds = [bind], hc_dns = [], hc_dns_opt = []\<rparr>\<rparr>"

text \<open>The two methods differ in the name, the script and the bind of the container.\<close>

definition run_job :: "'w http \<Rightarrow> container_config \<Rightarrow> ('w, job_result) io" where
  "run_job http c =
     io_finally
       (io_except
         (io_seq (container_create http c)
           (io_seq (container_start http (cc_name c))
             (io_bind (container_wait http (cc_name c)) (\<lambda>exit_code.
               io_bind (container_logs http (cc_name c)) (\<lambda>logs.
                 io_return \<lparr>jr_exit_code = exit_code, jr_logs = logs\<rparr>)))))
         (\<lambda>e. if e = CancelledError
              then Some (io_seq (force_cleanup http (cc_name c)) (io_raise CancelledError))
              else None))
       (io_try (container_remove http (cc_name c) False) (\<lambda>_. io_return ()))"

definition run_archive ::
  "'w http \<Rightarrow> runtime_config \<Rightarrow> docker_config \<Rightarrow> ('w, string) io
   \<Rightarrow> string \<Rightarrow> string \<Rightarrow> string \<Rightarrow> string \<Rightarrow> string \<Rightarrow> ('w, job_result) io" where
  "run_archive http rt dk uuid archive_url volume_name s3_endpoint s3_access_key s3_secret_key =
     io_bind uuid (\<lambda>job_id.
       run_job http (job_container rt dk (''codehub-job-archive-'' @ job_id) ''/usr/local/bin/archive''
         (job_env archive_url s3_endpoint s3_access_key s3_secret_key) (volume_name @ '':/data:ro'')))"

definition run_restore ::
  "'w http \<Rightarrow> runtime_config \<Rightarrow> docker_config \<Rightarrow> ('w, string) io
   \<Rightarrow> string \<Rightarrow> string \<Rightarrow> string \<Rightarrow> string \<Rightarrow> string \<Rightarrow> ('w, job_result) io" where
  "run_restore http rt dk uuid archive_url volume_name s3_endpoint s3_access_key s3_secret_key =
     io_bind uuid (\<lambda>job_id.
       run_job http (job_container rt dk (''codehub-job-restore-'' @ job_id) ''/usr/local/bin/restore''
         (job_env archive_url s3_endpoint s3_access_key s3_secret_key) (volume_name @ '':/data'')))"

definition docker_job_runner ::
  "'w http \<Rightarrow> runtime_config \<Rightarrow> docker_config \<Rightarrow> ('w, string) io \<Rightarrow> 'w job_runner" where
  "docker_job_runner http rt dk uuid =
     \<lparr>jr_run_archive = run_archive http rt dk uuid, jr_run_restore = run_restore http rt dk uuid\<rparr>"

section \<open>adapters/storage/s3.py\<close>

text \<open>The S3 client: \<open>list_objects_v2\<close> yields pages (whose \<open>Contents\<close> may be absent) of objects.\<close>

record s3_object =
  so_key :: string
  so_last_modified :: datetime

type_synonym s3_page = "s3_object list option"

record 'w s3_client =
  s3_paginate :: "string \<Rightarrow> string \<Rightarrow> ('w, s3_page list) io"
  s3_put_object :: "string \<Rightarrow> string \<Rightarrow> string \<Rightarrow> ('w, unit) io"
  s3_delete_objects :: "string \<Rightarrow> string list \<Rightarrow> ('w, unit) io"

record codecs =
  zstd_compress :: "string \<Rightarrow> string"
  sha256_hexdigest :: "string \<Rightarrow> string"

definition paginate_objects :: "'w s3_client \<Rightarrow> string \<Rightarrow> string \<Rightarrow> ('w, s3_object list) io" where
  "paginate_objects s3 bucket pfx =
     io_bind (s3_paginate s3 bucket pfx) (\<lambda>pages.
       io_return (concat (map (\<lambda>p. case p of None \<Rightarrow> [] | Some xs \<Rightarrow> xs) pages)))"

definition volume_name :: "runtime_config \<Rightarrow> string \<Rightarrow> string" where
  "volume_name rt workspace_id = resource_prefix rt @ workspace_id @ ''-home''"

definition volume_entry :: "string \<Rightarrow> json \<Rightarrow> exn + volume_info option" where
  "volume_entry pfx volume =
     ex_bind (json_get volume ''Name'' (JStr [])) (\<lambda>n.
     ex_bind (as_string n) (\<lambda>name.
       if \<not> py_startswith name pfx then Inr None
       else Inr (Some
         \<lparr>vi_workspace_id =
            (if py_endswith name ''-home''
             then take (length name - length pfx - length ''-home'') (drop (length pfx) name)
             else drop (length pfx) name),
          vi_exists = True, vi_reason = ''VolumeExists'',
          vi_message = ''Volume '' @ name @ '' exists''\<rparr>)))"

definition storage_list_volumes :: "'w volume_provider \<Rightarrow> string \<Rightarrow> ('w, volume_info list) io" where
  "storage_list_volumes vp pfx =
     io_bind (vp_list vp pfx) (\<lambda>volumes.
       io_bind (io_of (ex_mapM (volume_entry pfx) volumes)) (\<lambda>rs. io_return (keep_some rs)))"

text \<open>The workspace an archive key belongs to: \<open>None\<close> for the objects the listing skips.\<close>

definition archive_workspace :: "string \<Rightarrow> string \<Rightarrow> string option" where
  "archive_workspace pfx key =
     (if \<not> py_endswith key ''/home.tar.zst'' then None
      else let parts = py_split (CHR ''/'') key
           in if length parts < 3 then None
              else if \<not> py_startswith (hd parts) pfx then None
              else Some (drop (length pfx) (hd parts)))"

text \<open>\<open>d[k].append(x)\<close> on a \<open>defaultdict(list)\<close>, whose items come in the order of first insertion.\<close>

fun dict_append :: "'k \<Rightarrow> 'a \<Rightarrow> ('k \<times> 'a list) list \<Rightarrow> ('k \<times> 'a list) list" where
  "dict_append k x [] = [(k, [x])]"
| "dict_append k x ((k', xs) # d) = (if k' = k then (k', xs @ [x]) # d else (k', xs) # dict_append k x d)"

definition workspace_archives :: "string \<Rightarrow> s3_object list \<Rightarrow> (string \<times> (string \<times> datetime) list) list" where
  "workspace_archives pfx objs =
     fold (\<lambda>x d. case archive_workspace pfx (so_key x) of
         None \<Rightarrow> d | Some i \<Rightarrow> dict_append i (so_key x, so_last_modified x) d) objs []"

text \<open>\<open>archives.sort(key=.., reverse=True)\<close> is stable: of two equal times the earlier entry comes first.\<close>

definition latest_first :: "(string \<times> datetime) list \<Rightarrow> (string \<times> datetime) list" where
  "latest_first = sort_key (\<lambda>x. - snd x)"

definition archive_entry :: "string \<times> (string \<times> datetime) list \<Rightarrow> archive_info option" where
  "archive_entry p =
     (case latest_first (snd p) of [] \<Rightarrow> None
      | (k, _) # _ \<Rightarrow> Some \<lparr>ai_workspace_id = fst p, ai_archive_key = Some k, ai_exists = True,
            ai_reason = ''ArchiveUploaded'', ai_message = ''Archive: '' @ k\<rparr>)"

definition storage_list_archives :: "'w s3_client \<Rightarrow> storage_config \<Rightarrow> string \<Rightarrow> ('w, archive_info list) io" where
  "storage_list_archives s3 st pfx =
     io_bind (paginate_objects s3 (bucket_name st) pfx) (\<lambda>objs.
       io_return (keep_some (map archive_entry (workspace_archives pfx objs))))"

definition storage_list_all_archive_keys :: "'w s3_client \<Rightarrow> storage_config \<Rightarrow> string \<Rightarrow> ('w, string list) io" where
  "storage_list_all_archive_keys s3 st pfx =
     io_bind (paginate_objects s3 (bucket_name st) pfx) (\<lambda>objs.
       io_return (remdups (filter (\<lambda>k. py_endswith k ''/home.tar.zst'') (map so_key objs))))"

definition storage_provision :: "'w volume_provider \<Rightarrow> runtime_config \<Rightarrow> string \<Rightarrow> ('w, unit) io" where
  "storage_provision vp rt workspace_id = vp_create vp (volume_name rt workspace_id)"

definition archive_key_of :: "runtime_config \<Rightarrow> string \<Rightarrow> string \<Rightarrow> string" where
  "archive_key_of rt workspace_id op_id =
     resource_prefix rt @ workspace_id @ ''/'' @ op_id @ ''/home.tar.zst''"

definition archive_url_of :: "storage_config \<Rightarrow> string \<Rightarrow> string" where
  "archive_url_of st archive_key = ''s3://'' @ bucket_name st @ ''/'' @ archive_key"

definition storage_archive ::
  "'w job_runner \<Rightarrow> runtime_config \<Rightarrow> storage_config \<Rightarrow> string \<Rightarrow> string \<Rightarrow> ('w, string) io" where
  "storage_archive jr rt st workspace_id op_id =
     (let archive_key = archive_key_of rt workspace_id op_id
      in io_bind (jr_run_archive jr (archive_url_of st archive_key) (volume_name rt workspace_id)
             (internal_endpoint_url st) (access_key st) (secret_key st)) (\<lambda>result.
           if jr_exit_code result \<noteq> 0
           then io_raise (RuntimeError (''Archive job failed (exit '' @ str_int (jr_exit_code result) @ ''): '' @ jr_logs result))
           else io_return archive_key))"

definition storage_restore ::
  "'w volume_provider \<Rightarrow> 'w job_runner \<Rightarrow> runtime_config \<Rightarrow> storage_config \<Rightarrow> string \<Rightarrow> string \<Rightarrow> ('w, string) io" where
  "storage_restore vp jr rt st workspace_id archive_key =
     io_seq (storage_provision vp rt workspace_id)
       (io_bind (jr_run_restore jr (archive_url_of st archive_key) (volume_name rt workspace_id)
             (internal_endpoint_url st) (access_key st) (secret_key st)) (\<lambda>result.
           if jr_exit_code result \<noteq> 0
           then io_raise (RuntimeError (''Restore job failed (exit '' @ str_int (jr_exit_code result) @ ''): '' @ jr_logs result))
           else io_return archive_key))"

definition storage_delete_volume :: "'w volume_provider \<Rightarrow> runtime_config \<Rightarrow> string \<Rightarrow> ('w, unit) io" where
  "storage_delete_volume vp rt workspace_id = vp_remove vp (volume_name rt workspace_id)"

definition storage_volume_exists :: "'w volume_provider \<Rightarrow> runtime_config \<Rightarrow> string \<Rightarrow> ('w, bool) io" where
  "storage_volume_exists vp rt workspace_id = vp_exists vp (volume_name rt workspace_id)"

text \<open>An empty tar file is one record of zero bytes.\<close>

definition empty_tar :: string where
  "empty_tar = replicate 10240 (CHR 0x00)"

definition storage_create_empty_archive ::
  "'w s3_client \<Rightarrow> codecs \<Rightarrow> runtime_config \<Rightarrow> storage_config \<Rightarrow> string \<Rightarrow> string \<Rightarrow> ('w, string) io" where
  "storage_create_empty_archive s3 cd rt st workspace_id op_id =
     (let archive_key = archive_key_of rt workspace_id op_id;
          meta_key = archive_key @ ''.meta'';
          compressed = zstd_compress cd empty_tar;
          checksum = ''sha256:'' @ sha256_hexdigest cd compressed
      in io_seq (s3_put_object s3 (bucket_name st) archive_key compressed)
           (io_seq (s3_put_object s3 (bucket_name st) meta_key checksum) (io_return archive_key)))"

definition storage_delete_archive :: "'w s3_client \<Rightarrow> storage_config \<Rightarrow> string \<Rightarrow> ('w, bool) io" where
  "storage_delete_archive s3 st archive_key =
     io_except
       (io_seq (s3_delete_objects s3 (bucket_name st) [archive_key, archive_key @ ''.meta'']) (io_return True))
       (\<lambda>e. case e of ClientError _ \<Rightarrow> Some (io_return False) | _ \<Rightarrow> None)"

definition s3_storage_provider ::
  "'w volume_provider \<Rightarrow> 'w job_runner \<Rightarrow> 'w s3_client \<Rightarrow> codecs \<Rightarrow> runtime_config \<Rightarrow> storage_config
   \<Rightarrow> 'w storage_provider" where
  "s3_storage_provider vp jr s3 cd rt st =
     \<lparr>sp_list_volumes = storage_list_volumes vp, sp_list_archives = storage_list_archives s3 st,
      sp_list_all_archive_keys = storage_list_all_archive_keys s3 st,
      sp_provision = storage_provision vp rt, sp_restore = storage_restore vp jr rt st,
      sp_archive = storage_archive jr rt st, sp_delete_volume = storage_delete_volume vp rt,
      sp_volume_exists = storage_volume_exists vp rt,
      sp_create_empty_archive = storage_create_empty_archive s3 cd rt st,
      sp_delete_archive = storage_delete_archive s3 st\<rparr>"

end
