(* ===== verification/Lifecycle.thy ===== *)
theory Lifecycle
  imports Controller
begin

text \<open>
  One workspace through the rounds of the control plane: the observer writes what is there, the
  controller plans, executes and persists.  When the operations return, a live workspace reaches its
  desired state within seven rounds and stays there.  A round speaks of the definitions of the judge, the
  planner and the controller; the platform enters through its contract.
\<close>

section \<open>Rounds\<close>

text \<open>The execution of a pass, when it returns.\<close>

definition worked ::
  "'w instance_controller \<Rightarrow> 'w storage_provider \<Rightarrow> ('w \<Rightarrow> string) \<Rightarrow> workspace \<Rightarrow> 'w \<times> plan_action \<Rightarrow>
   'w \<times> plan_action \<Rightarrow> bool" where
  "worked ic sp uuid ws x y \<longleftrightarrow>
     (if needs_execute (snd x) (ws_operation ws) then execute ic sp uuid ws x = (Inr (), y) else y = x)"

text \<open>No operation in progress has reached its time-out.\<close>

definition in_time :: "tick_inputs \<Rightarrow> seconds \<Rightarrow> workspace \<Rightarrow> bool" where
  "in_time ti op_timeout w \<longleftrightarrow>
     (case ws_op_started_at w of None \<Rightarrow> True | Some t \<Rightarrow> \<not> is_timeout (ti_plan_now ti (ws_id w)) t op_timeout)"

inductive lifecycle_round ::
  "'w instance_controller \<Rightarrow> 'w storage_provider \<Rightarrow> 'w platform \<Rightarrow> ('w \<Rightarrow> bool) \<Rightarrow> (string \<Rightarrow> string option) \<Rightarrow>
   ('w \<Rightarrow> string) \<Rightarrow> seconds \<Rightarrow> workspace \<times> 'w \<Rightarrow> workspace \<times> 'w \<Rightarrow> bool"
  for ic sp v ok owner uuid op_timeout where
  Rests: "\<not> needs_reconcile w \<Longrightarrow> ok s1 \<Longrightarrow> facts v owner s1 (ws_id w) = facts v owner s (ws_id w) \<Longrightarrow>
    lifecycle_round ic sp v ok owner uuid op_timeout (w, s) (w\<lparr>ws_conditions := c\<rparr>, s1)"
| Works: "needs_reconcile w \<Longrightarrow> from_conditions c = facts v owner s (ws_id w) \<Longrightarrow>
    ok s1 \<Longrightarrow> facts v owner s1 (ws_id w) = facts v owner s (ws_id w) \<Longrightarrow>
    w1 = w\<lparr>ws_conditions := c\<rparr> \<Longrightarrow> in_time ti op_timeout w1 \<Longrightarrow>
    worked ic sp uuid w1 (s1, judge_and_plan ti op_timeout w1) (s2, b) \<Longrightarrow>
    lifecycle_round ic sp v ok owner uuid op_timeout (w, s) (persisted ti w1 b w1, s2)"

section \<open>The distance to the goal\<close>

definition phase_of_facts :: "condition_input \<Rightarrow> phase" where
  "phase_of_facts c =
     (if container_ready c then phase.RUNNING else if volume_ready c then phase.STANDBY
      else if archive_ready c then phase.ARCHIVED else phase.PENDING)"

text \<open>How many operations are needed from a phase to the desired state.\<close>

fun operations_left :: "phase \<Rightarrow> desired_state \<Rightarrow> nat" where
  "operations_left phase.PENDING desired_state.RUNNING = 2"
| "operations_left phase.ARCHIVED desired_state.RUNNING = 2"
| "operations_left phase.STANDBY desired_state.RUNNING = 1"
| "operations_left phase.PENDING desired_state.STANDBY = 1"
| "operations_left phase.ARCHIVED desired_state.STANDBY = 1"
| "operations_left phase.RUNNING desired_state.STANDBY = 1"
| "operations_left phase.PENDING desired_state.ARCHIVED = 1"
| "operations_left phase.STANDBY desired_state.ARCHIVED = 1"
| "operations_left phase.RUNNING desired_state.ARCHIVED = 2"
| "operations_left _ _ = 0"

text \<open>\<open>check_completion\<close> of the operation in progress on the facts \<open>c\<close>.\<close>

definition finished :: "workspace \<Rightarrow> condition_input \<Rightarrow> bool" where
  "finished w c =
     (case ws_operation w of
        PROVISIONING \<Rightarrow> volume_ready c
      | RESTORING \<Rightarrow> volume_ready c \<and>
          (py_truthy (restore_marker_of (ws_home_ctx w)) \<longrightarrow> restore_marker_of (ws_home_ctx w) = ws_archive_key w)
      | STARTING \<Rightarrow> container_ready c
      | STOPPING \<Rightarrow> \<not> container_ready c
      | ARCHIVING \<Rightarrow> \<not> volume_ready c \<and> archive_ready c
      | CREATE_EMPTY_ARCHIVE \<Rightarrow> archive_ready c
      | operation.DELETING \<Rightarrow> \<not> container_ready c \<and> \<not> volume_ready c
      | NONE \<Rightarrow> False)"

definition rounds_left :: "workspace \<Rightarrow> condition_input \<Rightarrow> nat" where
  "rounds_left w c =
     (let k = operations_left (phase_of_facts c) (ws_desired_state w)
      in if ws_operation w = NONE then
           (if k = 0 \<and> ws_phase w = phase_from_desired (ws_desired_state w) then 0 else 2 * k + 1)
         else if finished w c then (if k = 0 then 1 else 2 * k + 2)
         else 7)"

text \<open>The workspaces this is about: live, not to be deleted, no container without a volume, and an archive
  that is to be restored has its key in the row.\<close>

definition on_track :: "workspace \<Rightarrow> condition_input \<Rightarrow> bool" where
  "on_track w c \<longleftrightarrow>
     ws_live w \<and> ws_desired_state w \<noteq> desired_state.DELETED \<and> ws_operation w \<noteq> operation.DELETING \<and>
     (container_ready c \<longrightarrow> volume_ready c) \<and>
     (\<not> volume_ready c \<and> archive_ready c \<longrightarrow> py_truthy (ws_archive_key w)) \<and>
     (ws_operation w = STARTING \<longrightarrow> volume_ready c) \<and>
     (ws_operation w = RESTORING \<longrightarrow> py_truthy (ws_archive_key w)) \<and>
     (\<not> needs_reconcile w \<longrightarrow> phase_of_facts c = phase_from_desired (ws_desired_state w))"

lemma check_completion_facts:
  "from_conditions (ws_conditions w) = c \<Longrightarrow> check_completion (ws_operation w) (from_workspace w) = finished w c"
  by (auto simp: check_completion_def finished_def from_workspace_def Let_def split: operation.split)

lemma judge_facts:
  "container_ready c \<longrightarrow> volume_ready c \<Longrightarrow>
   judge \<lparr>ji_conditions = c, ji_deleted_at = False\<rparr> = \<lparr>jo_phase = phase_of_facts c, jo_healthy = True, jo_error_reason = None\<rparr>"
  by (auto simp: judge_def check_invariants_def phase_of_facts_def Let_def)

lemma operations_left_0:
  "phase_of_facts c = phase_from_desired d \<longleftrightarrow> operations_left (phase_of_facts c) d = 0 \<and> d \<noteq> desired_state.DELETED"
  by (cases d) (auto simp: phase_of_facts_def)

text \<open>What the planner does with a workspace on its way.\<close>

lemma plan_on_track:
  assumes track: "on_track w c" and seen: "from_conditions (ws_conditions w) = c" and time: "in_time ti T w"
  defines "a \<equiv> judge_and_plan ti T w" and "k \<equiv> operations_left (phase_of_facts c) (ws_desired_state w)"
  shows "ws_operation w = NONE \<Longrightarrow> k = 0 \<Longrightarrow> a = PlanAction NONE (phase_of_facts c)"
    and "ws_operation w = NONE \<Longrightarrow> k \<noteq> 0 \<Longrightarrow> \<exists>u. a =
      (PlanAction (select_operation (phase_of_facts c) (ws_desired_state w)) (phase_of_facts c))\<lparr>pa_op_id := Some u\<rparr>"
    and "ws_operation w \<noteq> NONE \<Longrightarrow> finished w c \<Longrightarrow>
      a = (PlanAction NONE (phase_of_facts c))\<lparr>pa_complete := True\<rparr>"
    and "ws_operation w \<noteq> NONE \<Longrightarrow> \<not> finished w c \<Longrightarrow>
      a = (PlanAction (ws_operation w) (ws_phase w))\<lparr>pa_op_id := ws_op_id w\<rparr>"
proof -
  let ?i = "from_workspace w"
  have i: "pi_operation ?i = ws_operation w" "pi_desired_state ?i = ws_desired_state w" "pi_phase ?i = ws_phase w"
      "pi_op_id ?i = ws_op_id w" "pi_op_started_at ?i = ws_op_started_at w"
    by (simp_all add: from_workspace_def)
  have "judged ?i = judge \<lparr>ji_conditions = c, ji_deleted_at = False\<rparr>"
    using track seen by (simp add: judged_def from_workspace_def on_track_def ws_live_def)
  then have j: "judged ?i = \<lparr>jo_phase = phase_of_facts c, jo_healthy = True, jo_error_reason = None\<rparr>"
    using track by (simp add: judge_facts on_track_def)
  have e: "phase_of_facts c \<noteq> phase.ERROR" by (simp add: phase_of_facts_def)
  have d: "ws_desired_state w \<noteq> desired_state.DELETED" using track by (simp add: on_track_def)
  { assume "ws_operation w = NONE" "k = 0"
    then show "a = PlanAction NONE (phase_of_facts c)"
      using e d operations_left_0 [of c "ws_desired_state w"]
      by (simp add: a_def k_def judge_and_plan_def plan_idle i j) }
  { assume "ws_operation w = NONE" "k \<noteq> 0"
    moreover from this(2) have "select_operation (phase_of_facts c) (ws_desired_state w) \<noteq> NONE"
      using d by (cases "phase_of_facts c"; cases "ws_desired_state w") (auto simp: k_def select_operation_def)
    ultimately show "\<exists>u. a = (PlanAction (select_operation (phase_of_facts c) (ws_desired_state w))
        (phase_of_facts c))\<lparr>pa_op_id := Some u\<rparr>"
      using e operations_left_0 [of c "ws_desired_state w"]
      by (simp add: a_def k_def judge_and_plan_def plan_idle i j) blast }
  { assume "ws_operation w \<noteq> NONE" "finished w c"
    then show "a = (PlanAction NONE (phase_of_facts c))\<lparr>pa_complete := True\<rparr>"
      using check_completion_facts [OF seen] by (simp add: a_def judge_and_plan_def plan_busy i j handle_in_progress_def) }
  { assume "ws_operation w \<noteq> NONE" "\<not> finished w c"
    then show "a = (PlanAction (ws_operation w) (ws_phase w))\<lparr>pa_op_id := ws_op_id w\<rparr>"
      using check_completion_facts [OF seen] time
      by (simp add: a_def judge_and_plan_def plan_busy i j handle_in_progress_def in_time_def split: option.splits) }
qed

section \<open>What an execution changes\<close>

definition effect :: "workspace \<Rightarrow> plan_action \<Rightarrow> condition_input \<Rightarrow> condition_input \<Rightarrow> bool" where
  "effect w b c c' \<longleftrightarrow>
     (case pa_operation b of
        PROVISIONING \<Rightarrow> volume_ready c' \<and> container_ready c' = container_ready c \<and> pa_archive_key b = None
      | RESTORING \<Rightarrow> volume_ready c' \<and> container_ready c' = container_ready c \<and> pa_archive_key b = None
          \<and> pa_restore_marker b = ws_archive_key w
      | STARTING \<Rightarrow> container_ready c' \<and> (volume_ready c \<longrightarrow> volume_ready c') \<and> pa_archive_key b = None
      | STOPPING \<Rightarrow> \<not> container_ready c' \<and> volume_ready c' = volume_ready c \<and> pa_archive_key b = None
      | ARCHIVING \<Rightarrow> \<not> container_ready c' \<and> \<not> volume_ready c' \<and> archive_ready c' \<and> py_truthy (pa_archive_key b)
      | CREATE_EMPTY_ARCHIVE \<Rightarrow> archive_ready c' \<and> container_ready c' = container_ready c
          \<and> volume_ready c' = volume_ready c \<and> py_truthy (pa_archive_key b)
      | _ \<Rightarrow> True)"

context observation_contract
begin

lemma owner_truthy: "owner k = Some i \<Longrightarrow> owner [] = None \<Longrightarrow> py_truthy (Some k)"
  by (cases k) (auto simp: py_truthy_def)

lemma archiving_facts:
  assumes pre: "inv s" "CHR ''/'' \<notin> set (ws_id w)" "owner [] = None"
    and run: "execute ic sp uuid w (s, a) = (Inr (), (s', b))" and oper: "pa_operation a = ARCHIVING"
  shows "inv s' \<and> \<not> pf_running v s' (ws_id w) \<and> \<not> pf_volume v s' (ws_id w) \<and>
    (\<exists>k. pa_archive_key b = Some k \<and> py_truthy (Some k) \<and> pf_archive v s' k \<and> owner k = Some (ws_id w))"
proof -
  obtain k s0 s1 where d: "sp_archive sp (ws_id w) (op_id_of uuid w (s, a)) s = (Inr k, s0)"
      "ic_delete ic (ws_id w) s0 = (Inr (), s1)" "sp_delete_volume sp (ws_id w) s1 = (Inr (), s')"
      "pa_archive_key b = Some k"
    using run oper by (auto simp: execute_def execute_branch_def io_seq_Inr_iff io_bind_Inr_iff io_fst_eq set_action_eq)
  have k: "owner k = Some (ws_id w)" by (rule archive_owner [OF pre(1,2) d(1)])
  have 0: "inv s0" "pf_archive v s0 k" using archive [OF pre(1) d(1)] by auto
  have 1: "inv s1" "pf_archive v s1 k" "\<not> pf_running v s1 (ws_id w)"
    using delete [OF 0(1) d(2)] 0(2) by (auto dest: touches_archive)
  show ?thesis
    using delete_volume [OF 1(1) d(3)] 1 d(4) k owner_truthy [OF k pre(3)] by (auto simp: touches_def)
qed

lemma empty_archive_facts:
  assumes pre: "inv s" "CHR ''/'' \<notin> set (ws_id w)" "owner [] = None"
    and run: "execute ic sp uuid w (s, a) = (Inr (), (s', b))" and oper: "pa_operation a = CREATE_EMPTY_ARCHIVE"
  shows "inv s' \<and> touches v {} {} s s' \<and>
    (\<exists>k. pa_archive_key b = Some k \<and> py_truthy (Some k) \<and> pf_archive v s' k \<and> owner k = Some (ws_id w))"
proof -
  obtain k where d: "sp_create_empty_archive sp (ws_id w) (op_id_of uuid w (s, a)) s = (Inr k, s')"
      "pa_archive_key b = Some k"
    using run oper by (auto simp: execute_def execute_branch_def io_bind_Inr_iff io_fst_eq set_action_eq)
  have k: "owner k = Some (ws_id w)" by (rule empty_archive_owner [OF pre(1,2) d(1)])
  show ?thesis using create_empty_archive [OF pre(1) d(1)] d(2) k owner_truthy [OF k pre(3)] by auto
qed

lemma execute_facts:
  assumes pre: "inv s" "CHR ''/'' \<notin> set (ws_id w)" "owner [] = None"
    and run: "execute ic sp uuid w (s, a) = (Inr (), (s', b))"
    and a: "pa_archive_key a = None" "pa_operation a = RESTORING \<longrightarrow> py_truthy (ws_archive_key w)"
      "pa_operation a \<noteq> operation.DELETING"
  shows "inv s' \<and> same_plan a b \<and> effect w b (facts v owner s (ws_id w)) (facts v owner s' (ws_id w))"
proof -
  have same: "same_plan a b"
    using keepsD [OF execute_same_plan [of a] _ run] by simp
  have op: "pa_operation b = pa_operation a" using same by (simp add: same_plan_def)
  show ?thesis
  proof (cases "pa_operation a")
    case PROVISIONING
    then show ?thesis using same run op a provision [OF pre(1), of "ws_id w"]
      by (auto simp: execute_def execute_branch_def io_fst_eq effect_def facts_def touches_def)
  next
    case RESTORING
    then show ?thesis using same run op a restore [OF pre(1), of "ws_id w"]
      by (auto simp: execute_def execute_branch_def io_bind_Inr_iff io_fst_eq set_action_eq effect_def facts_def
          touches_def split: if_splits)
  next
    case STARTING
    then show ?thesis using same run op a start [OF pre(1), of "ws_id w"]
      by (auto simp: execute_def execute_branch_def io_fst_eq effect_def facts_def touches_def)
  next
    case STOPPING
    then show ?thesis using same run op a delete [OF pre(1), of "ws_id w"]
      by (auto simp: execute_def execute_branch_def io_fst_eq effect_def facts_def touches_def)
  next
    case ARCHIVING
    then show ?thesis using same op archiving_facts [OF pre run] by (auto simp: effect_def facts_def)
  next
    case CREATE_EMPTY_ARCHIVE
    then show ?thesis using same op empty_archive_facts [OF pre run] by (auto simp: effect_def facts_def touches_def)
  next
    case NONE
    then show ?thesis using same run op pre(1) by (auto simp: execute_def execute_branch_def io_return_def effect_def)
  qed (use a in simp)
qed

end

section \<open>Progress\<close>

lemma persisted_simps:
  "ws_operation (persisted ti w b w) = pa_operation b" "ws_phase (persisted ti w b w) = pa_phase b"
  "ws_desired_state (persisted ti w b w) = ws_desired_state w" "ws_live (persisted ti w b w) = ws_live w"
  "ws_archive_key (persisted ti w b w) = (case pa_archive_key b of None \<Rightarrow> ws_archive_key w | Some k \<Rightarrow> Some k)"
  by (simp_all add: persisted_def ws_live_def)

lemma persisted_marker:
  "pa_restore_marker b = Some m \<Longrightarrow> m \<noteq> [] \<Longrightarrow> restore_marker_of (ws_home_ctx (persisted ti w b w)) = Some m"
  by (simp add: persisted_def persist_values_def py_truthy_def restore_marker_of_def update_conv Let_def split: prod.split)

text \<open>What holds where an operation is executed.\<close>

definition applies :: "operation \<Rightarrow> workspace \<Rightarrow> condition_input \<Rightarrow> bool" where
  "applies oper w c \<longleftrightarrow> oper \<noteq> NONE \<and> oper \<noteq> operation.DELETING \<and>
     (oper = STARTING \<longrightarrow> volume_ready c) \<and> (oper = RESTORING \<longrightarrow> py_truthy (ws_archive_key w)) \<and>
     (oper = STOPPING \<longrightarrow> volume_ready c)"

lemma py_truthy_Some: "py_truthy x \<longleftrightarrow> (\<exists>y. x = Some y \<and> y \<noteq> [])"
  by (auto simp: py_truthy_def split: option.splits)

lemma needs_reconcile_busy: "ws_live w \<Longrightarrow> ws_operation w \<noteq> NONE \<Longrightarrow> needs_reconcile w"
  by (simp add: needs_reconcile_def)

lemma phase_value_desired: "phase_value p = desired_value d \<Longrightarrow> p = phase_from_desired d"
  by (cases p; cases d) simp_all

text \<open>The executed operation is finished afterwards.\<close>

lemma effect_finished:
  assumes "effect w b c c'" "applies (pa_operation b) w c"
  shows "finished (persisted ti w b w) c'"
  using assms
  by (cases "pa_operation b")
     (auto simp: effect_def applies_def finished_def persisted_simps persisted_marker py_truthy_Some)

lemma effect_on_track:
  assumes "on_track w c" "effect w b c c'" "applies (pa_operation b) w c"
  shows "on_track (persisted ti w b w) c'"
proof -
  have "needs_reconcile (persisted ti w b w)"
    using assms by (intro needs_reconcile_busy) (auto simp: persisted_simps on_track_def applies_def)
  then show ?thesis
    using assms
    by (cases "pa_operation b")
       (auto simp: effect_def applies_def on_track_def persisted_simps py_truthy_Some)
qed

text \<open>An operation chosen by the planner is one of those left.\<close>

lemma selected_applies:
  assumes "on_track w c" "operations_left (phase_of_facts c) (ws_desired_state w) \<noteq> 0"
  shows "applies (select_operation (phase_of_facts c) (ws_desired_state w)) w c"
  using assms
  by (cases "ws_desired_state w") (auto simp: on_track_def applies_def select_operation_def phase_of_facts_def)

lemma selected_left:
  assumes "on_track w c" "operations_left (phase_of_facts c) (ws_desired_state w) \<noteq> 0" "effect w b c c'"
    and "pa_operation b = select_operation (phase_of_facts c) (ws_desired_state w)"
  shows "Suc (operations_left (phase_of_facts c') (ws_desired_state w)) =
    operations_left (phase_of_facts c) (ws_desired_state w)"
  using assms
  by (cases "ws_desired_state w")
     (auto simp: on_track_def effect_def select_operation_def phase_of_facts_def split: if_splits)

lemma operations_left_le: "operations_left p d \<le> 2"
  by (induction p d rule: operations_left.induct) simp_all

lemma started_applies:
  assumes "on_track w c" "ws_operation w \<noteq> NONE" "\<not> finished w c"
  shows "applies (ws_operation w) w c"
  using assms by (auto simp: on_track_def applies_def finished_def)

text \<open>One pass over a workspace on its way.\<close>

lemma pass_progress:
  assumes track: "on_track w c" and seen: "from_conditions (ws_conditions w) = c" and time: "in_time ti T w"
    and same: "same_plan (judge_and_plan ti T w) b"
    and busy: "needs_execute (judge_and_plan ti T w) (ws_operation w) \<Longrightarrow> effect w b c c'"
    and idle: "\<not> needs_execute (judge_and_plan ti T w) (ws_operation w) \<Longrightarrow> b = judge_and_plan ti T w \<and> c' = c"
  shows "on_track (persisted ti w b w) c' \<and>
    (rounds_left (persisted ti w b w) c' < rounds_left w c \<or> rounds_left (persisted ti w b w) c' = 0)"
proof -
  let ?a = "judge_and_plan ti T w" and ?k = "operations_left (phase_of_facts c) (ws_desired_state w)"
  note plan = plan_on_track [OF track seen time]
  have op: "pa_operation b = pa_operation ?a" using same by (simp add: same_plan_def)
  have executed: ?thesis
    if ap: "applies (pa_operation ?a) w c" and nd: "needs_execute ?a (ws_operation w)"
      and left: "rounds_left (persisted ti w b w) c' < rounds_left w c"
    using effect_on_track [OF track busy [OF nd]] ap left op by simp
  consider (rests) "ws_operation w = NONE" "?k = 0" | (starts) "ws_operation w = NONE" "?k \<noteq> 0"
    | (completes) "ws_operation w \<noteq> NONE" "finished w c" | (goes) "ws_operation w \<noteq> NONE" "\<not> finished w c"
    by blast
  then show ?thesis
  proof cases
    case rests
    have "b = PlanAction NONE (phase_of_facts c) \<and> c' = c"
      using idle plan(1) [OF rests] by (simp add: needs_execute_def PlanAction_def)
    then show ?thesis
      using track rests operations_left_0 [of c "ws_desired_state w"]
      by (auto simp: on_track_def persisted_simps PlanAction_def rounds_left_def)
  next
    case starts
    obtain u where a: "?a = (PlanAction (select_operation (phase_of_facts c) (ws_desired_state w))
        (phase_of_facts c))\<lparr>pa_op_id := Some u\<rparr>" using plan(2) [OF starts] by blast
    have ap: "applies (pa_operation ?a) w c" using selected_applies [OF track starts(2)] by (simp add: a PlanAction_def)
    have nd: "needs_execute ?a (ws_operation w)"
      using ap starts(1) by (simp add: needs_execute_def applies_def) (simp add: a PlanAction_def)
    have "Suc (operations_left (phase_of_facts c') (ws_desired_state w)) = ?k"
      by (rule selected_left [OF track starts(2) busy [OF nd]]) (simp add: op a PlanAction_def)
    moreover have "finished (persisted ti w b w) c'" using effect_finished [OF busy [OF nd]] ap op by simp
    ultimately have "rounds_left (persisted ti w b w) c' < rounds_left w c"
      using starts ap op by (simp add: rounds_left_def persisted_simps Let_def applies_def)
    then show ?thesis by (rule executed [OF ap nd])
  next
    case completes
    have "b = (PlanAction NONE (phase_of_facts c))\<lparr>pa_complete := True\<rparr> \<and> c' = c"
      using idle plan(3) [OF completes] by (simp add: needs_execute_def PlanAction_def)
    then show ?thesis
      using track completes operations_left_0 [of c "ws_desired_state w"] phase_value_desired
      by (auto simp: on_track_def persisted_simps PlanAction_def rounds_left_def needs_reconcile_def)
  next
    case goes
    note a = plan(4) [OF goes]
    have ap: "applies (pa_operation ?a) w c" using started_applies [OF track goes] by (simp add: a PlanAction_def)
    have nd: "needs_execute ?a (ws_operation w)" using goes(1) by (simp add: a needs_execute_def PlanAction_def)
    have "finished (persisted ti w b w) c'" using effect_finished [OF busy [OF nd]] ap op by simp
    then have "rounds_left (persisted ti w b w) c' < rounds_left w c"
      using goes ap op operations_left_le [of "phase_of_facts c'" "ws_desired_state w"]
      by (simp add: rounds_left_def persisted_simps Let_def applies_def)
    then show ?thesis by (rule executed [OF ap nd])
  qed
qed

section \<open>Convergence\<close>

lemma conditions_irrelevant:
  "on_track (w\<lparr>ws_conditions := x\<rparr>) c = on_track w c" "rounds_left (w\<lparr>ws_conditions := x\<rparr>) c = rounds_left w c"
  by (cases "ws_operation w"; simp add: on_track_def rounds_left_def finished_def needs_reconcile_def ws_live_def Let_def)+

lemma resting_done: "on_track w c \<Longrightarrow> \<not> needs_reconcile w \<Longrightarrow> rounds_left w c = 0"
  using operations_left_0 [of c "ws_desired_state w"] phase_value_desired
  by (auto simp: on_track_def rounds_left_def needs_reconcile_def)

lemma rounds_left_0:
  "rounds_left w c = 0 \<longleftrightarrow> ws_operation w = NONE \<and> ws_phase w = phase_from_desired (ws_desired_state w) \<and>
     operations_left (phase_of_facts c) (ws_desired_state w) = 0"
  by (auto simp: rounds_left_def Let_def)

lemma rounds_left_le: "rounds_left w c \<le> 7"
  using operations_left_le [of "phase_of_facts c" "ws_desired_state w"] by (simp add: rounds_left_def Let_def)

context observation_contract
begin

lemma round_progress:
  assumes rnd: "lifecycle_round ic sp v inv owner uuid T (w, s) (w', s')"
    and pre: "CHR ''/'' \<notin> set (ws_id w)" "owner [] = None" and track: "on_track w (facts v owner s (ws_id w))"
  shows "ws_id w' = ws_id w \<and> ws_desired_state w' = ws_desired_state w \<and>
    on_track w' (facts v owner s' (ws_id w)) \<and>
    (rounds_left w' (facts v owner s' (ws_id w)) < rounds_left w (facts v owner s (ws_id w)) \<or>
     rounds_left w' (facts v owner s' (ws_id w)) = 0)"
  using rnd
proof cases
  case (Rests c)
  then show ?thesis using track resting_done [OF track] by (simp add: conditions_irrelevant)
next
  case (Works c s1 w1 ti b)
  let ?a = "judge_and_plan ti T w1" and ?c = "facts v owner s (ws_id w)" and ?c' = "facts v owner s' (ws_id w)"
  have w1: "ws_id w1 = ws_id w" "ws_desired_state w1 = ws_desired_state w" "on_track w1 ?c"
      "rounds_left w1 ?c = rounds_left w ?c" "from_conditions (ws_conditions w1) = ?c"
    using Works track by (simp_all add: conditions_irrelevant)
  have a: "pa_archive_key ?a = None" by (simp add: judge_and_plan_def plan_leaves_results)
  note plan = plan_on_track [OF w1(3,5) Works(7)]
  have busy: "same_plan ?a b \<and> effect w1 b ?c ?c'" if nd: "needs_execute ?a (ws_operation w1)"
  proof -
    have run: "execute ic sp uuid w1 (s1, ?a) = (Inr (), (s', b))" using Works(8) nd by (simp add: worked_def)
    have ap: "applies (pa_operation ?a) w1 ?c"
      using nd plan selected_applies [OF w1(3)] started_applies [OF w1(3)]
      by (cases "ws_operation w1 = NONE"; cases "finished w1 ?c";
          cases "operations_left (phase_of_facts ?c) (ws_desired_state w1) = 0")
         (auto simp: needs_execute_def PlanAction_def)
    show ?thesis
      using execute_facts [OF Works(4) _ pre(2) run a] ap Works(5) w1(1) pre(1) by (auto simp: applies_def)
  qed
  have idle: "b = ?a \<and> ?c' = ?c" if "\<not> needs_execute ?a (ws_operation w1)"
    using Works(5,8) that by (simp add: worked_def)
  have "same_plan ?a b" using busy idle same_plan_refl by metis
  then show ?thesis
    using pass_progress [OF w1(3,5) Works(7), of b ?c'] busy idle w1 Works(1)
    by (auto simp: persisted_simps)
qed

lemma rounds_converge:
  assumes "(lifecycle_round ic sp v inv owner uuid T ^^ n) (w, s) (w', s')"
    and "CHR ''/'' \<notin> set (ws_id w)" "owner [] = None" "on_track w (facts v owner s (ws_id w))"
  shows "ws_id w' = ws_id w \<and> ws_desired_state w' = ws_desired_state w \<and> on_track w' (facts v owner s' (ws_id w)) \<and>
    rounds_left w' (facts v owner s' (ws_id w)) \<le> rounds_left w (facts v owner s (ws_id w)) - n"
  using assms(1)
proof (induction n arbitrary: w' s')
  case 0
  then show ?case using assms(4) by simp
next
  case (Suc n)
  obtain w1 s1 where st: "(lifecycle_round ic sp v inv owner uuid T ^^ n) (w, s) (w1, s1)"
      "lifecycle_round ic sp v inv owner uuid T (w1, s1) (w', s')"
    using Suc.prems by auto
  note IH = Suc.IH [OF st(1)]
  show ?case using round_progress [OF st(2) _ assms(3)] IH assms(2) by auto
qed

text \<open>The goal, and that it is reached.\<close>

lemma reaches_desired:
  assumes "(lifecycle_round ic sp v inv owner uuid T ^^ n) (w, s) (w', s')" "7 \<le> n"
    and "CHR ''/'' \<notin> set (ws_id w)" "owner [] = None" "on_track w (facts v owner s (ws_id w))"
  shows "ws_operation w' = NONE \<and> ws_phase w' = phase_from_desired (ws_desired_state w) \<and>
    phase_of_facts (facts v owner s' (ws_id w)) = phase_from_desired (ws_desired_state w)"
proof -
  have "rounds_left w' (facts v owner s' (ws_id w)) = 0"
    using rounds_converge [OF assms(1,3-5)] assms(2) rounds_left_le [of w "facts v owner s (ws_id w)"] by linarith
  then show ?thesis
    using rounds_converge [OF assms(1,3-5)] operations_left_0 [of "facts v owner s' (ws_id w)" "ws_desired_state w"]
    by (auto simp: rounds_left_0 on_track_def)
qed

end

end
