(* ===== verification/Platform.thy ===== *)
theory Platform
  imports Engine
begin

text \<open>
  The Docker and S3 adapters satisfy the contracts of Interfaces.thy: the locale \<open>docker_engine\<close> collects
  the laws of Engine.thy, its sublocale declarations discharge the contracts, and the interpretation on
  backends hands the executor, the observer and the collector their end-to-end properties.
\<close>

section \<open>The platform of an engine\<close>

definition docker_platform :: "'s docker_view \<Rightarrow> runtime_config \<Rightarrow> storage_config \<Rightarrow> 's platform" where
  "docker_platform dv rt st =
     \<lparr>pf_container = (\<lambda>s i. dv_container dv s (container_name rt i) \<noteq> None),
      pf_running = (\<lambda>s i. dv_running dv s (container_name rt i)),
      pf_volume = (\<lambda>s i. dv_volume dv s (volume_name rt i)),
      pf_archive = (\<lambda>s k. py_endswith k ''/home.tar.zst'' \<and> dv_object dv s (bucket_name st) k)\<rparr>"

lemma docker_platform_simps [simp]:
  "pf_container (docker_platform dv rt st) s i \<longleftrightarrow> dv_container dv s (container_name rt i) \<noteq> None"
  "pf_running (docker_platform dv rt st) s i = dv_running dv s (container_name rt i)"
  "pf_volume (docker_platform dv rt st) s i = dv_volume dv s (volume_name rt i)"
  "pf_archive (docker_platform dv rt st) s k \<longleftrightarrow> py_endswith k ''/home.tar.zst'' \<and> dv_object dv s (bucket_name st) k"
  by (simp_all add: docker_platform_def)

text \<open>Every volume with the resource prefix is the home of a workspace.\<close>

definition homes_named :: "'s docker_view \<Rightarrow> runtime_config \<Rightarrow> 's \<Rightarrow> bool" where
  "homes_named dv rt s \<longleftrightarrow>
     (\<forall>n. dv_volume dv s n \<and> py_startswith n (resource_prefix rt) \<longrightarrow> (\<exists>i. n = volume_name rt i))"

definition job_names :: "string set" where
  "job_names = range (\<lambda>u. ''codehub-job-archive-'' @ u) \<union> range (\<lambda>u. ''codehub-job-restore-'' @ u)"

lemma homes_named_frame:
  "homes_named dv rt s \<Longrightarrow> frame dv C N V W s t \<Longrightarrow> V \<subseteq> range (volume_name rt) \<Longrightarrow> homes_named dv rt t"
  unfolding homes_named_def frame_def by blast

lemma homes_named_still: "homes_named dv rt s \<Longrightarrow> still dv s t \<Longrightarrow> homes_named dv rt t"
  by (simp add: homes_named_def still_def)

lemma frame_touches:
  assumes "settings_ok rt st" and f: "frame dv C N V W s t"
    and C: "C \<subseteq> container_name rt ` X \<union> job_names" and VW: "V \<union> W \<subseteq> volume_name rt ` Y"
  shows "touches (docker_platform dv rt st) X Y s t"
proof -
  have "container_name rt i \<notin> job_names" for i
    using job_name_not_workspace [OF assms(1), of i] unfolding job_names_def by blast
  then have "container_name rt i \<notin> C" if "i \<notin> X" for i
    using C that by (metis UnE container_name_inject imageE subsetD)
  moreover have "volume_name rt i \<notin> V" "volume_name rt i \<notin> W" if "i \<notin> Y" for i
    using VW that by auto
  ultimately show ?thesis
    using f unfolding frame_def touches_def docker_platform_def by auto
qed

lemma still_untouched: "still dv s t \<Longrightarrow> untouched (docker_platform dv rt st) s t"
  by (simp add: still_def untouched_def docker_platform_def)

lemma archive_key_is_archive [simp]: "py_endswith (archive_key_of rt i x) ''/home.tar.zst''"
  unfolding archive_key_of_def by (metis append.assoc py_endswith_append)

section \<open>What a returned job means\<close>

lemma storage_archive_InrD:
  "storage_archive jr rt st i x s = (Inr a, t) \<Longrightarrow>
   a = archive_key_of rt i x
   \<and> (\<exists>res. jr_run_archive jr (archive_url_of st a) (volume_name rt i) (internal_endpoint_url st) (access_key st)
        (secret_key st) s = (Inr res, t) \<and> jr_exit_code res = 0)"
  by (auto simp: storage_archive_def Let_def io_bind_Inr_iff split: if_splits)

lemma storage_restore_InrD:
  "storage_restore vp jr rt st i k s = (Inr a, t) \<Longrightarrow>
   a = k
   \<and> (\<exists>u res. storage_provision vp rt i s = (Inr (), u)
        \<and> jr_run_restore jr (archive_url_of st k) (volume_name rt i) (internal_endpoint_url st) (access_key st)
            (secret_key st) u = (Inr res, t) \<and> jr_exit_code res = 0)"
  by (auto simp: storage_restore_def io_bind_Inr_iff io_seq_Inr_iff split: if_splits)

section \<open>Entries of the listings\<close>

lemma set_keep_some: "set (keep_some xs) = {x. Some x \<in> set xs}"
  by (force simp: keep_some_def)

lemma container_entry_describes:
  assumes "describes dv s n x"
  shows "if py_startswith n pfx
      then \<exists>c. container_entry pfx x = Inr (Some c) \<and> ci_workspace_id c = drop (length pfx) n
             \<and> ci_running c = dv_running dv s n
      else container_entry pfx x = Inr None"
proof -
  obtain c n' where n: "n = c # n'" "c \<noteq> CHR ''/''" using assms by (cases n) (auto simp: describes_def)
  show ?thesis
    using assms n(2)
    by (auto simp: n(1) describes_def container_entry_def json_get_def first_name_def as_string_def py_lstrip_slash_def)
qed

definition home_entry :: "runtime_config \<Rightarrow> string \<Rightarrow> volume_info" where
  "home_entry rt i = \<lparr>vi_workspace_id = i, vi_exists = True, vi_reason = ''VolumeExists'',
     vi_message = ''Volume '' @ volume_name rt i @ '' exists''\<rparr>"

lemma volume_entry_home:
  "map_of e ''Name'' = Some (JStr (volume_name rt i)) \<Longrightarrow>
   volume_entry (resource_prefix rt) (JObj e) = Inr (Some (home_entry rt i))"
  using py_endswith_append [of "resource_prefix rt @ i" "''-home''"]
  by (simp add: volume_entry_def json_get_def as_string_def home_entry_def volume_name_def)

lemma workspace_of_archive_key:
  assumes "CHR ''/'' \<notin> set (resource_prefix rt)" "CHR ''/'' \<notin> set i"
  shows "archive_workspace (resource_prefix rt) (archive_key_of rt i x) = Some i"
proof -
  have "py_split (CHR ''/'') (archive_key_of rt i x)
      = (resource_prefix rt @ i) # py_split (CHR ''/'') x @ [''home.tar.zst'']"
    using assms py_split_sep [of "CHR ''/''" "resource_prefix rt @ i" "x @ ''/home.tar.zst''"]
      py_split_append_sep [of "CHR ''/''" x "''home.tar.zst''"]
    by (simp add: archive_key_of_def)
  then show ?thesis
    by (cases "py_split (CHR ''/'') x") (simp_all add: archive_workspace_def)
qed

lemma archive_workspace_key: "archive_workspace pfx k = Some i \<Longrightarrow> py_endswith k ''/home.tar.zst'' \<and> py_startswith k pfx"
proof -
  assume a: "archive_workspace pfx k = Some i"
  then have "py_startswith (hd (py_split (CHR ''/'') k)) pfx"
    by (auto simp: archive_workspace_def Let_def split: if_splits)
  moreover have "\<exists>r. k = hd (py_split (CHR ''/'') k) @ r"
    by (induction k) (auto split: list.split)
  ultimately show ?thesis
    using a by (auto simp: py_startswith_iff archive_workspace_def split: if_splits)
qed

lemma dict_append_items:
  "(\<exists>xs. (i, xs) \<in> set (dict_append k x d) \<and> y \<in> set xs)
   \<longleftrightarrow> (i = k \<and> y = x) \<or> (\<exists>xs. (i, xs) \<in> set d \<and> y \<in> set xs)"
  by (induction k x d rule: dict_append.induct) auto

lemma workspace_archives_items:
  "(\<exists>xs. (i, xs) \<in> set (workspace_archives pfx objs) \<and> y \<in> set xs)
   \<longleftrightarrow> (\<exists>x \<in> set objs. archive_workspace pfx (so_key x) = Some i \<and> y = (so_key x, so_last_modified x))"
proof -
  have "(\<exists>xs. (i, xs) \<in> set (fold (\<lambda>x d. case archive_workspace pfx (so_key x) of
         None \<Rightarrow> d | Some i \<Rightarrow> dict_append i (so_key x, so_last_modified x) d) objs d) \<and> y \<in> set xs)
     \<longleftrightarrow> (\<exists>xs. (i, xs) \<in> set d \<and> y \<in> set xs)
       \<or> (\<exists>x \<in> set objs. archive_workspace pfx (so_key x) = Some i \<and> y = (so_key x, so_last_modified x))" for d
    by (induction objs arbitrary: d) (auto simp: dict_append_items split: option.split)
  then show ?thesis by (simp add: workspace_archives_def)
qed

lemma latest_first_Nil [simp]: "latest_first xs = [] \<longleftrightarrow> xs = []"
  by (metis latest_first_def length_0_conv length_sort)

lemma archive_entry_SomeD: "archive_entry p = Some a \<Longrightarrow> snd p \<noteq> [] \<and> ai_workspace_id a = fst p \<and> ai_exists a"
  using latest_first_Nil [of "snd p"]
  by (cases "snd p = []") (auto simp: archive_entry_def latest_first_def split: prod.splits list.splits)

lemma archive_entry_ex: "snd p \<noteq> [] \<Longrightarrow> \<exists>a. archive_entry p = Some a"
  by (cases "latest_first (snd p)") (auto simp: archive_entry_def split: prod.split)

lemma archive_entries:
  "(\<exists>a \<in> set (keep_some (map archive_entry (workspace_archives pfx objs))). ai_workspace_id a = i)
   \<longleftrightarrow> (\<exists>x \<in> set objs. archive_workspace pfx (so_key x) = Some i)" (is "?L \<longleftrightarrow> ?R")
proof -
  have nonempty_iff: "xs \<noteq> [] \<longleftrightarrow> (\<exists>y. y \<in> set xs)" for xs :: "(string \<times> datetime) list" by (cases xs) auto
  have "?L \<longleftrightarrow> (\<exists>xs. (i, xs) \<in> set (workspace_archives pfx objs) \<and> xs \<noteq> [])"
  proof
    assume ?L
    then obtain a p where "p \<in> set (workspace_archives pfx objs)" "archive_entry p = Some a" "ai_workspace_id a = i"
      by (auto simp: set_keep_some) metis
    then have "(i, snd p) \<in> set (workspace_archives pfx objs) \<and> snd p \<noteq> []"
      using archive_entry_SomeD [of p a] by (metis prod.collapse)
    then show "\<exists>xs. (i, xs) \<in> set (workspace_archives pfx objs) \<and> xs \<noteq> []" by blast
  next
    assume "\<exists>xs. (i, xs) \<in> set (workspace_archives pfx objs) \<and> xs \<noteq> []"
    then obtain xs where xs: "(i, xs) \<in> set (workspace_archives pfx objs)" "xs \<noteq> []" by blast
    then obtain a where a: "archive_entry (i, xs) = Some a" using archive_entry_ex [of "(i, xs)"] by auto
    have "Some a \<in> archive_entry ` set (workspace_archives pfx objs)"
      by (rule image_eqI [of _ _ "(i, xs)"]) (simp_all add: a xs(1))
    then have "a \<in> set (keep_some (map archive_entry (workspace_archives pfx objs)))"
      by (simp add: set_keep_some)
    then show ?L using archive_entry_SomeD [OF a] by (intro bexI [of _ a]) simp_all
  qed
  also have "\<dots> \<longleftrightarrow> (\<exists>y xs. (i, xs) \<in> set (workspace_archives pfx objs) \<and> y \<in> set xs)"
    unfolding nonempty_iff by blast
  also have "\<dots> \<longleftrightarrow> ?R" using workspace_archives_items [of i pfx objs] by metis
  finally show ?thesis .
qed

lemma archive_entries_exist:
  "a \<in> set (keep_some (map archive_entry d)) \<Longrightarrow> ai_exists a"
  by (auto simp: set_keep_some dest!: archive_entry_SomeD [OF sym])

lemma storage_delete_archive_call:
  "storage_delete_archive s3 st k s = (r, t) \<Longrightarrow>
   \<exists>r'. s3_delete_objects s3 (bucket_name st) [k, k @ ''.meta''] s = (r', t)"
  by (auto simp: storage_delete_archive_def io_except_def io_seq_def io_bind_def io_return_def
      split: prod.splits sum.splits exn.splits)

section \<open>The engine locale\<close>

definition framed ::
  "'s docker_view \<Rightarrow> ('s \<Rightarrow> bool) \<Rightarrow> string set \<Rightarrow> string set \<Rightarrow> string set \<Rightarrow> string set \<Rightarrow> 's \<Rightarrow> 's \<Rightarrow> bool" where
  "framed dv iv C N V W s t \<longleftrightarrow> iv t \<and> frame dv C N V W s t"

locale docker_engine =
  fixes http :: "'s http" and s3 :: "'s s3_client" and uuid :: "('s, string) io" and dv :: "'s docker_view"
    and rt :: runtime_config
    and dk :: docker_config and st :: storage_config and cd :: codecs and inv :: "'s \<Rightarrow> bool"
  assumes settings: "inv s \<Longrightarrow> settings_ok rt st"
    and running_exists: "inv s \<Longrightarrow> dv_running dv s n \<Longrightarrow> dv_container dv s n \<noteq> None"
    and http_step: "inv s \<Longrightarrow> http rq s = (r, t) \<Longrightarrow> inv t \<and> docker_step dv rt rq r s t"
    and paginate: "inv s \<Longrightarrow> s3_paginate s3 b p s = (rp, t) \<Longrightarrow> inv t \<and> paginate_law dv b p rp s t"
    and put: "inv s \<Longrightarrow> s3_put_object s3 b k body s = (ru, t) \<Longrightarrow> inv t \<and> put_law dv b k ru s t"
    and delete_objects: "inv s \<Longrightarrow> s3_delete_objects s3 b ks s = (ru, t) \<Longrightarrow> inv t \<and> delete_objects_law dv b ks s t"
    and fresh_id: "inv s \<Longrightarrow> uuid s = (rs, t) \<Longrightarrow> inv t \<and> uuid_law dv rs s t"
begin

lemma http_framed:
  assumes "\<And>s r t. inv s \<Longrightarrow> docker_step dv rt rq r s t \<Longrightarrow> frame dv C N V W s t"
  shows "keeps (framed dv inv C N V W s0) (http rq)"
proof (rule keepsI)
  fix s r t
  assume "framed dv inv C N V W s0 s" "http rq s = (r, t)"
  then show "framed dv inv C N V W s0 t"
    using http_step [of s rq r t] assms [of s r t] frame_trans [of dv C N V W s0 s t] by (simp add: framed_def)
qed

lemma framed_get:
  assumes "rq_method rq = ''GET''" shows "keeps (framed dv inv C N V W s0) (http rq)"
  by (rule http_framed, rule still_frame) (use assms in \<open>simp add: docker_step_def get_law_def\<close>)

lemma framed_inspect [keeps_rules]: "keeps (framed dv inv C N V W s0) (container_inspect http n)"
  unfolding container_inspect_def
  by (intro keeps_rules framed_get) (simp add: request_def)

lemma framed_logs [keeps_rules]: "keeps (framed dv inv C N V W s0) (container_logs http n)"
  unfolding container_logs_def
  by (intro keeps_rules framed_get) (simp add: request_def)

lemma framed_image_ensure [keeps_rules]: "keeps (framed dv inv C N V W s0) (image_ensure http img)"
proof -
  have "keeps (framed dv inv C N V W s0) (image_pull http img)"
    unfolding image_pull_def
    by (cases "split_image_ref img") (auto simp: docker_step_def image_law_def request_def
        intro!: keeps_rules http_framed still_frame)
  then show ?thesis
    unfolding image_ensure_def image_exists_def
    by (intro keeps_rules framed_get) (simp_all add: request_def)
qed

lemma framed_create:
  assumes "cc_name c \<in> C" "cc_name c \<in> N"
    and "list_all valid_bind (hc_binds (cc_host_config c)) \<Longrightarrow> bind_source ` set (hc_binds (cc_host_config c)) \<subseteq> V"
  shows "keeps (framed dv inv C N V W s0) (container_create http c)"
  unfolding container_create_def
proof (intro keeps_rules http_framed)
  fix s r t
  assume "docker_step dv rt ((request ''POST'' ''/containers/create'')\<lparr>rq_params := [(''name'', cc_name c)],
         rq_json := Some (container_config_to_api c)\<rparr>) r s t"
  then have "create_law dv ((request ''POST'' ''/containers/create'')\<lparr>rq_params := [(''name'', cc_name c)],
         rq_json := Some (container_config_to_api c)\<rparr>) r s t"
    by (simp add: docker_step_def)
  then show "frame dv C N V W s t"
    unfolding create_law_def using assms
    by (auto split: if_splits intro: still_frame frame_mono dest!: spec [of _ c])
qed

lemma framed_start:
  assumes "n \<in> C" shows "keeps (framed dv inv C N V W s0) (container_start http n)"
  unfolding container_start_def
proof (intro keeps_rules http_framed)
  fix s r t
  assume "docker_step dv rt (request ''POST'' (container_path n ''/start'')) r s t"
  then have "frame dv {n} {} {} {} s t" by (simp add: docker_step_def start_law_def)
  then show "frame dv C N V W s t" by (rule frame_mono) (use assms in auto)
qed

lemma framed_stop:
  assumes "n \<in> C" shows "keeps (framed dv inv C N V W s0) (container_stop http n timeout)"
  unfolding container_stop_def
proof (intro keeps_rules http_framed)
  fix s r t
  assume "docker_step dv rt ((request ''POST'' (container_path n ''/stop''))\<lparr>rq_params := [(''t'', str_nat timeout)]\<rparr>) r s t"
  then have "frame dv {n} {} {} {} s t" by (simp add: docker_step_def stop_law_def request_def)
  then show "frame dv C N V W s t" by (rule frame_mono) (use assms in auto)
qed

lemma framed_remove:
  assumes "n \<in> C" shows "keeps (framed dv inv C N V W s0) (container_remove http n force)"
  unfolding container_remove_def
proof (intro keeps_rules http_framed)
  fix s r t
  assume "docker_step dv rt ((request ''DELETE'' (container_path n []))\<lparr>rq_params :=
         [(''force'', if force then ''true'' else ''false'')]\<rparr>) r s t"
  then have "frame dv {n} {} {} {} s t" by (simp add: docker_step_def remove_law_def request_def)
  then show "frame dv C N V W s t" by (rule frame_mono) (use assms in auto)
qed

lemma framed_wait:
  assumes "n \<in> C" shows "keeps (framed dv inv C N V W s0) (container_wait http n)"
  unfolding container_wait_def
proof (intro keeps_rules http_framed)
  fix s r t
  assume "docker_step dv rt (request ''POST'' (container_path n ''/wait'')) r s t"
  then have "frame dv {n} {} {} {} s t" by (simp add: docker_step_def wait_law_def)
  then show "frame dv C N V W s t" by (rule frame_mono) (use assms in auto)
qed

lemma framed_volume_create:
  assumes "vc_name c \<in> V" shows "keeps (framed dv inv C N V W s0) (volume_create http c)"
  unfolding volume_create_def
proof (intro keeps_rules http_framed)
  fix s r t
  assume "docker_step dv rt ((request ''POST'' ''/volumes/create'')\<lparr>rq_json := Some (volume_config_to_api c)\<rparr>) r s t"
  then have "frame dv {} {} {vc_name c} {} s t" unfolding docker_step_def volume_create_law_def by blast
  then show "frame dv C N V W s t" by (rule frame_mono) (use assms in auto)
qed

lemma framed_volume_remove:
  assumes "n \<in> W" shows "keeps (framed dv inv C N V W s0) (volume_remove http n)"
  unfolding volume_remove_def
proof (intro keeps_rules http_framed)
  fix s r t
  assume "docker_step dv rt (request ''DELETE'' (volume_path n)) r s t"
  then have "frame dv {} {} {} {n} s t" unfolding docker_step_def volume_remove_law_def by blast
  then show "frame dv C N V W s t" by (rule frame_mono) (use assms in auto)
qed

subsection \<open>The adapters' operations\<close>

lemma workspace_bind:
  "valid_bind (resource_prefix rt @ i @ ''-home:/home/coder'')
   \<Longrightarrow> bind_source (resource_prefix rt @ i @ ''-home:/home/coder'') = volume_name rt i"
  using valid_bind_two [of "volume_name rt i" "''/home/coder''"]
  by (simp add: volume_name_def option_char_def)

lemma framed_create_and_start:
  "keeps (framed dv inv {container_name rt i} {container_name rt i} {volume_name rt i} {} s0)
     (create_and_start http rt dk i img)"
  unfolding create_and_start_def Let_def
  by (intro keeps_rules framed_create framed_start)
     (auto simp: workspace_container_def workspace_bind)

lemma framed_instance_start:
  "keeps (framed dv inv {container_name rt i} {container_name rt i} {volume_name rt i} {} s0)
     (instance_start http rt dk i img)"
  unfolding instance_start_def Let_def
  by (intro keeps_rules) (auto split: if_splits intro!: keeps_rules framed_create_and_start framed_start framed_remove)

lemma framed_instance_delete:
  "keeps (framed dv inv {container_name rt i} {} {} {} s0) (instance_delete http rt i)"
  unfolding instance_delete_def Let_def
  by (intro keeps_rules framed_stop framed_remove) simp_all

lemma framed_run_job:
  assumes "cc_name c \<in> C" "cc_name c \<in> N"
    and "list_all valid_bind (hc_binds (cc_host_config c)) \<Longrightarrow> bind_source ` set (hc_binds (cc_host_config c)) \<subseteq> V"
  shows "keeps (framed dv inv C N V W s0) (run_job http c)"
  unfolding run_job_def force_cleanup_def
  by (intro keeps_rules framed_create framed_start framed_wait framed_remove framed_stop assms)
     (auto split: if_splits intro!: keeps_rules framed_remove framed_stop assms)

lemma framed_uuid: "keeps (framed dv inv C N V W s0) uuid"
proof (rule keepsI)
  fix s r t
  assume "framed dv inv C N V W s0 s" "uuid s = (r, t)"
  then show "framed dv inv C N V W s0 t"
    using fresh_id [of s r t] frame_trans [of dv C N V W s0 s t] still_frame [of dv s t C N V W]
    by (simp add: framed_def uuid_law_def)
qed

lemma framed_jobs:
  "keeps (framed dv inv job_names job_names {volume_name rt i} {} s0)
     (run_archive http rt dk uuid url (volume_name rt i) e a k)"
  "keeps (framed dv inv job_names job_names {volume_name rt i} {} s0)
     (run_restore http rt dk uuid url (volume_name rt i) e a k)"
  unfolding run_archive_def run_restore_def
  using valid_bind_three [of "volume_name rt i" "''/data''" "''ro''"] valid_bind_two [of "volume_name rt i" "''/data''"]
  by (auto simp: job_container_def job_names_def option_char_def intro!: keeps_rules framed_uuid framed_run_job)

lemma framed_provision:
  "volume_name rt i \<in> V \<Longrightarrow>
   keeps (framed dv inv C N V W s0) (storage_provision (docker_volume_provider http) rt i)"
  unfolding storage_provision_def docker_volume_provider_def
  by (auto simp: volume_config_def intro!: framed_volume_create)

lemma framed_storage_archive:
  "keeps (framed dv inv job_names job_names {volume_name rt i} {} s0)
     (storage_archive (docker_job_runner http rt dk uuid) rt st i x)"
  unfolding storage_archive_def Let_def docker_job_runner_def
  by (auto intro!: keeps_rules framed_jobs)

lemma framed_storage_restore:
  "keeps (framed dv inv job_names job_names {volume_name rt i} {} s0)
     (storage_restore (docker_volume_provider http) (docker_job_runner http rt dk uuid) rt st i k)"
  unfolding storage_restore_def docker_job_runner_def
  by (auto intro!: keeps_rules framed_jobs framed_provision)

lemma framed_delete_volume:
  "keeps (framed dv inv {} {} {} {volume_name rt i} s0) (storage_delete_volume (docker_volume_provider http) rt i)"
  unfolding storage_delete_volume_def docker_volume_provider_def
  by (auto intro!: framed_volume_remove)

lemma framed_put: "keeps (framed dv inv C N V W s0) (s3_put_object s3 b k body)"
proof (rule keepsI)
  fix s r t
  assume "framed dv inv C N V W s0 s" "s3_put_object s3 b k body s = (r, t)"
  then show "framed dv inv C N V W s0 t"
    using put [of s b k body r t] frame_trans [of dv C N V W s0 s t] frame_mono [of dv "{}" "{}" "{}" "{}" s t C N V W]
    by (simp add: framed_def put_law_def)
qed

lemma framed_empty_archive:
  "keeps (framed dv inv {} {} {} {} s0) (storage_create_empty_archive s3 cd rt st i x)"
  unfolding storage_create_empty_archive_def Let_def
  by (intro keeps_rules framed_put)

subsection \<open>What a return of them means\<close>

lemma inv_kept:
  assumes "\<And>s0. keeps (framed dv inv C N V W s0) m" and "inv s" and "m s = (r, t)"
  shows "inv t \<and> frame dv C N V W s t"
  using keepsD [OF assms(1) [of s], of s r t] assms(2,3) by (simp add: framed_def)

lemma http_law: "inv s \<Longrightarrow> http rq s = (r, t) \<Longrightarrow> docker_step dv rt rq r s t"
  by (simp add: http_step)

lemma start_Inr:
  assumes "inv s" "container_start http n s = (Inr (), t)" shows "dv_running dv t n"
proof -
  obtain resp where h: "http (request ''POST'' (container_path n ''/start'')) s = (Inr resp, t)"
      "is_success (rs_status resp) \<or> rs_status resp = 304"
    using assms(2) by (auto simp: container_start_def io_Inr_iffs is_success_def split: if_splits)
  from http_law [OF assms(1) h(1)] show ?thesis using h(2) by (auto simp: docker_step_def start_law_def)
qed

lemma remove_Inr:
  assumes "inv s" "container_remove http n force s = (Inr (), t)" shows "dv_container dv t n = None"
proof -
  obtain rq resp where h: "http rq s = (Inr resp, t)" "rq_method rq = ''DELETE''" "rq_path rq = container_path n []"
      "is_success (rs_status resp) \<or> rs_status resp = 404"
    using assms(2) by (auto simp: container_remove_def io_Inr_iffs request_def split: if_splits)
  from http_law [OF assms(1) h(1)] show ?thesis using h(2-) by (auto simp: docker_step_def remove_law_def)
qed

lemma volume_create_Inr:
  assumes "inv s" "volume_create http c s = (Inr (), t)" shows "dv_volume dv t (vc_name c)"
proof -
  obtain resp where h: "http ((request ''POST'' ''/volumes/create'')\<lparr>rq_json := Some (volume_config_to_api c)\<rparr>) s = (Inr resp, t)"
      "is_success (rs_status resp) \<or> rs_status resp = 409"
    using assms(2) by (auto simp: volume_create_def io_Inr_iffs split: if_splits)
  from http_law [OF assms(1) h(1)] show ?thesis using h(2) by (auto simp: docker_step_def volume_create_law_def)
qed

lemma volume_remove_Inr:
  assumes "inv s" "volume_remove http n s = (Inr (), t)" shows "\<not> dv_volume dv t n"
proof -
  obtain resp where h: "http (request ''DELETE'' (volume_path n)) s = (Inr resp, t)"
      "is_success (rs_status resp) \<or> rs_status resp = 404"
    using assms(2) by (auto simp: volume_remove_def io_Inr_iffs split: if_splits)
  from http_law [OF assms(1) h(1)] show ?thesis using h(2) by (auto simp: docker_step_def volume_remove_law_def)
qed

lemma create_Inr:
  assumes "inv s" "container_create http c s = (Inr (), t)" "dv_container dv s (cc_name c) = None"
  shows "dv_container dv t (cc_name c) = Some (container_config_to_api c)"
proof -
  obtain resp where h: "http ((request ''POST'' ''/containers/create'')\<lparr>rq_params := [(''name'', cc_name c)],
         rq_json := Some (container_config_to_api c)\<rparr>) s = (Inr resp, t)"
      "is_success (rs_status resp) \<or> rs_status resp = 409"
    using assms(2) by (auto simp: container_create_def io_Inr_iffs split: if_splits)
  have "create_law dv ((request ''POST'' ''/containers/create'')\<lparr>rq_params := [(''name'', cc_name c)],
         rq_json := Some (container_config_to_api c)\<rparr>) (Inr resp) s t"
    using http_law [OF assms(1) h(1)] by (simp add: docker_step_def)
  then show ?thesis using h(2) assms(3) unfolding create_law_def by blast
qed

lemma wait_Inr:
  assumes "inv s" "container_wait http n s = (Inr 0, t)" "dv_container dv s n = Some j" "is_archive_job rt b k j"
  shows "dv_object dv t b k"
proof -
  obtain resp d where h: "http (request ''POST'' (container_path n ''/wait'')) s = (Inr resp, t)"
      "is_success (rs_status resp)" "rs_json resp = Some (JObj d)" "map_of d ''StatusCode'' = Some (JInt 0)"
    using assms(2)
    by (auto simp: container_wait_def io_Inr_iffs json_get_Inr_iff split: option.splits)
  from http_law [OF assms(1) h(1)] have "wait_law dv rt (request ''POST'' (container_path n ''/wait'')) (Inr resp) s t"
    by (simp add: docker_step_def)
  then show ?thesis using h(2-) assms(3,4) unfolding wait_law_def by blast
qed

lemma provision_Inr:
  "inv s \<Longrightarrow> storage_provision (docker_volume_provider http) rt i s = (Inr (), t) \<Longrightarrow> dv_volume dv t (volume_name rt i)"
  using volume_create_Inr [of s "volume_config (volume_name rt i)" t]
  by (simp add: storage_provision_def docker_volume_provider_def volume_config_def)

lemma create_and_start_Inr:
  assumes "inv s" "create_and_start http rt dk i img s = (Inr (), t)"
  shows "dv_running dv t (container_name rt i)"
proof -
  let ?img = "if img \<noteq> [] then img else default_image rt" and ?n = "container_name rt i"
  obtain s1 s2 where st: "image_ensure http ?img s = (Inr (), s1)"
      "container_create http (workspace_container rt dk i ?img) s1 = (Inr (), s2)"
      "container_start http ?n s2 = (Inr (), t)"
    using assms(2) by (auto simp: create_and_start_def Let_def io_Inr_iffs)
  have "inv s1" using inv_kept [OF framed_image_ensure assms(1) st(1)] by simp
  have "inv s2"
    by (rule conjunct1 [OF inv_kept [OF framed_create \<open>inv s1\<close> st(2)]]) (rule UNIV_I subset_UNIV)+
  then show ?thesis using st(3) by (rule start_Inr)
qed

lemma instance_start_Inr:
  assumes "inv s" "instance_start http rt dk i img s = (Inr (), t)"
  shows "dv_running dv t (container_name rt i)"
proof -
  let ?n = "container_name rt i"
  obtain ex s1 where ex: "container_inspect http ?n s = (Inr ex, s1)"
      "(if (case ex of None \<Rightarrow> False | Some j \<Rightarrow> json_truthy j)
           then io_bind (io_except (io_seq (container_start http ?n) (io_return True))
                  (\<lambda>e. if e = HTTPStatusError 404
                       then Some (io_seq (container_remove http ?n False) (io_return False))
                       else None))
                (\<lambda>started. if started then io_return () else create_and_start http rt dk i img)
           else create_and_start http rt dk i img) s1 = (Inr (), t)"
    using assms(2) by (auto simp: instance_start_def Let_def io_bind_Inr_iff)
  have 1: "inv s1" using inv_kept [OF framed_inspect assms(1) ex(1)] by simp
  have started: ?thesis if "container_start http ?n s1 = (Inr (), t)"
    using start_Inr [OF 1 that] .
  have created: ?thesis if "create_and_start http rt dk i img u = (Inr (), t)" "inv u" for u
    using create_and_start_Inr that by blast
  have removed: "inv u'" if "container_start http ?n s1 = (Inl e, u)" "container_remove http ?n False u = (Inr (), u')"
    for e u u'
  proof -
    have "inv u" by (rule conjunct1 [OF inv_kept [OF framed_start 1 that(1)]]) (rule UNIV_I)
    show "inv u'" by (rule conjunct1 [OF inv_kept [OF framed_remove \<open>inv u\<close> that(2)]]) (rule UNIV_I)
  qed
  show ?thesis
  proof (cases "case ex of None \<Rightarrow> False | Some j \<Rightarrow> json_truthy j")
    case False
    then show ?thesis using ex(2) created [OF _ 1] by (cases ex) auto
  next
    case True
    then obtain b u where b: "io_except (io_seq (container_start http ?n) (io_return True))
                  (\<lambda>e. if e = HTTPStatusError 404
                       then Some (io_seq (container_remove http ?n False) (io_return False))
                       else None) s1 = (Inr b, u)"
        "(if b then io_return () else create_and_start http rt dk i img) u = (Inr (), t)"
      using ex(2) by (auto simp: io_bind_Inr_iff split: option.splits)
    show ?thesis
    proof (cases b)
      case True
      then have "container_start http ?n s1 = (Inr (), u)" "u = t"
        using b by (auto simp: io_except_Inr_iff io_seq_Inr_iff split: if_splits)
      then show ?thesis using started by simp
    next
      case False
      then obtain e u1 where "io_seq (container_start http ?n) (io_return True) s1 = (Inl e, u1)"
          "container_remove http ?n False u1 = (Inr (), u)"
        using b(1) by (auto simp: io_except_Inr_iff io_seq_Inr_iff split: if_splits)
      then have "inv u"
        by (auto simp: io_seq_def io_bind_def io_return_def split: prod.splits sum.splits intro: removed)
      then show ?thesis using b(2) False created by simp
    qed
  qed
qed

lemma instance_delete_Inr:
  assumes "inv s" "instance_delete http rt i s = (Inr (), t)"
  shows "dv_container dv t (container_name rt i) = None"
proof -
  obtain u where u: "container_stop http (container_name rt i) 10 s = (Inr (), u)"
      "container_remove http (container_name rt i) False u = (Inr (), t)"
    using assms(2) by (auto simp: instance_delete_def Let_def io_Inr_iffs)
  have "inv u" by (rule conjunct1 [OF inv_kept [OF framed_stop assms(1) u(1)]]) (rule UNIV_I)
  then show ?thesis using u(2) by (rule remove_Inr)
qed

lemma run_job_Inr:
  assumes "inv s" "run_job http c s = (Inr res, t)" "jr_exit_code res = 0"
    and "dv_container dv s (cc_name c) = None" "is_archive_job rt b k (container_config_to_api c)"
  shows "dv_object dv t b k"
proof -
  obtain s1 s2 s3 s4 where st: "container_create http c s = (Inr (), s1)"
      "container_start http (cc_name c) s1 = (Inr (), s2)" "container_wait http (cc_name c) s2 = (Inr 0, s3)"
      "\<exists>logs. container_logs http (cc_name c) s3 = (Inr logs, s4)"
      "io_try (container_remove http (cc_name c) False) (\<lambda>_. io_return ()) s4 = (Inr (), t)"
    using assms(2,3) by (auto simp: run_job_def io_Inr_iffs split: if_splits)
  have 1: "inv s1" by (rule conjunct1 [OF inv_kept [OF framed_create assms(1) st(1)]]) (rule UNIV_I subset_UNIV)+
  have 2: "inv s2" by (rule conjunct1 [OF inv_kept [OF framed_start 1 st(2)]]) (rule UNIV_I)
  have 3: "inv s3" by (rule conjunct1 [OF inv_kept [OF framed_wait 2 st(3)]]) (rule UNIV_I)
  obtain resp where "http (request ''POST'' (container_path (cc_name c) ''/start'')) s1 = (Inr resp, s2)"
    using st(2) by (auto simp: container_start_def io_Inr_iffs is_success_def split: if_splits)
  from http_law [OF 1 this] have "dv_container dv s2 (cc_name c) = dv_container dv s1 (cc_name c)"
    by (auto simp: docker_step_def start_law_def)
  then have "dv_container dv s2 (cc_name c) = Some (container_config_to_api c)"
    using create_Inr [OF assms(1) st(1) assms(4)] by simp
  then have o3: "dv_object dv s3 b k" using wait_Inr [OF 2 st(3)] assms(5) by blast
  obtain logs where "container_logs http (cc_name c) s3 = (Inr logs, s4)" using st(4) by blast
  from inv_kept [OF framed_logs 3 this] have 4: "inv s4" "frame dv {} {} {} {} s3 s4" by auto
  have "keeps (framed dv inv UNIV {} {} {} s0) (io_try (container_remove http (cc_name c) False) (\<lambda>_. io_return ()))" for s0
    by (intro keeps_rules framed_remove) simp
  from inv_kept [OF this 4(1) st(5)] have "frame dv UNIV {} {} {} s4 t" by simp
  then show ?thesis using o3 4(2) by (blast intro: frame_object)
qed

text \<open>A job's container is removed in every outcome, if the engine answers removals.\<close>

lemma run_job_removes:
  assumes "inv s" "run_job http c s = (r, t)"
    and answered: "\<And>rq u. inv u \<Longrightarrow> rq_method rq = ''DELETE'' \<Longrightarrow>
      \<exists>resp u'. http rq u = (Inr resp, u') \<and> (is_success (rs_status resp) \<or> rs_status resp = 404)"
  shows "dv_container dv t (cc_name c) = None"
proof -
  define body where "body = io_except
         (io_seq (container_create http c)
           (io_seq (container_start http (cc_name c))
             (io_bind (container_wait http (cc_name c)) (\<lambda>exit_code.
               io_bind (container_logs http (cc_name c)) (\<lambda>logs.
                 io_return \<lparr>jr_exit_code = exit_code, jr_logs = logs\<rparr>)))))
         (\<lambda>e. if e = CancelledError
              then Some (io_seq (force_cleanup http (cc_name c)) (io_raise CancelledError))
              else None)"
  have run: "run_job http c = io_finally body (io_try (container_remove http (cc_name c) False) (\<lambda>_. io_return ()))"
    by (simp add: run_job_def body_def)
  obtain r1 u where b: "body s = (r1, u)" by fastforce
  have "keeps (framed dv inv UNIV UNIV UNIV {} s0) body" for s0
    unfolding body_def force_cleanup_def
    by (intro keeps_rules framed_create framed_start framed_wait framed_remove framed_stop)
       (auto split: if_splits intro!: keeps_rules framed_remove framed_stop)
  from inv_kept [OF this assms(1) b] have u: "inv u" by simp
  obtain resp u' where "http ((request ''DELETE'' (container_path (cc_name c) []))\<lparr>rq_params := [(''force'', ''false'')]\<rparr>) u
      = (Inr resp, u')" "is_success (rs_status resp) \<or> rs_status resp = 404"
    using answered [OF u, of "(request ''DELETE'' (container_path (cc_name c) []))\<lparr>rq_params := [(''force'', ''false'')]\<rparr>"]
    by (auto simp: request_def)
  then have "container_remove http (cc_name c) False u = (Inr (), u')"
    by (auto simp: container_remove_def io_bind_def raise_for_status_def io_return_def)
  moreover from this have "t = u'"
    using assms(2) by (simp add: run io_finally_def b io_try_def)
  ultimately show ?thesis using remove_Inr [OF u] by simp
qed

lemma run_job_no_container_left:
  assumes "inv s" "run_job http c s = (r, t)" "dv_container dv s (cc_name c) = None"
    and answered: "\<And>rq u. inv u \<Longrightarrow> rq_method rq = ''DELETE'' \<Longrightarrow>
      \<exists>resp u'. http rq u = (Inr resp, u') \<and> (is_success (rs_status resp) \<or> rs_status resp = 404)"
  shows "dv_container dv t = dv_container dv s"
proof
  fix n
  have "keeps (framed dv inv {cc_name c} {cc_name c} UNIV {} s0) (run_job http c)" for s0
    by (rule framed_run_job) auto
  from inv_kept [OF this assms(1,2)] have "frame dv {cc_name c} {cc_name c} UNIV {} s t" by simp
  then show "dv_container dv t n = dv_container dv s n"
    using run_job_removes [OF assms(1,2) answered] assms(3) by (cases "n = cc_name c") (simp_all add: frame_def)
qed

lemma job_containers_gone:
  assumes "inv s"
    and "run_archive http rt dk uuid url vol e a k s = (r, t) \<or> run_restore http rt dk uuid url vol e a k s = (r, t)"
    and answered: "\<And>rq u. inv u \<Longrightarrow> rq_method rq = ''DELETE'' \<Longrightarrow>
      \<exists>resp u'. http rq u = (Inr resp, u') \<and> (is_success (rs_status resp) \<or> rs_status resp = 404)"
  shows "dv_container dv t = dv_container dv s"
proof -
  obtain r0 u where u: "uuid s = (r0, u)" by fastforce
  have 1: "inv u" "uuid_law dv r0 s u" using fresh_id [OF assms(1) u] by auto
  show ?thesis
  proof (cases r0)
    case (Inl err)
    then have "t = u" using assms(2) u by (auto simp: run_archive_def run_restore_def io_bind_def)
    then show ?thesis using 1(2) by (simp add: uuid_law_def still_def)
  next
    case (Inr i)
    then obtain c where c: "run_job http c u = (r, t)"
        "cc_name c = ''codehub-job-archive-'' @ i \<or> cc_name c = ''codehub-job-restore-'' @ i"
      using assms(2) u unfolding run_archive_def run_restore_def io_bind_def job_container_def by fastforce
    have "dv_container dv u (cc_name c) = None" "dv_container dv u = dv_container dv s"
      using 1(2) Inr c(2) by (auto simp: uuid_law_def still_def)
    then show ?thesis using run_job_no_container_left [OF 1(1) c(1) _ answered] by simp
  qed
qed

lemma storage_archive_Inr:
  assumes "inv s" "storage_archive (docker_job_runner http rt dk uuid) rt st i x s = (Inr a, t)"
  shows "a = archive_key_of rt i x \<and> dv_object dv t (bucket_name st) a"
proof -
  let ?c = "\<lambda>u. job_container rt dk (''codehub-job-archive-'' @ u) ''/usr/local/bin/archive''
         (job_env (archive_url_of st a) (internal_endpoint_url st) (access_key st) (secret_key st))
         (volume_name rt i @ '':/data:ro'')"
  obtain res where a: "a = archive_key_of rt i x"
      "run_archive http rt dk uuid (archive_url_of st a) (volume_name rt i) (internal_endpoint_url st) (access_key st)
        (secret_key st) s = (Inr res, t)" "jr_exit_code res = 0"
    using storage_archive_InrD [OF assms(2)] by (auto simp: docker_job_runner_def)
  obtain u s1 where st: "uuid s = (Inr u, s1)" "run_job http (?c u) s1 = (Inr res, t)"
    using a(2) unfolding run_archive_def io_bind_Inr_iff by blast
  have u: "inv s1" "dv_container dv s1 (''codehub-job-archive-'' @ u) = None"
    using fresh_id [OF assms(1) st(1)] by (auto simp: uuid_law_def still_def)
  have "is_archive_job rt (bucket_name st) a (container_config_to_api (?c u))"
    unfolding is_archive_job_def
    by (rule exI [of _ "?c u"])
       (use settings [OF assms(1)] in \<open>auto simp: job_container_def job_env_def archive_url_of_def settings_ok_def\<close>)
  then have "dv_object dv t (bucket_name st) a"
    by (rule run_job_Inr [OF u(1) st(2) a(3), rotated]) (use u(2) in \<open>simp add: job_container_def\<close>)
  then show ?thesis using a(1) by simp
qed

lemma empty_archive_Inr:
  assumes "inv s" "storage_create_empty_archive s3 cd rt st i x s = (Inr a, t)"
  shows "a = archive_key_of rt i x \<and> dv_object dv t (bucket_name st) a"
proof -
  obtain b1 b2 s1 where st: "s3_put_object s3 (bucket_name st) (archive_key_of rt i x) b1 s = (Inr (), s1)"
      "s3_put_object s3 (bucket_name st) (archive_key_of rt i x @ ''.meta'') b2 s1 = (Inr (), t)"
      "a = archive_key_of rt i x"
    using assms(2) by (auto simp: storage_create_empty_archive_def Let_def io_Inr_iffs)
  have 1: "inv s1" "dv_object dv s1 (bucket_name st) a"
    using put [OF assms(1) st(1)] st(3) by (auto simp: put_law_def)
  show ?thesis using put [OF 1(1) st(2)] 1(2) st(3) by (auto simp: put_law_def dest: frame_object)
qed

lemma storage_restore_Inr:
  assumes "inv s"
    "storage_restore (docker_volume_provider http) (docker_job_runner http rt dk uuid) rt st i k s = (Inr a, t)"
  shows "a = k \<and> dv_volume dv t (volume_name rt i)"
proof -
  obtain s1 res where st: "storage_provision (docker_volume_provider http) rt i s = (Inr (), s1)"
      "run_restore http rt dk uuid (archive_url_of st k) (volume_name rt i) (internal_endpoint_url st)
         (access_key st) (secret_key st) s1 = (Inr res, t)" "a = k"
    using storage_restore_InrD [OF assms(2)] by (auto simp: docker_job_runner_def)
  have "inv s1" by (rule conjunct1 [OF inv_kept [OF framed_provision assms(1) st(1)]]) (rule UNIV_I)
  from inv_kept [OF framed_jobs(2) this st(2)]
  have "frame dv job_names job_names {volume_name rt i} {} s1 t" by simp
  then show ?thesis using provision_Inr [OF assms(1) st(1)] st(3) by (simp add: frame_def)
qed

lemma platform_step:
  assumes "\<And>s0. keeps (framed dv inv C N V W s0) m" and "inv s \<and> homes_named dv rt s" and "m s = (r, t)"
    and "C \<subseteq> container_name rt ` X \<union> job_names" and "V \<union> W \<subseteq> volume_name rt ` Y"
  shows "(inv t \<and> homes_named dv rt t) \<and> touches (docker_platform dv rt st) X Y s t \<and> frame dv C N V W s t"
proof -
  have "inv t \<and> frame dv C N V W s t" using inv_kept [OF assms(1)] assms(2,3) by blast
  then show ?thesis
    using assms(2,4,5) settings homes_named_frame [of dv rt s C N V W t] frame_touches [of rt st dv C N V W s t X Y]
    by blast
qed

subsection \<open>Listings\<close>

lemma still_get:
  assumes "rq_method rq = ''GET''" shows "keeps (\<lambda>t. inv t \<and> still dv s0 t) (http rq)"
proof (rule keepsI)
  fix s r t
  assume "inv s \<and> still dv s0 s" "http rq s = (r, t)"
  then show "inv t \<and> still dv s0 t"
    using http_step [of s rq r t] assms by (auto simp: docker_step_def get_law_def still_def)
qed

lemma still_kept:
  assumes "\<And>s0. keeps (\<lambda>t. inv t \<and> still dv s0 t) m" and "inv s" and "m s = (r, t)"
  shows "inv t \<and> still dv s t"
  using keepsD [OF assms(1) [of s] _ assms(3)] assms(2) by simp

lemma still_container_list: "keeps (\<lambda>t. inv t \<and> still dv s0 t) (instance_list_all http pfx)"
  unfolding instance_list_all_def container_list_def
  by (intro keeps_rules still_get) (simp add: request_def)

lemma still_volume_list:
  "keeps (\<lambda>t. inv t \<and> still dv s0 t) (storage_list_volumes (docker_volume_provider http) pfx)"
  unfolding storage_list_volumes_def docker_volume_provider_def volume_list_def
  by (auto intro!: keeps_rules still_get simp: request_def)

lemma still_paginate: "keeps (\<lambda>t. inv t \<and> still dv s0 t) (s3_paginate s3 b p)"
proof (rule keepsI)
  fix s r t
  assume "inv s \<and> still dv s0 s" "s3_paginate s3 b p s = (r, t)"
  then show "inv t \<and> still dv s0 t"
    using paginate [of s b p r t] by (auto simp: paginate_law_def still_def)
qed

lemma still_archive_lists:
  "keeps (\<lambda>t. inv t \<and> still dv s0 t) (storage_list_archives s3 st pfx)"
  "keeps (\<lambda>t. inv t \<and> still dv s0 t) (storage_list_all_archive_keys s3 st pfx)"
  unfolding storage_list_archives_def storage_list_all_archive_keys_def paginate_objects_def
  by (intro keeps_rules still_paginate)+

lemma list_all_Inr:
  assumes "inv s" "instance_list_all http pfx s = (Inr cs, t)"
  shows "(\<forall>c \<in> set cs. ci_running c = dv_running dv s (pfx @ ci_workspace_id c))
    \<and> (\<forall>i. dv_running dv s (pfx @ i) \<longrightarrow> (\<exists>c \<in> set cs. ci_workspace_id c = i))"
proof -
  obtain resp xs rs where h: "http ((request ''GET'' ''/containers/json'')\<lparr>rq_params :=
         [(''all'', ''true''), (''filters'', name_filter pfx)]\<rparr>) s = (Inr resp, t)"
      "is_success (rs_status resp)" "rs_json resp = Some (JArr xs)"
      "ex_mapM (container_entry pfx) xs = Inr rs" "cs = keep_some rs"
    using assms(2) by (auto simp: instance_list_all_def container_list_def io_Inr_iffs)
  have "container_list_law dv ((request ''GET'' ''/containers/json'')\<lparr>rq_params :=
         [(''all'', ''true''), (''filters'', name_filter pfx)]\<rparr>) (Inr resp) s"
    using http_law [OF assms(1) h(1)] by (simp add: docker_step_def)
  then have xs: "\<forall>x \<in> set xs. \<exists>n. describes dv s n x"
      "\<forall>n. dv_container dv s n \<noteq> None \<and> py_startswith n pfx \<longrightarrow> (\<exists>x \<in> set xs. describes dv s n x)"
    using h(2,3) unfolding container_list_law_def by fastforce+
  have l: "list_all2 (\<lambda>x y. container_entry pfx x = Inr y) xs rs" using h(4) by (simp add: ex_mapM_Inr_iff)
  show ?thesis
  proof (intro conjI ballI allI impI)
    fix c assume "c \<in> set cs"
    then have "Some c \<in> set rs" using h(5) by (auto simp: set_keep_some)
    then obtain x where "x \<in> set xs" "container_entry pfx x = Inr (Some c)"
      using list_all2_right [OF l] by blast
    moreover from this(1) obtain n where "describes dv s n x" using xs(1) by blast
    ultimately show "ci_running c = dv_running dv s (pfx @ ci_workspace_id c)"
      using container_entry_describes [of dv s n x pfx] by (auto simp: py_startswith_iff split: if_splits)
  next
    fix i assume run: "dv_running dv s (pfx @ i)"
    then obtain x where x: "x \<in> set xs" "describes dv s (pfx @ i) x"
      using xs(2) running_exists [OF assms(1) run] by fastforce
    then obtain c where "container_entry pfx x = Inr (Some c)" "ci_workspace_id c = i"
      using container_entry_describes [OF x(2), of pfx] by auto
    moreover from this(1) x(1) have "Some c \<in> set rs" using list_all2_left [OF l] by fastforce
    ultimately show "\<exists>c \<in> set cs. ci_workspace_id c = i" using h(5) by (auto simp: set_keep_some)
  qed
qed

lemma list_volumes_Inr:
  assumes "inv s" "homes_named dv rt s"
    and "storage_list_volumes (docker_volume_provider http) (resource_prefix rt) s = (Inr vs, t)"
  shows "(\<forall>x \<in> set vs. vi_exists x = dv_volume dv s (volume_name rt (vi_workspace_id x)))
    \<and> (\<forall>i. dv_volume dv s (volume_name rt i) \<longrightarrow> (\<exists>x \<in> set vs. vi_workspace_id x = i))"
proof -
  let ?p = "resource_prefix rt"
  obtain xs rs where v: "volume_list http (Some (name_filter ?p)) s = (Inr xs, t)"
      "ex_mapM (volume_entry ?p) xs = Inr rs" "vs = keep_some rs"
    using assms(3) unfolding storage_list_volumes_def docker_volume_provider_def io_Inr_iffs by fastforce
  obtain resp d where h: "http ((request ''GET'' ''/volumes'')\<lparr>rq_params := [(''filters'', name_filter ?p)]\<rparr>) s = (Inr resp, t)"
      "is_success (rs_status resp)" "rs_json resp = Some (JObj d)"
      "(case map_of d ''Volumes'' of None \<Rightarrow> JArr [] | Some x \<Rightarrow> x) = JArr xs"
    using v(1) by (auto simp: volume_list_def io_Inr_iffs json_get_Inr_iff)
  have "volume_list_law dv ((request ''GET'' ''/volumes'')\<lparr>rq_params := [(''filters'', name_filter ?p)]\<rparr>) (Inr resp) s"
    using http_law [OF assms(1) h(1)] by (simp add: docker_step_def)
  from this [unfolded volume_list_law_def, rule_format, of ?p resp] h(2)
  obtain d' ys where "rs_json resp = Some (JObj d')" "map_of d' ''Volumes'' = Some (JArr ys)"
      "\<forall>x \<in> set ys. \<exists>e n. x = JObj e \<and> map_of e ''Name'' = Some (JStr n) \<and> dv_volume dv s n"
      "\<forall>n. dv_volume dv s n \<and> py_startswith n ?p \<longrightarrow> (\<exists>e. JObj e \<in> set ys \<and> map_of e ''Name'' = Some (JStr n))"
    by blast
  moreover from this(1,2) have "ys = xs" using h(3,4) by simp
  ultimately have xs: "\<forall>x \<in> set xs. \<exists>e n. x = JObj e \<and> map_of e ''Name'' = Some (JStr n) \<and> dv_volume dv s n"
      "\<forall>n. dv_volume dv s n \<and> py_startswith n ?p \<longrightarrow> (\<exists>e. JObj e \<in> set xs \<and> map_of e ''Name'' = Some (JStr n))"
    by simp_all
  have l: "list_all2 (\<lambda>x y. volume_entry ?p x = Inr y) xs rs" using v(2) by (simp add: ex_mapM_Inr_iff)
  show ?thesis
  proof (intro conjI ballI allI impI)
    fix v assume "v \<in> set vs"
    then have "Some v \<in> set rs" using v(3) by (auto simp: set_keep_some)
    then obtain x where x: "x \<in> set xs" "volume_entry ?p x = Inr (Some v)"
      using list_all2_right [OF l] by blast
    obtain e n where n: "x = JObj e" "map_of e ''Name'' = Some (JStr n)" "dv_volume dv s n"
      using xs(1) x(1) by blast
    have "py_startswith n ?p" using x(2) n by (auto simp: volume_entry_def json_get_def as_string_def split: if_splits)
    then obtain i where "n = volume_name rt i" using assms(2) n(3) by (auto simp: homes_named_def)
    then have "v = home_entry rt i" using volume_entry_home [of e rt i] x(2) n(1,2) by simp
    then show "vi_exists v = dv_volume dv s (volume_name rt (vi_workspace_id v))"
      using n(3) \<open>n = volume_name rt i\<close> by (simp add: home_entry_def)
  next
    fix i assume "dv_volume dv s (volume_name rt i)"
    then obtain e where e: "JObj e \<in> set xs" "map_of e ''Name'' = Some (JStr (volume_name rt i))"
      using xs(2) by (auto simp: volume_name_def)
    then have "volume_entry ?p (JObj e) = Inr (Some (home_entry rt i))" by (simp add: volume_entry_home)
    then have "Some (home_entry rt i) \<in> set rs" using list_all2_left [OF l e(1)] by fastforce
    then show "\<exists>x \<in> set vs. vi_workspace_id x = i" using v(3) by (auto simp: set_keep_some home_entry_def)
  qed
qed

lemma paginate_objects_Inr:
  assumes "inv s" "paginate_objects s3 b p s = (Inr objs, t)"
  shows "so_key ` set objs = {k. dv_object dv s b k \<and> py_startswith k p}"
proof -
  obtain pages where "s3_paginate s3 b p s = (Inr pages, t)"
      "objs = concat (map (\<lambda>x. case x of None \<Rightarrow> [] | Some xs \<Rightarrow> xs) pages)"
    using assms(2) by (auto simp: paginate_objects_def io_Inr_iffs)
  moreover from this(2) have "so_key ` set objs = (\<Union>xs \<in> {xs. Some xs \<in> set pages}. so_key ` set xs)"
    by (force split: option.splits)
  ultimately show ?thesis using paginate [OF assms(1)] by (auto simp: paginate_law_def)
qed

lemma list_archives_Inr:
  assumes "inv s" "storage_list_archives s3 st pfx s = (Inr xs, t)"
  shows "(\<forall>x \<in> set xs. ai_exists x \<and> (\<exists>k. dv_object dv s (bucket_name st) k \<and> archive_workspace pfx k = Some (ai_workspace_id x)))
    \<and> (\<forall>i k. dv_object dv s (bucket_name st) k \<and> archive_workspace pfx k = Some i \<longrightarrow> (\<exists>x \<in> set xs. ai_workspace_id x = i))"
proof -
  obtain objs where o: "paginate_objects s3 (bucket_name st) pfx s = (Inr objs, t)"
      "xs = keep_some (map archive_entry (workspace_archives pfx objs))"
    using assms(2) by (auto simp: storage_list_archives_def io_Inr_iffs)
  note keys = paginate_objects_Inr [OF assms(1) o(1)]
  have "\<exists>k. dv_object dv s (bucket_name st) k \<and> archive_workspace pfx k = Some (ai_workspace_id x)"
    if "x \<in> set xs" for x
    using archive_entries [of pfx objs "ai_workspace_id x"] that o(2) keys by blast
  moreover have "\<exists>x \<in> set xs. ai_workspace_id x = i"
    if "dv_object dv s (bucket_name st) k" "archive_workspace pfx k = Some i" for i k
  proof -
    have "k \<in> so_key ` set objs" using keys that archive_workspace_key [OF that(2)] by simp
    then show ?thesis using archive_entries [of pfx objs i] that(2) o(2) by blast
  qed
  ultimately show ?thesis using o(2) archive_entries_exist by blast
qed

end

section \<open>The contracts of the coordinators\<close>

lemma archive_facts:
  "(\<exists>k. (py_endswith k ''/home.tar.zst'' \<and> ob k) \<and> archive_workspace pfx k = Some i)
   \<longleftrightarrow> (\<exists>k. ob k \<and> archive_workspace pfx k = Some i)"
  using archive_workspace_key by blast

sublocale docker_engine \<subseteq> collection_contract
  "docker_instance_controller http rt dk"
  "s3_storage_provider (docker_volume_provider http) (docker_job_runner http rt dk uuid) s3 cd rt st"
  "docker_platform dv rt st" "\<lambda>s. inv s \<and> homes_named dv rt s" "archive_workspace (resource_prefix rt)"
  "resource_prefix rt"
proof (unfold_locales, goal_cases)
  case (1 s i r t)
  have p: "storage_provision (docker_volume_provider http) rt i s = (r, t)"
    using 1(2) by (simp add: s3_storage_provider_def)
  have "keeps (framed dv inv {} {} {volume_name rt i} {} s0) (storage_provision (docker_volume_provider http) rt i)" for s0
    by (rule framed_provision) simp
  from platform_step [OF this 1(1) p, of "{}" "{i}"]
  have "(inv t \<and> homes_named dv rt t) \<and> touches (docker_platform dv rt st) {} {i} s t
      \<and> frame dv {} {} {volume_name rt i} {} s t" by simp
  moreover have "r = Inr () \<longrightarrow> dv_volume dv t (volume_name rt i)" using provision_Inr 1(1) p by blast
  ultimately show ?case by (auto dest: frame_volume)
next
  case (2 s i k r t)
  have p: "storage_restore (docker_volume_provider http) (docker_job_runner http rt dk uuid) rt st i k s = (r, t)"
    using 2(2) by (simp add: s3_storage_provider_def)
  from platform_step [OF framed_storage_restore 2(1) p, of "{}" "{i}"]
  have "(inv t \<and> homes_named dv rt t) \<and> touches (docker_platform dv rt st) {} {i} s t
      \<and> frame dv job_names job_names {volume_name rt i} {} s t" by simp
  moreover have "\<forall>a. r = Inr a \<longrightarrow> a = k \<and> dv_volume dv t (volume_name rt i)"
    using storage_restore_Inr 2(1) p by blast
  ultimately show ?case by (auto dest: frame_volume)
next
  case (3 s i x r t)
  have p: "storage_archive (docker_job_runner http rt dk uuid) rt st i x s = (r, t)"
    using 3(2) by (simp add: s3_storage_provider_def)
  from platform_step [OF framed_storage_archive 3(1) p, of "{}" "{i}"]
  have "(inv t \<and> homes_named dv rt t) \<and> touches (docker_platform dv rt st) {} {i} s t
      \<and> frame dv job_names job_names {volume_name rt i} {} s t" by simp
  moreover have "\<forall>a. r = Inr a \<longrightarrow> a = archive_key_of rt i x \<and> dv_object dv t (bucket_name st) a"
    using storage_archive_Inr 3(1) p by blast
  ultimately show ?case by (auto dest: frame_volume)
next
  case (4 s i x r t)
  have p: "storage_create_empty_archive s3 cd rt st i x s = (r, t)"
    using 4(2) by (simp add: s3_storage_provider_def)
  from platform_step [OF framed_empty_archive 4(1) p, of "{}" "{}"]
  have "(inv t \<and> homes_named dv rt t) \<and> touches (docker_platform dv rt st) {} {} s t" by simp
  moreover have "py_endswith a ''/home.tar.zst'' \<and> dv_object dv t (bucket_name st) a" if "r = Inr a" for a
    using empty_archive_Inr [of s i x a t] 4(1) p that archive_key_is_archive by blast
  ultimately show ?case unfolding docker_platform_simps by blast
next
  case (5 s i r t)
  have p: "storage_delete_volume (docker_volume_provider http) rt i s = (r, t)"
    using 5(2) by (simp add: s3_storage_provider_def)
  from platform_step [OF framed_delete_volume 5(1) p, of "{}" "{i}"]
  have "(inv t \<and> homes_named dv rt t) \<and> touches (docker_platform dv rt st) {} {i} s t" by simp
  moreover have "volume_remove http (volume_name rt i) s = (r, t)"
    using p by (simp add: storage_delete_volume_def docker_volume_provider_def)
  then have "r = Inr () \<longrightarrow> \<not> dv_volume dv t (volume_name rt i)" using volume_remove_Inr 5(1) by blast
  ultimately show ?case unfolding docker_platform_simps by blast
next
  case (6 s i img r t)
  have p: "instance_start http rt dk i img s = (r, t)"
    using 6(2) by (simp add: docker_instance_controller_def)
  from platform_step [OF framed_instance_start 6(1) p, of "{i}" "{i}"]
  have "(inv t \<and> homes_named dv rt t) \<and> touches (docker_platform dv rt st) {i} {i} s t
      \<and> frame dv {container_name rt i} {container_name rt i} {volume_name rt i} {} s t" by simp
  moreover have "r = Inr () \<longrightarrow> dv_running dv t (container_name rt i)" using instance_start_Inr 6(1) p by blast
  ultimately show ?case by (auto dest: frame_volume)
next
  case (7 s i r t)
  have p: "instance_delete http rt i s = (r, t)"
    using 7(2) by (simp add: docker_instance_controller_def)
  from platform_step [OF framed_instance_delete 7(1) p, of "{i}" "{}"]
  have a: "(inv t \<and> homes_named dv rt t) \<and> touches (docker_platform dv rt st) {i} {} s t
      \<and> frame dv {container_name rt i} {} {} {} s t" by simp
  moreover have "r = Inr () \<longrightarrow> dv_container dv t (container_name rt i) = None"
    using instance_delete_Inr 7(1) p by blast
  moreover have "dv_running dv t (container_name rt i) \<longrightarrow> dv_container dv t (container_name rt i) \<noteq> None"
    using running_exists a by blast
  moreover have "dv_container dv t (container_name rt i) \<noteq> None \<longrightarrow> dv_container dv s (container_name rt i) \<noteq> None"
    using frame_container [of dv "{container_name rt i}" "{}" "{}" "{}" s t "container_name rt i"] a by blast
  ultimately show ?case unfolding docker_platform_simps by metis
next
  case (8 s r t)
  have p: "instance_list_all http (resource_prefix rt) s = (r, t)"
    using 8(2) by (simp add: docker_instance_controller_def)
  have "inv t \<and> still dv s t" using still_kept [OF still_container_list _ p] 8(1) by blast
  moreover have "(\<forall>c \<in> set cs. ci_running c = dv_running dv s (container_name rt (ci_workspace_id c)))
      \<and> (\<forall>i. dv_running dv s (container_name rt i) \<longrightarrow> (\<exists>c \<in> set cs. ci_workspace_id c = i))" if "r = Inr cs" for cs
    using list_all_Inr [OF conjunct1 [OF 8(1)] p [unfolded that]] unfolding container_name_def .
  ultimately show ?case
    unfolding docker_platform_simps using 8(1) homes_named_still [of dv rt s t] still_untouched [of dv s t rt st] by blast
next
  case (9 s r t)
  have p: "storage_list_volumes (docker_volume_provider http) (resource_prefix rt) s = (r, t)"
    using 9(2) by (simp add: s3_storage_provider_def)
  have "inv t \<and> still dv s t" using still_kept [OF still_volume_list _ p] 9(1) by blast
  moreover have "(\<forall>x \<in> set vs. vi_exists x = dv_volume dv s (volume_name rt (vi_workspace_id x)))
      \<and> (\<forall>i. dv_volume dv s (volume_name rt i) \<longrightarrow> (\<exists>x \<in> set vs. vi_workspace_id x = i))" if "r = Inr vs" for vs
    using list_volumes_Inr [OF conjunct1 [OF 9(1)] conjunct2 [OF 9(1)] p [unfolded that]] .
  ultimately show ?case
    unfolding docker_platform_simps using 9(1) homes_named_still [of dv rt s t] still_untouched [of dv s t rt st] by blast
next
  case (10 s r t)
  let ?p = "resource_prefix rt" and ?ob = "dv_object dv s (bucket_name st)"
  have p: "storage_list_archives s3 st ?p s = (r, t)"
    using 10(2) by (simp add: s3_storage_provider_def)
  have "inv t \<and> still dv s t" using still_kept [OF still_archive_lists(1) _ p] 10(1) by blast
  moreover have "(\<forall>x \<in> set xs. ai_exists x = (\<exists>k. ?ob k \<and> archive_workspace ?p k = Some (ai_workspace_id x)))
      \<and> (\<forall>i. (\<exists>k. ?ob k \<and> archive_workspace ?p k = Some i) \<longrightarrow> (\<exists>x \<in> set xs. ai_workspace_id x = i))" if "r = Inr xs" for xs
    using list_archives_Inr [OF conjunct1 [OF 10(1)] p [unfolded that]] by blast
  ultimately show ?case
    unfolding docker_platform_simps archive_facts
    using 10(1) homes_named_still [of dv rt s t] still_untouched [of dv s t rt st] by blast
next
  case (11 s i x k t)
  then show ?case
    using storage_archive_Inr [of s i x k t] settings [of s] workspace_of_archive_key [of rt i x]
    by (simp add: s3_storage_provider_def settings_ok_def)
next
  case (12 s i x k t)
  then show ?case
    using empty_archive_Inr [of s i x k t] settings [of s] workspace_of_archive_key [of rt i x]
    by (simp add: s3_storage_provider_def settings_ok_def)
next
  case (13 s k r t)
  have p: "storage_delete_archive s3 st k s = (r, t)"
    using 13(2) by (simp add: s3_storage_provider_def)
  obtain r' where "s3_delete_objects s3 (bucket_name st) [k, k @ ''.meta''] s = (r', t)"
    using storage_delete_archive_call [OF p] by blast
  from delete_objects [OF _ this] 13(1)
  have d: "inv t" "delete_objects_law dv (bucket_name st) [k, k @ ''.meta''] s t" by blast+
  have same: "dv_container dv t = dv_container dv s" "dv_running dv t = dv_running dv s" "dv_volume dv t = dv_volume dv s"
      "\<And>k'. k' \<noteq> k \<Longrightarrow> k' \<noteq> k @ ''.meta'' \<Longrightarrow> dv_object dv t (bucket_name st) k' = dv_object dv s (bucket_name st) k'"
    using d(2) by (simp_all add: delete_objects_law_def)
  have "\<not> py_endswith (k @ ''.meta'') ''/home.tar.zst''" by (simp add: py_endswith_def)
  then have "(py_endswith k' ''/home.tar.zst'' \<and> dv_object dv t (bucket_name st) k')
      = (py_endswith k' ''/home.tar.zst'' \<and> dv_object dv s (bucket_name st) k')" if "k' \<noteq> k" for k'
    using same(4) [OF that] by blast
  then show ?case
    using 13(1) d(1) same(1-3) by (simp add: docker_platform_def homes_named_def)
next
  case (14 s r t)
  have p: "storage_list_all_archive_keys s3 st (resource_prefix rt) s = (r, t)"
    using 14(2) by (simp add: s3_storage_provider_def)
  have "inv t \<and> still dv s t" using still_kept [OF still_archive_lists(2) _ p] 14(1) by blast
  then show ?case using 14(1) homes_named_still [of dv rt s t] still_untouched [of dv s t rt st] by blast
qed

end
