(* ===== verification/Backend.thy ===== *)
theory Backend
  imports Platform
begin

text \<open>
  A backend is the clients the process holds (HTTP client of the Docker Engine, S3 client, source of
  random ids) together with the world behind them and a view of that world.  The adapters run on it; on
  the backends that obey the laws of Engine.thy the locale \<open>docker_engine\<close> is interpreted, and with it the
  contracts of the executor, the observer and the collector.
\<close>

record 'w backend =
  bk_http :: "'w http"
  bk_s3 :: "'w s3_client"
  bk_uuid :: "('w, string) io"
  bk_view :: "'w docker_view"
  bk_world :: 'w

definition through :: "('w backend \<Rightarrow> ('w, 'a) io) \<Rightarrow> ('w backend, 'a) io" where
  "through f b = (case f b (bk_world b) of (r, w) \<Rightarrow> (r, b\<lparr>bk_world := w\<rparr>))"

definition send :: "'w backend http" where
  "send rq = through (\<lambda>b. bk_http b rq)"

definition backend_s3 :: "'w backend s3_client" where
  "backend_s3 =
     \<lparr>s3_paginate = (\<lambda>bucket p. through (\<lambda>b. s3_paginate (bk_s3 b) bucket p)),
      s3_put_object = (\<lambda>bucket k body. through (\<lambda>b. s3_put_object (bk_s3 b) bucket k body)),
      s3_delete_objects = (\<lambda>bucket ks. through (\<lambda>b. s3_delete_objects (bk_s3 b) bucket ks))\<rparr>"

definition backend_uuid :: "('w backend, string) io" where
  "backend_uuid = through bk_uuid"

definition backend_view :: "'w backend docker_view" where
  "backend_view =
     \<lparr>dv_container = (\<lambda>b. dv_container (bk_view b) (bk_world b)),
      dv_running = (\<lambda>b. dv_running (bk_view b) (bk_world b)),
      dv_volume = (\<lambda>b. dv_volume (bk_view b) (bk_world b)),
      dv_object = (\<lambda>b. dv_object (bk_view b) (bk_world b))\<rparr>"

definition http_laws :: "'w docker_view \<Rightarrow> runtime_config \<Rightarrow> 'w http \<Rightarrow> bool" where
  "http_laws dv rt http \<longleftrightarrow> (\<forall>rq w r w'. http rq w = (r, w') \<longrightarrow> docker_step dv rt rq r w w')"

definition s3_laws :: "'w docker_view \<Rightarrow> 'w s3_client \<Rightarrow> bool" where
  "s3_laws dv s3 \<longleftrightarrow>
     (\<forall>b p w r w'. s3_paginate s3 b p w = (r, w') \<longrightarrow> paginate_law dv b p r w w')
     \<and> (\<forall>b k body w r w'. s3_put_object s3 b k body w = (r, w') \<longrightarrow> put_law dv b k r w w')
     \<and> (\<forall>b ks w r w'. s3_delete_objects s3 b ks w = (r, w') \<longrightarrow> delete_objects_law dv b ks w w')"

definition uuid_laws :: "'w docker_view \<Rightarrow> ('w, string) io \<Rightarrow> bool" where
  "uuid_laws dv uuid \<longleftrightarrow> (\<forall>w r w'. uuid w = (r, w') \<longrightarrow> uuid_law dv r w w')"

definition view_ok :: "'w docker_view \<Rightarrow> bool" where
  "view_ok dv \<longleftrightarrow> (\<forall>w n. dv_running dv w n \<longrightarrow> dv_container dv w n \<noteq> None)"

definition engine_ok :: "runtime_config \<Rightarrow> storage_config \<Rightarrow> 'w backend \<Rightarrow> bool" where
  "engine_ok rt st b \<longleftrightarrow> settings_ok rt st \<and> http_laws (bk_view b) rt (bk_http b)
     \<and> s3_laws (bk_view b) (bk_s3 b) \<and> uuid_laws (bk_view b) (bk_uuid b) \<and> view_ok (bk_view b)"

lemma backend_view_simps [simp]:
  "dv_container backend_view b = dv_container (bk_view b) (bk_world b)"
  "dv_running backend_view b = dv_running (bk_view b) (bk_world b)"
  "dv_volume backend_view b = dv_volume (bk_view b) (bk_world b)"
  "dv_object backend_view b = dv_object (bk_view b) (bk_world b)"
  by (simp_all add: backend_view_def)

lemma through_eq:
  "through f b = (r, b') \<longleftrightarrow> (\<exists>w. f b (bk_world b) = (r, w) \<and> b' = b\<lparr>bk_world := w\<rparr>)"
  by (auto simp: through_def split: prod.splits)

lemma engine_ok_world [simp]: "engine_ok rt st (b\<lparr>bk_world := w\<rparr>) = engine_ok rt st b"
  by (simp add: engine_ok_def)

lemma still_backend: "still backend_view b (b\<lparr>bk_world := w\<rparr>) = still (bk_view b) (bk_world b) w"
  by (simp add: still_def)

lemma frame_backend:
  "frame backend_view C N V W b (b\<lparr>bk_world := w\<rparr>) = frame (bk_view b) C N V W (bk_world b) w"
  by (simp add: frame_def)

lemma at_world:
  "bk_view (b\<lparr>bk_world := w\<rparr>) = bk_view b" "bk_world (b\<lparr>bk_world := w\<rparr>) = w"
  by simp_all

lemmas backend_transfer = still_backend frame_backend backend_view_simps at_world

lemma laws_backend:
  "docker_step backend_view rt rq r b (b\<lparr>bk_world := w\<rparr>) = docker_step (bk_view b) rt rq r (bk_world b) w"
  "paginate_law backend_view bu p rp b (b\<lparr>bk_world := w\<rparr>) = paginate_law (bk_view b) bu p rp (bk_world b) w"
  "put_law backend_view bu k ru b (b\<lparr>bk_world := w\<rparr>) = put_law (bk_view b) bu k ru (bk_world b) w"
  "delete_objects_law backend_view bu ks b (b\<lparr>bk_world := w\<rparr>) = delete_objects_law (bk_view b) bu ks (bk_world b) w"
  "uuid_law backend_view rs b (b\<lparr>bk_world := w\<rparr>) = uuid_law (bk_view b) rs (bk_world b) w"
  unfolding docker_step_def get_law_def container_list_law_def volume_list_law_def image_law_def create_law_def
    start_law_def stop_law_def remove_law_def wait_law_def volume_create_law_def volume_remove_law_def describes_def
    paginate_law_def put_law_def delete_objects_law_def uuid_law_def backend_transfer
  by (rule refl)+

interpretation engine: docker_engine send backend_s3 backend_uuid backend_view rt dk st cd "engine_ok rt st"
  for rt dk st cd
proof (unfold_locales, goal_cases)
  case (1 s)
  then show ?case by (simp add: engine_ok_def)
next
  case (2 s n)
  then show ?case by (simp add: engine_ok_def view_ok_def)
next
  case (3 s rq r t)
  then obtain w where "bk_http s rq (bk_world s) = (r, w)" "t = s\<lparr>bk_world := w\<rparr>"
    by (auto simp: send_def through_eq)
  with 3(1) show ?case unfolding engine_ok_def http_laws_def by (simp add: laws_backend)
next
  case (4 s b p r t)
  then obtain w where "s3_paginate (bk_s3 s) b p (bk_world s) = (r, w)" "t = s\<lparr>bk_world := w\<rparr>"
    by (auto simp: backend_s3_def through_eq)
  with 4(1) show ?case unfolding engine_ok_def s3_laws_def by (simp add: laws_backend)
next
  case (5 s b k body r t)
  then obtain w where "s3_put_object (bk_s3 s) b k body (bk_world s) = (r, w)" "t = s\<lparr>bk_world := w\<rparr>"
    by (auto simp: backend_s3_def through_eq)
  with 5(1) show ?case unfolding engine_ok_def s3_laws_def by (simp add: laws_backend)
next
  case (6 s b ks r t)
  then obtain w where "s3_delete_objects (bk_s3 s) b ks (bk_world s) = (r, w)" "t = s\<lparr>bk_world := w\<rparr>"
    by (auto simp: backend_s3_def through_eq)
  with 6(1) show ?case unfolding engine_ok_def s3_laws_def by (simp add: laws_backend)
next
  case (7 s r t)
  then obtain w where "bk_uuid s (bk_world s) = (r, w)" "t = s\<lparr>bk_world := w\<rparr>"
    by (auto simp: backend_uuid_def through_eq)
  with 7(1) show ?case unfolding engine_ok_def uuid_laws_def by (simp add: laws_backend)
qed

end
