(* ===== verification/Reference.thy ===== *)
theory Reference
  imports Backend
begin

text \<open>
  A reference backend: a small in-memory Docker Engine with storage jobs and an object store, written as
  a function on requests.  It obeys the laws of Engine.thy, so the hypotheses of the end-to-end
  properties can hold; the witnesses run on it.
\<close>

record mem_world =
  mw_containers :: "(string \<times> (json \<times> bool)) list"
  mw_volumes :: "string list"
  mw_objects :: "(string \<times> string) list"

section \<open>Reading a container configuration\<close>

definition json_field :: "string \<Rightarrow> json \<Rightarrow> json" where
  "json_field k j = (case j of JObj d \<Rightarrow> (case map_of d k of None \<Rightarrow> JNull | Some x \<Rightarrow> x) | _ \<Rightarrow> JNull)"

definition json_strs :: "json \<Rightarrow> string list" where
  "json_strs j = (case j of JArr xs \<Rightarrow> concat (map (\<lambda>x. case x of JStr s \<Rightarrow> [s] | _ \<Rightarrow> []) xs) | _ \<Rightarrow> [])"

definition config_binds :: "json \<Rightarrow> string list" where
  "config_binds j = json_strs (json_field ''Binds'' (json_field ''HostConfig'' j))"

definition config_env :: "json \<Rightarrow> string list" where
  "config_env j = json_strs (json_field ''Env'' j)"

definition job_target :: "string \<Rightarrow> (string \<times> string) option" where
  "job_target e =
     (if prefix ''ARCHIVE_URL=s3://'' e
      then let r = drop (length ''ARCHIVE_URL=s3://'') e
           in if CHR ''/'' \<in> set r
              then Some (takeWhile (\<lambda>c. c \<noteq> CHR ''/'') r, tl (dropWhile (\<lambda>c. c \<noteq> CHR ''/'') r)) else None
      else None)"

definition job_objects :: "json \<Rightarrow> (string \<times> string) list" where
  "job_objects j = concat (map (\<lambda>e. case job_target e of None \<Rightarrow> [] | Some p \<Rightarrow> [p]) (config_env j))"

lemma json_strs_strings [simp]: "json_strs (json_strings xs) = xs"
  by (induction xs) (simp_all add: json_strs_def json_strings_def)

lemma config_binds_api [simp]: "config_binds (container_config_to_api c) = hc_binds (cc_host_config c)"
  by (simp add: config_binds_def json_field_def container_config_to_api_def host_config_to_api_def)

lemma config_env_api [simp]: "config_env (container_config_to_api c) = cc_env c"
  by (simp add: config_env_def json_field_def container_config_to_api_def) (simp add: json_strs_def)

lemma job_objects_archive:
  "is_archive_job rt b k j \<Longrightarrow> (b, k) \<in> set (job_objects j)"
proof -
  assume "is_archive_job rt b k j"
  then obtain e where e: "e \<in> set (config_env j)" "e = ''ARCHIVE_URL=s3://'' @ b @ ''/'' @ k" "CHR ''/'' \<notin> set b"
    by (auto simp: is_archive_job_def)
  have "job_target e = Some (b, k)"
    using e(3) by (simp add: e(2) job_target_def Let_def takeWhile_append dropWhile_append)
  with e(1) show ?thesis by (force simp: job_objects_def)
qed

section \<open>The engine\<close>

definition reply :: "int \<Rightarrow> json option \<Rightarrow> http_response" where
  "reply st j = \<lparr>rs_status = st, rs_json = j, rs_content = []\<rparr>"

text \<open>The middle of a path, between a beginning and an end.\<close>

definition between_path :: "string \<Rightarrow> string \<Rightarrow> string \<Rightarrow> string option" where
  "between_path p q s =
     (if prefix p s \<and> suffix q (drop (length p) s) then Some (take (length s - length p - length q) (drop (length p) s))
      else None)"

lemma between_path_append [simp]: "between_path p q (p @ n @ q) = Some n"
  by (simp add: between_path_def suffix_def)

lemma between_path_Some: "between_path p q s = Some n \<Longrightarrow> s = p @ n @ q"
  by (auto simp: between_path_def prefix_def suffix_def split: if_splits)

definition lookup_container :: "mem_world \<Rightarrow> string \<Rightarrow> (json \<times> bool) option" where
  "lookup_container w n = (if valid_name n then map_of (mw_containers w) n else None)"

definition put_container :: "string \<Rightarrow> json \<times> bool \<Rightarrow> mem_world \<Rightarrow> mem_world" where
  "put_container n c w = w\<lparr>mw_containers := (n, c) # mw_containers w\<rparr>"

definition drop_container :: "string \<Rightarrow> mem_world \<Rightarrow> mem_world" where
  "drop_container n w = w\<lparr>mw_containers := AList.delete n (mw_containers w)\<rparr>"

definition is_running :: "(json \<times> bool) option \<Rightarrow> bool" where
  "is_running c = (case c of None \<Rightarrow> False | Some (_, b) \<Rightarrow> b)"

definition list_containers :: "mem_world \<Rightarrow> json" where
  "list_containers w = JArr (map (\<lambda>n. JObj
     [(''Names'', JArr [JStr (CHR ''/'' # n)]),
      (''State'', JStr (if is_running (lookup_container w n) then ''running'' else ''exited'')),
      (''Status'', JStr [])]) (filter (\<lambda>n. lookup_container w n \<noteq> None) (map fst (mw_containers w))))"

definition list_volumes_json :: "mem_world \<Rightarrow> json" where
  "list_volumes_json w = JObj [(''Volumes'', JArr (map (\<lambda>n. JObj [(''Name'', JStr n)]) (mw_volumes w)))]"

definition mem_get :: "http_request \<Rightarrow> mem_world \<Rightarrow> http_response" where
  "mem_get rq w =
     (if rq_path rq = ''/containers/json'' then reply 200 (Some (list_containers w))
      else if rq_path rq = ''/volumes'' then reply 200 (Some (list_volumes_json w))
      else case between_path ''/containers/'' ''/json'' (rq_path rq) of
        Some n \<Rightarrow> (case lookup_container w n of
            None \<Rightarrow> reply 404 None | Some _ \<Rightarrow> reply 200 (Some (JObj [(''Name'', JStr n)])))
      | None \<Rightarrow> reply 200 (Some (JObj [])))"

definition mem_create :: "http_request \<Rightarrow> mem_world \<Rightarrow> http_response \<times> mem_world" where
  "mem_create rq w =
     (case (map_of (rq_params rq) ''name'', rq_json rq) of
        (Some n, Some j) \<Rightarrow>
          if \<not> (valid_name n \<and> list_all valid_bind (config_binds j)) then (reply 400 None, w)
          else if lookup_container w n \<noteq> None then (reply 409 None, w)
          else (reply 201 (Some (JObj [])),
                put_container n (j, False) (w\<lparr>mw_volumes := map bind_source (config_binds j) @ mw_volumes w\<rparr>))
      | _ \<Rightarrow> (reply 400 None, w))"

definition mem_start :: "string \<Rightarrow> mem_world \<Rightarrow> http_response \<times> mem_world" where
  "mem_start n w =
     (case lookup_container w n of
        None \<Rightarrow> (reply 404 None, w)
      | Some (j, _) \<Rightarrow> (reply 204 None, put_container n (j, True) w))"

definition mem_stop :: "string \<Rightarrow> mem_world \<Rightarrow> http_response \<times> mem_world" where
  "mem_stop n w =
     (case lookup_container w n of
        None \<Rightarrow> (reply 404 None, w)
      | Some (j, _) \<Rightarrow> (reply 204 None, put_container n (j, False) w))"

definition mem_wait :: "string \<Rightarrow> mem_world \<Rightarrow> http_response \<times> mem_world" where
  "mem_wait n w =
     (case lookup_container w n of
        None \<Rightarrow> (reply 404 None, w)
      | Some (j, _) \<Rightarrow> (reply 200 (Some (JObj [(''StatusCode'', JInt 0)])),
          put_container n (j, False) (w\<lparr>mw_objects := job_objects j @ mw_objects w\<rparr>)))"

definition mem_post :: "http_request \<Rightarrow> mem_world \<Rightarrow> http_response \<times> mem_world" where
  "mem_post rq w =
     (if rq_path rq = ''/containers/create'' then mem_create rq w
      else if rq_path rq = ''/volumes/create''
        then (case map_option (json_field ''Name'') (rq_json rq) of
               Some (JStr n) \<Rightarrow> (reply 201 None, w\<lparr>mw_volumes := n # mw_volumes w\<rparr>)
             | _ \<Rightarrow> (reply 400 None, w))
      else case between_path ''/containers/'' ''/start'' (rq_path rq) of Some n \<Rightarrow> mem_start n w
      | None \<Rightarrow> (case between_path ''/containers/'' ''/stop'' (rq_path rq) of Some n \<Rightarrow> mem_stop n w
      | None \<Rightarrow> (case between_path ''/containers/'' ''/wait'' (rq_path rq) of Some n \<Rightarrow> mem_wait n w
      | None \<Rightarrow> (reply 200 None, w))))"

definition mem_delete :: "http_request \<Rightarrow> mem_world \<Rightarrow> http_response \<times> mem_world" where
  "mem_delete rq w =
     (case between_path ''/containers/'' [] (rq_path rq) of
        Some n \<Rightarrow> (reply 204 None, drop_container n w)
      | None \<Rightarrow> (case between_path ''/volumes/'' [] (rq_path rq) of
          Some n \<Rightarrow> (reply 204 None, w\<lparr>mw_volumes := removeAll n (mw_volumes w)\<rparr>)
        | None \<Rightarrow> (reply 404 None, w)))"

definition mem_http :: "mem_world http" where
  "mem_http rq w =
     (if rq_method rq = ''GET'' then (Inr (mem_get rq w), w)
      else if rq_method rq = ''POST'' then (case mem_post rq w of (r, w') \<Rightarrow> (Inr r, w'))
      else if rq_method rq = ''DELETE'' then (case mem_delete rq w of (r, w') \<Rightarrow> (Inr r, w'))
      else (Inr (reply 405 None), w))"

definition mem_view :: "mem_world docker_view" where
  "mem_view =
     \<lparr>dv_container = (\<lambda>w n. map_option fst (lookup_container w n)),
      dv_running = (\<lambda>w n. is_running (lookup_container w n)),
      dv_volume = (\<lambda>w n. n \<in> set (mw_volumes w)),
      dv_object = (\<lambda>w b k. (b, k) \<in> set (mw_objects w))\<rparr>"

definition mem_s3 :: "mem_world s3_client" where
  "mem_s3 =
     \<lparr>s3_paginate = (\<lambda>b p w. (Inr [Some (map (\<lambda>(_, k). \<lparr>so_key = k, so_last_modified = 0\<rparr>)
          (filter (\<lambda>(b', k). b' = b \<and> py_startswith k p) (mw_objects w)))], w)),
      s3_put_object = (\<lambda>b k body w. (Inr (), w\<lparr>mw_objects := (b, k) # mw_objects w\<rparr>)),
      s3_delete_objects = (\<lambda>b ks w. (Inr (), w\<lparr>mw_objects := filter (\<lambda>(b', k). b' \<noteq> b \<or> k \<notin> set ks) (mw_objects w)\<rparr>))\<rparr>"

text \<open>An id no container name is as long as.\<close>

definition mem_uuid :: "(mem_world, string) io" where
  "mem_uuid w = (Inr (replicate (sum_list (map (\<lambda>c. length (fst c)) (mw_containers w))) (CHR ''0'')), w)"

definition mem_backend :: "mem_world \<Rightarrow> mem_world backend" where
  "mem_backend w =
     \<lparr>bk_http = mem_http, bk_s3 = mem_s3, bk_uuid = mem_uuid, bk_view = mem_view, bk_world = w\<rparr>"

section \<open>It obeys the laws\<close>

lemma mem_view_simps [simp]:
  "dv_container mem_view w n = map_option fst (lookup_container w n)"
  "dv_running mem_view w n = is_running (lookup_container w n)"
  "dv_volume mem_view w n \<longleftrightarrow> n \<in> set (mw_volumes w)"
  "dv_object mem_view w b k \<longleftrightarrow> (b, k) \<in> set (mw_objects w)"
  by (simp_all add: mem_view_def)

lemma is_running_simps [simp]: "\<not> is_running None" "is_running (Some (j, b)) = b"
  by (simp_all add: is_running_def)

lemma lookup_put [simp]:
  "lookup_container (put_container n c w) m = (if m = n \<and> valid_name n then Some c else lookup_container w m)"
  by (auto simp: lookup_container_def put_container_def)

lemma put_container_rest [simp]:
  "mw_volumes (put_container n c w) = mw_volumes w" "mw_objects (put_container n c w) = mw_objects w"
  by (simp_all add: put_container_def)

lemma lookup_drop [simp]:
  "lookup_container (drop_container n w) m = (if m = n then None else lookup_container w m)"
  by (simp add: lookup_container_def drop_container_def delete_conv)

lemma drop_container_rest [simp]:
  "mw_volumes (drop_container n w) = mw_volumes w" "mw_objects (drop_container n w) = mw_objects w"
  by (simp_all add: drop_container_def)

lemma lookup_upd [simp]:
  "lookup_container (w\<lparr>mw_volumes := v\<rparr>) m = lookup_container w m"
  "lookup_container (w\<lparr>mw_objects := os\<rparr>) m = lookup_container w m"
  by (simp_all add: lookup_container_def)

lemma lookup_valid: "lookup_container w n = Some c \<Longrightarrow> valid_name n"
  by (simp add: lookup_container_def split: if_splits)

lemma mem_get_law: "mem_http rq w = (r, w') \<Longrightarrow> get_law mem_view rq w w'"
  by (auto simp: get_law_def mem_http_def)

lemma mem_container_list_law:
  assumes "mem_http rq w = (r, w')" shows "container_list_law mem_view rq r w"
  unfolding container_list_law_def
proof (intro allI impI)
  fix pfx resp
  assume "rq = (request ''GET'' ''/containers/json'')\<lparr>rq_params := [(''all'', ''true''), (''filters'', name_filter pfx)]\<rparr>
    \<and> r = Inr resp \<and> is_success (rs_status resp)"
  then have resp: "rs_json resp = Some (list_containers w)"
    using assms by (auto simp: mem_http_def mem_get_def request_def reply_def)
  let ?entry = "\<lambda>n. JObj [(''Names'', JArr [JStr (CHR ''/'' # n)]),
      (''State'', JStr (if is_running (lookup_container w n) then ''running'' else ''exited'')),
      (''Status'', JStr [])]"
  have entry: "describes mem_view w n (?entry n)" if "lookup_container w n = Some c" for n c
  proof -
    have "n \<noteq> [] \<and> hd n \<noteq> CHR ''/''"
      using lookup_valid [OF that] by (cases n) (auto simp: valid_name_def name_char_def)
    then show ?thesis using that by (simp add: describes_def)
  qed
  have known: "n \<in> set (map fst (mw_containers w))" if "lookup_container w n = Some c" for n c
    using that by (auto simp: lookup_container_def dest!: map_of_SomeD split: if_splits intro!: image_eqI [of _ fst])
  let ?xs = "map ?entry (filter (\<lambda>n. lookup_container w n \<noteq> None) (map fst (mw_containers w)))"
  have "\<exists>n. describes mem_view w n x" if "x \<in> set ?xs" for x
  proof -
    from that obtain n where "x = ?entry n" "lookup_container w n \<noteq> None" unfolding set_map set_filter by blast
    then show ?thesis using entry by blast
  qed
  moreover have "\<exists>x \<in> set ?xs. describes mem_view w n x" if "lookup_container w n = Some c" for n c
    using entry [OF that] by (rule bexI) (use known [OF that] that in \<open>simp add: image_iff\<close>)
  then have "\<forall>n. dv_container mem_view w n \<noteq> None \<and> py_startswith n pfx \<longrightarrow> (\<exists>x \<in> set ?xs. describes mem_view w n x)"
    unfolding mem_view_simps by fastforce
  moreover have "rs_json resp = Some (JArr ?xs)" using resp by (simp add: list_containers_def)
  ultimately show "\<exists>xs. rs_json resp = Some (JArr xs) \<and> (\<forall>x \<in> set xs. \<exists>n. describes mem_view w n x)
      \<and> (\<forall>n. dv_container mem_view w n \<noteq> None \<and> py_startswith n pfx \<longrightarrow> (\<exists>x \<in> set xs. describes mem_view w n x))"
    by blast
qed

lemma mem_volume_list_law:
  assumes "mem_http rq w = (r, w')" shows "volume_list_law mem_view rq r w"
  unfolding volume_list_law_def
proof (intro allI impI)
  fix pfx resp
  assume "rq = (request ''GET'' ''/volumes'')\<lparr>rq_params := [(''filters'', name_filter pfx)]\<rparr>
    \<and> r = Inr resp \<and> is_success (rs_status resp)"
  then have "rs_json resp = Some (list_volumes_json w)"
    using assms by (auto simp: mem_http_def mem_get_def request_def reply_def)
  then show "\<exists>d xs. rs_json resp = Some (JObj d) \<and> map_of d ''Volumes'' = Some (JArr xs)
            \<and> (\<forall>x \<in> set xs. \<exists>e n. x = JObj e \<and> map_of e ''Name'' = Some (JStr n) \<and> dv_volume mem_view w n)
            \<and> (\<forall>n. dv_volume mem_view w n \<and> py_startswith n pfx \<longrightarrow>
                 (\<exists>e. JObj e \<in> set xs \<and> map_of e ''Name'' = Some (JStr n)))"
    by (intro exI [of _ "[(''Volumes'', JArr (map (\<lambda>n. JObj [(''Name'', JStr n)]) (mw_volumes w)))]"]
          exI [of _ "map (\<lambda>n. JObj [(''Name'', JStr n)]) (mw_volumes w)"])
       (auto simp: list_volumes_json_def intro: exI [of _ "[(''Name'', JStr n)]" for n])
qed

lemma mem_image_law: "mem_http rq w = (r, w') \<Longrightarrow> image_law mem_view rq w w'"
  by (auto simp: image_law_def mem_http_def mem_post_def between_path_def split: prod.splits)

text \<open>How the engine answers the requests of the client.\<close>

lemma slash_path: "CHR ''/'' \<notin> set s \<Longrightarrow> n @ CHR ''/'' # x \<noteq> s"
  by auto

lemma path_not_create: "container_path n (CHR ''/'' # x) \<noteq> ''/containers/create''"
    "container_path n (CHR ''/'' # x) \<noteq> ''/volumes/create''"
  using slash_path [of "''create''" n x] by (simp_all add: container_path_def)

lemma between_container:
  "between_path ''/containers/'' q (container_path n q) = Some n"
  using between_path_append [of "''/containers/''" q n] by (simp add: container_path_def)

lemma path_apart:
  "between_path ''/containers/'' ''/start'' (container_path n ''/stop'') = None"
  "between_path ''/containers/'' ''/start'' (container_path n ''/wait'') = None"
  "between_path ''/containers/'' ''/stop'' (container_path n ''/wait'') = None"
  "between_path ''/containers/'' [] (volume_path n) = None"
  by (simp_all add: between_path_def suffix_def container_path_def volume_path_def)

lemma mem_http_method:
  "rq_method rq = ''POST'' \<Longrightarrow> mem_http rq w = (Inr (fst (mem_post rq w)), snd (mem_post rq w))"
  "rq_method rq = ''DELETE'' \<Longrightarrow> mem_http rq w = (Inr (fst (mem_delete rq w)), snd (mem_delete rq w))"
  by (simp_all add: mem_http_def split: prod.split)

lemma request_simps: "rq_method (request m p) = m" "rq_path (request m p) = p"
  by (simp_all add: request_def)

lemma mem_http_paths:
  "mem_http (request ''POST'' (container_path n ''/start'')) w = (Inr (fst (mem_start n w)), snd (mem_start n w))"
  "mem_http (request ''POST'' (container_path n ''/wait'')) w = (Inr (fst (mem_wait n w)), snd (mem_wait n w))"
  "rq_method rq = ''POST'' \<Longrightarrow> rq_path rq = container_path n ''/stop'' \<Longrightarrow>
     mem_http rq w = (Inr (fst (mem_stop n w)), snd (mem_stop n w))"
  "rq_method rq = ''DELETE'' \<Longrightarrow> rq_path rq = container_path n [] \<Longrightarrow>
     mem_http rq w = (Inr (reply 204 None), drop_container n w)"
  by (simp_all add: mem_http_method mem_post_def mem_delete_def request_simps path_not_create path_apart between_container)

lemma mem_http_volume:
  "mem_http (request ''DELETE'' (volume_path n)) w
     = (Inr (reply 204 None), w\<lparr>mw_volumes := removeAll n (mw_volumes w)\<rparr>)"
proof -
  have "between_path ''/volumes/'' [] (volume_path n) = Some n"
    using between_path_append [of "''/volumes/''" "[]" n] by (simp add: volume_path_def)
  then show ?thesis by (simp add: mem_http_method mem_delete_def request_simps path_apart)
qed

lemma mem_create_law: "mem_http rq w = (r, w') \<Longrightarrow> create_law mem_view rq r w w'"
  by (auto simp: create_law_def mem_http_method mem_post_def mem_create_def request_def reply_def is_success_def
      frame_def split: if_splits; blast)

lemma mem_start_law: "mem_http rq w = (r, w') \<Longrightarrow> start_law mem_view rq r w w'"
  by (auto simp: start_law_def mem_http_paths mem_start_def reply_def is_success_def frame_def lookup_valid
      split: option.splits if_splits; blast)

lemma mem_stop_law: "mem_http rq w = (r, w') \<Longrightarrow> stop_law mem_view rq w w'"
  by (auto simp: stop_law_def mem_http_paths mem_stop_def frame_def lookup_valid
      split: option.splits if_splits; blast)

lemma mem_remove_law: "mem_http rq w = (r, w') \<Longrightarrow> remove_law mem_view rq r w w'"
  by (auto simp: remove_law_def mem_http_paths frame_def split: if_splits)

lemma mem_wait_law: "mem_http rq w = (r, w') \<Longrightarrow> wait_law mem_view rt rq r w w'"
  by (auto simp: wait_law_def mem_http_paths mem_wait_def frame_def reply_def is_success_def lookup_valid
      dest!: job_objects_archive split: option.splits if_splits; blast)

lemma mem_volume_create_law: "mem_http rq w = (r, w') \<Longrightarrow> volume_create_law mem_view rq r w w'"
  by (auto simp: volume_create_law_def mem_http_method mem_post_def request_def json_field_def volume_config_to_api_def
      frame_def)

lemma mem_volume_remove_law: "mem_http rq w = (r, w') \<Longrightarrow> volume_remove_law mem_view rq r w w'"
  by (auto simp: volume_remove_law_def mem_http_volume frame_def)

lemma mem_engine_ok: "engine_ok default_runtime default_storage (mem_backend w)"
proof -
  have "http_laws mem_view default_runtime mem_http"
    unfolding http_laws_def docker_step_def
    by (intro allI impI conjI)
       (erule mem_get_law mem_container_list_law mem_volume_list_law mem_image_law mem_create_law mem_start_law
         mem_stop_law mem_remove_law mem_wait_law mem_volume_create_law mem_volume_remove_law)+
  moreover have "s3_laws mem_view mem_s3"
    by (auto simp: s3_laws_def mem_s3_def paginate_law_def put_law_def delete_objects_law_def frame_def mem_view_def
        image_iff still_def)
  moreover have "lookup_container w n = None"
    if "sum_list (map (\<lambda>c. length (fst c)) (mw_containers w)) < length n" for w n
  proof (rule ccontr)
    assume "lookup_container w n \<noteq> None"
    then obtain c where "(n, c) \<in> set (mw_containers w)"
      by (auto simp: lookup_container_def dest: map_of_SomeD split: if_splits)
    then have "length n \<le> sum_list (map (\<lambda>c. length (fst c)) (mw_containers w))"
      using member_le_sum_list [of "length n" "map (\<lambda>c. length (fst c)) (mw_containers w)"] by force
    with that show False by simp
  qed
  then have "uuid_laws mem_view mem_uuid" by (simp add: uuid_laws_def uuid_law_def mem_uuid_def)
  moreover have "view_ok mem_view" by (auto simp: view_ok_def is_running_def split: option.splits)
  ultimately show ?thesis by (simp add: engine_ok_def mem_backend_def settings_ok_defaults)
qed

end
