(* ===== verification/Guarantees.thy ===== *)
theory Guarantees
  imports Reference Workspaces Observer Scheduler Controller
begin

text \<open>
  What the coordinators guarantee on the Docker and S3 adapters: the facts of the contract locales, read
  through the interpretation of Backend.thy, and witnesses on the reference backend.
\<close>

abbreviation docker_ic :: "runtime_config \<Rightarrow> docker_config \<Rightarrow> 'w backend instance_controller" where
  "docker_ic rt dk \<equiv> docker_instance_controller send rt dk"

abbreviation docker_sp ::
  "runtime_config \<Rightarrow> docker_config \<Rightarrow> storage_config \<Rightarrow> codecs \<Rightarrow> 'w backend storage_provider" where
  "docker_sp rt dk st cd \<equiv>
     s3_storage_provider (docker_volume_provider send) (docker_job_runner send rt dk backend_uuid) backend_s3 cd rt st"

abbreviation docker_pf :: "runtime_config \<Rightarrow> storage_config \<Rightarrow> 'w backend platform" where
  "docker_pf rt st \<equiv> docker_platform backend_view rt st"

definition backend_ok :: "runtime_config \<Rightarrow> storage_config \<Rightarrow> 'w backend \<Rightarrow> bool" where
  "backend_ok rt st b \<longleftrightarrow> engine_ok rt st b \<and> homes_named backend_view rt b"

text \<open>What others may do to the platform during the waits of an execution for workspace \<open>i\<close>: anything
  but its own container and volume, and no archive goes.\<close>

definition others_elsewhere ::
  "runtime_config \<Rightarrow> storage_config \<Rightarrow> string \<Rightarrow> 'w backend env \<Rightarrow> bool" where
  "others_elsewhere rt st i env \<longleftrightarrow>
     env_steps (\<lambda>s t. backend_ok rt st s \<longrightarrow> backend_ok rt st t \<and> touches (docker_pf rt st) (- {i}) (- {i}) s t) env"

section \<open>The executor\<close>

lemma persisted_archive_key:
  "pa_archive_key a = Some k \<Longrightarrow> ws_archive_key (persisted ti ws a w) = Some k"
  by (simp add: persisted_def cas_columns_def persist_values_def Let_def split: if_splits)





text \<open>Engines that answer every request to remove a container.\<close>

definition removals_answered :: "'w http \<Rightarrow> bool" where
  "removals_answered http \<longleftrightarrow> (\<forall>rq w. rq_method rq = ''DELETE'' \<longrightarrow>
     (\<exists>resp w'. http rq w = (Inr resp, w') \<and> (is_success (rs_status resp) \<or> rs_status resp = 404)))"

lemma through_client: "through f b = (r, b') \<Longrightarrow> bk_http b' = bk_http b"
  by (auto simp: through_eq)

lemma client_kept:
  "send rq b = (r, b') \<Longrightarrow> bk_http b' = bk_http b"
  "s3_paginate backend_s3 bu p b = (rp, b') \<Longrightarrow> bk_http b' = bk_http b"
  "s3_put_object backend_s3 bu k body b = (ru, b') \<Longrightarrow> bk_http b' = bk_http b"
  "s3_delete_objects backend_s3 bu ks b = (ru, b') \<Longrightarrow> bk_http b' = bk_http b"
  "backend_uuid b = (rs, b') \<Longrightarrow> bk_http b' = bk_http b"
  by (auto simp: send_def backend_s3_def backend_uuid_def dest: through_client)

interpretation removing: docker_engine send backend_s3 backend_uuid backend_view rt dk st cd
  "\<lambda>b. engine_ok rt st b \<and> removals_answered (bk_http b)" for rt dk st cd
proof (unfold_locales, goal_cases)
  case (1 s)
  then show ?case using engine.settings by blast
next
  case (2 s n)
  then show ?case using engine.running_exists by blast
next
  case (3 s rq r t)
  then show ?case using engine.http_step [of rt st s rq r t] client_kept(1) [OF 3(2)] by simp
next
  case (4 s b p r t)
  then show ?case using engine.paginate [of rt st s b p r t] client_kept(2) [OF 4(2)] by simp
next
  case (5 s b k body r t)
  then show ?case using engine.put [of rt st s b k body r t] client_kept(3) [OF 5(2)] by simp
next
  case (6 s b ks r t)
  then show ?case using engine.delete_objects [of rt st s b ks r t] client_kept(4) [OF 6(2)] by simp
next
  case (7 s r t)
  then show ?case using engine.fresh_id [of rt st s r t] client_kept(5) [OF 7(2)] by simp
qed


section \<open>The observer and the collector\<close>



section \<open>Witnesses on the reference backend\<close>

definition mem_env :: "mem_world backend env" where
  "mem_env = \<lparr>env_time = (\<lambda>_. 0), env_random = (\<lambda>s. (0, s)), env_sleep = (\<lambda>_. io_return ())\<rparr>"

definition mem_codecs :: codecs where
  "mem_codecs = \<lparr>zstd_compress = id, sha256_hexdigest = (\<lambda>_. ''0'')\<rparr>"

text \<open>A world with the home of workspace \<open>a\<close> and its running container, and a container of workspace \<open>b\<close>
  that no row claims.\<close>

definition sample_config :: json where
  "sample_config = container_config_to_api (workspace_container default_runtime default_docker ''a'' ''img'')"

definition sample_world :: mem_world where
  "sample_world =
     \<lparr>mw_containers = [(''codehub-ws-a'', (sample_config, True)), (''codehub-ws-b'', (sample_config, False))],
      mw_volumes = [''codehub-ws-a-home''], mw_objects = []\<rparr>"

lemma mem_env_steps: "(\<And>s. R s s) \<Longrightarrow> env_steps R mem_env"
  by (simp add: env_steps_def mem_env_def io_return_def)

lemma mem_backend_ok:
  assumes "\<And>n. n \<in> set (mw_volumes w) \<Longrightarrow> \<exists>i. n = volume_name default_runtime i"
  shows "backend_ok default_runtime default_storage (mem_backend w)"
  using mem_engine_ok [of w] assms by (simp add: backend_ok_def homes_named_def mem_backend_def)

lemma sample_home: "''codehub-ws-a-home'' = volume_name default_runtime ''a''"
  by (simp add: volume_name_def default_runtime_def)

lemma sample_ok: "backend_ok default_runtime default_storage (mem_backend sample_world)"
  by (rule mem_backend_ok) (use sample_home in \<open>auto simp: sample_world_def\<close>)

lemma sample_volume: "pf_volume (docker_pf default_runtime st) (mem_backend sample_world) ''a''"
  by (simp add: mem_backend_def sample_world_def sample_home [symmetric])

abbreviation sample_run :: "operation \<Rightarrow> (exn + workspace \<times> plan_action) \<times> registry \<times> mem_world backend" where
  "sample_run oper \<equiv>
     execute_one mem_env (docker_ic default_runtime default_docker)
       (docker_sp default_runtime default_docker default_storage mem_codecs) (\<lambda>_. ''op-1'')
       (sample_ws ''a'' phase.STANDBY desired_state.ARCHIVED) (PlanAction oper phase.STANDBY)
       ([], mem_backend sample_world)"

definition sample_inputs :: tick_inputs where
  "sample_inputs =
     \<lparr>ti_plan_now = (\<lambda>_. 0), ti_plan_uuid = (\<lambda>_. ''p''), ti_persist_now = (\<lambda>_. 0), ti_persist_uuid = (\<lambda>_. ''q''),
      ti_db_now = (\<lambda>_. 0)\<rparr>"

lemma sample_ws_id [simp]: "ws_id (sample_ws i p d) = i"
  by (simp add: sample_ws_def new_workspace_def)

lemma PlanAction_operation [simp]: "pa_operation (PlanAction oper p) = oper"
  by (simp add: PlanAction_def)




lemma send_mem:
  "send rq (mem_backend w) = (fst (mem_http rq w), mem_backend (snd (mem_http rq w)))"
  by (simp add: send_def through_def mem_backend_def split: prod.split)


lemma mem_removals: "removals_answered mem_http"
  by (auto simp: removals_answered_def mem_http_def mem_delete_def reply_def is_success_def
      split: prod.split option.split)


definition reconcile_sample :: "mem_world backend controller" where
  "reconcile_sample =
     \<lparr>wc_db = sample_db [sample_ws ''a'' phase.STANDBY desired_state.ARCHIVED, sample_ws ''b'' phase.STANDBY desired_state.STANDBY],
      wc_registry = [], wc_world = mem_backend sample_world\<rparr>"

abbreviation sample_reconcile :: "(exn + unit) \<times> mem_world backend controller" where
  "sample_reconcile \<equiv>
     reconcile sample_inputs mem_env (docker_ic default_runtime default_docker)
       (docker_sp default_runtime default_docker default_storage mem_codecs) (\<lambda>_. ''op-1'') 600 reconcile_sample"

theorem reconcile_keeps_rows_ok_witness:
  "db_inv (all_workspaces row_ok) (wc_db (snd sample_reconcile))"
  by (rule reconcile_keeps_rows_ok)
     (simp add: reconcile_sample_def sample_db_def db_of_def db_inv_def all_workspaces_def row_ok_def sample_ws_def
       new_workspace_def)

theorem reconcile_is_pointwise_witness:
  "list_all2 (\<lambda>w w'. if needs_reconcile w
          then \<exists>b. same_plan (judge_and_plan sample_inputs 600 w) b \<and> w' = persisted sample_inputs w b w
          else w' = w)
     [sample_ws ''a'' phase.STANDBY desired_state.ARCHIVED, sample_ws ''b'' phase.STANDBY desired_state.STANDBY]
     (tb_workspaces (db_tables (wc_db (snd sample_reconcile))))"
proof -
  have hyps: "db_ok (wc_db reconcile_sample)" "keys_ok (db_tables (wc_db reconcile_sample))"
      "db_committed (wc_db reconcile_sample) = db_tables (wc_db reconcile_sample)"
    by (simp_all add: reconcile_sample_def sample_db_def db_of_def db_ok_def keys_ok_def)
  have rows: "tb_workspaces (db_tables (wc_db reconcile_sample))
        = [sample_ws ''a'' phase.STANDBY desired_state.ARCHIVED, sample_ws ''b'' phase.STANDBY desired_state.STANDBY]"
    by (simp add: reconcile_sample_def sample_db_def db_of_def)
  obtain s' where s': "sample_reconcile = (Inr (), s')"
      "list_all2 (\<lambda>w w'. if needs_reconcile w
          then \<exists>b. same_plan (judge_and_plan sample_inputs 600 w) b \<and> w' = persisted sample_inputs w b w
          else w' = w) (tb_workspaces (db_tables (wc_db reconcile_sample))) (tb_workspaces (db_tables (wc_db s')))"
    using reconcile_is_pointwise [OF hyps] by blast
  show ?thesis using s'(2) unfolding rows s'(1) snd_conv .
qed

definition observer_sample :: "mem_world backend observer" where
  "observer_sample = \<lparr>ob_db = sample_db [sample_ws ''a'' phase.STANDBY desired_state.STANDBY],
     ob_world = mem_backend sample_world\<rparr>"

abbreviation sample_observation :: "(exn + observation) \<times> mem_world backend" where
  "sample_observation \<equiv>
     observe_all (docker_ic default_runtime default_docker)
       (docker_sp default_runtime default_docker default_storage mem_codecs) ''codehub-ws-'' (mem_backend sample_world)"

theorem observer_all_or_nothing_witness:
  "\<exists>obs. fst sample_observation = Inr obs
    \<and> tb_workspaces (db_tables (ob_db (snd (observer_reconcile 7 (docker_ic default_runtime default_docker)
         (docker_sp default_runtime default_docker default_storage mem_codecs) ''codehub-ws-'' observer_sample))))
      = [observed_row 7 obs (sample_ws ''a'' phase.STANDBY desired_state.STANDBY)]"
proof -
  obtain obs where obs: "fst sample_observation = Inr obs"
    using observe_all_returns [of "docker_ic default_runtime default_docker"] by (metis fst_conv)
  have "db_ok (ob_db observer_sample)" "keys_ok (db_tables (ob_db observer_sample))"
      "db_committed (ob_db observer_sample) = db_tables (ob_db observer_sample)"
      "fst (observe_all (docker_ic default_runtime default_docker)
         (docker_sp default_runtime default_docker default_storage mem_codecs) ''codehub-ws-'' (ob_world observer_sample)) = Inr obs"
      "tb_workspaces (db_tables (ob_db observer_sample)) = [sample_ws ''a'' phase.STANDBY desired_state.STANDBY]"
    by (simp_all add: observer_sample_def sample_db_def db_of_def db_ok_def keys_ok_def obs)
  with observer_all_or_nothing [of observer_sample "docker_ic default_runtime default_docker"
      "docker_sp default_runtime default_docker default_storage mem_codecs" "''codehub-ws-''" obs 7] obs
  show ?thesis by auto
qed

text \<open>An observation of an engine without containers.\<close>

abbreviation idle_world :: mem_world where
  "idle_world \<equiv> \<lparr>mw_containers = [], mw_volumes = [''codehub-ws-a-home''], mw_objects = []\<rparr>"



end
