(* ===== verification/Convergence.thy ===== *)
theory Convergence
  imports Guarantees
begin

text \<open>
  The convergence of Lifecycle on the Docker and S3 adapters, with a run of the reference engine as its
  witness: a new workspace is provisioned.
\<close>

abbreviation docker_round ::
  "runtime_config \<Rightarrow> docker_config \<Rightarrow> storage_config \<Rightarrow> codecs \<Rightarrow> ('w backend \<Rightarrow> string) \<Rightarrow> seconds \<Rightarrow>
   workspace \<times> 'w backend \<Rightarrow> workspace \<times> 'w backend \<Rightarrow> bool" where
  "docker_round rt dk st cd \<equiv>
     lifecycle_round (docker_ic rt dk) (docker_sp rt dk st cd) (docker_pf rt st) (backend_ok rt st)
       (archive_workspace (resource_prefix rt))"

abbreviation docker_facts :: "runtime_config \<Rightarrow> storage_config \<Rightarrow> 'w backend \<Rightarrow> string \<Rightarrow> condition_input" where
  "docker_facts rt st \<equiv> facts (docker_pf rt st) (archive_workspace (resource_prefix rt))"

lemma archive_workspace_Nil: "archive_workspace pfx [] = None"
  by (simp add: archive_workspace_def py_endswith_def)


section \<open>A witness\<close>

abbreviation new_ws :: workspace where
  "new_ws \<equiv> sample_ws ''a'' phase.PENDING desired_state.STANDBY"

abbreviation empty_world :: mem_world where
  "empty_world \<equiv> \<lparr>mw_containers = [], mw_volumes = [], mw_objects = []\<rparr>"

abbreviation mem_round :: "workspace \<times> mem_world backend \<Rightarrow> workspace \<times> mem_world backend \<Rightarrow> bool" where
  "mem_round \<equiv> docker_round default_runtime default_docker default_storage mem_codecs (\<lambda>_. ''op-1'') 600"

definition seen :: "bool \<Rightarrow> conditions" where
  "seen x = no_conditions\<lparr>cond_volume := Some \<lparr>vi_workspace_id = ''a'', vi_exists = x, vi_reason = '''', vi_message = ''''\<rparr>\<rparr>"

lemma provision_mem:
  "pa_operation a = PROVISIONING \<Longrightarrow>
   execute (docker_ic default_runtime default_docker)
     (docker_sp default_runtime default_docker default_storage mem_codecs) (\<lambda>_. ''op-1'') (new_ws\<lparr>ws_conditions := c\<rparr>)
     (mem_backend empty_world, a) = (Inr (), (mem_backend idle_world, a))"
  by (simp add: execute_def execute_branch_def io_fst_def s3_storage_provider_def storage_provision_def
        docker_volume_provider_def volume_create_def io_bind_def send_mem mem_http_method mem_post_def request_def
        json_field_def volume_config_to_api_def volume_config_def reply_def raise_for_status_def is_success_def
        io_return_def volume_name_def default_runtime_def)

lemma idle_ok: "backend_ok default_runtime default_storage (mem_backend idle_world)"
  by (rule mem_backend_ok) (use sample_home in auto)

lemma empty_ok: "backend_ok default_runtime default_storage (mem_backend empty_world)"
  by (rule mem_backend_ok) simp

lemma mem_facts:
  "docker_facts default_runtime default_storage (mem_backend empty_world) ''a''
     = \<lparr>container_ready = False, volume_ready = False, archive_ready = False\<rparr>"
  "docker_facts default_runtime default_storage (mem_backend idle_world) ''a''
     = \<lparr>container_ready = False, volume_ready = True, archive_ready = False\<rparr>"
  by (simp_all add: facts_def mem_backend_def mem_view_def sample_home [symmetric] lookup_container_def is_running_def)

definition provisioning_ws :: workspace where
  "provisioning_ws = persisted sample_inputs (new_ws\<lparr>ws_conditions := no_conditions\<rparr>)
     ((PlanAction PROVISIONING phase.PENDING)\<lparr>pa_op_id := Some ''p''\<rparr>) (new_ws\<lparr>ws_conditions := no_conditions\<rparr>)"

definition standby_ws :: workspace where
  "standby_ws = persisted sample_inputs (provisioning_ws\<lparr>ws_conditions := seen True\<rparr>)
     ((PlanAction NONE phase.STANDBY)\<lparr>pa_complete := True\<rparr>) (provisioning_ws\<lparr>ws_conditions := seen True\<rparr>)"

lemmas sample_row_simps = sample_ws_def new_workspace_def persisted_def cas_columns_def persist_values_def PlanAction_def
  sample_inputs_def

lemma first_round: "mem_round (new_ws, mem_backend empty_world) (provisioning_ws, mem_backend idle_world)"
proof -
  let ?w = "new_ws\<lparr>ws_conditions := no_conditions\<rparr>" and ?a = "(PlanAction PROVISIONING phase.PENDING)\<lparr>pa_op_id := Some ''p''\<rparr>"
  have plan: "judge_and_plan sample_inputs 600 ?w = ?a"
    by (simp add: judge_and_plan_def plan_def from_workspace_def judge_def check_invariants_def select_operation_def
        Let_def sample_ws_def new_workspace_def sample_inputs_def)
  have "worked (docker_ic default_runtime default_docker)
      (docker_sp default_runtime default_docker default_storage mem_codecs) (\<lambda>_. ''op-1'') ?w
      (mem_backend empty_world, judge_and_plan sample_inputs 600 ?w) (mem_backend idle_world, ?a)"
    unfolding worked_def snd_conv plan
    by (rule if_P [THEN iffD2, OF _ provision_mem])
       (simp_all add: needs_execute_def PlanAction_def sample_ws_def new_workspace_def)
  moreover have "needs_reconcile new_ws" "in_time sample_inputs 600 ?w"
    by (simp_all add: needs_reconcile_def ws_live_def in_time_def sample_ws_def new_workspace_def)
  moreover have "from_conditions no_conditions = docker_facts default_runtime default_storage (mem_backend empty_world) (ws_id new_ws)"
    by (simp add: mem_facts(1))
  ultimately show ?thesis
    unfolding provisioning_ws_def
    by (intro Works [where c = no_conditions and ?s1.0 = "mem_backend empty_world" and ti = sample_inputs] empty_ok) simp_all
qed

lemma second_round: "mem_round (provisioning_ws, mem_backend idle_world) (standby_ws, mem_backend idle_world)"
proof -
  let ?w = "provisioning_ws\<lparr>ws_conditions := seen True\<rparr>" and ?a = "(PlanAction NONE phase.STANDBY)\<lparr>pa_complete := True\<rparr>"
  have plan: "judge_and_plan sample_inputs 600 ?w = ?a"
    by (simp add: judge_and_plan_def plan_def from_workspace_def judge_def check_invariants_def handle_in_progress_def
        check_completion_def Let_def provisioning_ws_def sample_row_simps seen_def from_conditions_def no_conditions_def)
  have id: "ws_id provisioning_ws = ''a''" by (simp add: provisioning_ws_def)
  have "worked (docker_ic default_runtime default_docker)
      (docker_sp default_runtime default_docker default_storage mem_codecs) (\<lambda>_. ''op-1'') ?w
      (mem_backend idle_world, judge_and_plan sample_inputs 600 ?w) (mem_backend idle_world, ?a)"
    by (simp add: worked_def plan needs_execute_def PlanAction_def)
  moreover have "needs_reconcile provisioning_ws" "in_time sample_inputs 600 ?w"
    by (simp_all add: needs_reconcile_def ws_live_def in_time_def provisioning_ws_def is_timeout_def sample_row_simps)
  moreover have "from_conditions (seen True) = docker_facts default_runtime default_storage (mem_backend idle_world) (ws_id provisioning_ws)"
    unfolding id mem_facts(2) by (simp add: seen_def from_conditions_def no_conditions_def)
  ultimately show ?thesis
    unfolding standby_ws_def
    by (intro Works [where c = "seen True" and ?s1.0 = "mem_backend idle_world" and ti = sample_inputs] idle_ok) simp_all
qed

lemma later_round: "mem_round (standby_ws\<lparr>ws_conditions := c\<rparr>, mem_backend idle_world)
    (standby_ws\<lparr>ws_conditions := seen True\<rparr>, mem_backend idle_world)"
proof -
  have "\<not> needs_reconcile (standby_ws\<lparr>ws_conditions := c\<rparr>)"
    by (simp add: needs_reconcile_def ws_live_def standby_ws_def provisioning_ws_def sample_row_simps)
  then show ?thesis
    using Rests [where w = "standby_ws\<lparr>ws_conditions := c\<rparr>" and ?s1.0 = "mem_backend idle_world" and c = "seen True"]
      idle_ok by simp
qed

lemma later_rounds: "(mem_round ^^ n) (standby_ws\<lparr>ws_conditions := seen True\<rparr>, mem_backend idle_world)
    (standby_ws\<lparr>ws_conditions := seen True\<rparr>, mem_backend idle_world)"
  by (induction n) (auto intro: relcomppI later_round)

lemma seven_rounds:
  "(mem_round ^^ 7) (new_ws, mem_backend empty_world) (standby_ws\<lparr>ws_conditions := seen True\<rparr>, mem_backend idle_world)"
proof -
  have "standby_ws\<lparr>ws_conditions := ws_conditions standby_ws\<rparr> = standby_ws" by simp
  then have third: "mem_round (standby_ws, mem_backend idle_world) (standby_ws\<lparr>ws_conditions := seen True\<rparr>, mem_backend idle_world)"
    using later_round [of "ws_conditions standby_ws"] by metis
  have "7 = Suc (Suc (Suc 4))" by simp
  then show ?thesis
    using relpowp_Suc_I2 [where P = mem_round, OF first_round
        relpowp_Suc_I2 [where P = mem_round, OF second_round
          relpowp_Suc_I2 [where P = mem_round, OF third later_rounds [of 4]]]] by (simp only:)
qed


end
