(* ===== verification/Leader.thy ===== *)
theory Leader
  imports Prelude "HOL-Library.Word"
begin

unbundle bit_operations_syntax

text \<open>
  infra/pg_leader.py and core/interfaces/leader.py: leader election by PostgreSQL advisory locks.  The
  connection is a parameter: it answers one of three queries, or raises (a \<open>TimeoutError\<close> when the time
  given to the query is over).  What the server does is stated over a view of the locks its sessions
  hold.  The \<open>asyncio.Lock\<close> of the class is never contended, since a coordinator calls its leader election
  from one task; it is not modelled.  sha256 is a parameter.
\<close>

section \<open>The lock id\<close>

text \<open>\<open>int.from_bytes(h[:8], "big") & 0x7FFFFFFFFFFFFFFF\<close>\<close>

definition int_from_bytes :: "8 word list \<Rightarrow> int" where
  "int_from_bytes bs = foldl (\<lambda>acc b. 256 * acc + uint b) 0 bs"

definition compute_lock_id :: "(string \<Rightarrow> 8 word list) \<Rightarrow> string \<Rightarrow> int" where
  "compute_lock_id sha256 lock_key = int_from_bytes (take 8 (sha256 lock_key)) AND 0x7FFFFFFFFFFFFFFF"

text \<open>pg_locks shows the upper and the lower half of a bigint key as two oids; the query of
  \<open>verify_holding\<close> puts them together again.\<close>

definition pg_classid :: "int \<Rightarrow> 32 word" where
  "pg_classid k = word_of_int (drop_bit 32 k)"

definition pg_objid :: "int \<Rightarrow> 32 word" where
  "pg_objid k = word_of_int k"

definition reassembled :: "32 word \<Rightarrow> 32 word \<Rightarrow> int" where
  "reassembled classid objid = push_bit 32 (uint classid) OR (uint objid AND 0xFFFFFFFF)"

text \<open>The lock id of every key is a non-negative bigint, so the server takes it as it is.\<close>
lemma lock_id_fits_bigint:
  "0 \<le> compute_lock_id sha256 key \<and> compute_lock_id sha256 key < 2 ^ 63"
proof -
  have "compute_lock_id sha256 key = take_bit 63 (int_from_bytes (take 8 (sha256 key)))"
    by (simp add: compute_lock_id_def take_bit_eq_mask mask_eq_exp_minus_1)
  then show ?thesis
    using take_bit_int_less_exp [of 63 "int_from_bytes (take 8 (sha256 key))"] by simp
qed

text \<open>The halves that pg_locks shows are put together to exactly the key: for keys in the range of
  the lock ids, the comparison in the query is equality of the keys.\<close>
theorem reassembled_halves_roundtrip:
  assumes "0 \<le> k" and "k < 2 ^ 63"
  shows "reassembled (pg_classid k) (pg_objid k) = k"
proof -
  have hi: "uint (pg_classid k) = drop_bit 32 k"
    using assms by (simp add: pg_classid_def uint_word_of_int drop_bit_eq_div)
  have mask: "x AND 0xFFFFFFFF = take_bit 32 x" for x :: int
    by (simp add: take_bit_eq_mask mask_eq_exp_minus_1)
  have lo: "uint (pg_objid k) AND 0xFFFFFFFF = take_bit 32 k"
    unfolding mask by (simp add: pg_objid_def uint_word_of_int take_bit_eq_mod)
  show ?thesis unfolding reassembled_def hi lo
    by (rule bit_eqI) (auto simp: bit_simps)
qed

theorem reassembled_halves_roundtrip_witness:
  "reassembled (pg_classid 0x7FFFFFFFFFFFFFFE) (pg_objid 0x7FFFFFFFFFFFFFFE) = 0x7FFFFFFFFFFFFFFE"
  by (rule reassembled_halves_roundtrip) simp_all

section \<open>One election\<close>

datatype pg_query = TryAdvisoryLock int | AdvisoryUnlock int | HoldsAdvisoryLock int

text \<open>\<open>result.fetchone()\<close>: the row's only column, or no row.\<close>

type_synonym 'd pg_conn = "pg_query \<Rightarrow> ('d, bool option) io"

record leader =
  ld_lock_id :: int
  ld_is_leader :: bool
  ld_was_leader :: bool

definition new_leader :: "(string \<Rightarrow> 8 word list) \<Rightarrow> string \<Rightarrow> leader" where
  "new_leader sha256 lock_key =
     \<lparr>ld_lock_id = compute_lock_id sha256 lock_key, ld_is_leader = False, ld_was_leader = False\<rparr>"

definition row_flag :: "bool option \<Rightarrow> bool" where
  "row_flag row = (case row of None \<Rightarrow> False | Some b \<Rightarrow> b)"

text \<open>A query whose time-out or error is logged and counts as \<open>dflt\<close>.\<close>

definition flag_query :: "'d pg_conn \<Rightarrow> pg_query \<Rightarrow> 'a \<Rightarrow> (bool \<Rightarrow> 'a) \<Rightarrow> ('d, 'a) io" where
  "flag_query conn q dflt f =
     io_try (io_bind (conn q) (\<lambda>row. io_return (f (row_flag row)))) (\<lambda>_. io_return dflt)"

definition try_acquire :: "'d pg_conn \<Rightarrow> (leader \<times> 'd, bool) io" where
  "try_acquire conn = (\<lambda>(l, d).
     if ld_is_leader l then (Inr True, (l, d))
     else (case flag_query conn (TryAdvisoryLock (ld_lock_id l)) False id d of
         (Inl e, d') \<Rightarrow> (Inl e, (l, d'))
       | (Inr acquired, d') \<Rightarrow>
           (Inr acquired, (l\<lparr>ld_is_leader := acquired, ld_was_leader := acquired\<rparr>, d'))))"

definition release_lock :: "'d pg_conn \<Rightarrow> (leader \<times> 'd, unit) io" where
  "release_lock conn = (\<lambda>(l, d).
     if \<not> ld_is_leader l then (Inr (), (l, d))
     else (case flag_query conn (AdvisoryUnlock (ld_lock_id l)) () (\<lambda>_. ()) d of
         (Inl e, d') \<Rightarrow> (Inl e, (l, d'))
       | (Inr _, d') \<Rightarrow> (Inr (), (l\<lparr>ld_is_leader := False\<rparr>, d'))))"

text \<open>A time-out or an error clears \<open>is_leader\<close> only; a lock that is gone clears \<open>was_leader\<close> too.\<close>

definition verify_holding :: "'d pg_conn \<Rightarrow> (leader \<times> 'd, bool) io" where
  "verify_holding conn = (\<lambda>(l, d).
     if \<not> ld_is_leader l then (Inr False, (l, d))
     else (case flag_query conn (HoldsAdvisoryLock (ld_lock_id l)) None Some d of
         (Inl e, d') \<Rightarrow> (Inl e, (l, d'))
       | (Inr None, d') \<Rightarrow> (Inr False, (l\<lparr>ld_is_leader := False\<rparr>, d'))
       | (Inr (Some True), d') \<Rightarrow> (Inr True, (l, d'))
       | (Inr (Some False), d') \<Rightarrow> (Inr False, (l\<lparr>ld_is_leader := False, ld_was_leader := False\<rparr>, d'))))"

section \<open>The interface of the coordinators\<close>

record 's leader_election =
  le_is_leader :: "'s \<Rightarrow> bool"
  le_try_acquire :: "('s, bool) io"
  le_release :: "('s, unit) io"
  le_verify_holding :: "('s, bool) io"

text \<open>What a coordinator relies on: a positive answer of \<open>verify_holding\<close> means the lock is held, after a
  release the process does not take itself for the leader, and no operation raises but when it is
  cancelled.\<close>

locale leadership =
  fixes le :: "'s leader_election" and holds :: "'s \<Rightarrow> bool" and inv :: "'s \<Rightarrow> bool"
  assumes acquire_inv: "inv s \<Longrightarrow> le_try_acquire le s = (rb, t) \<Longrightarrow> inv t"
    and release_inv: "inv s \<Longrightarrow> le_release le s = (ru, t) \<Longrightarrow> inv t"
    and verify_inv: "inv s \<Longrightarrow> le_verify_holding le s = (rb, t) \<Longrightarrow> inv t"
    and verify_holds: "inv s \<Longrightarrow> le_verify_holding le s = (Inr True, t) \<Longrightarrow> holds t"
    and acquire_cancel_only: "cancel_only (le_try_acquire le)"
    and release_cancel_only: "cancel_only (le_release le)"
    and verify_cancel_only: "cancel_only (le_verify_holding le)"
    and released: "le_release le s = (Inr u, t) \<Longrightarrow> \<not> le_is_leader le t"

text \<open>A process with its connection, the locks its session holds, its election and the server.\<close>

record 'd pg_session =
  ss_conn :: "'d pg_conn"
  ss_holds :: "'d \<Rightarrow> int \<Rightarrow> bool"
  ss_leader :: leader
  ss_db :: 'd

definition on_session :: "('d pg_conn \<Rightarrow> (leader \<times> 'd, 'a) io) \<Rightarrow> ('d pg_session, 'a) io" where
  "on_session m s = (case m (ss_conn s) (ss_leader s, ss_db s) of
     (r, (l, d)) \<Rightarrow> (r, s\<lparr>ss_leader := l, ss_db := d\<rparr>))"

text \<open>The two classes differ in the driver and its parameter style only.\<close>

definition sqlalchemy_leader_election :: "'d pg_session leader_election" where
  "sqlalchemy_leader_election =
     \<lparr>le_is_leader = (\<lambda>s. ld_is_leader (ss_leader s)), le_try_acquire = on_session try_acquire,
      le_release = on_session release_lock, le_verify_holding = on_session verify_holding\<rparr>"

definition psycopg_leader_election :: "'d pg_session leader_election" where
  "psycopg_leader_election =
     \<lparr>le_is_leader = (\<lambda>s. ld_is_leader (ss_leader s)), le_try_acquire = on_session try_acquire,
      le_release = on_session release_lock, le_verify_holding = on_session verify_holding\<rparr>"

text \<open>The query of \<open>verify_holding\<close> answers whether the session holds the lock.\<close>

definition holds_law :: "'d pg_conn \<Rightarrow> ('d \<Rightarrow> int \<Rightarrow> bool) \<Rightarrow> bool" where
  "holds_law conn holds \<longleftrightarrow>
     (\<forall>k d row d'. conn (HoldsAdvisoryLock k) d = (Inr row, d') \<longrightarrow> row = Some (holds d' k))"

definition session_ok :: "'d pg_session \<Rightarrow> bool" where
  "session_ok s \<longleftrightarrow> holds_law (ss_conn s) (ss_holds s)"

lemma flag_query_Inr:
  "flag_query conn q dflt f d = (Inr a, d') \<longleftrightarrow>
     (\<exists>row. conn q d = (Inr row, d') \<and> a = f (row_flag row)) \<or> (\<exists>e. conn q d = (Inl e, d') \<and> is_Exception e \<and> a = dflt)"
  by (auto simp: flag_query_def io_try_def io_bind_def io_return_def split: prod.splits sum.splits if_splits)

lemma verify_holding_True:
  "verify_holding conn (l, d) = (Inr True, (l', d')) \<Longrightarrow>
   ld_is_leader l \<and> l' = l \<and> (\<exists>row. conn (HoldsAdvisoryLock (ld_lock_id l)) d = (Inr row, d') \<and> row_flag row)"
  by (auto simp: verify_holding_def flag_query_Inr split: if_splits prod.splits sum.splits option.splits bool.splits)

lemma on_session_ok: "on_session m s = (r, t) \<Longrightarrow> session_ok s \<Longrightarrow> session_ok t"
  by (auto simp: on_session_def session_ok_def split: prod.splits)

lemma session_verify:
  assumes "session_ok s" "on_session verify_holding s = (Inr True, t)"
  shows "ss_holds t (ss_db t) (ld_lock_id (ss_leader t))"
proof -
  obtain l d where v: "verify_holding (ss_conn s) (ss_leader s, ss_db s) = (Inr True, (l, d))"
      "t = s\<lparr>ss_leader := l, ss_db := d\<rparr>"
    using assms(2) by (auto simp: on_session_def split: prod.splits)
  from verify_holding_True [OF v(1)] obtain row where q: "l = ss_leader s" "row_flag row"
      "ss_conn s (HoldsAdvisoryLock (ld_lock_id (ss_leader s))) (ss_db s) = (Inr row, d)"
    by blast
  have "row = Some (ss_holds s d (ld_lock_id (ss_leader s)))"
    using assms(1) q(3) unfolding session_ok_def holds_law_def by blast
  then show ?thesis using q v(2) by (simp add: row_flag_def)
qed

lemma flag_query_cancel_only: "cancel_only (flag_query conn q dflt f)"
  unfolding flag_query_def by (rule cancel_only_try) (rule cancel_only_return)

lemmas flag_query_cancelled = cancel_onlyD [OF flag_query_cancel_only]

lemma operations_cancel_only:
  "cancel_only (try_acquire conn)" "cancel_only (release_lock conn)" "cancel_only (verify_holding conn)"
  unfolding cancel_only_def try_acquire_def release_lock_def verify_holding_def
  by (auto dest: flag_query_cancelled split: if_splits prod.splits sum.splits option.splits bool.splits)

lemma on_session_cancel_only: "(\<And>conn. cancel_only (m conn)) \<Longrightarrow> cancel_only (on_session m)"
  unfolding cancel_only_def on_session_def by (fastforce split: prod.splits)

lemma session_released: "on_session release_lock s = (Inr u, t) \<Longrightarrow> \<not> ld_is_leader (ss_leader t)"
  by (auto simp: on_session_def release_lock_def split: prod.splits sum.splits if_splits)

interpretation sqlalchemy: leadership sqlalchemy_leader_election
  "\<lambda>s. ss_holds s (ss_db s) (ld_lock_id (ss_leader s))" session_ok
  by unfold_locales
     (auto simp: sqlalchemy_leader_election_def on_session_cancel_only operations_cancel_only session_released
        intro: on_session_ok session_verify)

interpretation psycopg: leadership psycopg_leader_election
  "\<lambda>s. ss_holds s (ss_db s) (ld_lock_id (ss_leader s))" session_ok
  by unfold_locales
     (auto simp: psycopg_leader_election_def on_session_cancel_only operations_cancel_only session_released
        intro: on_session_ok session_verify)

end
