(* ===== verification/Channels.thy ===== *)
theory Channels
  imports Prelude "HOL-Library.Word"
begin

text \<open>
  infra/redis_pubsub.py, the subscriber: one PubSub connection at a time, whose errors never reach the
  reader.  The PubSub object of the Redis library is a parameter, and so is the decoding of bytes; a
  message is the dictionary the library returns, of which the code reads the type and the data.
\<close>

datatype pubsub_data = Text string | Bytes "8 word list"

record pubsub_message =
  pm_type :: string
  pm_data :: pubsub_data

record 'w pubsub_client =
  pc_subscribe :: "string \<Rightarrow> ('w, unit) io"
  pc_unsubscribe :: "('w, unit) io"
  pc_close :: "('w, unit) io"
  pc_get_message :: "seconds \<Rightarrow> ('w, pubsub_message option) io"
  pc_decode :: "8 word list \<Rightarrow> exn + string"

text \<open>\<open>_pubsub is not None\<close> and \<open>_channel\<close>.\<close>

record subscriber =
  sb_pubsub :: bool
  sb_channel :: "string option"

definition new_subscriber :: subscriber where
  "new_subscriber = \<lparr>sb_pubsub = False, sb_channel = None\<rparr>"

definition subscriber_subscribe :: "'w pubsub_client \<Rightarrow> string \<Rightarrow> (subscriber \<times> 'w, unit) io" where
  "subscriber_subscribe pc channel = (\<lambda>(s, w).
     case pc_subscribe pc channel w of (r, w') \<Rightarrow> (r, (\<lparr>sb_pubsub = True, sb_channel = Some channel\<rparr>, w')))"

definition close_pubsub :: "'w pubsub_client \<Rightarrow> ('w, unit) io" where
  "close_pubsub pc = io_try (io_seq (pc_unsubscribe pc) (pc_close pc)) (\<lambda>_. io_return ())"

definition subscriber_unsubscribe :: "'w pubsub_client \<Rightarrow> (subscriber \<times> 'w, unit) io" where
  "subscriber_unsubscribe pc = (\<lambda>(s, w).
     if sb_pubsub s then
       (case close_pubsub pc w of
          (Inl e, w') \<Rightarrow> (Inl e, (s, w'))
        | (Inr _, w') \<Rightarrow> (Inr (), (\<lparr>sb_pubsub = False, sb_channel = None\<rparr>, w')))
     else (Inr (), (s\<lparr>sb_channel := None\<rparr>, w)))"

definition message_text :: "'w pubsub_client \<Rightarrow> pubsub_message \<Rightarrow> exn + string" where
  "message_text pc m = (case pm_data m of Text t \<Rightarrow> Inr t | Bytes bs \<Rightarrow> pc_decode pc bs)"

definition read_message :: "'w pubsub_client \<Rightarrow> pubsub_message option \<Rightarrow> exn + string option" where
  "read_message pc m =
     (case m of
        None \<Rightarrow> Inr None
      | Some m \<Rightarrow> if pm_type m = ''message'' then ex_bind (message_text pc m) (\<lambda>t. Inr (Some t)) else Inr None)"

definition subscriber_get_message :: "'w pubsub_client \<Rightarrow> seconds \<Rightarrow> (subscriber \<times> 'w, string option) io" where
  "subscriber_get_message pc timeout = (\<lambda>(s, w).
     if \<not> sb_pubsub s then (Inr None, (s, w))
     else (case io_try (io_bind (pc_get_message pc timeout) (\<lambda>m. io_of (read_message pc m)))
                 (\<lambda>_. io_return None) w of
         (r, w') \<Rightarrow> (r, (s, w'))))"

section \<open>The interface of the readers\<close>

record 'w channel_subscriber =
  cs_subscribe :: "string \<Rightarrow> ('w, unit) io"
  cs_unsubscribe :: "('w, unit) io"
  cs_get_message :: "seconds \<Rightarrow> ('w, string option) io"

definition redis_subscriber :: "'w pubsub_client \<Rightarrow> (subscriber \<times> 'w) channel_subscriber" where
  "redis_subscriber pc =
     \<lparr>cs_subscribe = subscriber_subscribe pc, cs_unsubscribe = subscriber_unsubscribe pc,
      cs_get_message = subscriber_get_message pc\<rparr>"

locale subscription =
  fixes cs :: "'w channel_subscriber" and active :: "'w \<Rightarrow> bool"
  assumes unsubscribe_cancel_only: "cancel_only (cs_unsubscribe cs)"
    and get_message_cancel_only: "cancel_only (cs_get_message cs d)"
    and unsubscribed: "cs_unsubscribe cs w = (Inr u, w') \<Longrightarrow> \<not> active w'"
begin

text \<open>A reader may leave out the handler of read errors.\<close>

lemma get_message_handler: "io_try (cs_get_message cs d) h = cs_get_message cs d"
proof
  fix w
  show "io_try (cs_get_message cs d) h w = cs_get_message cs d w"
    using cancel_onlyD [OF get_message_cancel_only]
    by (auto simp: io_try_def split: prod.splits sum.splits) (metis is_Exception.simps(1))
qed

end

lemma redis_unsubscribe_cancel_only: "cancel_only (subscriber_unsubscribe pc)"
proof -
  have "cancel_only (close_pubsub pc)"
    unfolding close_pubsub_def by (rule cancel_only_try) (rule cancel_only_return)
  then show ?thesis
    unfolding cancel_only_def subscriber_unsubscribe_def by (auto split: if_splits prod.splits sum.splits)
qed

lemma redis_get_message_cancel_only: "cancel_only (subscriber_get_message pc d)"
proof -
  have "cancel_only (io_try (io_bind (pc_get_message pc d) (\<lambda>m. io_of (read_message pc m)))
                 (\<lambda>_. io_return None))"
    by (rule cancel_only_try) (rule cancel_only_return)
  then show ?thesis
    unfolding cancel_only_def subscriber_get_message_def by (auto split: if_splits prod.splits)
qed

lemma redis_unsubscribed: "subscriber_unsubscribe pc (s, w) = (Inr u, (s', w')) \<Longrightarrow> \<not> sb_pubsub s'"
  by (auto simp: subscriber_unsubscribe_def split: if_splits prod.splits sum.splits)

interpretation redis_channel: subscription "redis_subscriber pc" "\<lambda>(s, w). sb_pubsub s"
  by unfold_locales
     (auto simp: redis_subscriber_def redis_unsubscribe_cancel_only redis_get_message_cancel_only
        dest: redis_unsubscribed)

end
