(* ===== verification/Coordinator.thy ===== *)
theory Coordinator
  imports Leader Channels Config
begin

text \<open>
  control/coordinator/base.py: the loop of a coordinator.  It holds or waits for the leadership, listens
  to its wake channel, and calls \<open>reconcile\<close>.  The leader election and the subscriber are the interfaces
  of Leader and Channels; the clock, \<open>random.uniform\<close>, \<open>asyncio.sleep\<close>, the rollback of the connection
  and \<open>reconcile\<close> of the subclass are the parameters of an environment.  A loop may run forever, so it
  has fuel: \<open>None\<close> means that it did not end within so many iterations.
\<close>

section \<open>State and environment\<close>

datatype coordinator_type = OBSERVER | WC | SCHEDULER

fun coordinator_type_value :: "coordinator_type \<Rightarrow> string" where
  "coordinator_type_value OBSERVER = ''observer''"
| "coordinator_type_value WC = ''wc''"
| "coordinator_type_value SCHEDULER = ''scheduler''"

text \<open>The class attributes.\<close>

record coordinator_class =
  cc_type :: coordinator_type
  cc_config :: coordinator_config
  cc_wake_target :: "string option"

text \<open>The scheduler overrides both intervals.\<close>

definition scheduler_config :: "coordinator_config \<Rightarrow> coordinator_config" where
  "scheduler_config cfg = cfg\<lparr>idle_interval := ttl_interval cfg, active_interval := ttl_interval cfg\<rparr>"

fun class_of :: "coordinator_config \<Rightarrow> coordinator_type \<Rightarrow> coordinator_class" where
  "class_of cfg OBSERVER = \<lparr>cc_type = OBSERVER, cc_config = cfg, cc_wake_target = Some ''observer''\<rparr>"
| "class_of cfg WC = \<lparr>cc_type = WC, cc_config = cfg, cc_wake_target = Some ''wc''\<rparr>"
| "class_of cfg SCHEDULER = \<lparr>cc_type = SCHEDULER, cc_config = scheduler_config cfg, cc_wake_target = None\<rparr>"

record coordinator =
  co_running :: bool
  co_subscribed :: bool
  co_active_until :: seconds
  co_last_verify :: seconds
  co_last_reconcile :: seconds
  co_waiting_since :: "seconds option"

record 'w coord_env =
  ce_class :: coordinator_class
  ce_channels :: redis_channel_config
  ce_now :: "'w \<Rightarrow> seconds"
  ce_uniform :: "real \<Rightarrow> real \<Rightarrow> 'w \<Rightarrow> real"
  ce_sleep :: "seconds \<Rightarrow> ('w, unit) io"
  ce_rollback :: "('w, unit) io"
  ce_reconcile :: "('w, unit) io"

abbreviation ce_cfg :: "'w coord_env \<Rightarrow> coordinator_config" where
  "ce_cfg env \<equiv> cc_config (ce_class env)"

definition new_coordinator :: "'w coord_env \<Rightarrow> 'w \<Rightarrow> coordinator" where
  "new_coordinator env w =
     \<lparr>co_running = False, co_subscribed = False, co_active_until = ce_now env w + active_duration (ce_cfg env),
      co_last_verify = 0, co_last_reconcile = 0, co_waiting_since = None\<rparr>"

definition on_coordinator :: "(coordinator \<Rightarrow> coordinator) \<Rightarrow> (coordinator \<times> 'w, unit) io" where
  "on_coordinator f = (\<lambda>(c, w). (Inr (), (f c, w)))"

definition on_world :: "('w, 'a) io \<Rightarrow> (coordinator \<times> 'w, 'a) io" where
  "on_world m = (\<lambda>(c, w). case m w of (r, w') \<Rightarrow> (r, (c, w')))"

definition is_active :: "'w coord_env \<Rightarrow> coordinator \<times> 'w \<Rightarrow> bool" where
  "is_active env = (\<lambda>(c, w). ce_now env w < co_active_until c)"

definition accelerate :: "'w coord_env \<Rightarrow> (coordinator \<times> 'w, unit) io" where
  "accelerate env = io_bind io_get (\<lambda>(c, w).
     on_coordinator (\<lambda>c. c\<lparr>co_active_until := ce_now env w + active_duration (ce_cfg env)\<rparr>))"

definition get_interval :: "'w coord_env \<Rightarrow> coordinator \<times> 'w \<Rightarrow> seconds" where
  "get_interval env s = (if is_active env s then active_interval (ce_cfg env) else idle_interval (ce_cfg env))"

definition jittered_verify_interval :: "'w coord_env \<Rightarrow> 'w \<Rightarrow> seconds" where
  "jittered_verify_interval env w =
     (let j = verify_jitter (ce_cfg env) in verify_interval (ce_cfg env) * (1 + ce_uniform env (- j) j w))"

definition safe_rollback :: "'w coord_env \<Rightarrow> ('w, unit) io" where
  "safe_rollback env = io_try (ce_rollback env) (\<lambda>_. io_return ())"

definition listens :: "'w coord_env \<Rightarrow> bool" where
  "listens env = py_truthy (cc_wake_target (ce_class env))"

definition wake_channel :: "'w coord_env \<Rightarrow> string" where
  "wake_channel env = wake_prefix (ce_channels env) @ '':'' @ the (cc_wake_target (ce_class env))"

section \<open>One iteration\<close>

definition release_subscription :: "'w channel_subscriber \<Rightarrow> 'w coord_env \<Rightarrow> (coordinator \<times> 'w, unit) io" where
  "release_subscription cs env = io_bind io_get (\<lambda>(c, w).
     if co_subscribed c \<and> listens env then
       io_seq (on_world (io_try (cs_unsubscribe cs) (\<lambda>_. io_return ())))
         (on_coordinator (\<lambda>c. c\<lparr>co_subscribed := False\<rparr>))
     else io_return ())"

definition lost_leadership :: "'w channel_subscriber \<Rightarrow> 'w coord_env \<Rightarrow> seconds \<Rightarrow> (coordinator \<times> 'w, bool) io" where
  "lost_leadership cs env now =
     io_seq (release_subscription cs env)
       (io_seq (on_coordinator (\<lambda>c. c\<lparr>co_waiting_since := (case co_waiting_since c of None \<Rightarrow> Some now | t \<Rightarrow> t)\<rparr>))
         (io_seq (on_world (ce_sleep env (leader_retry_interval (ce_cfg env)))) (io_return False)))"

definition ensure_leadership ::
  "'w leader_election \<Rightarrow> 'w channel_subscriber \<Rightarrow> 'w coord_env \<Rightarrow> (coordinator \<times> 'w, bool) io" where
  "ensure_leadership le cs env = io_bind io_get (\<lambda>(c, w).
     if ce_now env w - co_last_verify c \<le> jittered_verify_interval env w \<and> le_is_leader le w then
       io_seq (on_coordinator (\<lambda>c. c\<lparr>co_waiting_since := None\<rparr>)) (io_return True)
     else
       io_bind (on_world (io_try (le_try_acquire le) (\<lambda>_. io_seq (safe_rollback env) (io_return False))))
         (\<lambda>acquired.
           if \<not> acquired then lost_leadership cs env (ce_now env w)
           else io_seq (on_coordinator (\<lambda>c. c\<lparr>co_waiting_since := None, co_last_verify := ce_now env w\<rparr>))
             (io_return True)))"

definition ensure_subscribed :: "'w channel_subscriber \<Rightarrow> 'w coord_env \<Rightarrow> (coordinator \<times> 'w, unit) io" where
  "ensure_subscribed cs env = io_bind io_get (\<lambda>(c, w).
     if \<not> co_subscribed c \<and> listens env then
       io_seq (on_world (cs_subscribe cs (wake_channel env)))
         (on_coordinator (\<lambda>c. c\<lparr>co_subscribed := True\<rparr>))
     else io_return ())"

definition throttle :: "'w coord_env \<Rightarrow> (coordinator \<times> 'w, unit) io" where
  "throttle env = io_bind io_get (\<lambda>(c, w).
     let elapsed = ce_now env w - co_last_reconcile c in
     if elapsed < min_interval (ce_cfg env) then on_world (ce_sleep env (min_interval (ce_cfg env) - elapsed))
     else io_return ())"

text \<open>\<open>_last_reconcile = time.time()\<close>\<close>

definition mark_reconciled :: "'w coord_env \<Rightarrow> (coordinator \<times> 'w, bool) io" where
  "mark_reconciled env = io_bind io_get (\<lambda>(c, w).
     io_seq (on_coordinator (\<lambda>c. c\<lparr>co_last_reconcile := ce_now env w\<rparr>)) (io_return True))"

definition guarded_reconcile :: "'w coord_env \<Rightarrow> (coordinator \<times> 'w, bool) io" where
  "guarded_reconcile env =
     io_except (io_seq (on_world (ce_reconcile env)) (mark_reconciled env))
       (\<lambda>e. Some (if is_Exception e then io_seq (on_world (safe_rollback env)) (mark_reconciled env)
                  else io_return False))"

definition execute_reconcile ::
  "'w leader_election \<Rightarrow> 'w channel_subscriber \<Rightarrow> 'w coord_env \<Rightarrow> (coordinator \<times> 'w, bool) io" where
  "execute_reconcile le cs env =
     io_bind (on_world (le_verify_holding le)) (\<lambda>holding.
       if \<not> holding then io_seq (release_subscription cs env) (io_return True)
       else guarded_reconcile env)"

definition wait_for_notify :: "'w channel_subscriber \<Rightarrow> 'w coord_env \<Rightarrow> seconds \<Rightarrow> (coordinator \<times> 'w, unit) io" where
  "wait_for_notify cs env interval =
     (if \<not> listens env then on_world (ce_sleep env interval)
      else io_try
        (io_bind (on_world (cs_get_message cs interval))
          (\<lambda>msg. if msg \<noteq> None then accelerate env else io_return ()))
        (\<lambda>_. on_world (ce_sleep env interval)))"

definition cleanup ::
  "'w leader_election \<Rightarrow> 'w channel_subscriber \<Rightarrow> 'w coord_env \<Rightarrow> (coordinator \<times> 'w, unit) io" where
  "cleanup le cs env =
     io_seq (release_subscription cs env) (on_world (io_try (le_release le) (\<lambda>_. io_return ())))"

text \<open>The body of the loop; False is the \<open>break\<close>.\<close>

definition iteration ::
  "'w leader_election \<Rightarrow> 'w channel_subscriber \<Rightarrow> 'w coord_env \<Rightarrow> (coordinator \<times> 'w, bool) io" where
  "iteration le cs env =
     io_bind (ensure_leadership le cs env) (\<lambda>leading.
       if \<not> leading then io_return True
       else io_seq (ensure_subscribed cs env)
         (io_seq (throttle env)
           (io_bind (execute_reconcile le cs env) (\<lambda>going.
              if \<not> going then io_return False
              else io_seq (io_bind io_get (\<lambda>s. wait_for_notify cs env (get_interval env s))) (io_return True)))))"

fun run_loop ::
  "'w leader_election \<Rightarrow> 'w channel_subscriber \<Rightarrow> 'w coord_env \<Rightarrow> nat \<Rightarrow> coordinator \<times> 'w \<Rightarrow>
   ((exn + unit) \<times> coordinator \<times> 'w) option" where
  "run_loop le cs env 0 s = None"
| "run_loop le cs env (Suc n) s =
     (if \<not> co_running (fst s) then Some (Inr (), s)
      else case iteration le cs env s of
          (Inl e, t) \<Rightarrow> Some (Inl e, t)
        | (Inr False, t) \<Rightarrow> Some (Inr (), t)
        | (Inr True, t) \<Rightarrow> run_loop le cs env n t)"

definition run ::
  "'w leader_election \<Rightarrow> 'w channel_subscriber \<Rightarrow> 'w coord_env \<Rightarrow> nat \<Rightarrow> coordinator \<times> 'w \<Rightarrow>
   ((exn + unit) \<times> coordinator \<times> 'w) option" where
  "run le cs env n = (\<lambda>(c, w).
     map_option (\<lambda>(r, s). io_finally (\<lambda>t. (r, t)) (cleanup le cs env) s)
       (run_loop le cs env n (c\<lparr>co_running := True\<rparr>, w)))"

section \<open>Interfaces\<close>

locale coordination =
  leadership le holds inv + subscription cs active
  for le :: "'w leader_election" and holds :: "'w \<Rightarrow> bool" and inv :: "'w \<Rightarrow> bool"
    and cs :: "'w channel_subscriber" and active :: "'w \<Rightarrow> bool"

text \<open>What an environment does to the clock and to the invariant of the leader election.\<close>

definition steady :: "('w \<Rightarrow> bool) \<Rightarrow> ('w \<Rightarrow> seconds) \<Rightarrow> ('w, 'a) io \<Rightarrow> bool" where
  "steady ok now m \<longleftrightarrow> (\<forall>w r w'. ok w \<longrightarrow> m w = (r, w') \<longrightarrow> ok w' \<and> now w \<le> now w')"

definition sleep_law :: "('w \<Rightarrow> seconds) \<Rightarrow> (seconds \<Rightarrow> ('w, unit) io) \<Rightarrow> bool" where
  "sleep_law now sleep \<longleftrightarrow> (\<forall>d w w'. sleep d w = (Inr (), w') \<longrightarrow> now w + d \<le> now w')"

definition env_ok ::
  "('w \<Rightarrow> bool) \<Rightarrow> 'w leader_election \<Rightarrow> 'w channel_subscriber \<Rightarrow> 'w coord_env \<Rightarrow> bool" where
  "env_ok ok le cs env \<longleftrightarrow>
     sleep_law (ce_now env) (ce_sleep env) \<and>
     (\<forall>d. steady ok (ce_now env) (ce_sleep env d)) \<and> steady ok (ce_now env) (ce_rollback env) \<and>
     steady ok (ce_now env) (ce_reconcile env) \<and>
     (\<forall>ch. steady ok (ce_now env) (cs_subscribe cs ch)) \<and> steady ok (ce_now env) (cs_unsubscribe cs) \<and>
     (\<forall>d. steady ok (ce_now env) (cs_get_message cs d)) \<and>
     steady ok (ce_now env) (le_try_acquire le) \<and> steady ok (ce_now env) (le_release le) \<and>
     steady ok (ce_now env) (le_verify_holding le)"

section \<open>An audit of the reconciliations\<close>

text \<open>The world with a log: for every call of \<open>reconcile\<close>, whether the lock was held and the time.\<close>

type_synonym audit = "(bool \<times> seconds) list"

definition audited_leader :: "'w leader_election \<Rightarrow> ('w \<times> audit) leader_election" where
  "audited_leader le =
     \<lparr>le_is_leader = (\<lambda>(w, l). le_is_leader le w), le_try_acquire = io_fst (le_try_acquire le),
      le_release = io_fst (le_release le), le_verify_holding = io_fst (le_verify_holding le)\<rparr>"

definition audited_subscriber :: "'w channel_subscriber \<Rightarrow> ('w \<times> audit) channel_subscriber" where
  "audited_subscriber cs =
     \<lparr>cs_subscribe = (\<lambda>ch. io_fst (cs_subscribe cs ch)), cs_unsubscribe = io_fst (cs_unsubscribe cs),
      cs_get_message = (\<lambda>d. io_fst (cs_get_message cs d))\<rparr>"

definition audited_env :: "('w \<Rightarrow> bool) \<Rightarrow> 'w coord_env \<Rightarrow> ('w \<times> audit) coord_env" where
  "audited_env holds env =
     \<lparr>ce_class = ce_class env, ce_channels = ce_channels env, ce_now = (\<lambda>(w, l). ce_now env w),
      ce_uniform = (\<lambda>a b (w, l). ce_uniform env a b w), ce_sleep = (\<lambda>d. io_fst (ce_sleep env d)),
      ce_rollback = io_fst (ce_rollback env),
      ce_reconcile = (\<lambda>(w, l). case ce_reconcile env w of (r, w') \<Rightarrow> (r, (w', l @ [(holds w, ce_now env w)])))\<rparr>"

definition audit_ok :: "seconds \<Rightarrow> audit \<Rightarrow> bool" where
  "audit_ok m l \<longleftrightarrow> (\<forall>x \<in> set l. fst x) \<and> successively (\<lambda>x y. snd x + m \<le> snd y) l"

text \<open>The states of a run: nothing happened since \<open>(t, l, a)\<close>, ready for the next call, between two
  iterations, and after the last one.\<close>

definition calm ::
  "('w \<Rightarrow> bool) \<Rightarrow> ('w \<Rightarrow> seconds) \<Rightarrow> seconds \<Rightarrow> audit \<Rightarrow> seconds \<Rightarrow> coordinator \<times> 'w \<times> audit \<Rightarrow> bool" where
  "calm ok now t l a = (\<lambda>(c, w, l'). ok w \<and> t \<le> now w \<and> l' = l \<and> co_last_reconcile c = a)"

definition ended :: "('w \<Rightarrow> bool) \<Rightarrow> seconds \<Rightarrow> coordinator \<times> 'w \<times> audit \<Rightarrow> bool" where
  "ended ok m = (\<lambda>(c, w, l). ok w \<and> audit_ok m l)"

definition fine :: "('w \<Rightarrow> bool) \<Rightarrow> ('w \<Rightarrow> seconds) \<Rightarrow> seconds \<Rightarrow> coordinator \<times> 'w \<times> audit \<Rightarrow> bool" where
  "fine ok now m = (\<lambda>(c, w, l). ok w \<and> audit_ok m l \<and>
     (l \<noteq> [] \<longrightarrow> snd (last l) \<le> co_last_reconcile c) \<and> co_last_reconcile c \<le> now w)"

definition ready :: "('w \<Rightarrow> bool) \<Rightarrow> ('w \<Rightarrow> seconds) \<Rightarrow> seconds \<Rightarrow> coordinator \<times> 'w \<times> audit \<Rightarrow> bool" where
  "ready ok now m s \<longleftrightarrow> fine ok now m s \<and> co_last_reconcile (fst s) + m \<le> now (fst (snd s))"

lemma fine_ended: "fine ok now m s \<Longrightarrow> ended ok m s"
  by (auto simp: fine_def ended_def)

lemma ready_fine: "ready ok now m s \<Longrightarrow> fine ok now m s"
  by (simp add: ready_def)

lemma calm_step:
  assumes "\<And>t l a. keeps (calm ok now t l a) x" "ok w" "x (c, w, l) = (r, (c', w', l'))"
  shows "ok w' \<and> now w \<le> now w' \<and> l' = l \<and> co_last_reconcile c' = co_last_reconcile c"
  using keepsD [OF assms(1) _ assms(3), of "now w" l "co_last_reconcile c"] assms(2) by (simp add: calm_def)

lemma calm_keeps:
  assumes "\<And>t l a. keeps (calm ok now t l a) x"
    and "\<And>c w l. P (c, w, l) \<Longrightarrow> ok w"
    and "\<And>c w l c' w'. P (c, w, l) \<Longrightarrow> ok w' \<Longrightarrow> now w \<le> now w' \<Longrightarrow>
      co_last_reconcile c' = co_last_reconcile c \<Longrightarrow> P (c', w', l)"
  shows "keeps P x"
proof (rule keepsI)
  fix s r t
  assume P: "P s" and x: "x s = (r, t)"
  obtain c w l c' w' l' where st: "s = (c, w, l)" "t = (c', w', l')" by (metis prod.exhaust)
  show "P t"
    using calm_step [of ok now x, OF assms(1) assms(2) [OF P [unfolded st]] x [unfolded st]] P assms(3) st
    by blast
qed

lemma calm_keeps_ended: "(\<And>t l a. keeps (calm ok now t l a) x) \<Longrightarrow> keeps (ended ok m) x"
  by (erule calm_keeps [of ok now]) (auto simp: ended_def)

lemma calm_keeps_fine: "(\<And>t l a. keeps (calm ok now t l a) x) \<Longrightarrow> keeps (fine ok now m) x"
  by (erule calm_keeps [of ok now]) (auto simp: fine_def)

lemma calm_keeps_ready: "(\<And>t l a. keeps (calm ok now t l a) x) \<Longrightarrow> keeps (ready ok now m) x"
  by (erule calm_keeps [of ok now]) (auto simp: ready_def fine_def)

lemma on_world_simps [simp]:
  "on_world (io_return a) = io_return a"
  "on_world (io_seq m n) = io_seq (on_world m) (on_world n)"
  "on_world (io_try m h) = io_try (on_world m) (\<lambda>e. on_world (h e))"
  by (auto simp: fun_eq_iff on_world_def io_defs split: prod.split sum.split)

lemma keeps_on_world [keeps_rules]:
  "steady ok now m \<Longrightarrow> keeps (calm ok now t l a) (on_world (io_fst m))"
proof (rule keepsI)
  fix s r u
  assume "steady ok now m" "calm ok now t l a s" "on_world (io_fst m) s = (r, u)"
  then show "calm ok now t l a u"
    by (cases s) (auto simp: steady_def calm_def on_world_def io_fst_eq split: prod.splits; fastforce)
qed

lemma keeps_on_coordinator [keeps_rules]:
  "(\<And>c. co_last_reconcile (f c) = co_last_reconcile c) \<Longrightarrow> keeps (calm ok now t l a) (on_coordinator f)"
  by (rule keepsI) (auto simp: calm_def on_coordinator_def)

lemmas audited_simps = audited_leader_def audited_subscriber_def audited_env_def

lemma steady_env:
  assumes "env_ok ok le cs env"
  shows "steady ok (ce_now env) (ce_sleep env d)" "steady ok (ce_now env) (ce_rollback env)"
    "steady ok (ce_now env) (ce_reconcile env)" "steady ok (ce_now env) (cs_subscribe cs ch)"
    "steady ok (ce_now env) (cs_unsubscribe cs)" "steady ok (ce_now env) (cs_get_message cs d)"
    "steady ok (ce_now env) (le_try_acquire le)" "steady ok (ce_now env) (le_release le)"
    "steady ok (ce_now env) (le_verify_holding le)"
  using assms by (simp_all add: env_ok_def)

lemmas part_defs = release_subscription_def lost_leadership_def ensure_leadership_def safe_rollback_def
  ensure_subscribed_def throttle_def wait_for_notify_def cleanup_def accelerate_def

lemma parts_calm:
  fixes env :: "'w coord_env"
  assumes "env_ok ok le cs env"
  defines "le' \<equiv> audited_leader le" and "cs' \<equiv> audited_subscriber cs" and "env' \<equiv> \<lambda>holds. audited_env holds env"
  shows "keeps (calm ok (ce_now env) t l a) (release_subscription cs' (env' holds))"
    and "keeps (calm ok (ce_now env) t l a) (ensure_leadership le' cs' (env' holds))"
    and "keeps (calm ok (ce_now env) t l a) (ensure_subscribed cs' (env' holds))"
    and "keeps (calm ok (ce_now env) t l a) (throttle (env' holds))"
    and "keeps (calm ok (ce_now env) t l a) (wait_for_notify cs' (env' holds) d)"
    and "keeps (calm ok (ce_now env) t l a) (cleanup le' cs' (env' holds))"
  unfolding part_defs le'_def cs'_def env'_def audited_simps Let_def
  by (auto intro!: keeps_rules steady_env [OF assms(1)])

lemma audit_ok_snoc:
  "audit_ok m l \<Longrightarrow> (l \<noteq> [] \<Longrightarrow> snd (last l) + m \<le> t) \<Longrightarrow> audit_ok m (l @ [(True, t)])"
  by (auto simp: audit_ok_def successively_append_iff)

lemma mark_reconciled_eq:
  "mark_reconciled env (c, w) = (Inr True, (c\<lparr>co_last_reconcile := ce_now env w\<rparr>, w))"
  by (simp add: mark_reconciled_def io_seq_def io_bind_def on_coordinator_def io_return_def io_get_def)

lemma audited_now: "ce_now (audited_env holds env) = (\<lambda>(w, l). ce_now env w)"
  by (simp add: audited_env_def)

lemmas run_eqs = guarded_reconcile_def io_except_def io_seq_def io_bind_def io_return_def mark_reconciled_eq
  audited_now

lemma reconcile_audited:
  assumes env: "env_ok ok le cs env" and s: "ready ok (ce_now env) m (c, w, l)" "holds w"
    and run: "guarded_reconcile (audited_env holds env) (c, w, l) = (r, t)"
  shows "ended ok m t \<and> (r = Inr True \<longrightarrow> fine ok (ce_now env) m t)"
proof -
  let ?l = "l @ [(True, ce_now env w)]"
  obtain r1 w1 where rec: "ce_reconcile env w = (r1, w1)" by fastforce
  have ok: "ok w1" "ce_now env w \<le> ce_now env w1" "audit_ok m ?l"
    using s steady_env(3) [OF env] rec
    by (auto simp: ready_def fine_def steady_def intro: audit_ok_snoc)
  have called: "on_world (ce_reconcile (audited_env holds env)) (c, w, l) = (r1, (c, w1, ?l))"
    using rec s(2) by (simp add: on_world_def audited_env_def)
  show ?thesis
  proof (cases r1)
    case (Inr u)
    then show ?thesis using run called ok by (auto simp: ended_def fine_def run_eqs)
  next
    case (Inl e)
    have k: "keeps (calm ok (ce_now env) t l a) (on_world (safe_rollback (audited_env holds env)))" for t l a
      unfolding safe_rollback_def audited_env_def by (auto intro!: keeps_rules steady_env [OF env])
    obtain r2 c2 w2 l2 where rb: "on_world (safe_rollback (audited_env holds env)) (c, w1, ?l) = (r2, (c2, w2, l2))"
      by (metis prod.exhaust)
    have "ok w2" "l2 = ?l" "ce_now env w1 \<le> ce_now env w2" using calm_step [OF k ok(1) rb] by auto
    then show ?thesis
      using run called ok Inl rb by (cases "is_Exception e"; cases r2) (auto simp: ended_def fine_def run_eqs)
  qed
qed

lemma throttle_ready:
  assumes env: "env_ok ok le cs env" and s: "fine ok (ce_now env) (min_interval (ce_cfg env)) s"
    and run: "throttle (audited_env holds env) s = (Inr u, t)"
  shows "ready ok (ce_now env) (min_interval (ce_cfg env)) t"
proof -
  obtain c w l where st: "s = (c, w, l)" by (metis prod.exhaust)
  have "fine ok (ce_now env) (min_interval (ce_cfg env)) t"
    by (rule keepsD [OF calm_keeps_fine [OF parts_calm(4) [OF env]] s run])
  moreover have "co_last_reconcile (fst t) + min_interval (ce_cfg env) \<le> ce_now env (fst (snd t))"
  proof (cases "ce_now env w - co_last_reconcile c < min_interval (ce_cfg env)")
    case True
    then obtain w' where "ce_sleep env (min_interval (ce_cfg env) - (ce_now env w - co_last_reconcile c)) w = (Inr (), w')"
        "t = (c, w', l)"
      using run st by (auto simp: throttle_def audited_env_def on_world_def io_fst_eq split: prod.splits)
    then show ?thesis using env by (fastforce simp: env_ok_def sleep_law_def)
  next
    case False
    then show ?thesis using run st by (auto simp: throttle_def audited_env_def)
  qed
  ultimately show ?thesis by (simp add: ready_def)
qed

text \<open>A subscribed coordinator has a channel to listen to.\<close>

lemma on_world_eq: "on_world m (c, w) = (r, (c', w')) \<longleftrightarrow> c' = c \<and> m w = (r, w')"
  by (auto simp: on_world_def split: prod.splits)

lemma cancel_only_on_world [cancel_rules]: "cancel_only m \<Longrightarrow> cancel_only (on_world m)"
  by (rule cancel_onlyI) (auto simp: on_world_def dest: cancel_onlyD split: prod.splits)

lemma cancel_only_on_coordinator [cancel_rules]: "cancel_only (on_coordinator f)"
  by (simp add: cancel_only_def on_coordinator_def)

lemma keeps_listens_world: "keeps (\<lambda>(c, w). co_subscribed c \<longrightarrow> b) (on_world m)"
  by (rule keepsI) (auto simp: on_world_def split: prod.splits)

lemma keeps_listens_coordinator:
  "(\<And>c. co_subscribed (f c) \<Longrightarrow> co_subscribed c \<or> b) \<Longrightarrow> keeps (\<lambda>(c, w). co_subscribed c \<longrightarrow> b) (on_coordinator f)"
  by (rule keepsI) (auto simp: on_coordinator_def)

lemma keeps_except_if:
  "keeps I m \<Longrightarrow> (\<And>e. keeps I (h e)) \<Longrightarrow> keeps I (io_except m (\<lambda>e. Some (h e)))"
  by (rule keeps_except) auto

lemma keeps_listens: "keeps (\<lambda>(c, w). co_subscribed c \<longrightarrow> listens env) (iteration le cs env)"
  unfolding iteration_def part_defs execute_reconcile_def guarded_reconcile_def mark_reconciled_def Let_def
  by (intro keeps_rules keeps_except_if keeps_listens_world keeps_listens_coordinator) auto

lemma loop_listens:
  "run_loop le cs env n s = Some (r, t) \<Longrightarrow> (\<lambda>(c, w). co_subscribed c \<longrightarrow> listens env) s \<Longrightarrow>
   (\<lambda>(c, w). co_subscribed c \<longrightarrow> listens env) t"
proof (induction n arbitrary: s)
  case (Suc n)
  obtain r1 t1 where it: "iteration le cs env s = (r1, t1)" by (metis surj_pair)
  have "(\<lambda>(c, w). co_subscribed c \<longrightarrow> listens env) t1" by (rule keepsD [OF keeps_listens Suc.prems(2) it])
  then show ?case
    using Suc it by (auto split: if_splits sum.splits bool.splits)
qed simp

context coordination
begin

lemma execute_audited:
  assumes env: "env_ok inv le cs env" and s: "ready inv (ce_now env) m s"
    and run: "execute_reconcile (audited_leader le) (audited_subscriber cs) (audited_env holds env) s = (r, t)"
  shows "ended inv m t \<and> (r = Inr True \<longrightarrow> fine inv (ce_now env) m t)"
proof -
  have k: "keeps (calm inv (ce_now env) t l a) (on_world (le_verify_holding (audited_leader le)))" for t l a
    unfolding audited_leader_def by (auto intro!: keeps_rules steady_env [OF env])
  obtain r1 t1 where v: "on_world (le_verify_holding (audited_leader le)) s = (r1, t1)" by (metis surj_pair)
  have ready: "ready inv (ce_now env) m t1" by (rule keepsD [OF calm_keeps_ready [OF k] s v])
  consider e where "r1 = Inl e" | "r1 = Inr False" | "r1 = Inr True" by (metis sum.exhaust)
  then show ?thesis
  proof cases
    case 2
    have "keeps (fine inv (ce_now env) m) (release_subscription (audited_subscriber cs) (audited_env holds env))"
      by (rule calm_keeps_fine [OF parts_calm(1) [OF env]])
    moreover obtain x where "release_subscription (audited_subscriber cs) (audited_env holds env) t1 = (x, t)"
      using run v 2 by (auto simp: execute_reconcile_def io_bind_def io_seq_def io_return_def
          split: prod.splits sum.splits)
    ultimately have "fine inv (ce_now env) m t" by (meson keepsD ready ready_fine)
    then show ?thesis by (simp add: fine_ended)
  next
    case 3
    obtain c w l where st: "t1 = (c, w, l)" by (metis prod.exhaust)
    obtain c0 w0 l0 where st0: "s = (c0, w0, l0)" by (metis prod.exhaust)
    have "inv w0" using s st0 by (simp add: ready_def fine_def)
    moreover have "le_verify_holding le w0 = (Inr True, w)"
      using v 3 st st0 by (auto simp: on_world_def audited_leader_def io_fst_eq split: prod.splits)
    ultimately have "holds w" by (rule verify_holds)
    then show ?thesis
      using reconcile_audited [OF env] ready run v 3 st by (simp add: execute_reconcile_def io_bind_def)
  qed (use run v fine_ended [OF ready_fine [OF ready]] in \<open>auto simp: execute_reconcile_def io_bind_def\<close>)
qed

lemma iteration_audited:
  fixes env :: "'w coord_env"
  assumes env: "env_ok inv le cs env" and s: "fine inv (ce_now env) (min_interval (ce_cfg env)) s"
  defines "fin \<equiv> fine inv (ce_now env) (min_interval (ce_cfg env))" and "fe \<equiv> ended inv (min_interval (ce_cfg env))"
  shows "io_post (iteration (audited_leader le) (audited_subscriber cs) (audited_env holds env))
    (\<lambda>going t. fe t \<and> (going \<longrightarrow> fin t)) (\<lambda>_. fe) s"
proof -
  let ?le = "audited_leader le" and ?cs = "audited_subscriber cs" and ?env = "audited_env holds env"
  let ?post = "\<lambda>m. io_post m (\<lambda>going t. fe t \<and> (going \<longrightarrow> fin t)) (\<lambda>_. fe)"
  note parts = parts_calm [OF env, where holds = holds,
      THEN calm_keeps_fine [where m = "min_interval (ce_cfg env)"], folded fin_def]
  have fe: "fe t" if "fin t" for t using that unfolding fin_def fe_def by (rule fine_ended)
  let ?wait = "io_seq (io_bind io_get (\<lambda>s. wait_for_notify ?cs ?env (get_interval ?env s))) (io_return True)"
  let ?execute = "io_bind (execute_reconcile ?le ?cs ?env) (\<lambda>going. if \<not> going then io_return False else ?wait)"
  have wait: "?post ?wait t" if "fin t" for t
    using that by (intro io_post_keeps [of fin] keeps_rules parts) (auto simp: fe)
  have execute: "?post ?execute t" if "ready inv (ce_now env) (min_interval (ce_cfg env)) t" for t
  proof (rule io_post_bind, rule io_postI)
    fix going u
    assume "execute_reconcile ?le ?cs ?env t = (Inr going, u)"
    then show "?post (if \<not> going then io_return False else ?wait) u"
      using execute_audited [OF env that] wait unfolding fin_def fe_def
      by (cases going) (auto intro: io_post_return)
  qed (use execute_audited [OF env that] in \<open>auto simp: fe_def\<close>)
  have throttle: "?post (io_seq (throttle ?env) ?execute) t" if "fin t" for t
    using throttle_ready [OF env that [unfolded fin_def]] keepsD [OF parts(4) that]
    by (intro io_post_seq io_postI execute) (auto intro: fe)
  show ?thesis
    unfolding iteration_def
    by (intro io_post_bind io_post_keeps [OF parts(2)])
       (auto intro!: io_post_return io_post_seq io_post_keeps [OF parts(3)] throttle fe simp: s [folded fin_def])
qed

lemma loop_audited:
  assumes env: "env_ok inv le cs env"
  shows "run_loop (audited_leader le) (audited_subscriber cs) (audited_env holds env) n s = Some (r, t) \<Longrightarrow>
    fine inv (ce_now env) (min_interval (ce_cfg env)) s \<Longrightarrow> ended inv (min_interval (ce_cfg env)) t"
proof (induction n arbitrary: s)
  case (Suc n)
  show ?case
    using Suc.prems iteration_audited [OF env Suc.prems(2)] Suc.IH
    by (auto simp: io_post_def fine_ended split: if_splits prod.splits sum.splits bool.splits)
qed simp

lemma run_audited:
  assumes env: "env_ok inv le cs env" and w: "inv w" "co_last_reconcile c \<le> ce_now env w"
    and run: "run (audited_leader le) (audited_subscriber cs) (audited_env holds env) n (c, (w, [])) =
      Some (r, (c', (w', l)))"
  shows "audit_ok (min_interval (ce_cfg env)) l"
proof -
  let ?m = "min_interval (ce_cfg env)"
  obtain r1 t1 where loop: "run_loop (audited_leader le) (audited_subscriber cs) (audited_env holds env) n
      (c\<lparr>co_running := True\<rparr>, (w, [])) = Some (r1, t1)"
    "io_finally (\<lambda>t. (r1, t)) (cleanup (audited_leader le) (audited_subscriber cs) (audited_env holds env)) t1 =
      (r, (c', (w', l)))"
    using run by (auto simp: run_def)
  have "fine inv (ce_now env) ?m (c\<lparr>co_running := True\<rparr>, (w, []))"
    using w by (simp add: fine_def audit_ok_def)
  then have "ended inv ?m t1" by (rule loop_audited [OF env loop(1)])
  moreover have "keeps (ended inv ?m) (io_finally (\<lambda>t. (r1, t))
      (cleanup (audited_leader le) (audited_subscriber cs) (audited_env holds env)))"
    by (intro keeps_finally calm_keeps_ended [OF parts_calm(6) [OF env]]) (simp add: keeps_def)
  ultimately have "ended inv ?m (c', (w', l))" using loop(2) by (metis keepsD)
  then show ?thesis by (simp add: ended_def)
qed

text \<open>The end of a run.\<close>

lemma run_exits_clean:
  assumes run: "run le cs env n (c, w) = Some (r, (c', w'))" and r: "r \<noteq> Inl CancelledError"
    and c: "\<not> co_subscribed c"
  shows "\<not> co_subscribed c' \<and> \<not> le_is_leader le w'"
proof -
  let ?I = "\<lambda>(c, w). co_subscribed c \<longrightarrow> listens env"
  obtain r1 t1 where loop: "run_loop le cs env n (c\<lparr>co_running := True\<rparr>, w) = Some (r1, t1)"
    "io_finally (\<lambda>t. (r1, t)) (cleanup le cs env) t1 = (r, (c', w'))"
    using run by (auto simp: run_def)
  have I: "?I t1" by (rule loop_listens [OF loop(1)]) (simp add: c)
  obtain x where cl: "cleanup le cs env t1 = (x, (c', w'))"
    using loop(2) by (auto simp: io_finally_def split: prod.splits sum.splits)
  have "cancel_only (cleanup le cs env)"
    unfolding cleanup_def release_subscription_def by (auto intro!: cancel_rules release_cancel_only)
  then have "x = Inr ()"
    using loop(2) cl r by (cases x) (auto simp: io_finally_def dest: cancel_onlyD)
  then obtain c2 w2 where "release_subscription cs env t1 = (Inr (), (c2, w2))"
      "c' = c2" "io_try (le_release le) (\<lambda>_. io_return ()) w2 = (Inr (), w')"
    using cl by (auto simp: cleanup_def io_seq_Inr_iff on_world_eq simp del: on_world_simps)
  moreover from this(1) I have "\<not> co_subscribed c2"
    by (auto simp: release_subscription_def io_Inr_iffs on_coordinator_def split: if_splits prod.splits)
  moreover have "\<not> le_is_leader le w'"
    using calculation(3) cancel_onlyD [OF release_cancel_only] released
    by (auto simp: io_try_Inr_iff) (metis is_Exception.simps(1))
  ultimately show ?thesis by simp
qed

lemma iteration_cancel_only:
  assumes "\<And>d. cancel_only (ce_sleep env d)" "listens env \<Longrightarrow> cancel_only (cs_subscribe cs (wake_channel env))"
  shows "cancel_only (iteration le cs env)"
  unfolding iteration_def part_defs execute_reconcile_def guarded_reconcile_def mark_reconciled_def Let_def
  by (intro cancel_rules assms acquire_cancel_only verify_cancel_only get_message_cancel_only) auto

lemma run_cancel_only:
  assumes "\<And>d. cancel_only (ce_sleep env d)" "listens env \<Longrightarrow> cancel_only (cs_subscribe cs (wake_channel env))"
    and run: "run le cs env n (c, w) = Some (Inl e, s)"
  shows "e = CancelledError"
proof -
  have it: "cancel_only (iteration le cs env)" by (rule iteration_cancel_only [OF assms(1,2)])
  have loop: "run_loop le cs env n s = Some (Inl e, t) \<Longrightarrow> e = CancelledError" for s e t
    by (induction n arbitrary: s)
       (auto split: if_splits prod.splits sum.splits bool.splits dest: cancel_onlyD [OF it])
  have "cancel_only (cleanup le cs env)"
    unfolding cleanup_def release_subscription_def by (auto intro!: cancel_rules release_cancel_only)
  moreover obtain r1 t1 x t2 where "run_loop le cs env n (c\<lparr>co_running := True\<rparr>, w) = Some (r1, t1)"
      "cleanup le cs env t1 = (x, t2)" "io_finally (\<lambda>t. (r1, t)) (cleanup le cs env) t1 = (Inl e, s)"
    using run by (auto simp: run_def) (metis surj_pair)
  ultimately show ?thesis
    using loop by (cases x) (auto simp: io_finally_def dest: cancel_onlyD)
qed

end

end
