(* ===== verification/Cluster.thy ===== *)
theory Cluster
  imports Leader
begin

text \<open>
  Several processes with one advisory lock server: each process has its connection and its election
  (infra/pg_leader.py), the server is shared.  The steps of the cluster are the operations of the
  processes, in any order, and the loss of a session, which the server notices before its process does.
  What the server promises is a law about one query; that at most one leader exists follows from it by
  rule induction.
\<close>

section \<open>The lock server\<close>

text \<open>The documented behaviour of session-level advisory locks, of one query of process \<open>p\<close>, whatever its
  outcome: a lock appears only for the process that tries it and only when no other process holds it, it
  disappears only when its process unlocks it, a positive answer to a try means the lock is held.\<close>

definition locks_law :: "('p \<Rightarrow> 'd pg_conn) \<Rightarrow> ('d \<Rightarrow> 'p \<Rightarrow> int \<Rightarrow> bool) \<Rightarrow> bool" where
  "locks_law conn holds \<longleftrightarrow>
     (\<forall>p q d r d'. conn p q d = (r, d') \<longrightarrow>
        (\<forall>p' k. holds d' p' k \<longrightarrow>
           holds d p' k \<or> (p' = p \<and> q = TryAdvisoryLock k \<and> (\<forall>x. x \<noteq> p \<longrightarrow> \<not> holds d x k))) \<and>
        (\<forall>p' k. holds d p' k \<longrightarrow> holds d' p' k \<or> (p' = p \<and> q = AdvisoryUnlock k)) \<and>
        (\<forall>k. q = TryAdvisoryLock k \<and> r = Inr (Some True) \<longrightarrow> holds d' p k))"

text \<open>A session that ends gives up its locks.\<close>

definition session_lost :: "('d \<Rightarrow> 'p \<Rightarrow> int \<Rightarrow> bool) \<Rightarrow> 'p \<Rightarrow> 'd \<Rightarrow> 'd \<Rightarrow> bool" where
  "session_lost holds p d d' \<longleftrightarrow> (\<forall>p' k. holds d' p' k \<longleftrightarrow> p' \<noteq> p \<and> holds d p' k)"

section \<open>Steps\<close>

text \<open>\<open>cl_gone\<close>: the processes whose session was lost, or whose operation was cancelled, since the start.\<close>

record ('p, 'd) cluster =
  cl_leader :: "'p \<Rightarrow> leader"
  cl_gone :: "'p set"
  cl_db :: 'd

definition operate :: "'p \<Rightarrow> (leader \<times> 'd, 'a) io \<Rightarrow> ('p, 'd) cluster \<Rightarrow> ('p, 'd) cluster" where
  "operate p m c = (case m (cl_leader c p, cl_db c) of
     (r, (l, d)) \<Rightarrow>
       c\<lparr>cl_leader := (cl_leader c)(p := l), cl_db := d,
         cl_gone := (if isl r then insert p (cl_gone c) else cl_gone c)\<rparr>)"

inductive cluster_step ::
  "('p \<Rightarrow> 'd pg_conn) \<Rightarrow> ('d \<Rightarrow> 'p \<Rightarrow> int \<Rightarrow> bool) \<Rightarrow> ('p, 'd) cluster \<Rightarrow> ('p, 'd) cluster \<Rightarrow> bool"
  for conn holds where
  Acquires: "cluster_step conn holds c (operate p (try_acquire (conn p)) c)"
| Releases: "cluster_step conn holds c (operate p (release_lock (conn p)) c)"
| Verifies: "cluster_step conn holds c (operate p (verify_holding (conn p)) c)"
| Loses: "session_lost holds p (cl_db c) d' \<Longrightarrow>
    cluster_step conn holds c (c\<lparr>cl_db := d', cl_gone := insert p (cl_gone c)\<rparr>)"

inductive cluster_reachable ::
  "('p \<Rightarrow> 'd pg_conn) \<Rightarrow> ('d \<Rightarrow> 'p \<Rightarrow> int \<Rightarrow> bool) \<Rightarrow> ('p \<Rightarrow> string) \<Rightarrow> (string \<Rightarrow> 8 word list) \<Rightarrow>
   ('p, 'd) cluster \<Rightarrow> bool"
  for conn holds key sha256 where
  Start: "(\<And>p k. \<not> holds d p k) \<Longrightarrow>
    cluster_reachable conn holds key sha256
      \<lparr>cl_leader = (\<lambda>p. new_leader sha256 (key p)), cl_gone = {}, cl_db = d\<rparr>"
| Step: "cluster_reachable conn holds key sha256 c \<Longrightarrow> cluster_step conn holds c c' \<Longrightarrow>
    cluster_reachable conn holds key sha256 c'"

inductive_cases cluster_stepE: "cluster_step conn holds c c'"

section \<open>The invariant\<close>

definition exclusive :: "('d \<Rightarrow> 'p \<Rightarrow> int \<Rightarrow> bool) \<Rightarrow> 'd \<Rightarrow> bool" where
  "exclusive holds d \<longleftrightarrow> (\<forall>p q k. holds d p k \<longrightarrow> holds d q k \<longrightarrow> p = q)"

definition backed :: "('d \<Rightarrow> 'p \<Rightarrow> int \<Rightarrow> bool) \<Rightarrow> ('p, 'd) cluster \<Rightarrow> bool" where
  "backed holds c \<longleftrightarrow> (\<forall>p. p \<notin> cl_gone c \<longrightarrow> ld_is_leader (cl_leader c p) \<longrightarrow>
     holds (cl_db c) p (ld_lock_id (cl_leader c p)))"

definition cluster_ok ::
  "('d \<Rightarrow> 'p \<Rightarrow> int \<Rightarrow> bool) \<Rightarrow> ('p \<Rightarrow> string) \<Rightarrow> (string \<Rightarrow> 8 word list) \<Rightarrow> ('p, 'd) cluster \<Rightarrow> bool" where
  "cluster_ok holds key sha256 c \<longleftrightarrow>
     exclusive holds (cl_db c) \<and> backed holds c \<and>
     (\<forall>p. ld_lock_id (cl_leader c p) = compute_lock_id sha256 (key p))"

text \<open>What an operation of \<open>p\<close> does to locks and election.\<close>

definition sound_move ::
  "('d \<Rightarrow> 'p \<Rightarrow> int \<Rightarrow> bool) \<Rightarrow> 'p \<Rightarrow> leader \<times> 'd \<Rightarrow> (exn + 'a) \<times> leader \<times> 'd \<Rightarrow> bool" where
  "sound_move holds p = (\<lambda>(l, d) (r, l', d').
     ld_lock_id l' = ld_lock_id l \<and> (exclusive holds d \<longrightarrow> exclusive holds d') \<and>
     (\<forall>q k. q \<noteq> p \<longrightarrow> holds d q k \<longrightarrow> holds d' q k) \<and>
     (\<not> isl r \<longrightarrow> (ld_is_leader l \<longrightarrow> holds d p (ld_lock_id l)) \<longrightarrow>
        ld_is_leader l' \<longrightarrow> holds d' p (ld_lock_id l')))"

lemma locks_grants:
  "locks_law conn holds \<Longrightarrow> conn p q d = (r, d') \<Longrightarrow> holds d' p' k \<Longrightarrow> \<not> holds d p' k \<Longrightarrow>
   p' = p \<and> q = TryAdvisoryLock k \<and> (\<forall>x. x \<noteq> p \<longrightarrow> \<not> holds d x k)"
  unfolding locks_law_def by blast

lemma locks_keeps:
  "locks_law conn holds \<Longrightarrow> conn p q d = (r, d') \<Longrightarrow> holds d p' k \<Longrightarrow> p' \<noteq> p \<or> q \<noteq> AdvisoryUnlock k \<Longrightarrow>
   holds d' p' k"
  unfolding locks_law_def by blast

lemma locks_acquired:
  "locks_law conn holds \<Longrightarrow> conn p (TryAdvisoryLock k) d = (Inr (Some True), d') \<Longrightarrow> holds d' p k"
  unfolding locks_law_def by blast

lemma exclusive_query:
  assumes "locks_law conn holds" "conn p q d = (r, d')" "exclusive holds d"
  shows "exclusive holds d'"
  unfolding exclusive_def
proof (intro allI impI)
  fix p1 p2 k
  assume "holds d' p1 k" "holds d' p2 k"
  then show "p1 = p2"
    using locks_grants [OF assms(1,2)] assms(3) unfolding exclusive_def by metis
qed

lemma flag_queryE:
  assumes "flag_query conn q dflt f d = (r, d')"
  obtains (row) row where "conn q d = (Inr row, d')" "r = Inr (f (row_flag row))"
  | (failed) e where "conn q d = (Inl e, d')" "is_Exception e" "r = Inr dflt"
  | (cancelled) e where "conn q d = (Inl e, d')" "r = Inl e"
  using assms
  by (auto simp: flag_query_def io_try_def io_bind_def io_return_def split: prod.splits sum.splits if_splits)

lemma flag_query_asks:
  "flag_query conn q dflt f d = (r, d') \<Longrightarrow> \<exists>x. conn q d = (x, d')"
  by (erule flag_queryE) auto

lemma sound_query:
  assumes "locks_law conn holds" "conn p q d = (x, d')" "ld_lock_id l' = ld_lock_id l"
    and "\<not> isl r \<Longrightarrow> ld_is_leader l' \<Longrightarrow>
      (ld_is_leader l \<and> q \<noteq> AdvisoryUnlock (ld_lock_id l)) \<or>
      (x = Inr (Some True) \<and> q = TryAdvisoryLock (ld_lock_id l))"
  shows "sound_move holds p (l, d) (r, l', d')"
  using exclusive_query [OF assms(1,2)] locks_keeps [OF assms(1,2)] locks_acquired [OF assms(1)] assms(2-4)
  unfolding sound_move_def by auto

lemma row_flag_True: "row_flag row \<longleftrightarrow> row = Some True"
  by (auto simp: row_flag_def split: option.splits)

lemma try_acquire_sound:
  assumes "locks_law conn holds"
  shows "sound_move holds p (l, d) (try_acquire (conn p) (l, d))"
proof (cases "ld_is_leader l")
  case False
  obtain r d' where q: "flag_query (conn p) (TryAdvisoryLock (ld_lock_id l)) False id d = (r, d')"
    by fastforce
  from q False show ?thesis
    by (cases rule: flag_queryE)
       (auto simp: try_acquire_def q row_flag_True intro!: sound_query [OF assms])
qed (simp add: try_acquire_def sound_move_def)

lemma release_lock_sound:
  assumes "locks_law conn holds"
  shows "sound_move holds p (l, d) (release_lock (conn p) (l, d))"
proof (cases "ld_is_leader l")
  case True
  obtain r d' where q: "flag_query (conn p) (AdvisoryUnlock (ld_lock_id l)) () (\<lambda>_. ()) d = (r, d')"
    by fastforce
  from q True show ?thesis
    by (cases rule: flag_queryE)
       (auto simp: release_lock_def q intro!: sound_query [OF assms])
qed (simp add: release_lock_def sound_move_def)

lemma verify_holding_sound:
  assumes "locks_law conn holds"
  shows "sound_move holds p (l, d) (verify_holding (conn p) (l, d))"
proof (cases "ld_is_leader l")
  case True
  obtain r d' where q: "flag_query (conn p) (HoldsAdvisoryLock (ld_lock_id l)) None Some d = (r, d')"
    by fastforce
  from q True show ?thesis
    by (cases rule: flag_queryE)
       (auto simp: verify_holding_def q split: bool.split intro!: sound_query [OF assms])
qed (simp add: verify_holding_def sound_move_def)

lemmas operations_sound = try_acquire_sound release_lock_sound verify_holding_sound

lemma operate_ok:
  assumes "\<And>l d. sound_move holds p (l, d) (m (l, d))" "cluster_ok holds key sha256 c"
  shows "cluster_ok holds key sha256 (operate p m c)"
proof -
  obtain r l d where m: "m (cl_leader c p, cl_db c) = (r, (l, d))" by (metis prod.exhaust)
  show ?thesis
    using assms(1) [of "cl_leader c p" "cl_db c"] assms(2)
    by (auto simp: m operate_def cluster_ok_def backed_def sound_move_def)
qed

lemma session_lost_ok:
  assumes "session_lost holds p (cl_db c) d'" "cluster_ok holds key sha256 c"
  shows "cluster_ok holds key sha256 (c\<lparr>cl_db := d', cl_gone := insert p (cl_gone c)\<rparr>)"
  using assms unfolding cluster_ok_def session_lost_def exclusive_def backed_def by auto

lemma cluster_step_ok:
  "cluster_step conn holds c c' \<Longrightarrow> locks_law conn holds \<Longrightarrow> cluster_ok holds key sha256 c \<Longrightarrow>
   cluster_ok holds key sha256 c'"
  by (erule cluster_stepE) (simp_all add: operate_ok operations_sound session_lost_ok)

lemma cluster_reachable_ok:
  "cluster_reachable conn holds key sha256 c \<Longrightarrow> locks_law conn holds \<Longrightarrow> cluster_ok holds key sha256 c"
proof (induction rule: cluster_reachable.induct)
  case (Start d)
  then show ?case by (simp add: cluster_ok_def exclusive_def backed_def new_leader_def)
qed (blast intro: cluster_step_ok)

section \<open>At most one leader\<close>

text \<open>C28: in every reachable state of the cluster, of the processes that take themselves for the leader of
  one lock and have neither lost their session nor been cancelled, there is at most one.\<close>
theorem leaders_exclusive:
  assumes "locks_law conn holds" "cluster_reachable conn holds key sha256 c"
    and "ld_is_leader (cl_leader c p)" "ld_is_leader (cl_leader c q)" "key p = key q"
    and "p \<notin> cl_gone c" "q \<notin> cl_gone c"
  shows "p = q"
  using cluster_reachable_ok [OF assms(2,1)] assms(3-)
  unfolding cluster_ok_def backed_def exclusive_def by metis

text \<open>C29: whatever sessions were lost and whatever operations failed or were cancelled before, when the
  verification of one process answers True, no other process with the same lock key gets True from its
  own verification before another step of the cluster.\<close>
theorem verified_leader_excludes:
  assumes law: "locks_law conn holds" "\<And>p. holds_law (conn p) (\<lambda>d. holds d p)"
    and reach: "cluster_reachable conn holds key sha256 c" and keys: "key p = key q" "p \<noteq> q"
    and p: "verify_holding (conn p) (cl_leader c p, cl_db c) = (Inr True, (l, d))"
    and q: "verify_holding (conn q) (cl_leader c q, d) = (r, (l', d'))"
  shows "r \<noteq> Inr True"
proof
  assume "r = Inr True"
  let ?k = "compute_lock_id sha256 (key p)"
  have ok: "cluster_ok holds key sha256 c" by (rule cluster_reachable_ok [OF reach law(1)])
  have p': "ld_lock_id (cl_leader c p) = ?k" and q': "ld_lock_id (cl_leader c q) = ?k"
    using ok keys(1) by (simp_all add: cluster_ok_def)
  obtain row where vp: "conn p (HoldsAdvisoryLock ?k) (cl_db c) = (Inr row, d)" "row_flag row"
    using verify_holding_True [OF p] p' by auto
  obtain row' where vq: "conn q (HoldsAdvisoryLock ?k) d = (Inr row', d')" "row_flag row'"
    using verify_holding_True [OF q [unfolded \<open>r = Inr True\<close>]] q' by auto
  have "holds d p ?k" "holds d' q ?k"
    using law(2) vp vq unfolding holds_law_def row_flag_True by (metis option.sel)+
  moreover have "exclusive holds d'"
    using ok exclusive_query [OF law(1) vp(1)] exclusive_query [OF law(1) vq(1)] by (simp add: cluster_ok_def)
  ultimately show False
    using locks_keeps [OF law(1) vq(1), of p ?k] keys(2) unfolding exclusive_def by blast
qed

section \<open>A server in memory\<close>

text \<open>The locks by key: the process that holds it and how often it did.\<close>

type_synonym 'p mem_locks = "int \<Rightarrow> ('p \<times> nat) option"

definition mem_holds :: "'p mem_locks \<Rightarrow> 'p \<Rightarrow> int \<Rightarrow> bool" where
  "mem_holds d p k = (case d k of None \<Rightarrow> False | Some (q, _) \<Rightarrow> q = p)"

fun mem_pg :: "'p \<Rightarrow> 'p mem_locks pg_conn" where
  "mem_pg p (TryAdvisoryLock k) d =
     (case d k of
        None \<Rightarrow> (Inr (Some True), d(k \<mapsto> (p, 1)))
      | Some (q, n) \<Rightarrow> if q = p then (Inr (Some True), d(k \<mapsto> (p, n + 1))) else (Inr (Some False), d))"
| "mem_pg p (AdvisoryUnlock k) d =
     (case d k of
        None \<Rightarrow> (Inr (Some False), d)
      | Some (q, n) \<Rightarrow>
          if q \<noteq> p then (Inr (Some False), d)
          else (Inr (Some True), if n \<le> 1 then d(k := None) else d(k \<mapsto> (p, n - 1))))"
| "mem_pg p (HoldsAdvisoryLock k) d = (Inr (Some (mem_holds d p k)), d)"

lemma mem_locks_law: "locks_law mem_pg mem_holds"
  unfolding locks_law_def
proof (intro allI impI)
  fix p q r and d d' :: "'p mem_locks"
  assume "mem_pg p q d = (r, d')"
  then show "(\<forall>p' k. mem_holds d' p' k \<longrightarrow>
           mem_holds d p' k \<or> (p' = p \<and> q = TryAdvisoryLock k \<and> (\<forall>x. x \<noteq> p \<longrightarrow> \<not> mem_holds d x k))) \<and>
        (\<forall>p' k. mem_holds d p' k \<longrightarrow> mem_holds d' p' k \<or> (p' = p \<and> q = AdvisoryUnlock k)) \<and>
        (\<forall>k. q = TryAdvisoryLock k \<and> r = Inr (Some True) \<longrightarrow> mem_holds d' p k)"
    by (cases q) (auto simp: mem_holds_def split: option.splits if_splits)
qed

lemma mem_holds_law: "holds_law (mem_pg p) (\<lambda>d. mem_holds d p)"
  by (simp add: holds_law_def)

definition demo_sha :: "string \<Rightarrow> 8 word list" where
  "demo_sha s = map (\<lambda>c. word_of_int (of_char c)) s"

definition two_processes :: "(bool, bool mem_locks) cluster" where
  "two_processes = operate False (try_acquire (mem_pg False)) (operate True (try_acquire (mem_pg True))
     \<lparr>cl_leader = (\<lambda>p. new_leader demo_sha ''wc''), cl_gone = {}, cl_db = Map.empty\<rparr>)"

lemma two_processes_reachable:
  "cluster_reachable mem_pg mem_holds (\<lambda>_. ''wc'') demo_sha two_processes"
  unfolding two_processes_def
  by (intro cluster_reachable.Step [OF _ Acquires] cluster_reachable.Start [where key = "\<lambda>_. ''wc''"])
     (simp add: mem_holds_def)

lemma two_processes_leader:
  "ld_is_leader (cl_leader two_processes True)" "True \<notin> cl_gone two_processes"
  "verify_holding (mem_pg True) (cl_leader two_processes True, cl_db two_processes) =
     (Inr True, (cl_leader two_processes True, cl_db two_processes))"
  by (simp_all add: two_processes_def operate_def try_acquire_def verify_holding_def flag_query_def
        new_leader_def io_defs row_flag_def mem_holds_def)

theorem leaders_exclusive_witness:
  "\<not> (ld_is_leader (cl_leader two_processes False) \<and> False \<notin> cl_gone two_processes)"
  using leaders_exclusive [OF mem_locks_law two_processes_reachable, of True False] two_processes_leader
  by blast

theorem verified_leader_excludes_witness:
  "fst (verify_holding (mem_pg False) (cl_leader two_processes False, cl_db two_processes)) \<noteq> Inr True"
  using verified_leader_excludes [OF mem_locks_law mem_holds_law two_processes_reachable _ _
      two_processes_leader(3), of False]
  by (metis prod.collapse)

end
