(* ===== verification/Process.thy ===== *)
theory Process
  imports Coordinator Cluster
begin

text \<open>
  The coordinators as the control plane starts them (\<open>_run_coordinator\<close> of control/__init__.py): the loop of
  Coordinator over the SQLAlchemy leader election and the Redis subscriber.  The interface
  \<open>coordination\<close> of the loop is interpreted here, and what a run guarantees is stated.
\<close>

section \<open>A coordinator process\<close>

text \<open>\<open>_run_coordinator\<close> of control/__init__.py: one connection for the lock and the statements, and a
  subscriber of its own.  The database is that of the session, the rest of the world is \<open>pr_world\<close>.\<close>

record ('d, 'r) process =
  pr_session :: "'d pg_session"
  pr_subscriber :: subscriber
  pr_world :: 'r

definition on_pr_session :: "('d pg_session, 'a) io \<Rightarrow> (('d, 'r) process, 'a) io" where
  "on_pr_session m = io_zoom pr_session (\<lambda>s p. p\<lparr>pr_session := s\<rparr>) m"

definition on_pr_subscriber :: "(subscriber \<times> 'r, 'a) io \<Rightarrow> (('d, 'r) process, 'a) io" where
  "on_pr_subscriber m =
     io_zoom (\<lambda>p. (pr_subscriber p, pr_world p)) (\<lambda>(s, w) p. p\<lparr>pr_subscriber := s, pr_world := w\<rparr>) m"

definition process_leader :: "('d, 'r) process leader_election" where
  "process_leader =
     \<lparr>le_is_leader = (\<lambda>p. le_is_leader sqlalchemy_leader_election (pr_session p)),
      le_try_acquire = on_pr_session (le_try_acquire sqlalchemy_leader_election),
      le_release = on_pr_session (le_release sqlalchemy_leader_election),
      le_verify_holding = on_pr_session (le_verify_holding sqlalchemy_leader_election)\<rparr>"

definition process_channel :: "'r pubsub_client \<Rightarrow> ('d, 'r) process channel_subscriber" where
  "process_channel pc =
     \<lparr>cs_subscribe = (\<lambda>ch. on_pr_subscriber (cs_subscribe (redis_subscriber pc) ch)),
      cs_unsubscribe = on_pr_subscriber (cs_unsubscribe (redis_subscriber pc)),
      cs_get_message = (\<lambda>d. on_pr_subscriber (cs_get_message (redis_subscriber pc) d))\<rparr>"

definition start_process :: "(string \<Rightarrow> 8 word list) \<Rightarrow> coordinator_type \<Rightarrow> 'd pg_conn \<Rightarrow> ('d \<Rightarrow> int \<Rightarrow> bool) \<Rightarrow> 'd \<Rightarrow> 'r \<Rightarrow>
    ('d, 'r) process" where
  "start_process sha256 ct conn holds d w =
     \<lparr>pr_session = \<lparr>ss_conn = conn, ss_holds = holds, ss_leader = new_leader sha256 (coordinator_type_value ct),
        ss_db = d\<rparr>, pr_subscriber = new_subscriber, pr_world = w\<rparr>"

definition run_coordinator ::
  "'r pubsub_client \<Rightarrow> ('d, 'r) process coord_env \<Rightarrow> nat \<Rightarrow> ('d, 'r) process \<Rightarrow>
   ((exn + unit) \<times> coordinator \<times> ('d, 'r) process) option" where
  "run_coordinator pc env n p = run process_leader (process_channel pc) env n (new_coordinator env p, p)"

definition process_holds :: "('d, 'r) process \<Rightarrow> bool" where
  "process_holds p = (let s = pr_session p in ss_holds s (ss_db s) (ld_lock_id (ss_leader s)))"

definition process_ok :: "('d, 'r) process \<Rightarrow> bool" where
  "process_ok p = session_ok (pr_session p)"

lemma on_pr_session_eq:
  "on_pr_session m p = (r, p') \<longleftrightarrow> (\<exists>s. m (pr_session p) = (r, s) \<and> p' = p\<lparr>pr_session := s\<rparr>)"
  by (auto simp: on_pr_session_def io_zoom_def split: prod.splits)

lemma on_pr_subscriber_eq:
  "on_pr_subscriber m p = (r, p') \<longleftrightarrow> (\<exists>s w. m (pr_subscriber p, pr_world p) = (r, (s, w)) \<and>
     p' = p\<lparr>pr_subscriber := s, pr_world := w\<rparr>)"
  by (auto simp: on_pr_subscriber_def io_zoom_def split: prod.splits)

lemma cancel_only_zoom [cancel_rules]: "cancel_only m \<Longrightarrow> cancel_only (io_zoom g p m)"
  by (rule cancel_onlyI) (auto simp: io_zoom_def dest: cancel_onlyD split: prod.splits)

interpretation process: coordination process_leader process_holds process_ok
  "process_channel pc" "\<lambda>p. sb_pubsub (pr_subscriber p)"
proof unfold_locales
  show "process_ok p \<Longrightarrow> le_try_acquire process_leader p = (r, p') \<Longrightarrow> process_ok p'" for p r p'
    by (auto simp: process_leader_def on_pr_session_eq process_ok_def dest: sqlalchemy.acquire_inv)
  show "process_ok p \<Longrightarrow> le_release process_leader p = (r, p') \<Longrightarrow> process_ok p'" for p r p'
    by (auto simp: process_leader_def on_pr_session_eq process_ok_def dest: sqlalchemy.release_inv)
  show "process_ok p \<Longrightarrow> le_verify_holding process_leader p = (r, p') \<Longrightarrow> process_ok p'" for p r p'
    by (auto simp: process_leader_def on_pr_session_eq process_ok_def dest: sqlalchemy.verify_inv)
  show "process_ok p \<Longrightarrow> le_verify_holding process_leader p = (Inr True, p') \<Longrightarrow> process_holds p'" for p p'
    by (auto simp: process_leader_def on_pr_session_eq process_ok_def process_holds_def Let_def
        dest: sqlalchemy.verify_holds)
  show "le_release process_leader p = (Inr u, p') \<Longrightarrow> \<not> le_is_leader process_leader p'" for p u p'
    by (auto simp: process_leader_def on_pr_session_eq dest: sqlalchemy.released)
  show "cs_unsubscribe (process_channel pc) p = (Inr u, p') \<Longrightarrow> \<not> sb_pubsub (pr_subscriber p')" for p u p'
    by (auto simp: process_channel_def on_pr_subscriber_eq dest: redis_channel.unsubscribed)
qed (auto simp: process_leader_def process_channel_def on_pr_session_def on_pr_subscriber_def
      intro!: cancel_rules sqlalchemy.acquire_cancel_only sqlalchemy.release_cancel_only
        sqlalchemy.verify_cancel_only redis_channel.unsubscribe_cancel_only redis_channel.get_message_cancel_only)

section \<open>What a run guarantees\<close>

text \<open>C30: whatever the outcome of a run, each reconciliation began while the session of the process held
  the advisory lock of its coordinator, and two of them never began within the minimal interval.\<close>
theorem reconciles_spaced_under_lock:
  assumes "env_ok process_ok process_leader (process_channel pc) env" and "process_ok p" and "0 \<le> ce_now env p"
    and "run (audited_leader process_leader) (audited_subscriber (process_channel pc))
      (audited_env process_holds env) n (new_coordinator env p, (p, [])) = Some (r, (c, (p', l)))"
  shows "list_all fst l \<and> successively (\<lambda>x y. snd x + min_interval (ce_cfg env) \<le> snd y) l"
  using process.run_audited [OF assms(1,2) _ assms(4)] assms(3) by (simp add: new_coordinator_def audit_ok_def list_all_iff)


text \<open>C33: no failure of the database, of Redis or of the reconciliation ends a coordinator with an exception, with
  one exception: the subscription to the wake channel.\<close>
theorem coordinator_survives_failures:
  assumes "\<And>d. cancel_only (ce_sleep env d)" "listens env \<Longrightarrow> cancel_only (pc_subscribe pc (wake_channel env))"
    and "run_coordinator pc env n p = Some (Inl e, s)"
  shows "e = CancelledError"
proof (rule process.run_cancel_only [OF assms(1) _ assms(3) [unfolded run_coordinator_def]])
  assume "listens env"
  then have "cancel_only (subscriber_subscribe pc (wake_channel env))"
    by (auto simp: subscriber_subscribe_def cancel_only_def dest: cancel_onlyD [OF assms(2)] split: prod.splits)
  then show "cancel_only (cs_subscribe (process_channel pc) (wake_channel env))"
    by (simp add: process_channel_def redis_subscriber_def on_pr_subscriber_def cancel_only_zoom)
qed

section \<open>A process in memory\<close>

text \<open>The world is a clock; the second reconciliation is cancelled.\<close>

definition demo_pubsub :: "seconds pubsub_client" where
  "demo_pubsub =
     \<lparr>pc_subscribe = (\<lambda>_. io_return ()), pc_unsubscribe = io_return (), pc_close = io_return (),
      pc_get_message = (\<lambda>d t. (Inr None, t + max d 0)), pc_decode = (\<lambda>_. Inl (OtherError ''UnicodeDecodeError''))\<rparr>"

definition demo_env :: "coordinator_type \<Rightarrow> (bool mem_locks, seconds) process coord_env" where
  "demo_env ct =
     \<lparr>ce_class = class_of default_coordinator ct, ce_channels = default_redis_channel, ce_now = pr_world,
      ce_uniform = (\<lambda>_ _ _. 0), ce_sleep = (\<lambda>d p. (Inr (), p\<lparr>pr_world := pr_world p + max d 0\<rparr>)),
      ce_rollback = io_return (),
      ce_reconcile = (\<lambda>p. (if pr_world p < 101 then Inr () else Inl CancelledError, p))\<rparr>"

definition demo_process :: "coordinator_type \<Rightarrow> (bool mem_locks, seconds) process" where
  "demo_process ct = start_process demo_sha ct (mem_pg True) (\<lambda>d. mem_holds d True) Map.empty 100"

lemma demo_process_ok: "process_ok (demo_process ct)"
  using mem_holds_law [of True] by (simp add: process_ok_def session_ok_def demo_process_def start_process_def)

lemma steadyI: "(\<And>w r w'. ok w \<Longrightarrow> m w = (r, w') \<Longrightarrow> ok w' \<and> now w \<le> now w') \<Longrightarrow> steady ok now m"
  by (auto simp: steady_def)

lemma demo_env_ok: "env_ok process_ok process_leader (process_channel demo_pubsub) (demo_env ct)"
  unfolding env_ok_def
  by (intro conjI allI; (rule steadyI)?)
     (auto simp: sleep_law_def demo_env_def process_ok_def process_channel_def redis_subscriber_def
        subscriber_subscribe_def subscriber_unsubscribe_def subscriber_get_message_def close_pubsub_def
        process_leader_def on_pr_session_eq on_pr_subscriber_eq io_defs demo_pubsub_def io_of_def read_message_def
        dest: sqlalchemy.acquire_inv sqlalchemy.release_inv sqlalchemy.verify_inv split: if_splits)

lemmas process_simps = iteration_def part_defs execute_reconcile_def guarded_reconcile_def mark_reconciled_def
  listens_def py_truthy_def wake_channel_def get_interval_def is_active_def jittered_verify_interval_def
  on_world_def on_coordinator_def new_coordinator_def process_leader_def process_channel_def
  on_pr_session_def on_pr_subscriber_def io_zoom_def sqlalchemy_leader_election_def redis_subscriber_def
  on_session_def try_acquire_def release_lock_def verify_holding_def flag_query_def row_flag_def
  subscriber_subscribe_def subscriber_unsubscribe_def subscriber_get_message_def close_pubsub_def
  read_message_def io_of_def io_get_def io_defs io_fst_def

lemmas demo_simps = demo_process_def start_process_def new_leader_def new_subscriber_def demo_env_def demo_pubsub_def
  default_coordinator_def default_redis_channel_def mem_holds_def

lemma demo_run:
  "\<exists>c p. run (audited_leader process_leader) (audited_subscriber (process_channel demo_pubsub))
     (audited_env process_holds (demo_env OBSERVER)) 3
     (new_coordinator (demo_env OBSERVER) (demo_process OBSERVER), (demo_process OBSERVER, [])) =
     Some (Inr (), (c, (p, [(True, 100), (True, 101)])))"
  by (simp add: run_def eval_nat_numeral process_simps demo_simps audited_simps process_holds_def)

lemma demo_coordinator:
  "\<exists>c p. run_coordinator demo_pubsub (demo_env WC) 3 (demo_process WC) = Some (Inr (), (c, p))"
  by (simp add: run_coordinator_def run_def eval_nat_numeral process_simps demo_simps process_holds_def)

definition cancelled_env :: "(bool mem_locks, seconds) process coord_env" where
  "cancelled_env = (demo_env SCHEDULER)\<lparr>ce_sleep := \<lambda>_. io_raise CancelledError\<rparr>"

lemma demo_cancelled:
  "\<exists>e s. run_coordinator demo_pubsub cancelled_env 3 (demo_process SCHEDULER) = Some (Inl e, s)"
  by (simp add: run_coordinator_def run_def eval_nat_numeral process_simps demo_simps process_holds_def
      cancelled_env_def scheduler_config_def)

theorem reconciles_spaced_under_lock_witness:
  "\<exists>c p l. run (audited_leader process_leader) (audited_subscriber (process_channel demo_pubsub))
     (audited_env process_holds (demo_env OBSERVER)) 3
     (new_coordinator (demo_env OBSERVER) (demo_process OBSERVER), (demo_process OBSERVER, [])) =
       Some (Inr (), (c, (p, l))) \<and>
     length l = 2 \<and> list_all fst l \<and> successively (\<lambda>x y. snd x + 1 \<le> snd y) l"
proof -
  obtain c p where run: "run (audited_leader process_leader) (audited_subscriber (process_channel demo_pubsub))
     (audited_env process_holds (demo_env OBSERVER)) 3
     (new_coordinator (demo_env OBSERVER) (demo_process OBSERVER), (demo_process OBSERVER, [])) =
       Some (Inr (), (c, (p, [(True, 100), (True, 101)])))"
    using demo_run by blast
  have "0 \<le> ce_now (demo_env OBSERVER) (demo_process OBSERVER)" by (simp add: demo_simps)
  from reconciles_spaced_under_lock [OF demo_env_ok demo_process_ok this run] run
  show ?thesis by (auto simp: demo_env_def default_coordinator_def)
qed


theorem coordinator_survives_failures_witness:
  "\<exists>s. run_coordinator demo_pubsub cancelled_env 3 (demo_process SCHEDULER) = Some (Inl CancelledError, s)"
proof -
  have "cancel_only (ce_sleep cancelled_env d)" for d
    by (simp add: cancelled_env_def cancel_only_def io_raise_def)
  moreover have "cancel_only (pc_subscribe demo_pubsub ch)" for ch
    by (simp add: demo_pubsub_def cancel_only_return)
  ultimately show ?thesis using demo_cancelled coordinator_survives_failures by blast
qed

end
