(* ===== verification/Events.thy ===== *)
theory Events
  imports Database Activity Channels Leader
begin

text \<open>
  control/coordinator/event_listener.py and app/api/v1/events.py: changes of the workspace table reach the
  browsers.  A trigger notifies the listener with the ids; the listener reads the row and publishes it as
  JSON on the owner's channel, or wakes the coordinators; the SSE endpoint forwards what it receives on the
  channel, without repetitions.  The JSON codec, \<open>isoformat\<close> and \<open>str\<close> are parameters, the Redis client
  is that of Activity and Channels.
\<close>

section \<open>The listener\<close>

record 'w listener_ctx =
  lc_channels :: redis_channel_config
  lc_redis :: "'w redis"
  lc_loads :: "string \<Rightarrow> exn + json"
  lc_dumps :: "json \<Rightarrow> string"
  lc_isoformat :: "datetime \<Rightarrow> string"
  lc_str :: "json \<Rightarrow> string"

text \<open>\<open>el_connected\<close>: the SQLAlchemy connection is there, \<open>el_db\<close>: what it sees.\<close>

record 'w listener =
  el_running :: bool
  el_connected :: bool
  el_db :: db
  el_world :: 'w

definition on_el_db :: "(db, 'a) io \<Rightarrow> ('w listener, 'a) io" where
  "on_el_db m = io_zoom el_db (\<lambda>d s. s\<lparr>el_db := d\<rparr>) m"

definition on_el_world :: "('w, 'a) io \<Rightarrow> ('w listener, 'a) io" where
  "on_el_world m = io_zoom el_world (\<lambda>w s. s\<lparr>el_world := w\<rparr>) m"

definition json_str :: "string option \<Rightarrow> json" where
  "json_str x = (case x of None \<Rightarrow> JNull | Some s \<Rightarrow> JStr s)"

definition row_json :: "(datetime \<Rightarrow> string) \<Rightarrow> workspace \<Rightarrow> json" where
  "row_json fmt w = JObj
     [(''id'', JStr (ws_id w)), (''owner_user_id'', JStr (ws_owner_user_id w)), (''name'', JStr (ws_name w)),
      (''description'', json_str (ws_description w)), (''memo'', json_str (ws_memo w)),
      (''image_ref'', JStr (ws_image_ref w)), (''phase'', JStr (phase_value (ws_phase w))),
      (''operation'', JStr (operation_value (ws_operation w))),
      (''desired_state'', JStr (desired_value (ws_desired_state w))), (''archive_key'', json_str (ws_archive_key w)),
      (''error_reason'', json_str (map_option error_reason_value (ws_error_reason w))),
      (''error_count'', JInt (ws_error_count w)), (''created_at'', JStr (fmt (ws_created_at w))),
      (''updated_at'', JStr (fmt (ws_updated_at w))), (''last_access_at'', json_str (map_option fmt (ws_last_access_at w))),
      (''phase_changed_at'', json_str (map_option fmt (ws_phase_changed_at w))),
      (''deleted_at'', json_str (map_option fmt (ws_deleted_at w)))]"

text \<open>The id comes from the payload; the driver refuses what is not a string.\<close>

definition fetch_workspace :: "(datetime \<Rightarrow> string) \<Rightarrow> json \<Rightarrow> ('w listener, json option) io" where
  "fetch_workspace fmt workspace_id = io_bind io_get (\<lambda>s.
     if \<not> el_connected s then io_return None
     else (case workspace_id of
         JStr i \<Rightarrow> io_bind (on_el_db (db_execute (q_workspace (\<lambda>w. ws_id w = i))))
           (\<lambda>row. io_return (map_option (row_json fmt) row))
       | _ \<Rightarrow> io_raise (OtherError ''DataError'')))"

definition sse_channel :: "redis_channel_config \<Rightarrow> string \<Rightarrow> string" where
  "sse_channel ch uid = sse_prefix ch @ '':'' @ uid"

text \<open>\<open>f"{user_id}"\<close>\<close>

definition fstring :: "(json \<Rightarrow> string) \<Rightarrow> json \<Rightarrow> string" where
  "fstring str j = (case j of JStr s \<Rightarrow> s | _ \<Rightarrow> str j)"

definition publish_row :: "'w listener_ctx \<Rightarrow> json \<Rightarrow> json \<Rightarrow> ('w listener, unit) io" where
  "publish_row cx uid data =
     io_bind (on_el_world (publish (lc_redis cx) (sse_channel (lc_channels cx) (fstring (lc_str cx) uid))
       (lc_dumps cx data))) (\<lambda>_. io_return ())"

definition handle_sse :: "'w listener_ctx \<Rightarrow> string \<Rightarrow> ('w listener, unit) io" where
  "handle_sse cx payload =
     io_try
       (io_bind (io_of (lc_loads cx payload)) (\<lambda>data.
         io_bind (io_of (json_get data ''id'' JNull)) (\<lambda>workspace_id.
           io_bind (io_of (json_get data ''owner_user_id'' JNull)) (\<lambda>uid.
             if \<not> json_truthy workspace_id \<or> \<not> json_truthy uid then io_return ()
             else io_bind (fetch_workspace (lc_isoformat cx) workspace_id) (\<lambda>workspace_data.
                 case workspace_data of
                   None \<Rightarrow> io_return ()
                 | Some data \<Rightarrow> publish_row cx uid data)))))
       (\<lambda>_. io_return ())"

text \<open>\<open>asyncio.gather\<close> of two: the second runs also when the first one failed.\<close>

definition gather2 :: "('s, 'a) io \<Rightarrow> ('s, 'a) io \<Rightarrow> ('s, unit) io" where
  "gather2 m n s =
     (case m s of
        (Inr _, t) \<Rightarrow> io_bind n (\<lambda>_. io_return ()) t
      | (Inl e, t) \<Rightarrow> if is_Exception e then (Inl e, snd (n t)) else (Inl e, t))"

definition handle_wake :: "'w listener_ctx \<Rightarrow> ('w listener, unit) io" where
  "handle_wake cx =
     io_try
       (gather2 (on_el_world (publish (lc_redis cx) (wake_prefix (lc_channels cx) @ '':observer'') []))
                (on_el_world (publish (lc_redis cx) (wake_prefix (lc_channels cx) @ '':wc'') [])))
       (\<lambda>_. io_return ())"

definition dispatch :: "'w listener_ctx \<Rightarrow> string \<Rightarrow> string \<Rightarrow> ('w listener, unit) io" where
  "dispatch cx channel payload =
     io_try
       (if channel = ''ws_sse'' then handle_sse cx payload
        else if channel = ''ws_wake'' then handle_wake cx
        else io_return ())
       (\<lambda>_. io_return ())"

text \<open>The worker on the events of the queue, up to a cancellation.\<close>

fun worker_loop :: "'w listener_ctx \<Rightarrow> (string \<times> string) list \<Rightarrow> 'w listener \<Rightarrow> 'w listener" where
  "worker_loop cx [] s = s"
| "worker_loop cx ((channel, payload) # es) s =
     (case dispatch cx channel payload s of
        (Inl e, t) \<Rightarrow> if is_Exception e then worker_loop cx es t else t
      | (Inr _, t) \<Rightarrow> worker_loop cx es t)"

section \<open>The SSE endpoint\<close>

type_synonym sent_state = "json \<rightharpoonup> json list"

definition sse_field :: "json \<Rightarrow> string \<Rightarrow> json" where
  "sse_field j k = (case j of JObj d \<Rightarrow> (case map_of d k of None \<Rightarrow> JNull | Some v \<Rightarrow> v) | _ \<Rightarrow> JNull)"

definition visible_fields :: "json \<Rightarrow> json list" where
  "visible_fields j = map (sse_field j) [''phase'', ''operation'', ''error_reason'', ''name'', ''description'', ''memo'']"

definition workspace_event :: "string \<Rightarrow> string" where
  "workspace_event payload = ''event: workspace'' @ [CHR 0x0A] @ ''data: '' @ payload @ [CHR 0x0A, CHR 0x0A]"

text \<open>A dictionary key has to be hashable.\<close>

fun hashable :: "json \<Rightarrow> bool" where
  "hashable (JArr _) = False"
| "hashable (JObj _) = False"
| "hashable _ = True"

definition process_payload ::
  "(string \<Rightarrow> exn + json) \<Rightarrow> string \<Rightarrow> sent_state \<Rightarrow> exn + string option \<times> sent_state" where
  "process_payload loads payload last_sent =
     (case loads payload of
        Inl e \<Rightarrow> if e = OtherError ''JSONDecodeError'' then Inr (None, last_sent) else Inl e
      | Inr data \<Rightarrow>
          ex_bind (json_get data ''id'' JNull) (\<lambda>workspace_id.
            if \<not> hashable workspace_id then Inl (OtherError ''TypeError'')
            else if json_truthy (sse_field data ''deleted_at'') then
              Inr (Some (workspace_event payload), last_sent(workspace_id := None))
            else if last_sent workspace_id = Some (visible_fields data) then Inr (None, last_sent)
            else Inr (Some (workspace_event payload), last_sent(workspace_id \<mapsto> visible_fields data))))"

text \<open>The events of a sequence of payloads.\<close>

fun process_all :: "(string \<Rightarrow> exn + json) \<Rightarrow> string list \<Rightarrow> sent_state \<Rightarrow> exn + string list" where
  "process_all loads [] st = Inr []"
| "process_all loads (p # ps) st =
     ex_bind (process_payload loads p st) (\<lambda>(ev, st').
       ex_bind (process_all loads ps st') (\<lambda>evs. Inr ((case ev of None \<Rightarrow> [] | Some e \<Rightarrow> [e]) @ evs)))"

section \<open>What the endpoint forwards\<close>

text \<open>The reference: a payload is shown when it tells of a deletion, or when the payload before it of the
  same workspace is missing, told of a deletion or differed in a visible field.\<close>

definition told_deleted :: "json \<Rightarrow> bool" where
  "told_deleted j = json_truthy (sse_field j ''deleted_at'')"

definition previous :: "json list \<Rightarrow> json \<Rightarrow> json option" where
  "previous past i =
     (let js = filter (\<lambda>j. sse_field j ''id'' = i) past in if js = [] then None else Some (last js))"

definition shown :: "json list \<Rightarrow> json \<Rightarrow> bool" where
  "shown past j \<longleftrightarrow> told_deleted j \<or>
     (case previous past (sse_field j ''id'') of
        None \<Rightarrow> True
      | Some q \<Rightarrow> told_deleted q \<or> visible_fields q \<noteq> visible_fields j)"

fun shown_events :: "json list \<Rightarrow> (string \<times> json) list \<Rightarrow> string list" where
  "shown_events past [] = []"
| "shown_events past ((p, j) # ps) =
     (if shown past j then [workspace_event p] else []) @ shown_events (past @ [j]) ps"

definition proper_payload :: "(string \<Rightarrow> exn + json) \<Rightarrow> string \<times> json \<Rightarrow> bool" where
  "proper_payload loads pj \<longleftrightarrow>
     loads (fst pj) = Inr (snd pj) \<and> (\<exists>d. snd pj = JObj d) \<and> hashable (sse_field (snd pj) ''id'')"

text \<open>What the endpoint remembers of the past.\<close>

definition remembered :: "json list \<Rightarrow> sent_state" where
  "remembered past i =
     (case previous past i of
        None \<Rightarrow> None
      | Some q \<Rightarrow> if told_deleted q then None else Some (visible_fields q))"

lemma previous_snoc:
  "previous (past @ [j]) i = (if sse_field j ''id'' = i then Some j else previous past i)"
  by (simp add: previous_def Let_def)

lemma remembered_snoc:
  "remembered (past @ [j]) = (remembered past)
     (sse_field j ''id'' := (if told_deleted j then None else Some (visible_fields j)))"
  by (auto simp: remembered_def previous_snoc fun_eq_iff)

lemma process_payload_proper:
  assumes "proper_payload loads (p, j)"
  shows "process_payload loads p (remembered past) =
     Inr (if shown past j then Some (workspace_event p) else None, remembered (past @ [j]))"
proof -
  have "json_get j ''id'' JNull = Inr (sse_field j ''id'')"
    using assms by (auto simp: proper_payload_def json_get_def sse_field_def)
  moreover have "remembered past (sse_field j ''id'') = Some (visible_fields j) \<Longrightarrow>
      (remembered past)(sse_field j ''id'' \<mapsto> visible_fields j) = remembered past"
    by (rule fun_upd_idem) 
  ultimately show ?thesis
    using assms
    by (auto simp: process_payload_def proper_payload_def told_deleted_def [symmetric] shown_def remembered_snoc
        remembered_def split: option.splits if_splits)
qed

lemma remembered_Nil: "remembered [] = Map.empty"
  by (simp add: fun_eq_iff remembered_def previous_def)

lemma process_all_proper:
  "list_all (proper_payload loads) pjs \<Longrightarrow>
   process_all loads (map fst pjs) (remembered past) = Inr (shown_events past pjs)"
proof (induction pjs arbitrary: past)
  case (Cons pj pjs)
  obtain p j where pj: "pj = (p, j)" by (cases pj)
  show ?case
    using Cons.prems process_payload_proper [of loads p j past] Cons.IH [of "past @ [j]"]
    by (simp add: pj)
qed simp

text \<open>The SSE endpoint forwards exactly the changes a user can see: of the payloads it receives it
  emits, in order, those that tell of a deletion or differ in a visible field from the payload
  received before for the same workspace.\<close>
theorem sse_forwards_exactly_changes:
  assumes "list_all (proper_payload loads) pjs"
  shows "process_all loads (map fst pjs) Map.empty = Inr (shown_events [] pjs)"
  using process_all_proper [OF assms, of "[]"] by (simp add: remembered_Nil)

section \<open>From the table to the browser\<close>

definition ids_json :: "string \<Rightarrow> string \<Rightarrow> json" where
  "ids_json wid uid = JObj [(''id'', JStr wid), (''owner_user_id'', JStr uid)]"

lemma row_json_fields:
  "json_get (row_json fmt w) ''id'' JNull = Inr (JStr (ws_id w))"
  "sse_field (row_json fmt w) ''deleted_at'' = json_str (map_option fmt (ws_deleted_at w))"
  "visible_fields (row_json fmt w) =
     [JStr (phase_value (ws_phase w)), JStr (operation_value (ws_operation w)),
      json_str (map_option error_reason_value (ws_error_reason w)), JStr (ws_name w),
      json_str (ws_description w), json_str (ws_memo w)]"
  by (simp_all add: row_json_def json_get_def sse_field_def visible_fields_def)

text \<open>What the endpoint does with the JSON of a row.\<close>

definition forward_row :: "string \<Rightarrow> workspace \<Rightarrow> json list \<Rightarrow> sent_state \<Rightarrow> string option \<times> sent_state" where
  "forward_row payload w vis last_sent =
     (if ws_deleted_at w \<noteq> None then (Some (workspace_event payload), last_sent(JStr (ws_id w) := None))
      else if last_sent (JStr (ws_id w)) = Some vis then (None, last_sent)
      else (Some (workspace_event payload), last_sent(JStr (ws_id w) \<mapsto> vis)))"

lemma process_row:
  assumes "loads payload = Inr (row_json fmt w)" and "\<And>t. fmt t \<noteq> []"
  shows "process_payload loads payload last_sent =
    Inr (forward_row payload w (visible_fields (row_json fmt w)) last_sent)"
  by (auto simp: process_payload_def forward_row_def assms row_json_fields json_str_def)

text \<open>A notified row reaches the browser.  The listener publishes on the channel of the owner one
  message, the row as JSON; the endpoint that receives it emits it, unless the last message it had of
  this workspace showed the same phase, operation, error, name, description and memo.\<close>
theorem notified_row_reaches_browser:
  assumes codec: "lc_loads cx (lc_dumps cx (row_json (lc_isoformat cx) w)) = Inr (row_json (lc_isoformat cx) w)"
    and fmt: "\<And>t. lc_isoformat cx t \<noteq> []"
    and ids: "lc_loads cx payload = Inr (ids_json (ws_id w) (ws_owner_user_id w))"
      "ws_id w \<noteq> []" "ws_owner_user_id w \<noteq> []"
    and s: "el_connected s" "db_ok (el_db s)" "keys_ok (db_tables (el_db s))" "w \<in> set (tb_workspaces (db_tables (el_db s)))"
    and sent: "rd_publish (lc_redis cx) (sse_channel (lc_channels cx) (ws_owner_user_id w))
      (lc_dumps cx (row_json (lc_isoformat cx) w)) (el_world s) = (Inr n, w')"
  shows "handle_sse cx payload s = (Inr (), s\<lparr>el_world := w'\<rparr>) \<and>
    process_payload (lc_loads cx) (lc_dumps cx (row_json (lc_isoformat cx) w)) last_sent =
      Inr (forward_row (lc_dumps cx (row_json (lc_isoformat cx) w)) w
        [JStr (phase_value (ws_phase w)), JStr (operation_value (ws_operation w)),
         json_str (map_option error_reason_value (ws_error_reason w)), JStr (ws_name w),
         json_str (ws_description w), json_str (ws_memo w)] last_sent)"
proof -
  have row: "sql_one_or_none (\<lambda>x. ws_id x = ws_id w) (tb_workspaces (db_tables (el_db s))) = Some w"
    using s(3,4) by (intro ws_table.one_of_key) (auto simp: keys_ok_def)
  have get: "json_get (ids_json i u) ''id'' JNull = Inr (JStr i)"
      "json_get (ids_json i u) ''owner_user_id'' JNull = Inr (JStr u)" for i u
    by (simp_all add: ids_json_def json_get_def)
  have "handle_sse cx payload s = (Inr (), s\<lparr>el_world := w'\<rparr>)"
    using ids s(1,2) sent row
    by (simp add: handle_sse_def fetch_workspace_def publish_row_def publish_def fstring_def on_el_db_def on_el_world_def
        get io_try_def io_bind_def io_get_def io_of_def io_return_def io_zoom_def io_simps sql_simps)
  then show ?thesis using process_row [where loads = "lc_loads cx" and fmt = "lc_isoformat cx" and w = w
        and payload = "lc_dumps cx (row_json (lc_isoformat cx) w)"] codec fmt
    by (simp add: row_json_fields)
qed


section \<open>Witnesses\<close>

definition demo_payload :: "string \<Rightarrow> string \<Rightarrow> json" where
  "demo_payload ph deleted = JObj [(''id'', JStr ''a''), (''phase'', JStr ph), (''deleted_at'', JStr deleted)]"

definition demo_loads :: "string \<Rightarrow> exn + json" where
  "demo_loads p =
     (if p = ''1'' then Inr (demo_payload ''STANDBY'' [])
      else if p = ''2'' then Inr (demo_payload ''RUNNING'' [])
      else if p = ''3'' then Inr (demo_payload ''RUNNING'' ''now'')
      else Inl (OtherError ''JSONDecodeError''))"

theorem sse_forwards_exactly_changes_witness:
  "process_all demo_loads [''1'', ''1'', ''2'', ''3'', ''2''] Map.empty =
     Inr [workspace_event ''1'', workspace_event ''2'', workspace_event ''3'', workspace_event ''2'']"
proof -
  let ?ps = "[(''1'', demo_payload ''STANDBY'' []), (''1'', demo_payload ''STANDBY'' []), (''2'', demo_payload ''RUNNING'' []),
    (''3'', demo_payload ''RUNNING'' ''now''), (''2'', demo_payload ''RUNNING'' [])]"
  have "list_all (proper_payload demo_loads) ?ps"
    by (simp add: proper_payload_def demo_loads_def demo_payload_def sse_field_def)
  from sse_forwards_exactly_changes [OF this]
  show ?thesis
    by (simp add: shown_def previous_def told_deleted_def demo_payload_def sse_field_def visible_fields_def)
qed

definition demo_row :: workspace where
  "demo_row =
     \<lparr>ws_id = ''a'', ws_owner_user_id = ''u'', ws_name = ''demo'', ws_description = None, ws_memo = None, ws_image_ref = ''img'',
      ws_instance_backend = [], ws_storage_backend = [], ws_home_store_key = [], ws_home_ctx = None,
      ws_conditions = no_conditions, ws_phase = phase.STANDBY, ws_operation = NONE, ws_op_started_at = None, ws_op_id = None,
      ws_desired_state = desired_state.STANDBY, ws_archive_key = None, ws_observed_at = None, ws_last_access_at = None,
      ws_phase_changed_at = None, ws_error_reason = None, ws_error_count = 0, ws_created_at = 0, ws_updated_at = 0,
      ws_deleted_at = None\<rparr>"

text \<open>The world is the list of published messages.\<close>

definition demo_ctx :: "(string \<times> string) list listener_ctx" where
  "demo_ctx =
     \<lparr>lc_channels = default_redis_channel,
      lc_redis = \<lparr>rd_zadd_gt = \<lambda>_ _. io_return (), rd_zrange = \<lambda>_. io_return [], rd_zrem = \<lambda>_ _. io_return 0,
        rd_zrangebyscore = \<lambda>_ _. io_return [], rd_publish = \<lambda>ch m w. (Inr 1, w @ [(ch, m)])\<rparr>,
      lc_loads = (\<lambda>p. if p = ''row'' then Inr (row_json (\<lambda>_. ''t'') demo_row) else Inr (ids_json ''a'' ''u'')),
      lc_dumps = (\<lambda>_. ''row''), lc_isoformat = (\<lambda>_. ''t''), lc_str = (\<lambda>_. [])\<rparr>"

definition demo_listener :: "(string \<times> string) list listener" where
  "demo_listener =
     \<lparr>el_running = True, el_connected = True,
      el_db = db_of \<lparr>tb_users = [], tb_sessions = [], tb_workspaces = [demo_row]\<rparr>, el_world = []\<rparr>"

theorem notified_row_reaches_browser_witness:
  "handle_sse demo_ctx ''ids'' demo_listener = (Inr (), demo_listener\<lparr>el_world := [(''codehub:sse:u'', ''row'')]\<rparr>) \<and>
   process_payload (lc_loads demo_ctx) ''row'' Map.empty =
     Inr (forward_row ''row'' demo_row [JStr ''STANDBY'', JStr ''NONE'', JNull, JStr ''demo'', JNull, JNull] Map.empty)"
proof -
  have cx: "lc_isoformat demo_ctx = (\<lambda>_. ''t'')" "lc_dumps demo_ctx x = ''row''"
      "lc_loads demo_ctx ''row'' = Inr (row_json (\<lambda>_. ''t'') demo_row)" "lc_loads demo_ctx ''ids'' = Inr (ids_json ''a'' ''u'')"
      "sse_channel (lc_channels demo_ctx) ''u'' = ''codehub:sse:u''"
      "rd_publish (lc_redis demo_ctx) ch m v = (Inr 1, v @ [(ch, m)])" for x ch m v
    by (simp_all add: demo_ctx_def sse_channel_def default_redis_channel_def)
  have row: "ws_id demo_row = ''a''" "ws_owner_user_id demo_row = ''u''"
      "ws_phase demo_row = phase.STANDBY" "ws_operation demo_row = NONE" "ws_error_reason demo_row = None"
      "ws_name demo_row = ''demo''" "ws_description demo_row = None" "ws_memo demo_row = None" "json_str None = JNull"
    by (simp_all add: demo_row_def json_str_def)
  have s: "el_connected demo_listener" "db_ok (el_db demo_listener)" "keys_ok (db_tables (el_db demo_listener))"
      "demo_row \<in> set (tb_workspaces (db_tables (el_db demo_listener)))" "el_world demo_listener = []"
    by (simp_all add: demo_listener_def db_of_def db_ok_def keys_ok_def)
  show ?thesis
    using notified_row_reaches_browser [where cx = demo_ctx and w = demo_row and s = demo_listener and payload = "''ids''"
        and n = 1 and w' = "[(''codehub:sse:u'', ''row'')]" and last_sent = Map.empty] s
    by (simp add: row cx)
qed


end
