(* ===== verification/Streams.thy ===== *)
theory Streams
  imports Events
begin

text \<open>
  The two long-running loops around Events: \<open>run\<close> of the event listener and the generator of the SSE
  endpoint.  Both may run forever, so both have fuel; \<open>None\<close> means that the loop did not end within so
  many rounds.  The worker of the listener handles each notification when it is put into the queue.
\<close>

section \<open>The run of the listener (event_listener.py)\<close>

record 'w listener_env =
  ln_connect_notify :: "('w listener, unit) io"
  ln_connect_sa :: "('w listener, unit) io"
  ln_leader :: "'w listener leader_election"
  ln_sleep :: "seconds \<Rightarrow> ('w listener, unit) io"
  ln_listen :: "string \<Rightarrow> ('w listener, unit) io"
  ln_next :: "('w listener, (string \<times> string option) option) io"
  ln_close :: "('w listener, unit) io"

text \<open>\<open>while self._running and not await leader.try_acquire(): await asyncio.sleep(..)\<close>\<close>

fun wait_for_leadership :: "'w listener_env \<Rightarrow> nat \<Rightarrow> 'w listener \<Rightarrow> ((exn + unit) \<times> 'w listener) option" where
  "wait_for_leadership env 0 s = None"
| "wait_for_leadership env (Suc n) s =
     (if \<not> el_running s then Some (Inr (), s)
      else case le_try_acquire (ln_leader env) s of
          (Inl e, t) \<Rightarrow> Some (Inl e, t)
        | (Inr True, t) \<Rightarrow> Some (Inr (), t)
        | (Inr False, t) \<Rightarrow>
            (case ln_sleep env 5 t of
               (Inl e, u) \<Rightarrow> Some (Inl e, u)
             | (Inr _, u) \<Rightarrow> wait_for_leadership env n u))"

text \<open>The loop over \<open>notifies()\<close>, which ends when the connection does.\<close>

fun notify_loop :: "'w listener_ctx \<Rightarrow> 'w listener_env \<Rightarrow> nat \<Rightarrow> 'w listener \<Rightarrow> ((exn + unit) \<times> 'w listener) option" where
  "notify_loop cx env 0 s = None"
| "notify_loop cx env (Suc n) s =
     (case ln_next env s of
        (Inl e, t) \<Rightarrow> Some (Inl e, t)
      | (Inr None, t) \<Rightarrow> Some (Inr (), t)
      | (Inr (Some (channel, payload)), t) \<Rightarrow>
          if \<not> el_running t then Some (Inr (), t)
          else notify_loop cx env n
                 (worker_loop cx [(channel, case payload of None \<Rightarrow> [] | Some p \<Rightarrow> p)] t))"

definition listener_body :: "'w listener_ctx \<Rightarrow> 'w listener_env \<Rightarrow> nat \<Rightarrow> 'w listener \<Rightarrow> ((exn + unit) \<times> 'w listener) option" where
  "listener_body cx env n s =
     (case wait_for_leadership env n s of
        Some (Inr _, t) \<Rightarrow>
          if \<not> el_running t then Some (Inr (), t)
          else (case io_seq (ln_listen env ''ws_sse'') (ln_listen env ''ws_wake'') t of
              (Inl e, u) \<Rightarrow> Some (Inl e, u)
            | (Inr _, u) \<Rightarrow> notify_loop cx env n u)
      | r \<Rightarrow> r)"

definition close_connections :: "'w listener_env \<Rightarrow> ('w listener, unit) io" where
  "close_connections env = io_seq (ln_close env) (\<lambda>s. (Inr (), s\<lparr>el_connected := False\<rparr>))"

text \<open>Both except clauses only log, so the result of the body is dropped.\<close>

definition listener_run :: "'w listener_ctx \<Rightarrow> 'w listener_env \<Rightarrow> nat \<Rightarrow> 'w listener \<Rightarrow> ((exn + unit) \<times> 'w listener) option" where
  "listener_run cx env n s =
     (case io_seq (ln_connect_notify env) (ln_connect_sa env) (s\<lparr>el_running := True\<rparr>) of
        (Inl e, t) \<Rightarrow> Some (Inl e, t)
      | (Inr _, t) \<Rightarrow>
          map_option (\<lambda>(_, u). close_connections env u) (listener_body cx env n (t\<lparr>el_connected := True\<rparr>)))"

definition stop :: "'w listener \<Rightarrow> 'w listener" where
  "stop s = s\<lparr>el_running := False\<rparr>"

text \<open>A listener that got its connections ends without an exception, and without a connection.\<close>

lemma listener_ends:
  assumes "listener_run cx env n s = Some (r, t)"
    and "io_seq (ln_connect_notify env) (ln_connect_sa env) (s\<lparr>el_running := True\<rparr>) = (Inr u, s')"
    and "\<And>v. \<exists>v'. ln_close env v = (Inr (), v')"
  shows "r = Inr () \<and> \<not> el_connected t"
proof -
  obtain x v where "close_connections env v = (r, t)" "listener_body cx env n (s'\<lparr>el_connected := True\<rparr>) = Some (x, v)"
    using assms(1,2) by (auto simp: listener_run_def)
  then show ?thesis
    using assms(3) [of v] by (auto simp: close_connections_def io_seq_def io_bind_def)
qed

text \<open>A stopped listener leaves at its next notification.\<close>

lemma stopped_leaves:
  "ln_next env (stop s) = (Inr (Some nt), stop t) \<Longrightarrow> notify_loop cx env (Suc n) (stop s) = Some (Inr (), stop t)"
  by (cases nt) (simp add: stop_def)

section \<open>The generator of the endpoint (api/v1/events.py)\<close>

record 'w sse_env =
  se_subscriber :: "'w channel_subscriber"
  se_channel :: string
  se_loads :: "string \<Rightarrow> exn + json"
  se_heartbeat :: seconds
  se_disconnected :: "('w, bool) io"
  se_now :: "'w \<Rightarrow> seconds"
  se_sleep :: "seconds \<Rightarrow> ('w, unit) io"

text \<open>What was yielded, the local variables, and the world.\<close>

record 'w stream =
  st_out :: "string list"
  st_sent :: sent_state
  st_beat :: seconds
  st_world :: 'w

definition on_stream :: "('w, 'a) io \<Rightarrow> ('w stream, 'a) io" where
  "on_stream m = io_zoom st_world (\<lambda>w s. s\<lparr>st_world := w\<rparr>) m"

definition yield_event :: "string \<Rightarrow> 'w stream \<Rightarrow> 'w stream" where
  "yield_event e s = s\<lparr>st_out := st_out s @ [e]\<rparr>"

definition simple_event :: "string \<Rightarrow> string" where
  "simple_event name = ''event: '' @ name @ [CHR 0x0A] @ ''data: {}'' @ [CHR 0x0A, CHR 0x0A]"

definition handle_payload :: "'w sse_env \<Rightarrow> string option \<Rightarrow> ('w stream, unit) io" where
  "handle_payload env payload = io_bind io_get (\<lambda>s.
     case payload of
       None \<Rightarrow> io_return ()
     | Some p \<Rightarrow>
         io_bind (io_of (process_payload (se_loads env) p (st_sent s))) (\<lambda>(ev, st). \<lambda>s.
           (Inr (), (case ev of None \<Rightarrow> s | Some e \<Rightarrow> yield_event e s)\<lparr>st_sent := st\<rparr>)))"

definition heartbeat :: "'w sse_env \<Rightarrow> ('w stream, unit) io" where
  "heartbeat env = (\<lambda>s.
     let now = se_now env (st_world s) in
     (Inr (), if now - st_beat s \<ge> se_heartbeat env
              then (yield_event (simple_event ''heartbeat'') s)\<lparr>st_beat := now\<rparr> else s))"

text \<open>One pass of the loop; False is the \<open>break\<close>.  A read error is \<open>None\<close> after its pause.\<close>

definition read_payload :: "'w sse_env \<Rightarrow> ('w stream, string option option) io" where
  "read_payload env =
     io_try (io_bind (on_stream (cs_get_message (se_subscriber env) 1)) (\<lambda>p. io_return (Some p)))
       (\<lambda>_. io_seq (on_stream (se_sleep env 1)) (io_return None))"

definition stream_pass :: "'w sse_env \<Rightarrow> ('w stream, bool) io" where
  "stream_pass env =
     io_bind (on_stream (se_disconnected env)) (\<lambda>gone.
       if gone then io_return False
       else io_bind (read_payload env) (\<lambda>r.
         case r of
           None \<Rightarrow> io_return True
         | Some payload \<Rightarrow> io_seq (handle_payload env payload) (io_seq (heartbeat env) (io_return True))))"

fun stream_loop :: "'w sse_env \<Rightarrow> nat \<Rightarrow> 'w stream \<Rightarrow> ((exn + unit) \<times> 'w stream) option" where
  "stream_loop env 0 s = None"
| "stream_loop env (Suc n) s =
     (case stream_pass env s of
        (Inl e, t) \<Rightarrow> Some (Inl e, t)
      | (Inr False, t) \<Rightarrow> Some (Inr (), t)
      | (Inr True, t) \<Rightarrow> stream_loop env n t)"

definition stream_body :: "'w sse_env \<Rightarrow> nat \<Rightarrow> 'w stream \<Rightarrow> ((exn + unit) \<times> 'w stream) option" where
  "stream_body env n s =
     (case on_stream (cs_subscribe (se_subscriber env) (se_channel env)) s of
        (Inl e, t) \<Rightarrow> Some (Inl e, t)
      | (Inr _, t) \<Rightarrow>
          stream_loop env n (yield_event (simple_event ''connected'') (t\<lparr>st_beat := se_now env (st_world t)\<rparr>)))"

definition event_generator :: "'w sse_env \<Rightarrow> nat \<Rightarrow> 'w \<Rightarrow> ((exn + unit) \<times> 'w stream) option" where
  "event_generator env n w =
     map_option
       (\<lambda>(r, s). io_finally (\<lambda>t. (if r = Inl CancelledError then Inr () else r, t))
          (on_stream (cs_unsubscribe (se_subscriber env))) s)
       (stream_body env n \<lparr>st_out = [], st_sent = Map.empty, st_beat = 0, st_world = w\<rparr>)"

section \<open>What a stream emitted\<close>

text \<open>The world with the list of the payloads that were received.\<close>

definition recording :: "'w sse_env \<Rightarrow> ('w \<times> string list) sse_env" where
  "recording env =
     \<lparr>se_subscriber =
        \<lparr>cs_subscribe = (\<lambda>ch. io_fst (cs_subscribe (se_subscriber env) ch)),
         cs_unsubscribe = io_fst (cs_unsubscribe (se_subscriber env)),
         cs_get_message = (\<lambda>d (w, l). case cs_get_message (se_subscriber env) d w of
             (Inr (Some p), w') \<Rightarrow> (Inr (Some p), (w', l @ [p]))
           | (r, w') \<Rightarrow> (r, (w', l)))\<rparr>,
      se_channel = se_channel env, se_loads = se_loads env, se_heartbeat = se_heartbeat env,
      se_disconnected = io_fst (se_disconnected env), se_now = (\<lambda>(w, l). se_now env w),
      se_sleep = (\<lambda>d. io_fst (se_sleep env d))\<rparr>"

definition is_workspace_event :: "string \<Rightarrow> bool" where
  "is_workspace_event e = py_startswith e ''event: workspace''"

fun replay :: "(string \<Rightarrow> exn + json) \<Rightarrow> string list \<Rightarrow> sent_state \<Rightarrow> exn + string list \<times> sent_state" where
  "replay loads [] st = Inr ([], st)"
| "replay loads (p # ps) st =
     ex_bind (process_payload loads p st) (\<lambda>(ev, st').
       ex_bind (replay loads ps st') (\<lambda>(evs, st''). Inr ((case ev of None \<Rightarrow> [] | Some e \<Rightarrow> [e]) @ evs, st'')))"

lemma process_all_replay: "process_all loads ps st = ex_bind (replay loads ps st) (\<lambda>(evs, _). Inr evs)"
  by (induction ps arbitrary: st) (auto simp: ex_bind_def split: sum.splits prod.splits)

lemma replay_snoc:
  "replay loads ps st = Inr (evs, st') \<Longrightarrow> process_payload loads p st' = Inr (ev, st'') \<Longrightarrow>
   replay loads (ps @ [p]) st = Inr (evs @ (case ev of None \<Rightarrow> [] | Some e \<Rightarrow> [e]), st'')"
  by (induction ps arbitrary: st evs) (auto simp: ex_bind_def split: sum.splits prod.splits)

lemma workspace_events:
  "process_payload loads p st = Inr (Some e, st') \<Longrightarrow> is_workspace_event e"
  "\<not> is_workspace_event (simple_event ''heartbeat'')" "\<not> is_workspace_event (simple_event ''connected'')"
  by (auto simp: process_payload_def ex_bind_def is_workspace_event_def workspace_event_def py_startswith_def
      simple_event_def split: sum.splits if_splits)

definition faithful :: "(string \<Rightarrow> exn + json) \<Rightarrow> ('w \<times> string list) stream \<Rightarrow> bool" where
  "faithful loads s \<longleftrightarrow>
     replay loads (snd (st_world s)) Map.empty = Inr (filter is_workspace_event (st_out s), st_sent s)"

lemma faithful_world: "snd w = snd (st_world s) \<Longrightarrow> faithful loads (s\<lparr>st_world := w\<rparr>) = faithful loads s"
  by (simp add: faithful_def)

lemma keeps_on_stream_fst [keeps_rules]: "keeps (faithful loads) (on_stream (io_fst m))"
  by (rule keepsI) (auto simp: on_stream_def io_zoom_def io_fst_def faithful_world split: prod.splits)

lemma keeps_heartbeat [keeps_rules]: "keeps (faithful loads) (heartbeat env)"
  by (rule keepsI) (auto simp: heartbeat_def faithful_def yield_event_def workspace_events Let_def)

text \<open>A read changes the record, and the payload is handled before anything else.\<close>

lemma handle_payload_faithful:
  assumes "faithful (se_loads env) s" and "snd w = snd (st_world s) @ (case payload of None \<Rightarrow> [] | Some p \<Rightarrow> [p])"
    and "handle_payload env payload (s\<lparr>st_world := w\<rparr>) = (Inr u, t)"
  shows "faithful (se_loads env) t"
proof (cases payload)
  case None
  then show ?thesis using assms by (simp add: handle_payload_def faithful_world)
next
  case (Some p)
  obtain ev st where pp: "process_payload (se_loads env) p (st_sent s) = Inr (ev, st)"
      "t = (case ev of None \<Rightarrow> s\<lparr>st_world := w\<rparr> | Some e \<Rightarrow> yield_event e (s\<lparr>st_world := w\<rparr>))\<lparr>st_sent := st\<rparr>"
    using assms(3) Some by (auto simp: handle_payload_def io_bind_Inr_iff)
  show ?thesis
    using replay_snoc [OF assms(1) [unfolded faithful_def] pp(1)] pp assms(2) Some
    by (auto simp: faithful_def yield_event_def workspace_events(1) split: option.splits)
qed

context subscription
begin

lemma recorded_read:
  assumes "se_subscriber env = cs" "read_payload (recording env) s = (x, t)"
  shows "(x = Inl CancelledError \<and> (\<exists>w. t = s\<lparr>st_world := w\<rparr> \<and> snd w = snd (st_world s))) \<or>
    (\<exists>p w. x = Inr (Some p) \<and> t = s\<lparr>st_world := w\<rparr> \<and> snd w = snd (st_world s) @ (case p of None \<Rightarrow> [] | Some x \<Rightarrow> [x]))"
proof -
  obtain w l where w: "st_world s = (w, l)" by fastforce
  obtain y w' where get: "cs_get_message cs 1 w = (y, w')" by fastforce
  have "y = Inl e \<Longrightarrow> e = CancelledError" for e using cancel_onlyD [OF get_message_cancel_only] get by blast
  then show ?thesis
    using assms(2) get w
    by (cases y)
       (auto simp: read_payload_def io_try_def io_bind_def io_return_def on_stream_def io_zoom_def recording_def assms(1)
         split: option.splits if_splits)
qed

text \<open>A pass that is not ended by an error of the payload keeps the stream faithful.\<close>

lemma stream_pass_faithful:
  assumes cs: "se_subscriber env = cs" and f: "faithful (se_loads env) s"
    and pass: "stream_pass (recording env) s = (b, t)" and b: "isl b \<Longrightarrow> b = Inl CancelledError"
    and codec: "\<And>p. se_loads env p \<noteq> Inl CancelledError"
  shows "faithful (se_loads env) t"
proof -
  let ?env = "recording env"
  let ?rest = "\<lambda>r. case r of None \<Rightarrow> io_return True
         | Some payload \<Rightarrow> io_seq (handle_payload ?env payload) (io_seq (heartbeat ?env) (io_return True))"
  have loads: "se_loads ?env = se_loads env" by (simp add: recording_def)
  obtain d s1 where d: "on_stream (se_disconnected ?env) s = (d, s1)" by fastforce
  have k: "keeps (faithful (se_loads env)) (on_stream (se_disconnected ?env))"
    by (simp add: recording_def keeps_on_stream_fst)
  have f1: "faithful (se_loads env) s1" by (rule keepsD [OF k f d])
  obtain x s2 where rd: "read_payload ?env s1 = (x, s2)" by fastforce
  consider (out) "t = s1" | (reads) "io_bind (read_payload ?env) ?rest s1 = (b, t)"
    using pass d by (cases d) (auto simp: stream_pass_def io_bind_def io_return_def split: if_splits)
  then show ?thesis
  proof cases
    case out
    then show ?thesis using f1 by simp
  next
    case reads
    from recorded_read [OF cs rd] show ?thesis
    proof (elim disjE exE conjE)
      fix w assume "x = Inl CancelledError" "s2 = s1\<lparr>st_world := w\<rparr>" "snd w = snd (st_world s1)"
      then show ?thesis using reads rd f1 faithful_world [of w s1] by (auto simp: io_bind_def)
    next
      fix p w assume p: "x = Inr (Some p)" "s2 = s1\<lparr>st_world := w\<rparr>"
        "snd w = snd (st_world s1) @ (case p of None \<Rightarrow> [] | Some x \<Rightarrow> [x])"
      have "\<exists>u. fst (handle_payload ?env p s2) = Inr u"
        using reads rd p(1) b codec
        by (auto simp: io_bind_def io_seq_def handle_payload_def io_get_def io_of_def io_return_def process_payload_def
            json_get_def ex_bind_def loads split: option.splits sum.splits json.splits if_splits prod.splits)
      then obtain s3 where h: "handle_payload ?env p s2 = (Inr (), s3)" by (metis old.unit.exhaust prod.collapse)
      have f3: "faithful (se_loads env) s3"
        using handle_payload_faithful [of ?env, unfolded loads, OF f1 p(3) h [unfolded p(2)]] .
      have "heartbeat ?env s3 = (Inr (), t)"
        using reads rd p(1) h by (simp add: io_bind_def io_seq_def io_return_def heartbeat_def Let_def)
      then show ?thesis by (rule keepsD [OF keeps_heartbeat f3])
    qed
  qed
qed

lemma stream_loop_faithful:
  assumes "se_subscriber env = cs" "\<And>p. se_loads env p \<noteq> Inl CancelledError"
  shows "stream_loop (recording env) n s = Some (r, t) \<Longrightarrow> r = Inr () \<or> r = Inl CancelledError \<Longrightarrow>
    faithful (se_loads env) s \<Longrightarrow> faithful (se_loads env) t"
proof (induction n arbitrary: s)
  case (Suc n)
  obtain b u where p: "stream_pass (recording env) s = (b, u)" by fastforce
  then show ?case
    using stream_pass_faithful [OF assms(1) Suc.prems(3) p _ assms(2)] Suc
    by (auto split: sum.splits bool.splits)
qed simp

lemma generator_faithful:
  assumes cs: "se_subscriber env = cs" and codec: "\<And>p. se_loads env p \<noteq> Inl CancelledError"
    and run: "event_generator (recording env) n (w, []) = Some (Inr (), s)"
  shows "faithful (se_loads env) s"
proof -
  let ?s0 = "\<lparr>st_out = [], st_sent = Map.empty, st_beat = 0, st_world = (w, [])\<rparr>"
  obtain r1 s1 where body: "stream_body (recording env) n ?s0 = Some (r1, s1)"
      "io_finally (\<lambda>t. (if r1 = Inl CancelledError then Inr () else r1, t))
         (on_stream (cs_unsubscribe (se_subscriber (recording env)))) s1 = (Inr (), s)"
    using run by (auto simp: event_generator_def)
  have r1: "r1 = Inr () \<or> r1 = Inl CancelledError"
    using body(2) by (auto simp: io_finally_Inr_iff split: if_splits)
  obtain x s2 where sub: "on_stream (cs_subscribe (se_subscriber (recording env)) (se_channel (recording env))) ?s0 = (x, s2)"
    by fastforce
  have "keeps (faithful (se_loads env)) (on_stream (cs_subscribe (se_subscriber (recording env)) (se_channel (recording env))))"
    by (simp add: recording_def keeps_on_stream_fst)
  from keepsD [OF this _ sub] have f2: "faithful (se_loads env) s2" by (simp add: faithful_def)
  have "faithful (se_loads env) s1"
  proof (cases x)
    case (Inl e)
    then show ?thesis using body(1) sub f2 by (simp add: stream_body_def)
  next
    case (Inr u)
    have "faithful (se_loads env) (yield_event (simple_event ''connected'') (s2\<lparr>st_beat := b\<rparr>))" for b
      using f2 by (simp add: faithful_def yield_event_def workspace_events(3))
    then show ?thesis using stream_loop_faithful [OF cs codec _ r1] body(1) sub Inr by (simp add: stream_body_def)
  qed
  moreover have "keeps (faithful (se_loads env)) (on_stream (cs_unsubscribe (se_subscriber (recording env))))"
    by (simp add: recording_def keeps_on_stream_fst)
  ultimately show ?thesis using body(2) by (auto simp: io_finally_Inr_iff dest: keepsD)
qed

end


section \<open>A witness\<close>

text \<open>The world is the list of the messages to come; the browser leaves when there is none.\<close>

definition queue_pubsub :: "string list pubsub_client" where
  "queue_pubsub =
     \<lparr>pc_subscribe = (\<lambda>_. io_return ()), pc_unsubscribe = io_return (), pc_close = io_return (),
      pc_get_message = (\<lambda>_ ps. case ps of [] \<Rightarrow> (Inr None, [])
        | p # ps \<Rightarrow> (Inr (Some \<lparr>pm_type = ''message'', pm_data = Text p\<rparr>), ps)),
      pc_decode = (\<lambda>_. Inl (OtherError ''UnicodeDecodeError''))\<rparr>"

definition demo_sse :: "(subscriber \<times> string list) sse_env" where
  "demo_sse =
     \<lparr>se_subscriber = redis_subscriber queue_pubsub, se_channel = ''codehub:sse:u'', se_loads = demo_loads,
      se_heartbeat = 30, se_disconnected = (\<lambda>(sb, ps). (Inr (ps = []), (sb, ps))), se_now = (\<lambda>_. 0),
      se_sleep = (\<lambda>_. io_return ())\<rparr>"

lemma demo_stream:
  "\<exists>s. event_generator (recording demo_sse) 4 ((new_subscriber, [''1'', ''1'', ''2'']), []) = Some (Inr (), s) \<and>
     snd (st_world s) = [''1'', ''1'', ''2'']"
  by (simp add: event_generator_def stream_body_def eval_nat_numeral stream_pass_def read_payload_def
      handle_payload_def heartbeat_def yield_event_def recording_def demo_sse_def redis_subscriber_def queue_pubsub_def
      subscriber_subscribe_def subscriber_unsubscribe_def subscriber_get_message_def close_pubsub_def new_subscriber_def
      on_stream_def io_zoom_def io_fst_def io_defs io_get_def io_of_def read_message_def message_text_def
      process_payload_def demo_loads_def demo_payload_def json_get_def sse_field_def visible_fields_def Let_def)


end
