(* ===== verification/Pages.thy ===== *)
theory Pages
  imports Workspaces
begin

text \<open>
  app/proxy/policy.py, app/proxy/pages.py and the header filter of app/proxy/client.py: what the proxy
  does with a workspace in each phase, and the status pages it redirects to.  The page of the running
  limit carries the running workspaces in its query; its reader is the script of
  app/static/proxy/limit.html.  A character of the model is a code point below 256.
\<close>

section \<open>Percent encoding\<close>

text \<open>\<open>urllib.parse.quote\<close> with its default safe characters, on the UTF-8 bytes of the text.\<close>

definition utf8 :: "char \<Rightarrow> string" where
  "utf8 c =
     (let n = (of_char c :: nat) in
      if n < 128 then [c] else [char_of (192 + n div 64), char_of (128 + n mod 64)])"

definition hex_digits :: string where
  "hex_digits = ''0123456789ABCDEF''"

definition quote_safe :: "char \<Rightarrow> bool" where
  "quote_safe c \<longleftrightarrow> c \<in> set ''ABCDEFGHIJKLMNOPQRSTUVWXYZabcdefghijklmnopqrstuvwxyz0123456789_.-~/''"

definition quote_byte :: "char \<Rightarrow> string" where
  "quote_byte b =
     (if quote_safe b then [b]
      else let n = (of_char b :: nat) in [CHR ''%'', hex_digits ! (n div 16), hex_digits ! (n mod 16)])"

definition quote :: "string \<Rightarrow> string" where
  "quote s = concat (map quote_byte (concat (map utf8 s)))"

text \<open>\<open>decodeURIComponent\<close>: None is its \<open>URIError\<close>, or a character that the model does not have.\<close>

definition hex_value :: "char \<Rightarrow> nat option" where
  "hex_value c =
     (let n = (of_char c :: nat) in
      if 48 \<le> n \<and> n \<le> 57 then Some (n - 48)
      else if 65 \<le> n \<and> n \<le> 70 then Some (n - 55)
      else if 97 \<le> n \<and> n \<le> 102 then Some (n - 87)
      else None)"

definition percent_byte :: "string \<Rightarrow> (nat \<times> string) option" where
  "percent_byte s =
     (case s of
        p # a # b # r \<Rightarrow>
          if p \<noteq> CHR ''%'' then None
          else (case (hex_value a, hex_value b) of
              (Some x, Some y) \<Rightarrow> Some (16 * x + y, r)
            | _ \<Rightarrow> None)
      | _ \<Rightarrow> None)"

lemma percent_byte_shorter: "percent_byte s = Some (n, r) \<Longrightarrow> length r < length s"
  by (auto simp: percent_byte_def split: list.splits if_splits option.splits)

definition continuation :: "nat \<Rightarrow> nat \<Rightarrow> char option" where
  "continuation n m = (if n \<in> {194, 195} \<and> 128 \<le> m \<and> m < 192 then Some (char_of (64 * (n - 192) + (m - 128))) else None)"

function decode_uri :: "string \<Rightarrow> string option" where
  "decode_uri s =
     (if s = [] then Some []
      else if hd s \<noteq> CHR ''%'' then map_option (Cons (hd s)) (decode_uri (tl s))
      else (case percent_byte s of
          None \<Rightarrow> None
        | Some (n, r) \<Rightarrow>
            if n < 128 then map_option (Cons (char_of n)) (decode_uri r)
            else (case percent_byte r of
                None \<Rightarrow> None
              | Some (m, q) \<Rightarrow>
                  (case continuation n m of
                     None \<Rightarrow> None
                   | Some c \<Rightarrow> map_option (Cons c) (decode_uri q)))))"
  by auto

termination
  by (relation "measure length") (auto dest!: percent_byte_shorter simp: Suc_lessI)

declare decode_uri.simps [simp del]


lemma quote_unfold: "quote s = concat (map (\<lambda>c. concat (map quote_byte (utf8 c))) s)"
  by (induction s) (simp_all add: quote_def)

lemma quote_safe_ascii: "quote_safe c \<Longrightarrow> (of_char c :: nat) < 128 \<and> c \<noteq> CHR ''%''"
  by (auto simp: quote_safe_def)

lemma hex_value_digit: "k < 16 \<Longrightarrow> hex_value (hex_digits ! k) = Some k"
  by (auto simp: less_Suc_eq numeral_eq_Suc hex_digits_def hex_value_def)

lemma char_below: "(of_char c :: nat) < 256"
  by (rule nat_of_char_less_256)

lemma quote_byte_code: "\<not> quote_safe b \<Longrightarrow> percent_byte (quote_byte b @ r) = Some (of_char b, r)"
  using char_below [of b] hex_value_digit [of "of_char b div 16"] hex_value_digit [of "of_char b mod 16"]
  by (simp add: quote_byte_def percent_byte_def Let_def less_mult_imp_div_less)

lemma decode_uri_byte:
  assumes "(of_char c :: nat) < 128"
  shows "decode_uri (quote_byte c @ r) = map_option (Cons c) (decode_uri r)"
proof (cases "quote_safe c")
  case True
  then show ?thesis using quote_safe_ascii [OF True] by (simp add: quote_byte_def decode_uri.simps [of "c # r"])
next
  case False
  then have hd: "hd (quote_byte c @ r) = CHR ''%''" "quote_byte c \<noteq> []" by (simp_all add: quote_byte_def Let_def)
  show ?thesis
    by (subst decode_uri.simps) (simp add: hd quote_byte_code [OF False] assms)
qed

lemma decode_uri_char: "decode_uri (concat (map quote_byte (utf8 c)) @ r) = map_option (Cons c) (decode_uri r)"
proof (cases "(of_char c :: nat) < 128")
  case True
  then show ?thesis by (simp add: utf8_def decode_uri_byte)
next
  case False
  let ?n = "of_char c :: nat"
  let ?a = "char_of (192 + ?n div 64) :: char" and ?b = "char_of (128 + ?n mod 64) :: char"
  have n: "?n < 256" by (rule char_below)
  have a: "(of_char ?a :: nat) = 192 + ?n div 64" and b: "(of_char ?b :: nat) = 128 + ?n mod 64"
  proof -
    have "192 + ?n div 64 < 256" "128 + ?n mod 64 < 256" using n by linarith+
    then show "(of_char ?a :: nat) = 192 + ?n div 64" "(of_char ?b :: nat) = 128 + ?n mod 64" by simp_all
  qed
  have unsafe: "\<not> quote_safe ?a" "\<not> quote_safe ?b"
    using quote_safe_ascii [of ?a] quote_safe_ascii [of ?b] unfolding a b by linarith+
  have hd: "hd (quote_byte ?a @ q) = CHR ''%''" "quote_byte ?a \<noteq> []" for q
    using unsafe(1) by (simp_all add: quote_byte_def Let_def)
  have cont: "continuation (192 + ?n div 64) (128 + ?n mod 64) = Some c"
  proof -
    have "?n div 64 = 2 \<or> ?n div 64 = 3" using False n by linarith
    moreover have "64 * (?n div 64) + ?n mod 64 = ?n" by simp
    ultimately show ?thesis by (auto simp: continuation_def)
  qed
  have "utf8 c = [?a, ?b]" using False by (simp add: utf8_def Let_def)
  then show ?thesis
    using False hd quote_byte_code [OF unsafe(1), unfolded a] quote_byte_code [OF unsafe(2), unfolded b] cont
    by (subst decode_uri.simps) simp
qed

text \<open>Decoding what was quoted gives the text back.\<close>

lemma decode_uri_quote: "decode_uri (quote s) = Some s"
  by (induction s) (simp_all add: quote_unfold decode_uri_char decode_uri.simps [of "[]"])


text \<open>A quoted text has only safe characters and percent signs.\<close>

lemma quote_chars: "set (quote s) \<subseteq> {c. quote_safe c} \<union> {CHR ''%''}"
proof -
  have digit: "hex_digits ! k \<in> set hex_digits" if "k < 16" for k
    using that by (intro nth_mem) (simp add: hex_digits_def)
  have "hex_digits ! (of_char b div 16) \<in> set hex_digits \<and> hex_digits ! (of_char b mod 16) \<in> set hex_digits" for b
    using char_below [of b] by (intro conjI digit) linarith+
  moreover have "set hex_digits \<subseteq> {c. quote_safe c}" by (simp add: hex_digits_def quote_safe_def)
  ultimately have "set (quote_byte b) \<subseteq> {c. quote_safe c} \<union> {CHR ''%''}" for b
    by (auto simp: quote_byte_def Let_def)
  then show ?thesis by (auto simp: quote_def)
qed

section \<open>Status pages (pages.py)\<close>

record redirect_response =
  rr_url :: string
  rr_status :: int

definition starting_page :: "workspace \<Rightarrow> redirect_response" where
  "starting_page w =
     \<lparr>rr_url = ''/static/proxy/starting.html?id='' @ ws_id w @ ''&name='' @ quote (ws_name w), rr_status = 302\<rparr>"

definition restoring_page :: "workspace \<Rightarrow> redirect_response" where
  "restoring_page w =
     \<lparr>rr_url = ''/static/proxy/restoring.html?id='' @ ws_id w @ ''&name='' @ quote (ws_name w), rr_status = 302\<rparr>"

definition archived_page :: "workspace \<Rightarrow> redirect_response" where
  "archived_page w = \<lparr>rr_url = ''/static/proxy/archived.html?name='' @ quote (ws_name w), rr_status = 302\<rparr>"

text \<open>\<open>sep.join(parts)\<close>\<close>

fun py_join :: "string \<Rightarrow> string list \<Rightarrow> string" where
  "py_join sep [] = []"
| "py_join sep [p] = p"
| "py_join sep (p # ps) = p @ sep @ py_join sep ps"

definition limit_exceeded_page :: "workspace list \<Rightarrow> int \<Rightarrow> redirect_response" where
  "limit_exceeded_page running_workspaces max_running =
     \<lparr>rr_url = ''/static/proxy/limit.html?max='' @ str_int max_running @ ''&workspaces='' @
        py_join '','' (map (\<lambda>w. ws_id w @ '':'' @ quote (ws_name w)) running_workspaces),
      rr_status = 302\<rparr>"

definition error_page :: "workspace \<Rightarrow> redirect_response" where
  "error_page w =
     (let reason = (case ws_error_reason w of None \<Rightarrow> [] | Some r \<Rightarrow> error_reason_value r) in
      \<lparr>rr_url = ''/static/proxy/error.html?phase='' @ phase_value (ws_phase w) @ ''&name='' @ quote (ws_name w) @
         (if reason \<noteq> [] then ''&error='' @ quote reason else []),
       rr_status = 302\<rparr>)"

section \<open>The reader of the limit page (static/proxy/limit.html)\<close>

text \<open>\<open>new URLSearchParams(location.search).get(key)\<close>: the query after the first question mark, split at
  the ampersands; a plus is a space.  A value that is not an encoded text of the model has no value.\<close>

definition split_first :: "char \<Rightarrow> string \<Rightarrow> string \<times> string" where
  "split_first c s = (takeWhile (\<lambda>x. x \<noteq> c) s, drop 1 (dropWhile (\<lambda>x. x \<noteq> c) s))"

definition search_param :: "string \<Rightarrow> string \<Rightarrow> string option" where
  "search_param url key =
     (case map_of (map (split_first (CHR ''='')) (py_split (CHR ''&'') (snd (split_first (CHR ''?'') url)))) key of
        None \<Rightarrow> None
      | Some v \<Rightarrow> decode_uri (map (\<lambda>c. if c = CHR ''+'' then CHR '' '' else c) v))"

definition js_or :: "string \<Rightarrow> string \<Rightarrow> string" where
  "js_or s d = (if s = [] then d else s)"

text \<open>\<open>const [id, name] = w.split(':')\<close> and the decoded name, which may raise.\<close>

definition page_entry :: "string \<Rightarrow> (string \<times> string) option" where
  "page_entry w =
     (let parts = py_split (CHR '':'') w;
          name = (case parts of _ # n # _ \<Rightarrow> js_or n ''Workspace'' | _ \<Rightarrow> ''Workspace'') in
      map_option (Pair (hd parts)) (decode_uri name))"

definition limit_page_entries :: "string \<Rightarrow> (string \<times> string) list option" where
  "limit_page_entries url =
     (case search_param url ''workspaces'' of
        None \<Rightarrow> None
      | Some param \<Rightarrow> if param = [] then Some [] else those (map page_entry (py_split (CHR '','') param)))"

section \<open>Policy (policy.py)\<close>

datatype proxy_decision = ALLOW | REDIRECT | WS_CLOSE

record policy_result =
  pr_decision :: proxy_decision
  pr_response :: "redirect_response option"
  pr_ws_close_code :: "int option"
  pr_ws_close_reason :: "string option"

definition allow :: policy_result where
  "allow = \<lparr>pr_decision = ALLOW, pr_response = None, pr_ws_close_code = None, pr_ws_close_reason = None\<rparr>"

definition redirect_to :: "redirect_response \<Rightarrow> policy_result" where
  "redirect_to r =
     \<lparr>pr_decision = REDIRECT, pr_response = Some r, pr_ws_close_code = None, pr_ws_close_reason = None\<rparr>"

definition decide_http :: "limits_config \<Rightarrow> datetime \<Rightarrow> workspace \<Rightarrow> string \<Rightarrow> (db, policy_result) io" where
  "decide_http lims now w uid =
     (if ws_phase w = phase.RUNNING then io_return allow
      else if ws_phase w \<in> {phase.STANDBY, phase.ARCHIVED} then
        io_except
          (io_seq (request_start lims now (ws_id w) uid)
             (io_return (redirect_to
                (if ws_phase w = phase.STANDBY then starting_page w else restoring_page w))))
          (\<lambda>e. if e = RunningLimitExceededError
               then Some (io_bind (list_running_workspaces uid) (\<lambda>running.
                      io_return (redirect_to (limit_exceeded_page running (max_running_per_user lims)))))
               else None)
      else io_return (redirect_to (error_page w)))"

definition decide_ws :: "workspace \<Rightarrow> policy_result" where
  "decide_ws w =
     (if ws_phase w = phase.RUNNING then allow
      else \<lparr>pr_decision = WS_CLOSE, pr_response = None, pr_ws_close_code = Some 1008,
            pr_ws_close_reason = Some ''Workspace not running''\<rparr>)"

section \<open>Header filter (client.py)\<close>

type_synonym headers = "(string \<times> string) list"

definition HOP_BY_HOP_HEADERS :: "string list" where
  "HOP_BY_HOP_HEADERS =
     [''connection'', ''keep-alive'', ''proxy-authenticate'', ''proxy-authorization'', ''te'', ''trailers'',
      ''transfer-encoding'', ''upgrade'', ''host'']"

definition WS_HOP_BY_HOP_HEADERS :: "string list" where
  "WS_HOP_BY_HOP_HEADERS = HOP_BY_HOP_HEADERS @ [''sec-websocket-key'', ''sec-websocket-version'', ''origin'']"

definition filter_headers :: "headers \<Rightarrow> headers" where
  "filter_headers hs = filter (\<lambda>(k, v). py_lower k \<notin> set HOP_BY_HOP_HEADERS) hs"

text \<open>The header with the session cookie is none of them, so it goes to the workspace.\<close>

lemma cookie_passes_filter: "(''cookie'', v) \<in> set hs \<Longrightarrow> (''cookie'', v) \<in> set (filter_headers hs)"
  by (simp add: filter_headers_def HOP_BY_HOP_HEADERS_def py_lower_def lower_char_def)

section \<open>The policy is one policy\<close>

text \<open>Both ways in let a workspace pass exactly in the phase RUNNING.\<close>

lemma decide_ws_allows: "pr_decision (decide_ws w) = ALLOW \<longleftrightarrow> ws_phase w = phase.RUNNING"
  by (simp add: decide_ws_def allow_def)

lemma decide_http_allows:
  assumes "decide_http lims now w uid d = (Inr p, d')"
  shows "pr_decision p = ALLOW \<longleftrightarrow> ws_phase w = phase.RUNNING"
  using assms
  by (auto simp: decide_http_def allow_def redirect_to_def io_except_Inr_iff io_seq_Inr_iff io_bind_Inr_iff
      split: if_splits)

lemma decide_http_running: "ws_phase w = phase.RUNNING \<Longrightarrow> decide_http lims now w uid d = (Inr allow, d)"
  by (simp add: decide_http_def io_return_def)


section \<open>What the limit page shows\<close>

lemma decode_uri_plain: "CHR ''%'' \<notin> set a \<Longrightarrow> decode_uri (a @ r) = map_option ((@) a) (decode_uri r)"
proof (induction a)
  case Nil
  then show ?case by (simp add: option.map_ident)
next
  case (Cons c a)
  then have "c \<noteq> CHR ''%''" by auto
  then show ?case using Cons by (simp add: decode_uri.simps [of "c # a @ r"] option.map_comp comp_def)
qed

lemma decode_uri_quote_append: "decode_uri (quote s @ r) = map_option ((@) s) (decode_uri r)"
  by (induction s)
     (simp_all add: quote_unfold decode_uri_char option.map_comp comp_def option.map_ident)

lemma decode_uri_no_percent: "CHR ''%'' \<notin> set a \<Longrightarrow> decode_uri a = Some a"
  using decode_uri_plain [of a "[]"] by (simp add: decode_uri.simps [of "[]"])

lemma py_split_join:
  "ps \<noteq> [] \<Longrightarrow> list_all (\<lambda>p. c \<notin> set p) ps \<Longrightarrow> py_split c (py_join [c] ps) = ps"
  by (induction ps rule: py_join.induct [of "\<lambda>_ ps. P ps" "[c]" for P])
     (auto simp: py_split_no_sep py_split_sep)

lemma decode_uri_join:
  "list_all2 (\<lambda>p q. \<forall>r. decode_uri (p @ r) = map_option ((@) q) (decode_uri r)) ps qs \<Longrightarrow>
   decode_uri (py_join '','' ps) = Some (py_join '','' qs)"
proof (induction ps qs rule: list_all2_induct)
  case Nil
  then show ?case by (simp add: decode_uri.simps [of "[]"])
next
  case (Cons p ps q qs)
  have sep: "decode_uri ('','' @ r) = map_option ((@) '','') (decode_uri r)" for r
    by (rule decode_uri_plain) simp
  have last: "decode_uri p = Some q"
    using Cons.hyps(1) [rule_format, of "[]"] by (simp add: decode_uri.simps [of "[]"])
  show ?case
  proof (cases ps)
    case Nil
    then show ?thesis using Cons.hyps(2) last by simp
  next
    case (Cons p' ps')
    then obtain q' qs' where "qs = q' # qs'" using Cons.hyps(2) by (cases qs) auto
    then show ?thesis
      using Cons Cons.IH Cons.hyps(1) sep [of "py_join '','' ps"] by simp
  qed
qed


definition plain_entry :: "workspace \<Rightarrow> bool" where
  "plain_entry w \<longleftrightarrow> list_all quote_safe (ws_id w) \<and> ws_name w \<noteq> [] \<and>
     list_all (\<lambda>c. c \<notin> {CHR '','', CHR '':'', CHR ''%''}) (ws_name w)"

lemma str_nat_chars: "c \<in> set (str_nat n) \<Longrightarrow> 48 \<le> (of_char c :: nat) \<and> (of_char c :: nat) \<le> 57"
proof (induction n rule: str_nat.induct)
  case (1 n)
  have digit: "(of_char (char_of (48 + k) :: char) :: nat) = 48 + k" if "k < 10" for k
  proof -
    have "48 + k < 256" using that by linarith
    then show ?thesis by simp
  qed
  show ?case
  proof (cases "n < 10")
    case True
    then have "c = char_of (48 + n)" using "1.prems" by (subst (asm) str_nat.simps) simp
    then show ?thesis using digit [OF True] True by simp
  next
    case False
    then have "c \<in> set (str_nat (n div 10)) \<or> c = char_of (48 + n mod 10)"
      using "1.prems" by (subst (asm) str_nat.simps) auto
    then show ?thesis using "1.IH" [OF False] digit [of "n mod 10"] by (elim disjE) simp_all
  qed
qed

lemma str_int_chars: "c \<in> {CHR ''&'', CHR ''=''} \<Longrightarrow> c \<notin> set (str_int i)"
  by (auto simp: str_int_def dest!: str_nat_chars)

lemma split_first_sep: "c \<notin> set p \<Longrightarrow> split_first c (p @ c # r) = (p, r)"
  by (auto simp: split_first_def takeWhile_append dropWhile_append)

lemma join_chars: "set (py_join sep ps) \<subseteq> set sep \<union> \<Union> (set ` set ps)"
  by (induction sep ps rule: py_join.induct) auto

lemma search_param_limit:
  assumes "\<And>c. c \<in> {CHR ''&'', CHR ''+''} \<Longrightarrow> c \<notin> set param"
  shows "search_param (''/static/proxy/limit.html?max='' @ str_int m @ ''&workspaces='' @ param) ''workspaces''
    = decode_uri param"
proof -
  let ?max = "''max='' @ str_int m" and ?wss = "''workspaces='' @ param"
  have q: "snd (split_first (CHR ''?'') (''/static/proxy/limit.html?max='' @ str_int m @ ''&workspaces='' @ param)) =
      ?max @ CHR ''&'' # ?wss"
    using split_first_sep [of "CHR ''?''" "''/static/proxy/limit.html''" "?max @ CHR ''&'' # ?wss"] by simp
  have amp: "CHR ''&'' \<notin> set ?max" "CHR ''&'' \<notin> set ?wss"
    using str_int_chars [of "CHR ''&''" m] assms [of "CHR ''&''"] by simp_all
  have "py_split (CHR ''&'') (?max @ CHR ''&'' # ?wss) = [?max, ?wss]"
    by (simp only: py_split_sep [OF amp(1)] py_split_no_sep [OF amp(2)])
  moreover have "split_first (CHR ''='') ?max = (''max'', str_int m)" "split_first (CHR ''='') ?wss = (''workspaces'', param)"
    using split_first_sep [of "CHR ''=''" "''max''" "str_int m"] split_first_sep [of "CHR ''=''" "''workspaces''" param]
    by simp_all
  moreover have "map (\<lambda>c. if c = CHR ''+'' then CHR '' '' else c) param = param"
    using assms [of "CHR ''+''"] by (auto intro!: map_idI)
  ultimately show ?thesis unfolding search_param_def q by simp
qed

definition entry_text :: "(string \<Rightarrow> string) \<Rightarrow> workspace \<Rightarrow> string" where
  "entry_text f w = ws_id w @ '':'' @ f (ws_name w)"

lemma safe_char: "quote_safe c \<Longrightarrow> c \<notin> {CHR '','', CHR '':'', CHR ''%'', CHR ''&'', CHR ''+''}"
  by (auto simp: quote_safe_def)

lemma safe_id: "list_all quote_safe i \<Longrightarrow> c \<in> {CHR '','', CHR '':'', CHR ''%'', CHR ''&'', CHR ''+''} \<Longrightarrow> c \<notin> set i"
  using safe_char [of c] by (auto simp: list_all_iff)

lemma page_entry_plain:
  assumes "plain_entry w"
  shows "page_entry (entry_text id w) = Some (ws_id w, ws_name w)"
proof -
  have "CHR '':'' \<notin> set (ws_id w)" using assms safe_id [of "ws_id w" "CHR '':''"] by (simp add: plain_entry_def)
  moreover have "CHR '':'' \<notin> set (ws_name w)" "CHR ''%'' \<notin> set (ws_name w)" "ws_name w \<noteq> []"
    using assms by (auto simp: plain_entry_def list_all_iff)
  ultimately show ?thesis
    by (simp add: page_entry_def entry_text_def py_split_sep py_split_no_sep js_or_def decode_uri_no_percent)
qed

text \<open>The query the page reads, whatever the names are.\<close>

lemma limit_page_param:
  assumes "list_all (\<lambda>w. list_all quote_safe (ws_id w)) ws"
  shows "search_param (rr_url (limit_exceeded_page ws m)) ''workspaces'' = Some (py_join '','' (map (entry_text id) ws))"
proof -
  let ?enc = "map (entry_text quote) ws" and ?dec = "map (entry_text id) ws"
  have entry: "c \<notin> set (entry_text quote w)" if "w \<in> set ws" "c \<in> {CHR ''&'', CHR ''+''}" for c w
    using assms that safe_id [of "ws_id w" c] safe_char [of c] quote_chars [of "ws_name w"]
    by (auto simp: entry_text_def list_all_iff)
  have enc: "c \<notin> set (py_join '','' ?enc)" if "c \<in> {CHR ''&'', CHR ''+''}" for c
    using entry [OF _ that] that join_chars [of "'',''" ?enc] by (auto dest: subsetD)
  have one: "decode_uri (entry_text quote w @ r) = map_option ((@) (entry_text id w)) (decode_uri r)" if "w \<in> set ws" for w r
  proof -
    have "CHR ''%'' \<notin> set (ws_id w @ '':'')" using assms that safe_id [of "ws_id w" "CHR ''%''"] by (auto simp: list_all_iff)
    from decode_uri_plain [OF this, of "quote (ws_name w) @ r"] show ?thesis
      by (cases "decode_uri r") (simp_all add: entry_text_def decode_uri_quote_append)
  qed
  have "list_all2 (\<lambda>p q. \<forall>r. decode_uri (p @ r) = map_option ((@) q) (decode_uri r)) ?enc ?dec"
    by (simp add: list_all2_conv_all_nth one)
  from decode_uri_join [OF this] show ?thesis
    using search_param_limit [OF enc, of m] by (simp add: limit_exceeded_page_def entry_text_def [abs_def])
qed

text \<open>C40: the page of the running limit shows the running workspaces.  The redirect carries them in its
  query, encoded; the page's own parser gets back exactly their ids and names, when the ids are
  ULID-like and no name contains a comma, a colon or a percent sign.\<close>
theorem limit_page_shows_running:
  assumes "list_all plain_entry ws"
  shows "limit_page_entries (rr_url (limit_exceeded_page ws m)) = Some (map (\<lambda>w. (ws_id w, ws_name w)) ws)"
proof -
  let ?dec = "map (entry_text id) ws"
  have dec: "search_param (rr_url (limit_exceeded_page ws m)) ''workspaces'' = Some (py_join '','' ?dec)"
    using assms by (intro limit_page_param) (simp add: plain_entry_def list_all_iff)
  show ?thesis
  proof (cases "ws = []")
    case True
    then show ?thesis using dec by (simp add: limit_page_entries_def)
  next
    case False
    have "list_all (\<lambda>p. CHR '','' \<notin> set p) ?dec"
      using assms safe_id [where c = "CHR '',''"] by (auto simp: entry_text_def plain_entry_def list_all_iff)
    then have split: "py_split (CHR '','') (py_join '','' ?dec) = ?dec" using False by (intro py_split_join) simp_all
    have "py_join '','' ?dec \<noteq> []" using False by (cases ws rule: remdups_adj.cases) (auto simp: entry_text_def)
    moreover have "those (map page_entry ?dec) = Some (map (\<lambda>w. (ws_id w, ws_name w)) ws)"
      using assms by (induction ws) (simp_all add: page_entry_plain)
    ultimately show ?thesis using dec split by (simp add: limit_page_entries_def)
  qed
qed

definition named_ws :: "string \<Rightarrow> workspace" where
  "named_ws n = (sample_ws ''01'' phase.RUNNING desired_state.RUNNING)\<lparr>ws_name := n\<rparr>"

lemma named_ws_simps [simp]: "ws_name (named_ws n) = n" "ws_id (named_ws n) = ''01''" "quote_safe (CHR ''0'')" "quote_safe (CHR ''1'')"
  by (simp_all add: named_ws_def sample_ws_def new_workspace_def quote_safe_def)

theorem limit_page_shows_running_witness:
  "limit_page_entries (rr_url (limit_exceeded_page [named_ws ''my & co'', named_ws ''x=1''] 3))
     = Some [(''01'', ''my & co''), (''01'', ''x=1'')]"
proof -
  have "list_all plain_entry [named_ws ''my & co'', named_ws ''x=1'']" by (simp add: plain_entry_def)
  from limit_page_shows_running [OF this] show ?thesis by simp
qed

text \<open>The page decodes the query before it splits it, so a name with a comma shows up as two workspaces,
  and a name with a percent sign stops the page's script.\<close>

lemma limit_page_misreads_name:
  "limit_page_entries (rr_url (limit_exceeded_page [named_ws ''a,b''] 3)) = Some [(''01'', ''a''), (''b'', ''Workspace'')]"
  "limit_page_entries (rr_url (limit_exceeded_page [named_ws ''100%''] 3)) = None"
  using limit_page_param [of "[named_ws ''a,b'']" 3] limit_page_param [of "[named_ws ''100%'']" 3]
  by (simp_all add: limit_page_entries_def entry_text_def page_entry_def js_or_def decode_uri_no_percent
      decode_uri.simps [of "''100%''"] decode_uri.simps [of "''00%''"] decode_uri.simps [of "''0%''"]
      decode_uri.simps [of "''%''"] percent_byte_def)

end
