(* ===== verification/Proxy.thy ===== *)
theory Proxy
  imports Pages Activity Interfaces
begin

text \<open>
  app/proxy/router.py, app/proxy/transport.py and the shared HTTP client of app/proxy/client.py: requests
  and WebSockets under \<open>/w/<id>/\<close> go to the container of the workspace.  A gateway is the web state of
  ProxyAuth, the activity buffer, the client singleton and the world.  httpx and websockets are records
  of the calls used; \<open>InvalidURI\<close>, \<open>InvalidHandshake\<close> and \<open>ConnectionClosed\<close> stand for their subclasses.
\<close>

section \<open>State and parameters\<close>

record ('c, 'w) gateway =
  gw_web :: "'c web"
  gw_buffer :: activity_buffer
  gw_client :: "nat option"
  gw_world :: 'w

definition on_web :: "('c web, 'a) io \<Rightarrow> (('c, 'w) gateway, 'a) io" where
  "on_web m = io_zoom gw_web (\<lambda>x s. s\<lparr>gw_web := x\<rparr>) m"

definition on_gw_world :: "('w, 'a) io \<Rightarrow> (('c, 'w) gateway, 'a) io" where
  "on_gw_world m = io_zoom gw_world (\<lambda>x s. s\<lparr>gw_world := x\<rparr>) m"

record proxied_request =
  px_method :: string
  px_query :: string
  px_headers :: headers
  px_body :: string

text \<open>A streamed response: its status, its headers and its handle.\<close>

record upstream_response =
  ur_status :: int
  ur_headers :: headers
  ur_handle :: nat

datatype ws_data = TextData string | BytesData string

record asgi_message =
  am_type :: string
  am_text :: "string option"
  am_bytes :: "string option"

record 'w http_api =
  hx_new :: "proxy_config \<Rightarrow> ('w, nat) io"
  hx_close :: "nat \<Rightarrow> ('w, unit) io"
  hx_send :: "nat \<Rightarrow> string \<Rightarrow> string \<Rightarrow> headers \<Rightarrow> string option \<Rightarrow> ('w, upstream_response) io"
  hx_next :: "nat \<Rightarrow> ('w, string option) io"
  hx_aclose :: "nat \<Rightarrow> ('w, unit) io"

record 'w ws_api =
  wa_connect :: "proxy_config \<Rightarrow> string \<Rightarrow> headers \<Rightarrow> ('w, unit) io"
  wa_accept :: "('w, unit) io"
  wa_close :: "int \<Rightarrow> string \<Rightarrow> ('w, unit) io"
  wa_send_backend :: "ws_data \<Rightarrow> ('w, unit) io"
  wa_send_client :: "ws_data \<Rightarrow> ('w, unit) io"
  wa_backend_exit :: "('w, unit) io"

record ('c, 'w) proxy_env =
  pe_request :: "'c request_ctx"
  pe_proxy :: proxy_config
  pe_activity :: activity_config
  pe_time :: "'w \<Rightarrow> seconds"
  pe_instance :: "'w instance_controller"
  pe_http :: "'w http_api"
  pe_ws :: "'w ws_api"

definition record_activity :: "('c, 'w) proxy_env \<Rightarrow> string \<Rightarrow> (('c, 'w) gateway, unit) io" where
  "record_activity env wid = (\<lambda>s.
     (Inr (), s\<lparr>gw_buffer :=
        buffer_record (throttle_sec (pe_activity env)) wid (pe_time env (gw_world s)) (gw_buffer s)\<rparr>))"

section \<open>The shared HTTP client (client.py)\<close>

definition get_http_client :: "('c, 'w) proxy_env \<Rightarrow> (('c, 'w) gateway, nat) io" where
  "get_http_client env = io_bind io_get (\<lambda>s.
     case gw_client s of
       Some k \<Rightarrow> io_return k
     | None \<Rightarrow> io_bind (on_gw_world (hx_new (pe_http env) (pe_proxy env))) (\<lambda>k. \<lambda>s.
           (Inr k, s\<lparr>gw_client := Some k\<rparr>)))"

definition close_http_client :: "('c, 'w) proxy_env \<Rightarrow> (('c, 'w) gateway, unit) io" where
  "close_http_client env = io_bind io_get (\<lambda>s.
     case gw_client s of
       None \<Rightarrow> io_return ()
     | Some k \<Rightarrow> io_seq (on_gw_world (hx_close (pe_http env) k)) (\<lambda>s. (Inr (), s\<lparr>gw_client := None\<rparr>)))"

section \<open>HTTP transport (transport.py)\<close>

datatype proxy_answer = Redirected redirect_response | Streaming int headers nat

definition target_path :: "string \<Rightarrow> string \<Rightarrow> string" where
  "target_path path query =
     (let p = (if path \<noteq> [] then ''/'' @ path else ''/'') in if query \<noteq> [] then p @ ''?'' @ query else p)"

fun is_upstream_failure :: "exn \<Rightarrow> bool" where
  "is_upstream_failure HttpxConnectError = True"
| "is_upstream_failure HttpxConnectTimeout = True"
| "is_upstream_failure HttpxReadTimeout = True"
| "is_upstream_failure HttpxWriteTimeout = True"
| "is_upstream_failure HttpxPoolTimeout = True"
| "is_upstream_failure _ = False"

definition proxy_http_to_upstream ::
  "('c, 'w) proxy_env \<Rightarrow> proxied_request \<Rightarrow> upstream_info \<Rightarrow> string \<Rightarrow> (('c, 'w) gateway, proxy_answer) io" where
  "proxy_http_to_upstream env rq up path =
     io_bind (get_http_client env) (\<lambda>k.
       io_except
         (io_bind (on_gw_world (hx_send (pe_http env) k (px_method rq)
                     (upstream_url up @ target_path path (px_query rq)) (filter_headers (px_headers rq))
                     (if px_method rq \<in> {''POST'', ''PUT'', ''PATCH''} then Some (px_body rq) else None))) (\<lambda>r.
            io_return (Streaming (ur_status r) (filter_headers (ur_headers r)) (ur_handle r))))
         (\<lambda>e. if is_upstream_failure e then Some (io_raise UpstreamUnavailableError) else None))"

text \<open>The generator of the body: the chunks, and the response is closed however the loop ends.\<close>

fun raw_chunks :: "'w http_api \<Rightarrow> nat \<Rightarrow> nat \<Rightarrow> 'w \<Rightarrow> ((exn + unit) \<times> string list \<times> 'w) option" where
  "raw_chunks hx h 0 w = None"
| "raw_chunks hx h (Suc n) w =
     (case hx_next hx h w of
        (Inl e, w') \<Rightarrow> Some (Inl e, [], w')
      | (Inr None, w') \<Rightarrow> Some (Inr (), [], w')
      | (Inr (Some chunk), w') \<Rightarrow> map_option (\<lambda>(r, cs, w''). (r, chunk # cs, w'')) (raw_chunks hx h n w'))"

definition stream_http_response :: "'w http_api \<Rightarrow> nat \<Rightarrow> nat \<Rightarrow> 'w \<Rightarrow> ((exn + unit) \<times> string list \<times> 'w) option" where
  "stream_http_response hx h n w =
     map_option (\<lambda>(r, cs, w'). case io_finally (\<lambda>x. (r, x)) (hx_aclose hx h) w' of (r', w'') \<Rightarrow> (r', cs, w''))
       (raw_chunks hx h n w)"

section \<open>WebSocket relay (transport.py)\<close>

text \<open>The two relay tasks run in a task group.  An execution is the sequence in which their awaits are
  answered: a message or failure of the client, a message, the end or a failure of the backend, or
  the cancellation of the request.\<close>

datatype relay_event =
    ClientMessage asgi_message | ClientFails exn
  | BackendMessage ws_data | BackendEnds | BackendFails exn
  | RequestCancelled

text \<open>One message of the client; True ends the task.\<close>

definition relay_client_message :: "('c, 'w) proxy_env \<Rightarrow> string \<Rightarrow> asgi_message \<Rightarrow> (('c, 'w) gateway, bool) io" where
  "relay_client_message env wid m =
     (if am_type m = ''websocket.receive'' then
        io_seq (record_activity env wid)
          (io_seq (case (am_text m, am_bytes m) of
               (Some t, _) \<Rightarrow> on_gw_world (wa_send_backend (pe_ws env) (TextData t))
             | (None, Some b) \<Rightarrow> on_gw_world (wa_send_backend (pe_ws env) (BytesData b))
             | (None, None) \<Rightarrow> io_return ())
            (io_return False))
      else io_return (am_type m = ''websocket.disconnect''))"

definition relay_backend_message :: "('c, 'w) proxy_env \<Rightarrow> string \<Rightarrow> ws_data \<Rightarrow> (('c, 'w) gateway, unit) io" where
  "relay_backend_message env wid message =
     io_seq (record_activity env wid) (on_gw_world (wa_send_client (pe_ws env) message))"

text \<open>Which tasks are done is the state of the group; an event of a task that is done does not occur.\<close>

definition relay_step ::
  "('c, 'w) proxy_env \<Rightarrow> string \<Rightarrow> relay_event \<Rightarrow> bool \<times> bool \<Rightarrow> (('c, 'w) gateway, bool \<times> bool) io" where
  "relay_step env wid ev = (\<lambda>(client_done, backend_done).
     case ev of
       ClientMessage m \<Rightarrow>
         if client_done then io_return (client_done, backend_done)
         else io_bind (relay_client_message env wid m) (\<lambda>ends. io_return (ends, backend_done))
     | ClientFails e \<Rightarrow> if client_done then io_return (client_done, backend_done) else io_raise e
     | BackendMessage m \<Rightarrow>
         if backend_done then io_return (client_done, backend_done)
         else io_seq (relay_backend_message env wid m) (io_return (client_done, backend_done))
     | BackendEnds \<Rightarrow> io_return (client_done, True)
     | BackendFails e \<Rightarrow> if backend_done then io_return (client_done, backend_done) else io_raise e
     | RequestCancelled \<Rightarrow> io_raise CancelledError)"

text \<open>The group ends when both tasks are done, or with the first exception; None: it still runs.\<close>

fun relay ::
  "('c, 'w) proxy_env \<Rightarrow> string \<Rightarrow> relay_event list \<Rightarrow> bool \<times> bool \<Rightarrow> ('c, 'w) gateway
   \<Rightarrow> ((exn + unit) \<times> ('c, 'w) gateway) option" where
  "relay env wid [] d s = (if d = (True, True) then Some (Inr (), s) else None)"
| "relay env wid (ev # evs) d s =
     (if d = (True, True) then Some (Inr (), s)
      else (case relay_step env wid ev d s of
          (Inl e, t) \<Rightarrow> Some (Inl e, t)
        | (Inr d', t) \<Rightarrow> relay env wid evs d' t))"

text \<open>\<open>except* WebSocketDisconnect\<close> and \<open>except* ConnectionClosed\<close>\<close>

definition relay_handled :: "exn + unit \<Rightarrow> exn + unit" where
  "relay_handled r =
     (if r \<in> {Inl (WebSocketError ''WebSocketDisconnect''), Inl (WebSocketError ''ConnectionClosed'')} then Inr () else r)"

definition suppress :: "('s, unit) io \<Rightarrow> ('s, unit) io" where
  "suppress m = io_try m (\<lambda>_. io_return ())"

definition relay_and_close ::
  "('c, 'w) proxy_env \<Rightarrow> string \<Rightarrow> relay_event list \<Rightarrow> ('c, 'w) gateway \<Rightarrow> ((exn + unit) \<times> ('c, 'w) gateway) option" where
  "relay_and_close env wid evs s =
     map_option
       (\<lambda>(r, t). io_finally
          (suppress (io_finally (\<lambda>t. (relay_handled r, t)) (on_gw_world (wa_backend_exit (pe_ws env)))))
          (suppress (on_gw_world (wa_close (pe_ws env) 1000 []))) t)
       (relay env wid evs (False, False) s)"

definition ws_headers :: "headers \<Rightarrow> headers" where
  "ws_headers hs = filter (\<lambda>(k, v). py_lower k \<notin> set WS_HOP_BY_HOP_HEADERS) hs"

definition close_ws :: "('c, 'w) proxy_env \<Rightarrow> int \<Rightarrow> string \<Rightarrow> (('c, 'w) gateway, unit) io" where
  "close_ws env code reason = on_gw_world (wa_close (pe_ws env) code reason)"

definition connect_failure :: "exn \<Rightarrow> string" where
  "connect_failure e =
     (if e = WebSocketError ''InvalidURI'' then ''Invalid upstream URI''
      else if e = WebSocketError ''InvalidHandshake'' then ''Upstream handshake failed''
      else ''Upstream connection failed'')"

definition proxy_ws_to_upstream ::
  "('c, 'w) proxy_env \<Rightarrow> proxied_request \<Rightarrow> upstream_info \<Rightarrow> string \<Rightarrow> string \<Rightarrow> relay_event list
   \<Rightarrow> ('c, 'w) gateway \<Rightarrow> ((exn + unit) \<times> ('c, 'w) gateway) option" where
  "proxy_ws_to_upstream env rq up path wid evs s =
     (case on_gw_world (wa_connect (pe_ws env) (pe_proxy env)
             (upstream_ws_url up @ target_path path (px_query rq)) (ws_headers (px_headers rq))) s of
        (Inl e, t) \<Rightarrow>
          Some (if is_Exception e then close_ws env 1011 (connect_failure e) t else (Inl e, t))
      | (Inr _, t) \<Rightarrow>
          (case on_gw_world (wa_accept (pe_ws env)) t of
             (Inl e, u) \<Rightarrow> Some (Inl e, u)
           | (Inr _, u) \<Rightarrow> relay_and_close env wid evs u))"

section \<open>Routes (router.py)\<close>

definition trailing_slash_redirect :: "string \<Rightarrow> redirect_response" where
  "trailing_slash_redirect wid = \<lparr>rr_url = ''/w/'' @ wid @ ''/'', rr_status = 308\<rparr>"

text \<open>The workspace that the cookie's user asks for.\<close>

definition requested_workspace ::
  "'c request_ctx \<Rightarrow> string \<Rightarrow> string option \<Rightarrow> ('c web, string \<times> workspace) io" where
  "requested_workspace rc wid cookie =
     io_bind (authenticate rc cookie) (\<lambda>uid.
       io_bind (get_workspace_for_user (rc_caches rc) (rc_clock rc) wid uid) (\<lambda>w. io_return (uid, w)))"

definition proxy_http ::
  "('c, 'w) proxy_env \<Rightarrow> string \<Rightarrow> string \<Rightarrow> proxied_request \<Rightarrow> string option \<Rightarrow> (('c, 'w) gateway, proxy_answer) io" where
  "proxy_http env wid path rq cookie =
     io_bind (on_web (requested_workspace (pe_request env) wid cookie)) (\<lambda>(uid, w).
       io_bind (on_web (on_db (decide_http (rc_limits (pe_request env)) (rc_now (pe_request env)) w uid))) (\<lambda>p.
         if pr_decision p \<noteq> ALLOW then io_return (Redirected (the (pr_response p)))
         else io_seq (record_activity env wid)
           (io_bind (on_gw_world (ic_resolve_upstream (pe_instance env) wid)) (\<lambda>upstream.
             case upstream of
               None \<Rightarrow> io_raise UpstreamUnavailableError
             | Some up \<Rightarrow> proxy_http_to_upstream env rq up path))))"

text \<open>The close reason of an exception class that the handler names.\<close>

fun refusal :: "exn \<Rightarrow> string option" where
  "refusal (CodeHubError e) =
     (case err_code e of
        UNAUTHORIZED \<Rightarrow> Some ''Authentication required''
      | FORBIDDEN \<Rightarrow> Some ''Access denied''
      | WORKSPACE_NOT_FOUND \<Rightarrow> Some ''Workspace not found''
      | _ \<Rightarrow> None)"
| "refusal _ = None"

definition proxy_websocket ::
  "('c, 'w) proxy_env \<Rightarrow> string \<Rightarrow> string \<Rightarrow> proxied_request \<Rightarrow> string option \<Rightarrow> relay_event list
   \<Rightarrow> ('c, 'w) gateway \<Rightarrow> ((exn + unit) \<times> ('c, 'w) gateway) option" where
  "proxy_websocket env wid path rq cookie evs s =
     (case on_web (requested_workspace (pe_request env) wid cookie) s of
        (Inl e, t) \<Rightarrow>
          Some (case refusal e of None \<Rightarrow> (Inl e, t) | Some reason \<Rightarrow> close_ws env 1008 reason t)
      | (Inr (uid, w), t) \<Rightarrow>
          (let p = decide_ws w in
           if pr_decision p \<noteq> ALLOW then
             Some (close_ws env (the (pr_ws_close_code p)) (the (pr_ws_close_reason p)) t)
           else (case io_seq (record_activity env wid) (on_gw_world (ic_resolve_upstream (pe_instance env) wid)) t of
               (Inl e, u) \<Rightarrow> Some (Inl e, u)
             | (Inr None, u) \<Rightarrow> Some (close_ws env 1011 ''Upstream unavailable'' u)
             | (Inr (Some up), u) \<Rightarrow> proxy_ws_to_upstream env rq up path wid evs u)))"

section \<open>Who reaches a workspace\<close>

text \<open>A request is granted when its user may use the workspace and the policy lets it pass.\<close>

definition grant :: "'c request_ctx \<Rightarrow> string \<Rightarrow> string option \<Rightarrow> 'c web \<Rightarrow> (string \<times> workspace) option" where
  "grant rc wid cookie web =
     (case requested_workspace rc wid cookie web of
        (Inr (uid, w), _) \<Rightarrow> if ws_phase w = phase.RUNNING then Some (uid, w) else None
      | _ \<Rightarrow> None)"

definition workspaces_owned :: "'c request_ctx \<Rightarrow> 'c web \<Rightarrow> bool" where
  "workspaces_owned rc web \<longleftrightarrow> holds (workspace_cache_get (rc_caches rc)) owned_entry (fst web)"

text \<open>Everything but the web state.\<close>

definition untouched_gateway :: "('c, 'w) gateway \<Rightarrow> ('c, 'w) gateway \<Rightarrow> bool" where
  "untouched_gateway s t \<longleftrightarrow> gw_world t = gw_world s \<and> gw_buffer t = gw_buffer s \<and> gw_client t = gw_client s"

lemma on_web_apply: "m (gw_web s) = (r, x) \<Longrightarrow> on_web m s = (r, s\<lparr>gw_web := x\<rparr>)"
  by (simp add: on_web_def io_zoom_def)

lemma on_web_untouched: "on_web m s = (r, t) \<Longrightarrow> untouched_gateway s t"
  by (auto simp: on_web_def io_zoom_def untouched_gateway_def split: prod.splits)

lemma http_refused:
  assumes "grant (pe_request env) wid cookie (gw_web s) = None" and "proxy_http env wid path rq cookie s = (r, t)"
  shows "untouched_gateway s t"
proof -
  let ?rc = "pe_request env"
  obtain a x where req: "requested_workspace ?rc wid cookie (gw_web s) = (a, x)" by (meson surj_pair)
  have web: "on_web (requested_workspace ?rc wid cookie) s = (a, s\<lparr>gw_web := x\<rparr>)" by (rule on_web_apply) (rule req)
  show ?thesis
  proof (cases a)
    case (Inl e)
    then show ?thesis using assms(2) web by (auto simp: proxy_http_def io_bind_def untouched_gateway_def)
  next
    case (Inr uw)
    obtain uid w where uw: "uw = (uid, w)" by (cases uw)
    have notrun: "ws_phase w \<noteq> phase.RUNNING" using assms(1) req Inr uw by (simp add: grant_def split: if_splits)
    obtain b y where pol: "on_web (on_db (decide_http (rc_limits ?rc) (rc_now ?rc) w uid)) (s\<lparr>gw_web := x\<rparr>) = (b, y)"
      by fastforce
    have "b = Inr p \<Longrightarrow> pr_decision p \<noteq> ALLOW" for p
      using pol notrun decide_http_allows [of "rc_limits ?rc" "rc_now ?rc" w uid "snd x" p]
      by (auto simp: on_web_def on_db_def io_zoom_def split: prod.splits)
    then have "t = y" using assms(2) web pol Inr uw
      by (cases b) (auto simp: proxy_http_def io_bind_def io_return_def)
    moreover have "untouched_gateway (s\<lparr>gw_web := x\<rparr>) y" using on_web_untouched [OF pol] .
    ultimately show ?thesis by (simp add: untouched_gateway_def)
  qed
qed

lemma ws_refused:
  assumes "grant (pe_request env) wid cookie (gw_web s) = None"
  shows "\<exists>r t. proxy_websocket env wid path rq cookie evs s = Some (r, t) \<and>
    (untouched_gateway s t \<or>
     (\<exists>reason. untouched_gateway (s\<lparr>gw_world := snd (wa_close (pe_ws env) 1008 reason (gw_world s))\<rparr>) t))"
proof -
  let ?rc = "pe_request env"
  obtain a x where req: "requested_workspace ?rc wid cookie (gw_web s) = (a, x)" by (meson surj_pair)
  have web: "on_web (requested_workspace ?rc wid cookie) s = (a, s\<lparr>gw_web := x\<rparr>)" by (rule on_web_apply) (rule req)
  have close: "untouched_gateway (s\<lparr>gw_world := snd (wa_close (pe_ws env) 1008 reason (gw_world s))\<rparr>) t"
    if "close_ws env 1008 reason (s\<lparr>gw_web := x\<rparr>) = (r, t)" for reason r t
    using that by (auto simp: close_ws_def on_gw_world_def io_zoom_def untouched_gateway_def split: prod.splits)
  show ?thesis
  proof (cases a)
    case (Inl e)
    then show ?thesis
      using web close
      by (cases "refusal e"; cases "close_ws env 1008 (the (refusal e)) (s\<lparr>gw_web := x\<rparr>)")
         (auto simp: proxy_websocket_def untouched_gateway_def)
  next
    case (Inr uw)
    then have "pr_decision (decide_ws (snd uw)) \<noteq> ALLOW"
      using assms req by (auto simp: grant_def decide_ws_allows split: if_splits prod.splits)
    then have "ws_phase (snd uw) \<noteq> phase.RUNNING" by (simp add: decide_ws_allows)
    then have "proxy_websocket env wid path rq cookie evs s =
        Some (close_ws env 1008 ''Workspace not running'' (s\<lparr>gw_web := x\<rparr>))"
      using web Inr by (cases uw) (simp add: proxy_websocket_def decide_ws_def)
    then show ?thesis using close by (metis prod.exhaust)
  qed
qed

lemma workspaces_owned_step:
  assumes law: "cache_law (workspace_cache_get (rc_caches rc)) (workspace_cache_put (rc_caches rc))"
    and ses: "\<And>clk k v c clk' k'. workspace_cache_get (rc_caches rc) clk' k' (session_cache_put (rc_caches rc) clk k v c)
      = workspace_cache_get (rc_caches rc) clk' k' c"
    and owned: "workspaces_owned rc web" and run: "requested_workspace rc wid cookie web = (r, web')"
  shows "workspaces_owned rc web' \<and> (case r of Inr (uid, w) \<Rightarrow> owned_entry (wid, uid) w | Inl _ \<Rightarrow> True)"
proof -
  obtain a c1 d1 where auth: "authenticate rc cookie web = (a, (c1, d1))" by (metis prod_cases3)
  have o1: "holds (workspace_cache_get (rc_caches rc)) owned_entry c1"
    using auth owned
    by (cases web)
       (auto simp: authenticate_def get_user_id_from_session_def cached_def workspaces_owned_def holds_def ses
          split: option.splits prod.splits sum.splits)
  show ?thesis
  proof (cases a)
    case (Inl e)
    then show ?thesis using run auth o1 by (auto simp: requested_workspace_def io_bind_def workspaces_owned_def)
  next
    case (Inr uid)
    obtain b c2 d2 where ws: "get_workspace_for_user (rc_caches rc) (rc_clock rc) wid uid (c1, d1) = (b, (c2, d2))"
      by (metis prod_cases3)
    have "holds (workspace_cache_get (rc_caches rc)) owned_entry c2 \<and> (case b of Inr w \<Rightarrow> owned_entry (wid, uid) w | Inl _ \<Rightarrow> True)"
      using cached_gives [where P = owned_entry, OF law lookup_workspace_owned o1 ws [unfolded get_workspace_for_user_def]] .
    then show ?thesis
      using run auth ws Inr
      by (cases b) (auto simp: requested_workspace_def io_bind_def io_return_def workspaces_owned_def)
  qed
qed


section \<open>What the relay forwards\<close>

text \<open>The reference: what each side is to receive of an execution, up to the end of the task that reads
  the other side.\<close>

definition message_data :: "asgi_message \<Rightarrow> ws_data list" where
  "message_data m =
     (if am_type m \<noteq> ''websocket.receive'' then []
      else case (am_text m, am_bytes m) of (Some t, _) \<Rightarrow> [TextData t] | (None, Some b) \<Rightarrow> [BytesData b] | _ \<Rightarrow> [])"

fun to_backend :: "bool \<Rightarrow> relay_event list \<Rightarrow> ws_data list" where
  "to_backend client_done [] = []"
| "to_backend client_done (ev # evs) =
     (if client_done then []
      else case ev of
          ClientMessage m \<Rightarrow> message_data m @ to_backend (am_type m = ''websocket.disconnect'') evs
        | ClientFails e \<Rightarrow> []
        | _ \<Rightarrow> to_backend False evs)"

fun to_client :: "bool \<Rightarrow> relay_event list \<Rightarrow> ws_data list" where
  "to_client backend_done [] = []"
| "to_client backend_done (ev # evs) =
     (if backend_done then []
      else case ev of
          BackendMessage m \<Rightarrow> m # to_client False evs
        | BackendEnds \<Rightarrow> []
        | BackendFails e \<Rightarrow> []
        | _ \<Rightarrow> to_client False evs)"

text \<open>The world carries the lists of what each side was sent successfully.\<close>

definition logs_sends :: "('w \<times> ws_data list \<times> ws_data list) ws_api \<Rightarrow> bool" where
  "logs_sends ws \<longleftrightarrow>
     (\<forall>d x r y. wa_send_backend ws d x = (r, y) \<longrightarrow>
        snd (snd y) = snd (snd x) \<and> fst (snd y) = fst (snd x) @ (if isl r then [] else [d])) \<and>
     (\<forall>d x r y. wa_send_client ws d x = (r, y) \<longrightarrow>
        fst (snd y) = fst (snd x) \<and> snd (snd y) = snd (snd x) @ (if isl r then [] else [d]))"

abbreviation sent_to_backend :: "('c, 'w \<times> ws_data list \<times> ws_data list) gateway \<Rightarrow> ws_data list" where
  "sent_to_backend s \<equiv> fst (snd (gw_world s))"

abbreviation sent_to_client :: "('c, 'w \<times> ws_data list \<times> ws_data list) gateway \<Rightarrow> ws_data list" where
  "sent_to_client s \<equiv> snd (snd (gw_world s))"

lemma to_done [simp]: "to_backend True evs = []" "to_client True evs = []"
  by (cases evs; simp)+

lemma on_gw_world_iff: "on_gw_world m s = (r, t) \<longleftrightarrow> (\<exists>y. m (gw_world s) = (r, y) \<and> t = s\<lparr>gw_world := y\<rparr>)"
  by (simp add: on_gw_world_def io_zoom_def split_beta) (metis prod.collapse prod.inject)

lemma logged_send_backend:
  assumes "logs_sends ws" and "on_gw_world (wa_send_backend ws d) s = (r, t)"
  shows "sent_to_client t = sent_to_client s \<and> sent_to_backend t = sent_to_backend s @ (if isl r then [] else [d])"
proof -
  obtain y where y: "wa_send_backend ws d (gw_world s) = (r, y)" "t = s\<lparr>gw_world := y\<rparr>"
    using assms(2) unfolding on_gw_world_iff by blast
  have "gw_world t = y" by (simp add: y(2))
  then show ?thesis
    using assms(1) [unfolded logs_sends_def, THEN conjunct1, rule_format, OF y(1)] by simp
qed

lemma logged_send_client:
  assumes "logs_sends ws" and "on_gw_world (wa_send_client ws d) s = (r, t)"
  shows "sent_to_backend t = sent_to_backend s \<and> sent_to_client t = sent_to_client s @ (if isl r then [] else [d])"
proof -
  obtain y where y: "wa_send_client ws d (gw_world s) = (r, y)" "t = s\<lparr>gw_world := y\<rparr>"
    using assms(2) unfolding on_gw_world_iff by blast
  have "gw_world t = y" by (simp add: y(2))
  then show ?thesis
    using assms(1) [unfolded logs_sends_def, THEN conjunct2, rule_format, OF y(1)] by simp
qed

lemma client_message_sends:
  assumes "logs_sends (pe_ws env)" and "relay_client_message env wid m s = (r, t)"
  shows "sent_to_client t = sent_to_client s \<and>
    (case r of Inl _ \<Rightarrow> sent_to_backend t = sent_to_backend s
     | Inr ends \<Rightarrow> sent_to_backend t = sent_to_backend s @ message_data m \<and> ends = (am_type m = ''websocket.disconnect''))"
proof (cases "am_type m = ''websocket.receive''")
  case False
  then show ?thesis using assms(2) by (auto simp: relay_client_message_def message_data_def io_return_def)
next
  case True
  obtain u where u: "record_activity env wid s = (Inr (), u)" "gw_world u = gw_world s"
    by (auto simp: record_activity_def)
  show ?thesis
    using assms(2) True u
    by (auto simp: relay_client_message_def message_data_def io_seq_def io_bind_def io_return_def
        dest!: logged_send_backend [OF assms(1)] split: option.splits sum.splits prod.splits)
qed

lemma backend_message_sends:
  assumes "logs_sends (pe_ws env)" and "relay_backend_message env wid m s = (r, t)"
  shows "sent_to_backend t = sent_to_backend s \<and> sent_to_client t = sent_to_client s @ (if isl r then [] else [m])"
proof -
  obtain u where u: "record_activity env wid s = (Inr (), u)" "gw_world u = gw_world s"
    by (auto simp: record_activity_def)
  then have "on_gw_world (wa_send_client (pe_ws env) m) u = (r, t)"
    using assms(2) by (simp add: relay_backend_message_def io_seq_def io_bind_def)
  from logged_send_client [OF assms(1) this] show ?thesis by (simp add: u)
qed

text \<open>A step sends the first part of what is to be sent, and leaves the rest to the later ones.\<close>

lemma relay_step_sends:
  assumes log: "logs_sends (pe_ws env)" and step: "relay_step env wid ev (cd, bd) s = (r, t)"
  shows "case r of
      Inl _ \<Rightarrow> sent_to_backend t = sent_to_backend s \<and> sent_to_client t = sent_to_client s
    | Inr (cd', bd') \<Rightarrow> \<exists>b c. sent_to_backend t = sent_to_backend s @ b \<and> sent_to_client t = sent_to_client s @ c \<and>
        to_backend cd (ev # evs) = b @ to_backend cd' evs \<and> to_client bd (ev # evs) = c @ to_client bd' evs"
proof (cases ev)
  case (ClientMessage m)
  obtain x u where "relay_client_message env wid m s = (x, u)" by fastforce
  then show ?thesis
    using step client_message_sends [OF log, of wid m s x u] ClientMessage
    by (cases x) (auto simp: relay_step_def io_bind_def io_return_def split: if_splits)
next
  case (BackendMessage m)
  obtain x u where "relay_backend_message env wid m s = (x, u)" by fastforce
  then show ?thesis
    using step backend_message_sends [OF log, of wid m s x u] BackendMessage
    by (cases x) (auto simp: relay_step_def io_seq_def io_bind_def io_return_def split: if_splits)
qed (use step in \<open>auto simp: relay_step_def io_return_def io_raise_def split: if_splits\<close>)

text \<open>C39: the relay of a WebSocket forwards in order.  In whatever way the messages of the two sides
  interleave, each side has received a prefix of what the other one sent before it left; and all of
  it, when the relay ends without an exception.\<close>
theorem relay_forwards_in_order:
  assumes "logs_sends (pe_ws env)" and "relay env wid evs (cd, bd) s = Some (r, t)"
  shows "\<exists>b c. sent_to_backend t = sent_to_backend s @ b \<and> sent_to_client t = sent_to_client s @ c \<and>
    prefix b (to_backend cd evs) \<and> prefix c (to_client bd evs) \<and>
    (isl r \<or> b = to_backend cd evs \<and> c = to_client bd evs)"
  using assms(2)
proof (induction evs arbitrary: cd bd s)
  case Nil
  then show ?case by (auto split: if_splits)
next
  case (Cons ev evs)
  show ?case
  proof (cases "(cd, bd) = (True, True)")
    case True
    then show ?thesis using Cons.prems by simp
  next
    case False
    obtain x u where step: "relay_step env wid ev (cd, bd) s = (x, u)" by fastforce
    show ?thesis
    proof (cases x)
      case (Inl e)
      then show ?thesis using relay_step_sends [OF assms(1) step] step Cons.prems False by (auto simp del: to_backend.simps to_client.simps)
    next
      case (Inr d)
      obtain cd' bd' where d: "d = (cd', bd')" by (cases d)
      obtain b c where bc: "sent_to_backend u = sent_to_backend s @ b" "sent_to_client u = sent_to_client s @ c"
          "to_backend cd (ev # evs) = b @ to_backend cd' evs" "to_client bd (ev # evs) = c @ to_client bd' evs"
        using relay_step_sends [OF assms(1) step, of evs] Inr d by auto
      have "relay env wid evs (cd', bd') u = Some (r, t)" using Cons.prems step Inr d False by (simp split: if_splits)
      from Cons.IH [OF this] show ?thesis using bc(1,2) unfolding bc(3,4) by auto
    qed
  qed
qed

section \<open>Witnesses\<close>

text \<open>A world that is only the two logs; the client's socket is closed without a trace.\<close>

definition log_ws :: "(unit \<times> ws_data list \<times> ws_data list) ws_api" where
  "log_ws =
     \<lparr>wa_connect = (\<lambda>_ _ _. io_return ()), wa_accept = io_return (), wa_close = (\<lambda>_ _. io_return ()),
      wa_send_backend = (\<lambda>d (u, bs, cs). (Inr (), (u, bs @ [d], cs))),
      wa_send_client = (\<lambda>d (u, bs, cs). (Inr (), (u, bs, cs @ [d]))), wa_backend_exit = io_return ()\<rparr>"

definition log_env :: "(unit, unit \<times> ws_data list \<times> ws_data list) proxy_env" where
  "log_env =
     \<lparr>pe_request = sample_ctx, pe_proxy = default_proxy, pe_activity = default_activity, pe_time = (\<lambda>_. 100),
      pe_instance = \<lparr>ic_list_all = (\<lambda>_. io_return []), ic_start = (\<lambda>_ _. io_return ()), ic_delete = (\<lambda>_. io_return ()),
        ic_is_running = (\<lambda>_. io_return True), ic_resolve_upstream = (\<lambda>_. io_return (Some \<lparr>up_hostname = ''c'', up_port = 8080\<rparr>))\<rparr>,
      pe_http = \<lparr>hx_new = (\<lambda>_. io_return 0), hx_close = (\<lambda>_. io_return ()),
        hx_send = (\<lambda>_ _ _ _ _. io_return \<lparr>ur_status = 200, ur_headers = [], ur_handle = 0\<rparr>),
        hx_next = (\<lambda>_. io_return None), hx_aclose = (\<lambda>_. io_return ())\<rparr>,
      pe_ws = log_ws\<rparr>"

definition log_gateway :: "db \<Rightarrow> (unit, unit \<times> ws_data list \<times> ws_data list) gateway" where
  "log_gateway d = \<lparr>gw_web = ((), d), gw_buffer = [], gw_client = None, gw_world = ((), [], [])\<rparr>"

definition page_request :: proxied_request where
  "page_request = \<lparr>px_method = ''GET'', px_query = [], px_headers = [], px_body = []\<rparr>"

lemma sample_grants:
  "grant sample_ctx ''a'' (Some ''s'') ((), sample_web_db) = None"
  "grant sample_ctx ''a'' (Some ''s'') ((), busy_db) = Some (''u1'', sample_ws ''a'' phase.RUNNING desired_state.RUNNING)"
  by (simp_all add: grant_def requested_workspace_def authenticate_def get_user_id_from_session_def cached_def sample_ctx_def
      no_caches_def lookup_user_id_def get_valid_def io_bind_def io_simps q_session_def sample_web_db_def busy_db_def
      db_of_def db_ok_def sql_one_or_none_def session_is_valid_def io_return_def get_workspace_for_user_def
      lookup_workspace_def q_workspace_def sample_ws_def new_workspace_def ws_live_def)


theorem relay_forwards_in_order_witness:
  "\<exists>t. relay log_env ''a''
      [ClientMessage \<lparr>am_type = ''websocket.receive'', am_text = Some ''x'', am_bytes = None\<rparr>, BackendMessage (TextData ''y''),
       ClientMessage \<lparr>am_type = ''websocket.disconnect'', am_text = None, am_bytes = None\<rparr>, BackendMessage (BytesData ''z''), BackendEnds]
      (False, False) (log_gateway busy_db) = Some (Inr (), t) \<and>
    sent_to_backend t = [TextData ''x''] \<and> sent_to_client t = [TextData ''y'', BytesData ''z'']"
proof -
  let ?evs = "[ClientMessage \<lparr>am_type = ''websocket.receive'', am_text = Some ''x'', am_bytes = None\<rparr>, BackendMessage (TextData ''y''),
       ClientMessage \<lparr>am_type = ''websocket.disconnect'', am_text = None, am_bytes = None\<rparr>, BackendMessage (BytesData ''z''), BackendEnds]"
  have log: "logs_sends (pe_ws log_env)" by (auto simp: logs_sends_def log_env_def log_ws_def)
  obtain t where run: "relay log_env ''a'' ?evs (False, False) (log_gateway busy_db) = Some (Inr (), t)"
    by (simp add: relay_step_def relay_client_message_def relay_backend_message_def record_activity_def on_gw_world_def
        io_zoom_def io_defs log_env_def log_ws_def log_gateway_def)
  have "sent_to_backend (log_gateway busy_db) = []" "sent_to_client (log_gateway busy_db) = []" by (simp_all add: log_gateway_def)
  then show ?thesis
    using relay_forwards_in_order [OF log run] run by (simp add: message_data_def)
qed

end
