(* ===== verification/Requests.thy ===== *)
theory Requests
  imports Config
begin

text \<open>
  app/logging.py and app/middleware/logging.py: the filter that keeps repeated log messages from flooding
  the log, the trace id of a request, the whitelist of endpoint labels of the metrics, and the middleware
  around every request.  What the log and the metrics receive are lists of the state.
\<close>

section \<open>The rate limit of the log (logging.py)\<close>

record log_record =
  lr_name :: string
  lr_lineno :: nat
  lr_levelno :: int
  lr_msg :: string

text \<open>\<open>_counts\<close> is a defaultdict, a total function; \<open>_warned\<close> a set of keys.\<close>

record rate_filter =
  rf_rate :: int
  rf_counts :: "string \<Rightarrow> seconds list"
  rf_warned :: "string set"

definition new_rate_filter :: "int \<Rightarrow> rate_filter" where
  "new_rate_filter rate = \<lparr>rf_rate = rate, rf_counts = (\<lambda>_. []), rf_warned = {}\<rparr>"

definition log_key :: "log_record \<Rightarrow> string" where
  "log_key r = lr_name r @ '':'' @ str_nat (lr_lineno r) @ '':'' @ lr_msg r"

definition rate_limited :: "int \<Rightarrow> log_record \<Rightarrow> log_record" where
  "rate_limited rate r = r\<lparr>lr_msg := ''[RATE LIMITED] '' @ lr_msg r @ '' (max '' @ str_int rate @ ''/min)''\<rparr>"

text \<open>\<open>filter\<close>: whether the record passes, and the record, whose message it may rewrite.\<close>

definition rate_filter_step :: "seconds \<Rightarrow> log_record \<Rightarrow> rate_filter \<Rightarrow> (bool \<times> log_record) \<times> rate_filter" where
  "rate_filter_step now r f =
     (if lr_levelno r \<ge> 40 then ((True, r), f)
      else let key = log_key r;
               recent = filter (\<lambda>t. now - t < 60) (rf_counts f key)
        in if int (length recent) \<ge> rf_rate f then
             (if key \<notin> rf_warned f
              then ((True, rate_limited (rf_rate f) r),
                    f\<lparr>rf_warned := insert key (rf_warned f), rf_counts := (rf_counts f)(key := recent @ [now])\<rparr>)
              else ((False, r), f\<lparr>rf_counts := (rf_counts f)(key := recent)\<rparr>))
           else ((True, r),
                 f\<lparr>rf_warned := (if key \<in> rf_warned f \<and> int (length recent) < rf_rate f div 2
                                then rf_warned f - {key} else rf_warned f),
                   rf_counts := (rf_counts f)(key := recent @ [now])\<rparr>))"

text \<open>A run over timed records, and the times at which records with a key passed.\<close>

fun rate_filter_run :: "(seconds \<times> log_record) list \<Rightarrow> rate_filter \<Rightarrow> (seconds \<times> log_record) list \<times> rate_filter" where
  "rate_filter_run [] f = ([], f)"
| "rate_filter_run ((now, r) # es) f =
     (case rate_filter_step now r f of ((passed, _), f') \<Rightarrow>
       (case rate_filter_run es f' of (out, f'') \<Rightarrow> ((if passed then (now, r) # out else out), f'')))"

definition passed_times :: "string \<Rightarrow> (seconds \<times> log_record) list \<Rightarrow> seconds list" where
  "passed_times key out = map fst (filter (\<lambda>(t, r). log_key r = key \<and> lr_levelno r < 40) out)"

text \<open>The counts hold the recent ones of the passed times; an unwarned key has at most the rate of them.\<close>

definition counted :: "string \<Rightarrow> int \<Rightarrow> seconds \<Rightarrow> seconds list \<Rightarrow> rate_filter \<Rightarrow> bool" where
  "counted key rate since ps f \<longleftrightarrow> rf_rate f = rate \<and>
     (\<forall>T \<ge> since. filter (\<lambda>x. T - x < 60) ps = filter (\<lambda>x. T - x < 60) (rf_counts f key)) \<and>
     (key \<notin> rf_warned f \<longrightarrow> int (length (rf_counts f key)) \<le> rate) \<and>
     (\<forall>a. int (length (filter (\<lambda>x. a \<le> x \<and> x < a + 60) ps)) \<le> rate + 1)"

lemma filter_filter_recent:
  "T \<ge> (now :: seconds) \<Longrightarrow> filter (\<lambda>x. T - x < 60) (filter (\<lambda>x. now - x < 60) xs) = filter (\<lambda>x. T - x < 60) xs"
  by (induction xs) auto

lemma window_snoc:
  fixes now :: seconds
  assumes "\<And>b. int (length (filter (\<lambda>x. b \<le> x \<and> x < b + 60) ps)) \<le> rate + 1"
    and "int (length (filter (\<lambda>x. now - x < 60) ps)) \<le> rate"
  shows "int (length (filter (\<lambda>x. a \<le> x \<and> x < a + 60) (ps @ [now]))) \<le> rate + 1"
proof (cases "a \<le> now \<and> now < a + 60")
  case True
  then have "filter (\<lambda>x. a \<le> x \<and> x < a + 60) ps = filter (\<lambda>x. a \<le> x \<and> x < a + 60) (filter (\<lambda>x. now - x < 60) ps)"
    by (auto simp: filter_filter intro!: filter_cong)
  then have "length (filter (\<lambda>x. a \<le> x \<and> x < a + 60) ps) \<le> length (filter (\<lambda>x. now - x < 60) ps)"
    by (metis length_filter_le)
  then show ?thesis using assms(2) True by simp
next
  case False
  then show ?thesis using assms(1) [of a] by auto
qed

lemma counted_step:
  assumes c: "counted key rate since ps f" and now: "since \<le> now" and "0 \<le> rate"
    and step: "rate_filter_step now r f = ((b, r'), f')"
  shows "counted key rate now (ps @ (if b \<and> log_key r = key \<and> lr_levelno r < 40 then [now] else [])) f'"
proof (cases "lr_levelno r \<ge> 40 \<or> log_key r \<noteq> key")
  case True
  then have "rf_counts f' key = rf_counts f key" "rf_rate f' = rf_rate f" "key \<in> rf_warned f' \<longleftrightarrow> key \<in> rf_warned f"
    using step by (auto simp: rate_filter_step_def Let_def split: if_splits)
  then show ?thesis using c now True by (auto simp: counted_def)
next
  case False
  let ?recent = "filter (\<lambda>t. now - t < 60) (rf_counts f key)"
  have recent: "filter (\<lambda>x. now - x < 60) ps = ?recent" using c now by (simp add: counted_def)
  have win: "int (length (filter (\<lambda>x. a \<le> x \<and> x < a + 60) ps)) \<le> rate + 1" for a using c by (simp add: counted_def)
  have tail: "filter (\<lambda>x. T - x < 60) ps = filter (\<lambda>x. T - x < 60) ?recent" if "T \<ge> now" for T
    using filter_filter_recent [OF that] c now that by (simp add: counted_def)
  have unwarned: "int (length ?recent) \<le> rate" if "key \<notin> rf_warned f"
  proof -
    have "int (length (rf_counts f key)) \<le> rate" using c that by (simp add: counted_def)
    moreover have "length ?recent \<le> length (rf_counts f key)" by (rule length_filter_le)
    ultimately show ?thesis by linarith
  qed
  have rate: "rf_rate f = rate" using c by (simp add: counted_def)
  show ?thesis
  proof (cases b)
    case True
    have len: "int (length ?recent) \<le> rate"
      using step False True unwarned rate by (auto simp: rate_filter_step_def Let_def split: if_splits)
    have "rf_counts f' key = ?recent @ [now]" "rf_rate f' = rate" "key \<notin> rf_warned f' \<Longrightarrow> int (length ?recent) < rate"
      using step False True rate \<open>0 \<le> rate\<close> by (auto simp: rate_filter_step_def Let_def split: if_splits)
    then show ?thesis
      using True False tail window_snoc [OF win len [folded recent]] by (auto simp: counted_def)
  next
    case limited: False
    then have "rf_counts f' key = ?recent" "rf_rate f' = rate" "key \<in> rf_warned f'"
      using step False rate by (auto simp: rate_filter_step_def Let_def split: if_splits)
    then show ?thesis using limited tail win by (auto simp: counted_def)
  qed
qed

lemma counted_run:
  assumes "0 \<le> rate"
  shows "sorted (since # map fst es) \<Longrightarrow> counted key rate since ps f \<Longrightarrow> rate_filter_run es f = (out, f') \<Longrightarrow>
    \<exists>t. counted key rate t (ps @ passed_times key out) f'"
proof (induction es arbitrary: since ps f out)
  case Nil
  then show ?case by (auto simp: passed_times_def)
next
  case (Cons e es)
  obtain now r where e: "e = (now, r)" by (cases e)
  obtain b r' f1 where step: "rate_filter_step now r f = ((b, r'), f1)" by (metis prod.exhaust)
  obtain out' f2 where run: "rate_filter_run es f1 = (out', f2)" by fastforce
  have out: "out = (if b then (now, r) # out' else out')" "f' = f2" using Cons.prems(3) e step run by auto
  have "counted key rate now (ps @ (if b \<and> log_key r = key \<and> lr_levelno r < 40 then [now] else [])) f1"
    using Cons.prems e by (intro counted_step [OF Cons.prems(2) _ assms step]) simp
  from Cons.IH [OF _ this run [folded out(2)]] Cons.prems(1) e out show ?case by (auto simp: passed_times_def)
qed

text \<open>C10: the rate limit.  Of the records below ERROR that share a logger, line and message no more than the
  configured number and one, the warning that the others are dropped, pass in any 60 seconds.\<close>
theorem rate_limit_bound:
  assumes "sorted (map fst es)" and "0 \<le> rate"
  shows "int (length (filter (\<lambda>t. a \<le> t \<and> t < a + 60)
    (passed_times key (fst (rate_filter_run es (new_rate_filter rate)))))) \<le> rate + 1"
proof -
  let ?t0 = "case es of [] \<Rightarrow> 0 | e # _ \<Rightarrow> fst e"
  obtain out f where run: "rate_filter_run es (new_rate_filter rate) = (out, f)" by fastforce
  have "counted key rate ?t0 [] (new_rate_filter rate)" using assms(2) by (simp add: counted_def new_rate_filter_def)
  moreover have "sorted (?t0 # map fst es)" using assms(1) by (cases es) auto
  ultimately obtain t where "counted key rate t (passed_times key out) f"
    using counted_run [OF assms(2) _ _ run, of ?t0 key "[]"] by auto
  then show ?thesis using run by (simp add: counted_def)
qed


theorem rate_limit_bound_witness:
  "passed_times ''app:1:m'' (fst (rate_filter_run
      (map (\<lambda>t. (t, \<lparr>lr_name = ''app'', lr_lineno = 1, lr_levelno = 20, lr_msg = ''m''\<rparr>)) [0, 1, 2, 3, 62]) (new_rate_filter 1)))
    = [0, 1, 62] \<and>
   int (length (filter (\<lambda>t. 0 \<le> t \<and> t < 0 + 60) (passed_times ''app:1:m'' (fst (rate_filter_run
      (map (\<lambda>t. (t, \<lparr>lr_name = ''app'', lr_lineno = 1, lr_levelno = 20, lr_msg = ''m''\<rparr>)) [0, 1, 2, 3, 62]) (new_rate_filter 1))))))
     \<le> 1 + 1"
proof (rule conjI)
  have "str_nat 1 = ''1''" by code_simp
  then show "passed_times ''app:1:m'' (fst (rate_filter_run
      (map (\<lambda>t. (t, \<lparr>lr_name = ''app'', lr_lineno = 1, lr_levelno = 20, lr_msg = ''m''\<rparr>)) [0, 1, 2, 3, 62]) (new_rate_filter 1)))
    = [0, 1, 62]"
    by (simp add: passed_times_def rate_filter_step_def new_rate_filter_def log_key_def Let_def)
qed (rule rate_limit_bound; simp)

section \<open>Trace ids (logging.py)\<close>

text \<open>The middleware's state: the context variable, what was logged and counted, and the world.\<close>

datatype log_event = RequestFailed string string seconds string | RequestComplete string string int seconds string
  | RequestSlow string string int seconds string

record 'w middleware =
  mw_trace :: "string option"
  mw_log :: "log_event list"
  mw_counted :: "(string \<times> string \<times> int) list"
  mw_world :: 'w

definition on_mw_world :: "('w, 'a) io \<Rightarrow> ('w middleware, 'a) io" where
  "on_mw_world m = io_zoom mw_world (\<lambda>w s. s\<lparr>mw_world := w\<rparr>) m"

definition get_trace_id :: "'w middleware \<Rightarrow> string option" where
  "get_trace_id s = mw_trace s"

definition set_trace_id :: "string \<Rightarrow> string option \<Rightarrow> 'w middleware \<Rightarrow> string \<times> 'w middleware" where
  "set_trace_id uuid trace_id s =
     (let tid = (if py_truthy trace_id then the trace_id else uuid) in (tid, s\<lparr>mw_trace := Some tid\<rparr>))"

definition clear_trace_context :: "'w middleware \<Rightarrow> 'w middleware" where
  "clear_trace_context s = s\<lparr>mw_trace := None\<rparr>"

section \<open>Endpoint labels (middleware/logging.py)\<close>

text \<open>The two patterns: a literal, one or more of the characters of a UUID, and for the second the rest of
  the line.\<close>

definition id_char :: "char \<Rightarrow> bool" where
  "id_char c \<longleftrightarrow> c \<in> set ''abcdef0123456789-''"

definition match_id :: "string \<Rightarrow> string \<Rightarrow> nat option" where
  "match_id lit s =
     (let n = length (takeWhile id_char (drop (length lit) s)) in
      if py_startswith s lit \<and> 0 < n then Some (length lit + n) else None)"

definition match_id_line :: "string \<Rightarrow> string \<Rightarrow> nat option" where
  "match_id_line lit s =
     (case match_id lit s of
        None \<Rightarrow> None
      | Some n \<Rightarrow> Some (n + length (takeWhile (\<lambda>c. c \<noteq> CHR 0x0A) (drop n s))))"

definition KNOWN_ENDPOINTS :: "string list" where
  "KNOWN_ENDPOINTS =
     [''/api/v1/login'', ''/api/v1/logout'', ''/api/v1/session'', ''/api/v1/workspaces'', ''/api/v1/workspaces/:id'',
      ''/api/v1/events'', ''/w/*'']"

definition normalize_path :: "string \<Rightarrow> string" where
  "normalize_path path =
     (let p1 = re_sub (match_id ''/api/v1/workspaces/'') ''/api/v1/workspaces/:id'' path;
          p2 = re_sub (match_id_line ''/w/'') ''/w/*'' p1
      in if p2 \<in> set KNOWN_ENDPOINTS then p2 else ''other'')"

text \<open>Whatever the client asks for, the metrics see one of eight labels.\<close>

lemma normalize_path_range: "normalize_path path \<in> set (''other'' # KNOWN_ENDPOINTS)"
  by (simp add: normalize_path_def Let_def)

lemma takeWhile_all: "list_all P xs \<Longrightarrow> takeWhile P xs = xs"
  by (induction xs) simp_all

lemma match_id_whole: "list_all id_char i \<Longrightarrow> i \<noteq> [] \<Longrightarrow> match_id lit (lit @ i) = Some (length lit + length i)"
  by (simp add: match_id_def takeWhile_all)

text \<open>The id of a workspace is no part of the label.\<close>

lemma normalize_workspace_path:
  assumes "list_all id_char i" "i \<noteq> []"
  shows "normalize_path (''/api/v1/workspaces/'' @ i) = ''/api/v1/workspaces/:id''"
proof -
  have "re_sub (match_id ''/api/v1/workspaces/'') ''/api/v1/workspaces/:id'' (''/api/v1/workspaces/'' @ i) =
      ''/api/v1/workspaces/:id''"
  proof -
    let ?lit = "''/api/v1/workspaces/''"
    have m: "match_id ?lit (?lit @ i) = Some (length ?lit + length i)" by (rule match_id_whole [OF assms])
    show ?thesis by (subst re_sub_match [where s = "?lit @ i" and n = "length ?lit + length i"], rule m) (simp_all add: re_sub_def)
  qed
  moreover have "re_sub (match_id_line ''/w/'') ''/w/*'' ''/api/v1/workspaces/:id'' = ''/api/v1/workspaces/:id''"
    by (simp add: re_sub_def match_id_line_def match_id_def py_startswith_def Let_def)
  ultimately show ?thesis by (simp add: normalize_path_def KNOWN_ENDPOINTS_def)
qed

section \<open>The middleware (middleware/logging.py)\<close>

record mw_request =
  mr_method :: string
  mr_path :: string
  mr_trace :: "string option"

record mw_response =
  mp_status :: int
  mp_headers :: "(string \<times> string) list"

definition skip_paths :: "string list" where
  "skip_paths = [''/health'', ''/metrics'', ''/healthz'', ''/readyz'']"

definition skipped :: "string list \<Rightarrow> string \<Rightarrow> bool" where
  "skipped extra path \<longleftrightarrow> py_startswith path ''/static/'' \<or> path \<in> set (skip_paths @ extra)"

text \<open>\<open>response.headers["X-Trace-ID"] = trace_id\<close>\<close>

definition set_header :: "string \<Rightarrow> string \<Rightarrow> mw_response \<Rightarrow> mw_response" where
  "set_header k v r = r\<lparr>mp_headers := AList.update k v (mp_headers r)\<rparr>"

definition after_response :: "logging_config \<Rightarrow> mw_request \<Rightarrow> mw_response \<Rightarrow> seconds \<Rightarrow> string \<Rightarrow> 'w middleware \<Rightarrow> 'w middleware" where
  "after_response cfg rq r duration tid s =
     (let path = mr_path rq; ms = duration * 1000;
          s1 = (if \<not> skipped [''/'', ''/workspaces''] path
                then s\<lparr>mw_counted := mw_counted s @ [(mr_method rq, normalize_path path, mp_status r)]\<rparr> else s)
      in if skipped [] path then s1
         else s1\<lparr>mw_log := mw_log s1 @ [RequestComplete (mr_method rq) path (mp_status r) ms tid] @
             (if ms > slow_threshold_ms cfg then [RequestSlow (mr_method rq) path (mp_status r) ms tid] else [])\<rparr>)"

definition mw_dispatch ::
  "logging_config \<Rightarrow> ('w \<Rightarrow> seconds) \<Rightarrow> string \<Rightarrow> mw_request \<Rightarrow> ('w, mw_response) io \<Rightarrow> ('w middleware, mw_response) io" where
  "mw_dispatch cfg clock uuid rq call_next = (\<lambda>s0.
     case set_trace_id uuid (mr_trace rq) s0 of (tid, s) \<Rightarrow>
       (let start = clock (mw_world s) in
        case on_mw_world call_next s of
          (Inl e, t) \<Rightarrow>
            (let ms = (clock (mw_world t) - start) * 1000;
                 u = (if is_Exception e
                      then t\<lparr>mw_log := mw_log t @ [RequestFailed (mr_method rq) (mr_path rq) ms tid]\<rparr> else t)
             in (Inl e, clear_trace_context u))
        | (Inr r, t) \<Rightarrow>
            (Inr (set_header ''X-Trace-ID'' tid r),
             after_response cfg rq r (clock (mw_world t) - start) tid (clear_trace_context t))))"

text \<open>The trace id of the client comes back in the response, the context is cleared in every outcome, and
  the middleware neither swallows nor adds an exception.\<close>

lemma mw_dispatch_outcome:
  assumes "mw_dispatch cfg clock uuid rq call_next s = (r, t)"
  shows "mw_trace t = None" and "mw_world t = snd (call_next (mw_world s))"
    and "case r of
        Inl e \<Rightarrow> fst (call_next (mw_world s)) = Inl e
      | Inr p \<Rightarrow> \<exists>q. fst (call_next (mw_world s)) = Inr q \<and> mp_status p = mp_status q \<and>
          map_of (mp_headers p) ''X-Trace-ID'' = Some (if py_truthy (mr_trace rq) then the (mr_trace rq) else uuid)"
  using assms
  by (auto simp: mw_dispatch_def set_trace_id_def on_mw_world_def io_zoom_def clear_trace_context_def after_response_def
      set_header_def update_conv' Let_def split: prod.splits sum.splits if_splits)

end
