(* ===== verification/Application.thy ===== *)
theory Application
  imports Sessions Activity
begin

text \<open>
  app/main.py, control/__init__.py and the connection handling of infra (postgresql.py, redis.py,
  redis_kv.py, s3.py and the client class of docker.py): what a worker process sets up, reports as its
  health, runs in the background and closes.  The globals of the modules are the fields of the process;
  the calls on the services behind them are a record of parameters.
\<close>

section \<open>The process and its parameters\<close>

datatype docker_transport = UnixSocket string | BaseUrl string

record docker_client =
  dc_host :: string
  dc_client :: "docker_transport option"
  dc_closed :: bool

text \<open>A global holds an object or None; of the engine, the factory, the Redis client, the activity store,
  the S3 session and the HTTP client only that matters.\<close>

record 'w app =
  ap_engine :: bool
  ap_session_factory :: bool
  ap_redis :: bool
  ap_activity_store :: bool
  ap_s3_session :: bool
  ap_docker :: "docker_client option"
  ap_http :: bool
  ap_db :: db
  ap_world :: 'w

definition fresh_app :: "db \<Rightarrow> 'w \<Rightarrow> 'w app" where
  "fresh_app d w =
     \<lparr>ap_engine = False, ap_session_factory = False, ap_redis = False, ap_activity_store = False, ap_s3_session = False,
      ap_docker = None, ap_http = False, ap_db = d, ap_world = w\<rparr>"

record 'w services =
  sv_select_1 :: "('w, unit) io"
  sv_dispose :: "('w, unit) io"
  sv_ping :: "('w, unit) io"
  sv_redis_close :: "('w, unit) io"
  sv_head_bucket :: "string \<Rightarrow> ('w, unit) io"
  sv_create_bucket :: "string \<Rightarrow> ('w, unit) io"
  sv_list_buckets :: "('w, unit) io"
  sv_docker_close :: "('w, unit) io"
  sv_http_close :: "('w, unit) io"

definition on_app :: "('w, 'a) io \<Rightarrow> ('w app, 'a) io" where
  "on_app m = io_zoom ap_world (\<lambda>w s. s\<lparr>ap_world := w\<rparr>) m"

definition on_app_db :: "(db, 'a) io \<Rightarrow> ('w app, 'a) io" where
  "on_app_db m = io_zoom ap_db (\<lambda>d s. s\<lparr>ap_db := d\<rparr>) m"

definition assign :: "('s \<Rightarrow> 's) \<Rightarrow> ('s, unit) io" where
  "assign f s = (Inr (), f s)"

text \<open>Guarded by a global that may be unset.\<close>

definition need :: "('w app \<Rightarrow> bool) \<Rightarrow> string \<Rightarrow> ('w app, unit) io" where
  "need p m = (\<lambda>s. if p s then (Inr (), s) else (Inl (RuntimeError m), s))"

section \<open>Connections (infra)\<close>

definition init_db :: "'w services \<Rightarrow> ('w app, unit) io" where
  "init_db sv = io_seq (assign (\<lambda>s. s\<lparr>ap_engine := True, ap_session_factory := True\<rparr>)) (on_app (sv_select_1 sv))"

definition close_db :: "'w services \<Rightarrow> ('w app, unit) io" where
  "close_db sv = io_bind io_get (\<lambda>s.
     if ap_engine s
     then io_seq (on_app (sv_dispose sv)) (assign (\<lambda>s. s\<lparr>ap_engine := False, ap_session_factory := False\<rparr>))
     else io_return ())"

definition get_engine :: "('w app, unit) io" where
  "get_engine = need ap_engine ''Database not initialized''"

definition get_session_factory :: "('w app, unit) io" where
  "get_session_factory = need ap_session_factory ''Database not initialized''"

definition init_redis :: "'w services \<Rightarrow> ('w app, unit) io" where
  "init_redis sv = io_seq (assign (\<lambda>s. s\<lparr>ap_redis := True\<rparr>)) (on_app (sv_ping sv))"

definition reset_activity_store :: "('w app, unit) io" where
  "reset_activity_store = assign (\<lambda>s. s\<lparr>ap_activity_store := False\<rparr>)"

definition close_redis :: "'w services \<Rightarrow> ('w app, unit) io" where
  "close_redis sv = io_bind io_get (\<lambda>s.
     if ap_redis s
     then io_seq (on_app (sv_redis_close sv)) (io_seq (assign (\<lambda>s. s\<lparr>ap_redis := False\<rparr>)) reset_activity_store)
     else io_return ())"

definition get_redis :: "('w app, unit) io" where
  "get_redis = need ap_redis ''Redis not initialized''"

definition get_activity_store :: "('w app, unit) io" where
  "get_activity_store = io_seq get_redis (assign (\<lambda>s. s\<lparr>ap_activity_store := True\<rparr>))"

fun is_ClientError :: "exn \<Rightarrow> bool" where
  "is_ClientError (ClientError _) = True"
| "is_ClientError _ = False"

definition init_storage :: "'w services \<Rightarrow> storage_config \<Rightarrow> ('w app, unit) io" where
  "init_storage sv st =
     io_seq (assign (\<lambda>s. s\<lparr>ap_s3_session := True\<rparr>))
       (io_except (on_app (sv_head_bucket sv (bucket_name st)))
          (\<lambda>e. if is_ClientError e then Some (on_app (sv_create_bucket sv (bucket_name st))) else None))"

definition close_storage :: "('w app, unit) io" where
  "close_storage = assign (\<lambda>s. s\<lparr>ap_s3_session := False\<rparr>)"

text \<open>Entering the S3 client context.\<close>

definition s3_enter :: "('w app, unit) io" where
  "s3_enter = need ap_s3_session ''Storage not initialized''"

text \<open>\<open>DockerClient._create_client\<close>, \<open>get\<close> and \<open>close\<close>\<close>

definition create_client :: "string \<Rightarrow> docker_transport" where
  "create_client host =
     (if py_startswith host ''unix://'' then UnixSocket (py_replace ''unix://'' [] host)
      else BaseUrl (if py_startswith host ''tcp://'' then py_replace ''tcp://'' ''http://'' host else host))"

definition docker_client_get :: "docker_client \<Rightarrow> docker_transport \<times> docker_client" where
  "docker_client_get c =
     (case dc_client c of
        Some t \<Rightarrow> if dc_closed c then (create_client (dc_host c), c\<lparr>dc_client := Some (create_client (dc_host c)), dc_closed := False\<rparr>)
                  else (t, c)
      | None \<Rightarrow> (create_client (dc_host c), c\<lparr>dc_client := Some (create_client (dc_host c)), dc_closed := False\<rparr>))"

definition docker_client_close :: "'w services \<Rightarrow> docker_client \<Rightarrow> ('w app, docker_client) io" where
  "docker_client_close sv c =
     (if dc_client c \<noteq> None \<and> \<not> dc_closed c
      then io_seq (on_app (sv_docker_close sv)) (io_return (c\<lparr>dc_client := None\<rparr>))
      else io_return c)"

definition get_docker_client :: "string \<Rightarrow> ('w app, docker_client) io" where
  "get_docker_client docker_host = io_bind io_get (\<lambda>s.
     case ap_docker s of
       Some c \<Rightarrow> io_return c
     | None \<Rightarrow>
         (let c = \<lparr>dc_host = docker_host, dc_client = None, dc_closed = False\<rparr> in
          io_seq (assign (\<lambda>s. s\<lparr>ap_docker := Some c\<rparr>)) (io_return c)))"

definition close_docker :: "'w services \<Rightarrow> ('w app, unit) io" where
  "close_docker sv = io_bind io_get (\<lambda>s.
     case ap_docker s of
       None \<Rightarrow> io_return ()
     | Some c \<Rightarrow> io_seq (docker_client_close sv c) (assign (\<lambda>s. s\<lparr>ap_docker := None\<rparr>)))"

definition app_close_http_client :: "'w services \<Rightarrow> ('w app, unit) io" where
  "app_close_http_client sv = io_bind io_get (\<lambda>s.
     if ap_http s then io_seq (on_app (sv_http_close sv)) (assign (\<lambda>s. s\<lparr>ap_http := False\<rparr>)) else io_return ())"

section \<open>The admin user (main.py)\<close>

text \<open>INSERT .. ON CONFLICT (username) DO UPDATE SET password_hash\<close>

definition q_upsert_admin :: "string \<Rightarrow> string \<Rightarrow> string \<Rightarrow> tables \<Rightarrow> unit \<times> tables" where
  "q_upsert_admin ulid username password_hash t =
     ((), t\<lparr>tb_users :=
        (if \<exists>u \<in> set (tb_users t). user_username u = username
         then sql_update (\<lambda>u. user_username u = username) (\<lambda>u. u\<lparr>user_password_hash := password_hash\<rparr>) (tb_users t)
         else tb_users t @ [\<lparr>user_id = ulid, user_username = username, user_password_hash = password_hash,
                            user_failed_login_attempts = 0, user_locked_until = None, user_last_failed_at = None\<rparr>])\<rparr>)"

definition ensure_admin_user :: "string \<Rightarrow> string \<Rightarrow> string \<Rightarrow> ('w app, unit) io" where
  "ensure_admin_user ulid username password_hash =
     io_seq get_engine (on_app_db (io_seq (db_execute (q_upsert_admin ulid username password_hash)) db_commit))"

section \<open>Start and end of a process (main.py)\<close>

definition lifespan_start :: "'w services \<Rightarrow> storage_config \<Rightarrow> string \<Rightarrow> string \<Rightarrow> string \<Rightarrow> ('w app, unit) io" where
  "lifespan_start sv st ulid username password_hash =
     io_seq (init_db sv) (io_seq (init_redis sv) (io_seq (init_storage sv st)
       (io_seq (ensure_admin_user ulid username password_hash) (io_seq get_engine get_redis))))"

text \<open>The two background tasks were cancelled; their results are given.\<close>

definition await_task :: "exn + unit \<Rightarrow> ('w app, unit) io" where
  "await_task r = (\<lambda>s. (if r = Inl CancelledError then Inr () else r, s))"

definition lifespan_end :: "'w services \<Rightarrow> exn + unit \<Rightarrow> exn + unit \<Rightarrow> ('w app, unit) io" where
  "lifespan_end sv coordinator_task metrics_task =
     io_seq (await_task coordinator_task) (io_seq (await_task metrics_task)
       (io_seq (app_close_http_client sv) (io_seq (close_docker sv) (io_seq close_storage
         (io_seq (close_redis sv) (close_db sv))))))"

section \<open>Health (main.py)\<close>

definition check_service :: "(exn \<Rightarrow> string) \<Rightarrow> ('w app, unit) io \<Rightarrow> ('w app, string) io" where
  "check_service str m =
     io_except (io_seq m (io_return ''connected''))
       (\<lambda>e. case e of
          RuntimeError _ \<Rightarrow> Some (io_return ''not initialized'')
        | _ \<Rightarrow> if is_Exception e then Some (io_return (''error: '' @ str e)) else None)"

definition check_postgres :: "'w services \<Rightarrow> ('w app, unit) io" where
  "check_postgres sv = io_seq get_engine (on_app (sv_select_1 sv))"

definition check_redis :: "'w services \<Rightarrow> ('w app, unit) io" where
  "check_redis sv = io_seq get_redis (on_app (sv_ping sv))"

definition check_s3 :: "'w services \<Rightarrow> ('w app, unit) io" where
  "check_s3 sv = io_seq s3_enter (on_app (sv_list_buckets sv))"

definition health :: "(exn \<Rightarrow> string) \<Rightarrow> 'w services \<Rightarrow> ('w app, string \<times> (string \<times> string) list) io" where
  "health str sv =
     io_bind (io_mapM (\<lambda>x. x) (map (check_service str) [check_postgres sv, check_redis sv, check_s3 sv])) (\<lambda>results.
       io_return (if list_ex (\<lambda>r. r \<noteq> ''connected'') results then ''degraded'' else ''ok'',
         zip [''postgres'', ''redis'', ''s3''] results))"

section \<open>The control plane (control/__init__.py)\<close>

text \<open>\<open>asyncio.gather\<close> of \<open>n\<close> tasks: their results in the order in which they end.  It ends with the first
  exception, and does not stop the tasks that still run; None: tasks are left and nothing failed.\<close>

fun gather_all :: "nat \<Rightarrow> (exn + unit) list \<Rightarrow> (exn + unit) option" where
  "gather_all 0 rs = Some (Inr ())"
| "gather_all (Suc n) [] = None"
| "gather_all (Suc n) (Inl e # rs) = Some (Inl e)"
| "gather_all (Suc n) (Inr u # rs) = gather_all n rs"

text \<open>Five tasks: observer, controller, event listener, scheduler and the flush of the buffer; an exception is
  logged, and the adapters are closed, which does nothing.\<close>

definition run_control_plane :: "('w app, unit) io \<Rightarrow> ('w app, unit) io \<Rightarrow> (exn + unit) list \<Rightarrow> 'w app \<Rightarrow> ((exn + unit) \<times> 'w app) option" where
  "run_control_plane close_ic close_sp results s =
     (case get_activity_store s of
        (Inl e, t) \<Rightarrow> Some (Inl e, t)
      | (Inr _, t) \<Rightarrow>
          map_option
            (\<lambda>r. io_finally (io_try (\<lambda>s. (r, s)) (\<lambda>_. io_return ())) (io_seq close_ic close_sp) t)
            (gather_all 5 results))"

text \<open>The URL of the listener's connections (\<open>_run_event_listener\<close> and \<open>EventListener.run\<close>).\<close>

definition listener_url :: "string \<Rightarrow> string" where
  "listener_url url = py_replace ''+asyncpg'' [] url"

definition sqlalchemy_url :: "string \<Rightarrow> string" where
  "sqlalchemy_url url = py_replace ''postgresql://'' ''postgresql+asyncpg://'' url"

section \<open>A process that started and ended\<close>

lemma on_app_Inr:
  "on_app m s = (r, t) \<longleftrightarrow> (\<exists>w. m (ap_world s) = (r, w) \<and> t = s\<lparr>ap_world := w\<rparr>)"
  by (auto simp: on_app_def io_zoom_def split: prod.splits)

lemma on_app_db_Inr:
  "on_app_db m s = (Inr a, t) \<longleftrightarrow> (\<exists>d. m (ap_db s) = (Inr a, d) \<and> t = s\<lparr>ap_db := d\<rparr>)"
  by (auto simp: on_app_db_def io_zoom_def split: prod.splits)

lemma assign_Inr [simp]: "assign f s = (Inr u, t) \<longleftrightarrow> t = f s"
  by (auto simp: assign_def)

lemma need_Inr [simp]: "need p m s = (Inr u, t) \<longleftrightarrow> p s \<and> t = s"
  by (auto simp: need_def)

lemma io_get_Inr: "io_bind io_get f s = (Inr a, t) \<longleftrightarrow> f s s = (Inr a, t)"
  by simp

lemmas app_Inr = on_app_Inr on_app_db_Inr io_seq_Inr_iff io_bind_Inr_iff io_except_Inr_iff

text \<open>After a start everything that the requests use is there; a session, a Redis client and an S3 client
  are handed out without an error.\<close>

lemma start_opens:
  assumes "lifespan_start sv st ulid username hash s = (Inr u, t)"
  shows "ap_engine t \<and> ap_session_factory t \<and> ap_redis t \<and> ap_s3_session t"
  using assms
  by (auto simp: lifespan_start_def init_db_def init_redis_def init_storage_def ensure_admin_user_def get_engine_def
      get_redis_def app_Inr split: if_splits)

text \<open>A start that fails at Redis leaves the engine open: nothing closes what was opened.\<close>

lemma failed_start_leaves_engine:
  assumes "sv_select_1 sv (ap_world s) = (Inr (), w)" and "sv_ping sv w = (Inl e, w')"
  shows "\<exists>t. lifespan_start sv st ulid username hash s = (Inl e, t) \<and> ap_engine t \<and> ap_redis t"
  using assms
  by (simp add: lifespan_start_def init_db_def init_redis_def io_seq_def io_bind_def assign_def on_app_def io_zoom_def)

text \<open>What a close that returned leaves open.\<close>

definition open_parts :: "'w app \<Rightarrow> bool \<times> bool \<times> bool \<times> bool \<times> docker_client option" where
  "open_parts s = (ap_engine s, ap_redis s, ap_s3_session s, ap_http s, ap_docker s)"

lemma open_parts_world [simp]: "open_parts (s\<lparr>ap_world := w\<rparr>) = open_parts s"
  by (simp add: open_parts_def)

lemma closed_parts:
  "close_db sv s = (Inr u, t) \<Longrightarrow> open_parts t = (False, snd (open_parts s))"
  "close_redis sv s = (Inr u, t) \<Longrightarrow> open_parts t = (ap_engine s, False, ap_s3_session s, ap_http s, ap_docker s)"
  "close_storage s = (Inr u, t) \<Longrightarrow> open_parts t = (ap_engine s, ap_redis s, False, ap_http s, ap_docker s)"
  "app_close_http_client sv s = (Inr u, t) \<Longrightarrow> open_parts t = (ap_engine s, ap_redis s, ap_s3_session s, False, ap_docker s)"
  by (auto simp: open_parts_def close_db_def close_redis_def reset_activity_store_def close_storage_def
      app_close_http_client_def on_app_Inr io_seq_Inr_iff split: if_splits)

lemma closed_docker:
  "close_docker sv s = (Inr u, t) \<Longrightarrow> open_parts t = (ap_engine s, ap_redis s, ap_s3_session s, ap_http s, None)"
  by (cases "ap_docker s")
     (auto simp: open_parts_def close_docker_def docker_client_close_def on_app_Inr io_seq_Inr_iff split: if_splits)

text \<open>After an end that was not itself interrupted nothing is open.\<close>

lemma end_closes:
  assumes "lifespan_end sv r1 r2 s = (Inr u, t)"
  shows "open_parts t = (False, False, False, False, None)"
proof -
  obtain x1 s1 x2 s2 x3 s3 x4 s4 where steps: "app_close_http_client sv s = (Inr x1, s1)" "close_docker sv s1 = (Inr x2, s2)"
      "close_storage s2 = (Inr x3, s3)" "close_redis sv s3 = (Inr x4, s4)" "close_db sv s4 = (Inr u, t)"
    using assms by (auto simp: lifespan_end_def await_task_def io_seq_Inr_iff)
  show ?thesis
    using closed_parts(4) [OF steps(1)] closed_docker [OF steps(2)] closed_parts(3) [OF steps(3)]
      closed_parts(2) [OF steps(4)] closed_parts(1) [OF steps(5)]
    by (simp add: open_parts_def)
qed

text \<open>The admin user has the configured password after a start, and no other user changed.\<close>

lemma admin_upserted:
  assumes "q_upsert_admin ulid username hash t = (u, t')" and "distinct (map user_username (tb_users t))"
  shows "map_option user_password_hash (find_user username t') = Some hash"
    and "filter (\<lambda>u. user_username u \<noteq> username) (tb_users t') = filter (\<lambda>u. user_username u \<noteq> username) (tb_users t)"
    and "distinct (map user_username (tb_users t'))"
proof -
  let ?us = "tb_users t"
  have hit: "sql_one_or_none (\<lambda>u. user_username u = username)
      (sql_update (\<lambda>u. user_username u = username) (\<lambda>u. u\<lparr>user_password_hash := hash\<rparr>) us) =
    map_option (\<lambda>u. if user_username u = username then u\<lparr>user_password_hash := hash\<rparr> else u)
      (sql_one_or_none (\<lambda>u. user_username u = username) us)" for us
    by (rule sql_one_or_none_update) simp
  have other: "filter (\<lambda>u. user_username u \<noteq> username)
      (sql_update (\<lambda>u. user_username u = username) (\<lambda>u. u\<lparr>user_password_hash := hash\<rparr>) us) =
    filter (\<lambda>u. user_username u \<noteq> username) us" for us
    by (induction us) (auto simp: sql_update_def)
  have miss: "sql_one_or_none p (us @ [x]) = (if \<exists>u \<in> set us. p u then sql_one_or_none p us else if p x then Some x else None)"
    for p and us :: "user list" and x
    by (auto simp: sql_one_or_none_def filter_empty_conv split: list.splits)
  show "map_option user_password_hash (find_user username t') = Some hash"
  proof (cases "\<exists>u \<in> set ?us. user_username u = username")
    case True
    then obtain r where r: "sql_one_or_none (\<lambda>u. user_username u = username) ?us = Some r"
      by (cases "sql_one_or_none (\<lambda>u. user_username u = username) ?us") (auto simp: sql_one_or_none_None)
    have "tb_users t' = sql_update (\<lambda>u. user_username u = username) (\<lambda>u. u\<lparr>user_password_hash := hash\<rparr>) ?us"
      using assms(1) True by (auto simp: q_upsert_admin_def)
    then show ?thesis using hit [of ?us] r sql_one_or_none_Some [OF r] by (simp add: find_user_def)
  next
    case False
    then show ?thesis using assms(1) by (auto simp: q_upsert_admin_def find_user_def miss)
  qed
  show "filter (\<lambda>u. user_username u \<noteq> username) (tb_users t') = filter (\<lambda>u. user_username u \<noteq> username) ?us"
    using assms(1) other by (auto simp: q_upsert_admin_def)
  show "distinct (map user_username (tb_users t'))"
    using assms by (auto simp: q_upsert_admin_def map_sql_update)
qed

section \<open>Health and the control plane\<close>

lemma check_service_connected:
  "check_service str m s = (Inr ''connected'', t) \<longleftrightarrow> m s = (Inr (), t)"
  by (auto simp: check_service_def io_except_def io_seq_def io_bind_def io_return_def split: prod.splits sum.splits exn.splits)

text \<open>The process reports itself as healthy exactly when the three services answered.\<close>

lemma health_ok_iff:
  assumes "health str sv s = (Inr (status, services), t)"
  shows "status = ''ok'' \<longleftrightarrow>
    (\<exists>s1 s2. check_postgres sv s = (Inr (), s1) \<and> check_redis sv s1 = (Inr (), s2) \<and> check_s3 sv s2 = (Inr (), t))"
  using assms
  by (auto simp: health_def io_bind_Inr_iff check_service_connected split: if_splits) (auto simp flip: check_service_connected [of str])

text \<open>The first failure ends the control plane, whatever tasks still run: their results are not awaited and
  nothing cancels them, and the process does not notice.\<close>

lemma first_failure_ends_control_plane:
  assumes "length us < 5" and "is_Exception e" and "get_activity_store s = (Inr (), t)"
    and "close_ic t = (Inr (), t1)" "close_sp t1 = (Inr (), t2)"
  shows "run_control_plane close_ic close_sp (map Inr us @ Inl e # rs) s = Some (Inr (), t2)"
proof -
  have "gather_all n (map Inr us @ Inl e # rs) = Some (Inl e)" if "length us < n" for n
    using that
  proof (induction us arbitrary: n)
    case Nil
    then show ?case by (cases n) simp_all
  next
    case (Cons u us)
    then show ?case by (cases n) simp_all
  qed
  then show ?thesis
    using assms by (simp add: run_control_plane_def io_finally_def io_try_def io_seq_def io_bind_def io_return_def)
qed

text \<open>The two URLs of the event listener, for the default configuration: the driver is dropped and put back.\<close>

lemma listener_urls:
  "listener_url ''postgresql+asyncpg://codehub@postgres:5432/codehub'' = ''postgresql://codehub@postgres:5432/codehub''"
  "sqlalchemy_url ''postgresql://codehub@postgres:5432/codehub'' = ''postgresql+asyncpg://codehub@postgres:5432/codehub''"
  by (simp_all add: listener_url_def sqlalchemy_url_def py_replace_def re_sub_def py_startswith_def)

lemma docker_hosts:
  "create_client ''unix:///var/run/docker.sock'' = UnixSocket ''/var/run/docker.sock''"
  "create_client ''tcp://docker-proxy:2375'' = BaseUrl ''http://docker-proxy:2375''"
  by (simp_all add: create_client_def py_replace_def re_sub_def py_startswith_def)

end
