(* ===== verification/Schema.thy ===== *)
theory Schema
  imports Domain
begin

text \<open>
  alembic/versions and the table classes of core/models: the schema of the database as its migrations
  build it, up and down, and as the code declares it.  Columns and indexes are lists whose order does
  not matter; the trigger function is modelled in Triggers, here only its revision counts.
\<close>

section \<open>Schemas\<close>

datatype sql_type = VarChar "nat option" | SqlText | Timestamptz | SqlInteger | Jsonb | SqlEnum string "string list"

record sql_column =
  sc_name :: string
  sc_type :: sql_type
  sc_primary_key :: bool
  sc_nullable :: bool
  sc_unique :: bool
  sc_index :: bool
  sc_default :: "string option"
  sc_references :: "string option"

definition column :: "string \<Rightarrow> sql_type \<Rightarrow> sql_column" where
  "column n ty =
     \<lparr>sc_name = n, sc_type = ty, sc_primary_key = False, sc_nullable = True, sc_unique = False, sc_index = False,
      sc_default = None, sc_references = None\<rparr>"

definition primary_key :: "sql_column \<Rightarrow> sql_column" where
  "primary_key c = c\<lparr>sc_primary_key := True, sc_nullable := False\<rparr>"

definition not_null :: "sql_column \<Rightarrow> sql_column" where
  "not_null c = c\<lparr>sc_nullable := False\<rparr>"

definition unique :: "sql_column \<Rightarrow> sql_column" where
  "unique c = c\<lparr>sc_unique := True\<rparr>"

definition indexed :: "sql_column \<Rightarrow> sql_column" where
  "indexed c = c\<lparr>sc_index := True\<rparr>"

definition default :: "string \<Rightarrow> sql_column \<Rightarrow> sql_column" where
  "default d c = c\<lparr>sc_default := Some d\<rparr>"

definition references :: "string \<Rightarrow> sql_column \<Rightarrow> sql_column" where
  "references r c = c\<lparr>sc_references := Some r\<rparr>"

lemmas column_defs = column_def primary_key_def not_null_def unique_def indexed_def default_def references_def

text \<open>A string literal of SQL.\<close>

definition sql_str :: "string \<Rightarrow> string" where
  "sql_str s = [CHR 0x27] @ s @ [CHR 0x27]"

record sql_index =
  si_name :: string
  si_table :: string
  si_columns :: "string list"
  si_where :: string

datatype trigger_revision = Rev002 | Rev005 | Rev006

record schema =
  sm_tables :: "(string \<times> sql_column list) list"
  sm_indexes :: "sql_index list"
  sm_trigger :: "trigger_revision option"

definition empty_schema :: schema where
  "empty_schema = \<lparr>sm_tables = [], sm_indexes = [], sm_trigger = None\<rparr>"

section \<open>Operations of alembic\<close>

definition create_table :: "string \<Rightarrow> sql_column list \<Rightarrow> schema \<Rightarrow> schema" where
  "create_table t cs s = s\<lparr>sm_tables := sm_tables s @ [(t, cs)]\<rparr>"

definition drop_table :: "string \<Rightarrow> schema \<Rightarrow> schema" where
  "drop_table t s = s\<lparr>sm_tables := filter (\<lambda>(u, _). u \<noteq> t) (sm_tables s)\<rparr>"

definition on_columns :: "string \<Rightarrow> (sql_column list \<Rightarrow> sql_column list) \<Rightarrow> schema \<Rightarrow> schema" where
  "on_columns t f s = s\<lparr>sm_tables := map (\<lambda>(u, cs). (u, if u = t then f cs else cs)) (sm_tables s)\<rparr>"

definition add_column :: "string \<Rightarrow> sql_column \<Rightarrow> schema \<Rightarrow> schema" where
  "add_column t c = on_columns t (\<lambda>cs. cs @ [c])"

definition drop_column :: "string \<Rightarrow> string \<Rightarrow> schema \<Rightarrow> schema" where
  "drop_column t n = on_columns t (filter (\<lambda>c. sc_name c \<noteq> n))"

definition create_index :: "string \<Rightarrow> string \<Rightarrow> string list \<Rightarrow> string \<Rightarrow> schema \<Rightarrow> schema" where
  "create_index n t cs p s =
     s\<lparr>sm_indexes := sm_indexes s @ [\<lparr>si_name = n, si_table = t, si_columns = cs, si_where = p\<rparr>]\<rparr>"

definition drop_index :: "string \<Rightarrow> schema \<Rightarrow> schema" where
  "drop_index n s = s\<lparr>sm_indexes := filter (\<lambda>i. si_name i \<noteq> n) (sm_indexes s)\<rparr>"

definition set_trigger :: "trigger_revision option \<Rightarrow> schema \<Rightarrow> schema" where
  "set_trigger r s = s\<lparr>sm_trigger := r\<rparr>"

section \<open>The migrations\<close>

definition user_columns :: "sql_column list" where
  "user_columns =
     [primary_key (column ''id'' (VarChar None)),
      indexed (unique (not_null (column ''username'' (VarChar None)))),
      not_null (column ''password_hash'' (VarChar None)),
      not_null (column ''created_at'' Timestamptz),
      default ''0'' (not_null (column ''failed_login_attempts'' SqlInteger)),
      column ''locked_until'' Timestamptz,
      column ''last_failed_at'' Timestamptz]"

definition session_columns :: "sql_column list" where
  "session_columns =
     [primary_key (column ''id'' (VarChar None)),
      references ''users.id'' (indexed (not_null (column ''user_id'' (VarChar None)))),
      not_null (column ''created_at'' Timestamptz),
      not_null (column ''expires_at'' Timestamptz),
      column ''revoked_at'' Timestamptz]"

definition workspace_columns :: "sql_column list" where
  "workspace_columns =
     [primary_key (column ''id'' (VarChar None)),
      references ''users.id'' (indexed (not_null (column ''owner_user_id'' (VarChar None)))),
      not_null (column ''name'' (VarChar (Some 255))),
      column ''description'' (VarChar (Some 500)),
      column ''memo'' SqlText,
      not_null (column ''image_ref'' (VarChar (Some 512))),
      not_null (column ''instance_backend'' (VarChar None)),
      not_null (column ''storage_backend'' (VarChar None)),
      not_null (column ''home_store_key'' (VarChar (Some 512))),
      column ''home_ctx'' Jsonb,
      default ''{}'' (not_null (column ''conditions'' Jsonb)),
      default ''PENDING'' (not_null (column ''phase'' (VarChar None))),
      default ''NONE'' (not_null (column ''operation'' (VarChar None))),
      column ''op_started_at'' Timestamptz,
      column ''op_id'' (VarChar None),
      default ''RUNNING'' (not_null (column ''desired_state'' (VarChar None))),
      column ''archive_key'' (VarChar (Some 512)),
      column ''observed_at'' Timestamptz,
      column ''last_access_at'' Timestamptz,
      default ''300'' (not_null (column ''standby_ttl_seconds'' SqlInteger)),
      default ''86400'' (not_null (column ''archive_ttl_seconds'' SqlInteger)),
      column ''error_reason'' (VarChar None),
      default ''0'' (not_null (column ''error_count'' SqlInteger)),
      not_null (column ''created_at'' Timestamptz),
      not_null (column ''updated_at'' Timestamptz),
      indexed (column ''deleted_at'' Timestamptz)]"

definition upgrade_001 :: "schema \<Rightarrow> schema" where
  "upgrade_001 s =
     create_index ''idx_workspaces_error'' ''workspaces'' [''phase''] (''deleted_at IS NULL AND phase = '' @ sql_str ''ERROR'')
     (create_index ''idx_workspaces_running'' ''workspaces'' [''phase''] (''deleted_at IS NULL AND phase = '' @ sql_str ''RUNNING'')
     (create_index ''idx_workspaces_user_running'' ''workspaces'' [''owner_user_id''] (''deleted_at IS NULL AND phase = '' @ sql_str ''RUNNING'')
     (create_index ''idx_workspaces_operation'' ''workspaces'' [''operation''] (''deleted_at IS NULL AND operation != '' @ sql_str ''NONE'')
     (create_index ''idx_workspaces_reconcile'' ''workspaces'' [''phase'', ''desired_state'', ''operation''] ''deleted_at IS NULL''
     (create_index ''idx_workspaces_ttl_check'' ''workspaces'' [''phase'', ''operation'']
        (''deleted_at IS NULL AND phase IN ('' @ sql_str ''RUNNING'' @ '', '' @ sql_str ''STANDBY'' @ '') AND operation = '' @ sql_str ''NONE'')
     (create_table ''workspaces'' workspace_columns
     (create_table ''sessions'' session_columns
     (create_table ''users'' user_columns s))))))))"

definition downgrade_001 :: "schema \<Rightarrow> schema" where
  "downgrade_001 s =
     drop_table ''users'' (drop_table ''sessions'' (drop_table ''workspaces''
     (drop_index ''idx_workspaces_ttl_check'' (drop_index ''idx_workspaces_reconcile'' (drop_index ''idx_workspaces_operation''
     (drop_index ''idx_workspaces_user_running'' (drop_index ''idx_workspaces_running'' (drop_index ''idx_workspaces_error'' s))))))))"

definition upgrade_002 :: "schema \<Rightarrow> schema" where
  "upgrade_002 = set_trigger (Some Rev002)"

definition downgrade_002 :: "schema \<Rightarrow> schema" where
  "downgrade_002 = set_trigger None"

definition upgrade_003 :: "schema \<Rightarrow> schema" where
  "upgrade_003 = add_column ''workspaces'' (column ''phase_changed_at'' Timestamptz)"

definition downgrade_003 :: "schema \<Rightarrow> schema" where
  "downgrade_003 = drop_column ''workspaces'' ''phase_changed_at''"

definition upgrade_004 :: "schema \<Rightarrow> schema" where
  "upgrade_004 s = drop_column ''workspaces'' ''archive_ttl_seconds'' (drop_column ''workspaces'' ''standby_ttl_seconds'' s)"

definition downgrade_004 :: "schema \<Rightarrow> schema" where
  "downgrade_004 s =
     add_column ''workspaces'' (default ''86400'' (not_null (column ''archive_ttl_seconds'' SqlInteger)))
     (add_column ''workspaces'' (default ''300'' (not_null (column ''standby_ttl_seconds'' SqlInteger))) s)"

definition upgrade_005 :: "schema \<Rightarrow> schema" where
  "upgrade_005 = set_trigger (Some Rev005)"

definition downgrade_005 :: "schema \<Rightarrow> schema" where
  "downgrade_005 = set_trigger (Some Rev002)"

definition upgrade_006 :: "schema \<Rightarrow> schema" where
  "upgrade_006 = set_trigger (Some Rev006)"

definition downgrade_006 :: "schema \<Rightarrow> schema" where
  "downgrade_006 = set_trigger (Some Rev005)"

definition upgrade_007 :: "schema \<Rightarrow> schema" where
  "upgrade_007 s =
     create_index ''idx_workspaces_archive_key'' ''workspaces'' [''archive_key''] ''deleted_at IS NULL AND archive_key IS NOT NULL''
     (create_index ''idx_workspaces_user_list'' ''workspaces'' [''owner_user_id'', ''created_at''] ''deleted_at IS NULL''
     (drop_index ''idx_workspaces_error'' (drop_index ''idx_workspaces_running'' s)))"

definition downgrade_007 :: "schema \<Rightarrow> schema" where
  "downgrade_007 s =
     create_index ''idx_workspaces_error'' ''workspaces'' [''phase''] (''deleted_at IS NULL AND phase = '' @ sql_str ''ERROR'')
     (create_index ''idx_workspaces_running'' ''workspaces'' [''phase''] (''deleted_at IS NULL AND phase = '' @ sql_str ''RUNNING'')
     (drop_index ''idx_workspaces_user_list'' (drop_index ''idx_workspaces_archive_key'' s)))"

definition upgrades :: "(schema \<Rightarrow> schema) list" where
  "upgrades = [upgrade_001, upgrade_002, upgrade_003, upgrade_004, upgrade_005, upgrade_006, upgrade_007]"

definition downgrades :: "(schema \<Rightarrow> schema) list" where
  "downgrades = [downgrade_001, downgrade_002, downgrade_003, downgrade_004, downgrade_005, downgrade_006, downgrade_007]"

definition schema_at :: "nat \<Rightarrow> schema" where
  "schema_at n = fold (\<lambda>f s. f s) (take n upgrades) empty_schema"

section \<open>The table classes (core/models)\<close>

text \<open>\<open>sa_column=Column(DateTime(timezone=True))\<close> is nullable unless it says otherwise.\<close>

definition model_users :: "sql_column list" where
  "model_users =
     [primary_key (column ''id'' (VarChar None)),
      indexed (unique (not_null (column ''username'' (VarChar None)))),
      not_null (column ''password_hash'' (VarChar None)),
      column ''created_at'' Timestamptz,
      not_null (column ''failed_login_attempts'' SqlInteger),
      column ''locked_until'' Timestamptz,
      column ''last_failed_at'' Timestamptz]"

definition model_sessions :: "sql_column list" where
  "model_sessions =
     [primary_key (column ''id'' (VarChar None)),
      references ''users.id'' (indexed (not_null (column ''user_id'' (VarChar None)))),
      column ''created_at'' Timestamptz,
      column ''expires_at'' Timestamptz,
      column ''revoked_at'' Timestamptz]"

definition model_workspaces :: "sql_column list" where
  "model_workspaces =
     [primary_key (column ''id'' (VarChar None)),
      references ''users.id'' (indexed (not_null (column ''owner_user_id'' (VarChar None)))),
      not_null (column ''name'' (VarChar (Some 255))),
      column ''description'' (VarChar (Some 500)),
      column ''memo'' SqlText,
      not_null (column ''image_ref'' (VarChar (Some 512))),
      not_null (column ''instance_backend'' (VarChar None)),
      not_null (column ''storage_backend'' (VarChar None)),
      not_null (column ''home_store_key'' (VarChar (Some 512))),
      column ''home_ctx'' Jsonb,
      default ''{}'' (not_null (column ''conditions'' Jsonb)),
      not_null (column ''phase'' (VarChar None)),
      not_null (column ''operation'' (VarChar None)),
      column ''op_started_at'' Timestamptz,
      column ''op_id'' (VarChar None),
      not_null (column ''desired_state'' (VarChar None)),
      column ''archive_key'' (VarChar (Some 512)),
      column ''observed_at'' Timestamptz,
      column ''last_access_at'' Timestamptz,
      column ''phase_changed_at'' Timestamptz,
      column ''error_reason'' (VarChar None),
      not_null (column ''error_count'' SqlInteger),
      not_null (column ''created_at'' Timestamptz),
      not_null (column ''updated_at'' Timestamptz),
      indexed (column ''deleted_at'' Timestamptz)]"

definition model_indexes :: "sql_index list" where
  "model_indexes = sm_indexes
     (create_index ''idx_workspaces_error'' ''workspaces'' [''phase''] (''deleted_at IS NULL AND phase = '' @ sql_str ''ERROR'')
     (create_index ''idx_workspaces_running'' ''workspaces'' [''phase''] (''deleted_at IS NULL AND phase = '' @ sql_str ''RUNNING'')
     (create_index ''idx_workspaces_user_running'' ''workspaces'' [''owner_user_id''] (''deleted_at IS NULL AND phase = '' @ sql_str ''RUNNING'')
     (create_index ''idx_workspaces_operation'' ''workspaces'' [''operation''] (''deleted_at IS NULL AND operation != '' @ sql_str ''NONE'')
     (create_index ''idx_workspaces_reconcile'' ''workspaces'' [''phase'', ''desired_state'', ''operation''] ''deleted_at IS NULL''
     (create_index ''idx_workspaces_ttl_check'' ''workspaces'' [''phase'', ''operation'']
        (''deleted_at IS NULL AND phase IN ('' @ sql_str ''RUNNING'' @ '', '' @ sql_str ''STANDBY'' @ '') AND operation = '' @ sql_str ''NONE'') empty_schema))))))"

section \<open>Down after up, and the models against the head\<close>

text \<open>Two schemas are the same when they differ in the order of columns and indexes only.\<close>

definition same_schema :: "schema \<Rightarrow> schema \<Rightarrow> bool" where
  "same_schema s s' =
     (list_all2 (\<lambda>(t, cs) (u, ds). t = u \<and> length cs = length ds \<and> set cs = set ds) (sm_tables s) (sm_tables s')
      \<and> length (sm_indexes s) = length (sm_indexes s') \<and> set (sm_indexes s) = set (sm_indexes s')
      \<and> sm_trigger s = sm_trigger s')"

definition columns_of :: "schema \<Rightarrow> string \<Rightarrow> sql_column list" where
  "columns_of s t = (case map_of (sm_tables s) t of None \<Rightarrow> [] | Some cs \<Rightarrow> cs)"

definition without_default :: "sql_column \<Rightarrow> sql_column" where
  "without_default c = c\<lparr>sc_default := None\<rparr>"

lemma schema_0: "schema_at 0 = empty_schema"
  by (simp add: schema_at_def)

lemma revisions: "n < (7::nat) \<Longrightarrow> n = 0 \<or> n = 1 \<or> n = 2 \<or> n = 3 \<or> n = 4 \<or> n = 5 \<or> n = 6"
  by arith

lemma downgrades_undo_upgrades_all:
  "list_all (\<lambda>n. same_schema ((downgrades ! n) (schema_at (Suc n))) (schema_at n)) [0, 1, 2, 3, 4, 5, 6]"
  by code_simp

lemma downgrade_undoes_upgrade:
  assumes "n < 7"
  shows "same_schema ((downgrades ! n) (schema_at (Suc n))) (schema_at n)"
  using revisions [OF assms] downgrades_undo_upgrades_all by auto

lemma models_match_head:
  "set (map without_default model_workspaces) = set (map without_default (columns_of (schema_at 7) ''workspaces''))"
  "set (map without_default model_users) - set (map without_default (columns_of (schema_at 7) ''users''))
     = {column ''created_at'' Timestamptz}"
  "set (map without_default model_sessions) - set (map without_default (columns_of (schema_at 7) ''sessions''))
     = {column ''created_at'' Timestamptz, column ''expires_at'' Timestamptz}"
  "map si_name (filter (\<lambda>i. i \<notin> set model_indexes) (sm_indexes (schema_at 7)))
     = [''idx_workspaces_user_list'', ''idx_workspaces_archive_key'']"
  "map si_name (filter (\<lambda>i. i \<notin> set (sm_indexes (schema_at 7))) model_indexes)
     = [''idx_workspaces_running'', ''idx_workspaces_error'']"
  by code_simp+

end
