(* ===== verification/Triggers.thy ===== *)
theory Triggers
  imports Schema Process Events
begin

text \<open>
  The trigger \<open>notify_workspace_changes\<close> of the migrations 002, 005 and 006: which notifications an insert
  or an update of a workspace row sends, and what becomes of them in the listener, the coordinators and
  the browser.  \<open>json::render\<close> of PostgreSQL is a parameter.
\<close>

section \<open>The trigger function\<close>

definition status_changed :: "workspace \<Rightarrow> workspace \<Rightarrow> bool" where
  "status_changed old new \<longleftrightarrow> ws_phase old \<noteq> ws_phase new \<or> ws_operation old \<noteq> ws_operation new
     \<or> ws_error_reason old \<noteq> ws_error_reason new"

definition metadata_changed :: "workspace \<Rightarrow> workspace \<Rightarrow> bool" where
  "metadata_changed old new \<longleftrightarrow> ws_name old \<noteq> ws_name new \<or> ws_description old \<noteq> ws_description new
     \<or> ws_memo old \<noteq> ws_memo new"

definition desired_changed :: "workspace \<Rightarrow> workspace \<Rightarrow> bool" where
  "desired_changed old new \<longleftrightarrow> ws_desired_state old \<noteq> ws_desired_state new"

definition newly_deleted :: "workspace \<Rightarrow> workspace \<Rightarrow> bool" where
  "newly_deleted old new \<longleftrightarrow> ws_deleted_at old = None \<and> ws_deleted_at new \<noteq> None"

definition notification :: "(json \<Rightarrow> string) \<Rightarrow> string \<Rightarrow> workspace \<Rightarrow> string \<times> string" where
  "notification render channel w = (channel, render (ids_json (ws_id w) (ws_owner_user_id w)))"

definition wake_notification :: "string \<times> string" where
  "wake_notification = (''ws_wake'', ''{}'')"

text \<open>The same in every revision; the desired state is never null.\<close>

definition notify_insert :: "(json \<Rightarrow> string) \<Rightarrow> workspace \<Rightarrow> (string \<times> string) list" where
  "notify_insert render new = [notification render ''ws_sse'' new, wake_notification]"

definition notify_update_002 :: "(json \<Rightarrow> string) \<Rightarrow> workspace \<Rightarrow> workspace \<Rightarrow> (string \<times> string) list" where
  "notify_update_002 render old new =
     (if status_changed old new then [notification render ''ws_sse'' new] else [])
     @ (if desired_changed old new then [wake_notification] else [])
     @ (if newly_deleted old new then [notification render ''ws_deleted'' new] else [])"

definition notify_update_005 :: "(json \<Rightarrow> string) \<Rightarrow> workspace \<Rightarrow> workspace \<Rightarrow> (string \<times> string) list" where
  "notify_update_005 render old new =
     (if status_changed old new \<or> metadata_changed old new then [notification render ''ws_sse'' new] else [])
     @ (if desired_changed old new then [wake_notification] else [])
     @ (if newly_deleted old new then [notification render ''ws_deleted'' new] else [])"

definition notify_update_006 :: "(json \<Rightarrow> string) \<Rightarrow> workspace \<Rightarrow> workspace \<Rightarrow> (string \<times> string) list" where
  "notify_update_006 render old new =
     (if status_changed old new \<or> metadata_changed old new \<or> desired_changed old new \<or> newly_deleted old new
      then [notification render ''ws_sse'' new] else [])
     @ (if desired_changed old new then [wake_notification] else [])"

fun notify_update :: "trigger_revision \<Rightarrow> (json \<Rightarrow> string) \<Rightarrow> workspace \<Rightarrow> workspace \<Rightarrow> (string \<times> string) list" where
  "notify_update Rev002 = notify_update_002"
| "notify_update Rev005 = notify_update_005"
| "notify_update Rev006 = notify_update_006"

lemmas notify_update_defs = notify_update_002_def notify_update_005_def notify_update_006_def

text \<open>One UPDATE statement fires the trigger for each row it updates.\<close>

definition update_notifications ::
  "trigger_revision \<Rightarrow> (json \<Rightarrow> string) \<Rightarrow> (workspace \<Rightarrow> bool) \<Rightarrow> (workspace \<Rightarrow> workspace) \<Rightarrow> tables \<Rightarrow> (string \<times> string) list" where
  "update_notifications r render p f t = concat (map (\<lambda>w. notify_update r render w (f w)) (sql_select p (tb_workspaces t)))"

section \<open>What is announced\<close>

lemma operation_value_inj: "(operation_value a = operation_value b) = (a = b)"
  by (cases a; cases b) simp_all

lemma error_reason_value_inj: "(error_reason_value a = error_reason_value b) = (a = b)"
  by (cases a; cases b) simp_all

lemmas value_inj = phase_value_inj operation_value_inj error_reason_value_inj

lemma json_str_inj [simp]: "(json_str x = json_str y) = (x = y)"
  by (cases x; cases y) (simp_all add: json_str_def)

lemma map_option_reason_inj: "(map_option error_reason_value x = map_option error_reason_value y) = (x = y)"
  by (cases x; cases y) (simp_all add: value_inj)

lemma visible_fields_changed:
  "visible_fields (row_json fmt old) \<noteq> visible_fields (row_json fmt new) \<longleftrightarrow> status_changed old new \<or> metadata_changed old new"
  by (auto simp: row_json_fields value_inj map_option_reason_inj status_changed_def metadata_changed_def)

lemma visible_change_notified:
  assumes "visible_fields (row_json fmt old) \<noteq> visible_fields (row_json fmt new) \<or> newly_deleted old new"
  shows "notify_update Rev006 render old new =
    notification render ''ws_sse'' new # (if desired_changed old new then [wake_notification] else [])"
  using assms unfolding visible_fields_changed by (auto simp: notify_update_006_def)

text \<open>Nothing else than a change that shows, a request or a deletion is announced.\<close>

lemma silent_update:
  assumes "\<not> desired_changed old new" "\<not> newly_deleted old new"
    and "visible_fields (row_json fmt old) = visible_fields (row_json fmt new)"
  shows "notify_update r render old new = []"
  using assms visible_fields_changed [of fmt old new] by (cases r) (auto simp: notify_update_defs)

section \<open>What becomes of it\<close>

text \<open>A Redis client whose world is the log of what was published.\<close>

definition logs_publishes :: "(string \<times> string) list listener_ctx \<Rightarrow> bool" where
  "logs_publishes cx \<longleftrightarrow> (\<forall>ch m w. \<exists>n. rd_publish (lc_redis cx) ch m w = (Inr n, w @ [(ch, m)]))"

definition wake_messages :: "redis_channel_config \<Rightarrow> (string \<times> string) list" where
  "wake_messages ch = [(wake_prefix ch @ '':observer'', []), (wake_prefix ch @ '':wc'', [])]"

lemma publish_logged:
  assumes "logs_publishes cx"
  shows "\<exists>n. on_el_world (publish (lc_redis cx) ch m) s = (Inr n, s\<lparr>el_world := el_world s @ [(ch, m)]\<rparr>)"
  using assms [unfolded logs_publishes_def, rule_format, of ch m "el_world s"]
  by (auto simp: publish_def on_el_world_def io_zoom_def)

lemma wake_logged:
  assumes "logs_publishes cx"
  shows "handle_wake cx s = (Inr (), s\<lparr>el_world := el_world s @ wake_messages (lc_channels cx)\<rparr>)"
proof -
  let ?o = "on_el_world (publish (lc_redis cx) (wake_prefix (lc_channels cx) @ '':observer'') [])"
  let ?w = "on_el_world (publish (lc_redis cx) (wake_prefix (lc_channels cx) @ '':wc'') [])"
  obtain s' n where o: "?o s = (Inr n, s')" "s' = s\<lparr>el_world := el_world s @ [(wake_prefix (lc_channels cx) @ '':observer'', [])]\<rparr>"
    using publish_logged [OF assms] by metis
  obtain k where "?w s' = (Inr k, s'\<lparr>el_world := el_world s' @ [(wake_prefix (lc_channels cx) @ '':wc'', [])]\<rparr>)"
    using publish_logged [OF assms] by metis
  with o show ?thesis
    by (simp add: handle_wake_def gather2_def io_try_def io_bind_def io_return_def wake_messages_def)
qed

lemma wake_dispatched:
  assumes "logs_publishes cx"
  shows "worker_loop cx (wake_notification # es) s =
    worker_loop cx es (s\<lparr>el_world := el_world s @ wake_messages (lc_channels cx)\<rparr>)"
  using wake_logged [OF assms, of s] by (simp add: wake_notification_def dispatch_def io_try_def io_return_def)

lemma other_channels_ignored:
  "channel \<noteq> ''ws_sse'' \<Longrightarrow> channel \<noteq> ''ws_wake'' \<Longrightarrow> worker_loop cx ((channel, payload) # es) s = worker_loop cx es s"
  by (simp add: dispatch_def io_try_def io_return_def)

lemma row_logged:
  assumes "logs_publishes cx"
  shows "publish_row cx uid data s = (Inr (), s\<lparr>el_world := el_world s @
    [(sse_channel (lc_channels cx) (fstring (lc_str cx) uid), lc_dumps cx data)]\<rparr>)"
proof -
  obtain n where "on_el_world (publish (lc_redis cx) (sse_channel (lc_channels cx) (fstring (lc_str cx) uid)) (lc_dumps cx data)) s
      = (Inr n, s\<lparr>el_world := el_world s @ [(sse_channel (lc_channels cx) (fstring (lc_str cx) uid), lc_dumps cx data)]\<rparr>)"
    using publish_logged [OF assms] by metis
  then show ?thesis by (simp add: publish_row_def io_bind_def io_return_def)
qed

lemma fetched:
  assumes "db_ok (el_db s)"
  shows "\<exists>r. fetch_workspace fmt i s = (r, s) \<and> (\<forall>e. r = Inl e \<longrightarrow> is_Exception e)"
  by (cases i)
     (auto simp: fetch_workspace_def io_bind_def io_get_def io_return_def io_raise_def on_el_db_def io_zoom_def io_simps
       sql_simps assms)

text \<open>A step that only adds to the log, and whose failures the worker survives.\<close>

definition only_logs :: "(string \<times> string) list listener \<Rightarrow> ((string \<times> string) list listener, 'a) io \<Rightarrow> bool" where
  "only_logs s m = io_post m (\<lambda>_ t. \<exists>l. t = s\<lparr>el_world := el_world s @ l\<rparr>)
     (\<lambda>e t. is_Exception e \<and> (\<exists>l. t = s\<lparr>el_world := el_world s @ l\<rparr>)) s"

lemma unlogged: "\<exists>l. s = s\<lparr>el_world := el_world s @ l\<rparr>"
  by (rule exI [of _ "[]"]) simp

lemma only_logs_return: "only_logs s (io_return a)"
  using unlogged by (simp add: only_logs_def io_post_def io_defs)

lemma only_logs_of:
  assumes "\<And>e. x = Inl e \<Longrightarrow> is_Exception e" "\<And>a. x = Inr a \<Longrightarrow> only_logs s (f a)"
  shows "only_logs s (io_bind (io_of x) f)"
  using assms unlogged
  by (cases x) (auto simp: only_logs_def io_post_def io_bind_def io_of_def)

lemma only_logs_fetch:
  assumes "db_ok (el_db s)" "\<And>r. only_logs s (f r)"
  shows "only_logs s (io_bind (fetch_workspace fmt i) f)"
proof -
  obtain r where r: "fetch_workspace fmt i s = (r, s)" "\<forall>e. r = Inl e \<longrightarrow> is_Exception e"
    using fetched [OF assms(1)] by blast
  have "io_bind (fetch_workspace fmt i) f s = io_bind (io_of r) f s"
    using r(1) by (simp add: io_bind_def io_of_def)
  then show ?thesis
    using only_logs_of [of r s f] r(2) assms(2) by (simp add: only_logs_def io_post_def)
qed

lemma json_get_Exception: "json_get j k d = Inl e \<Longrightarrow> is_Exception e"
  by (auto simp: json_get_def split: json.splits)

definition parse_errors_only :: "'w listener_ctx \<Rightarrow> bool" where
  "parse_errors_only cx \<longleftrightarrow> (\<forall>p e. lc_loads cx p = Inl e \<longrightarrow> is_Exception e)"

lemma sse_logged:
  assumes "logs_publishes cx" "db_ok (el_db s)" "parse_errors_only cx"
  shows "\<exists>l. handle_sse cx payload s = (Inr (), s\<lparr>el_world := el_world s @ l\<rparr>)"
proof -
  let ?row = "\<lambda>uid workspace_data. case workspace_data of None \<Rightarrow> io_return () | Some data \<Rightarrow> publish_row cx uid data"
  let ?use = "\<lambda>workspace_id uid. if \<not> json_truthy workspace_id \<or> \<not> json_truthy uid then io_return ()
    else io_bind (fetch_workspace (lc_isoformat cx) workspace_id) (?row uid)"
  let ?ids = "\<lambda>data. io_bind (io_of (json_get data ''id'' JNull)) (\<lambda>workspace_id.
    io_bind (io_of (json_get data ''owner_user_id'' JNull)) (?use workspace_id))"
  have row: "only_logs s (?row uid r)" for uid r
    by (cases r) (auto simp: only_logs_def io_post_def io_defs row_logged [OF assms(1)] unlogged)
  have "only_logs s (?use i uid)" for i uid
    by (simp add: only_logs_fetch [OF assms(2) row] only_logs_return)
  then have ids: "only_logs s (?ids data)" for data
    by (intro only_logs_of) (auto dest: json_get_Exception)
  have "only_logs s (io_bind (io_of (lc_loads cx payload)) ?ids)"
    by (rule only_logs_of [OF _ ids]) (use assms(3) in \<open>simp add: parse_errors_only_def\<close>)
  then show ?thesis
    by (auto simp: handle_sse_def only_logs_def io_post_def io_try_def io_return_def split: prod.splits sum.splits)
qed

lemma sse_dispatched:
  assumes "logs_publishes cx" "db_ok (el_db s)" "parse_errors_only cx"
  shows "\<exists>l. worker_loop cx ((''ws_sse'', payload) # es) s = worker_loop cx es (s\<lparr>el_world := el_world s @ l\<rparr>)"
  using sse_logged [OF assms, of payload] by (auto simp: dispatch_def io_try_def)

text \<open>The order in which any revision notifies: the browsers, the coordinators, the deletion.\<close>

fun announces :: "trigger_revision \<Rightarrow> workspace \<Rightarrow> workspace \<Rightarrow> bool" where
  "announces Rev002 old new = status_changed old new"
| "announces Rev005 old new = (status_changed old new \<or> metadata_changed old new)"
| "announces Rev006 old new = (status_changed old new \<or> metadata_changed old new \<or> desired_changed old new \<or> newly_deleted old new)"

lemma notify_order:
  "notify_update r render old new = (if announces r old new then [notification render ''ws_sse'' new] else [])
     @ (if desired_changed old new then [wake_notification] else [])
     @ (if r \<noteq> Rev006 \<and> newly_deleted old new then [notification render ''ws_deleted'' new] else [])"
  by (cases r) (simp_all add: notify_update_defs)

text \<open>C36: a changed request wakes the coordinators that act on it.  Under every revision of the trigger, when
  an update changes the desired state of a row, the notifications it sends make the listener end by publishing
  on the wake channel of the observer and then on that of the workspace controller, which are the channels these
  coordinators subscribe to; before these it publishes at most messages for browsers.\<close>
theorem request_wakes_coordinators:
  assumes "logs_publishes cx" "db_ok (el_db s)" "parse_errors_only cx"
    and "desired_changed old new"
    and "ce_class ob = class_of cfg OBSERVER" "ce_channels ob = lc_channels cx"
    and "ce_class wc = class_of cfg WC" "ce_channels wc = lc_channels cx"
  shows "\<exists>l. worker_loop cx (notify_update r render old new) s =
    s\<lparr>el_world := el_world s @ l @ [(wake_channel ob, []), (wake_channel wc, [])]\<rparr>"
proof -
  have channels: "wake_messages (lc_channels cx) = [(wake_channel ob, []), (wake_channel wc, [])]"
    by (simp add: wake_messages_def wake_channel_def assms(5-8))
  let ?del = "if r \<noteq> Rev006 \<and> newly_deleted old new then [notification render ''ws_deleted'' new] else []"
  have wake: "worker_loop cx (wake_notification # ?del) t =
      t\<lparr>el_world := el_world t @ [(wake_channel ob, []), (wake_channel wc, [])]\<rparr>" for t
    unfolding wake_dispatched [OF assms(1)] by (simp add: notification_def other_channels_ignored channels del: worker_loop.simps(2))
  obtain l where "worker_loop cx (notification render ''ws_sse'' new # wake_notification # ?del) s =
      worker_loop cx (wake_notification # ?del) (s\<lparr>el_world := el_world s @ l\<rparr>)"
    using sse_dispatched [OF assms(1-3)] by (fastforce simp: notification_def)
  then show ?thesis
    using assms(4) unlogged [of s] by (cases "announces r old new") (auto simp: notify_order wake intro: exI [of _ "[]"])
qed

text \<open>What the endpoint has of a workspace: nothing, or what it showed before the update.\<close>

definition shows_at_most :: "(datetime \<Rightarrow> string) \<Rightarrow> workspace \<Rightarrow> sent_state \<Rightarrow> bool" where
  "shows_at_most fmt old last_sent \<longleftrightarrow>
     last_sent (JStr (ws_id old)) \<in> {None, Some (visible_fields (row_json fmt old))}"

lemma changed_row_forwarded:
  assumes "shows_at_most fmt old last_sent" "ws_id new = ws_id old"
    and "visible_fields (row_json fmt old) \<noteq> visible_fields (row_json fmt new) \<or> newly_deleted old new"
  shows "fst (forward_row payload new (visible_fields (row_json fmt new)) last_sent) = Some (workspace_event payload)"
  using assms by (auto simp: forward_row_def shows_at_most_def newly_deleted_def)


text \<open>Before revision 006 a deletion did not reach the browser: the listener has no use for its channel.\<close>

lemma deletion_unseen_before_006:
  assumes "logs_publishes cx" "r \<noteq> Rev006" "newly_deleted old new"
    and "visible_fields (row_json fmt old) = visible_fields (row_json fmt new)"
  shows "worker_loop cx (notify_update r render old new) s =
    s\<lparr>el_world := el_world s @ (if desired_changed old new then wake_messages (lc_channels cx) else [])\<rparr>"
proof -
  have "\<not> announces r old new" using assms(2,4) visible_fields_changed [of fmt old new] by (cases r) auto
  then show ?thesis
    using assms(2,3)
    by (simp add: notify_order wake_dispatched [OF assms(1)] notification_def other_channels_ignored del: worker_loop.simps(2))
qed

text \<open>A request alone is announced by the head revision, and not shown by the endpoint.\<close>

lemma request_not_shown:
  assumes "lc_loads cx row = Inr (row_json (lc_isoformat cx) new)" "\<And>t. lc_isoformat cx t \<noteq> []"
    and "desired_changed old new" "ws_deleted_at new = None" "ws_id new = ws_id old"
    and "visible_fields (row_json (lc_isoformat cx) old) = visible_fields (row_json (lc_isoformat cx) new)"
    and "last_sent (JStr (ws_id old)) = Some (visible_fields (row_json (lc_isoformat cx) old))"
  shows "announces Rev006 old new" "process_payload (lc_loads cx) row last_sent = Inr (None, last_sent)"
  using assms process_row [where loads = "lc_loads cx" and payload = row, OF assms(1,2)]
  by (simp_all add: forward_row_def)

section \<open>Witnesses\<close>

definition demo_before :: workspace where
  "demo_before = demo_row\<lparr>ws_phase := phase.ARCHIVED, ws_desired_state := desired_state.ARCHIVED\<rparr>"

definition demo_text :: "json \<Rightarrow> string" where
  "demo_text j = ''ids''"

lemma demo_ctx_facts:
  "logs_publishes demo_ctx" "parse_errors_only demo_ctx" "lc_channels demo_ctx = default_redis_channel"
  "lc_isoformat demo_ctx = (\<lambda>_. ''t'')" "lc_loads demo_ctx ''row'' = Inr (row_json (\<lambda>_. ''t'') demo_row)"
  "lc_dumps demo_ctx x = ''row''" "lc_loads demo_ctx ''ids'' = Inr (ids_json ''a'' ''u'')"
  by (simp_all add: demo_ctx_def logs_publishes_def parse_errors_only_def)

lemma demo_listener_facts:
  "el_connected demo_listener" "db_ok (el_db demo_listener)" "keys_ok (db_tables (el_db demo_listener))"
  "demo_row \<in> set (tb_workspaces (db_tables (el_db demo_listener)))" "el_world demo_listener = []"
  by (simp_all add: demo_listener_def db_of_def db_ok_def keys_ok_def)

lemma demo_rows_facts:
  "desired_changed demo_before demo_row" "status_changed demo_before demo_row" "ws_id demo_before = ''a''"
  "ws_id demo_row = ''a''" "ws_owner_user_id demo_row = ''u''"
  by (simp_all add: demo_before_def demo_row_def desired_changed_def status_changed_def)

theorem request_wakes_coordinators_witness:
  "\<exists>l. worker_loop demo_ctx (notify_update Rev005 demo_text demo_before demo_row) demo_listener =
     demo_listener\<lparr>el_world := l @ [(''codehub:wake:observer'', []), (''codehub:wake:wc'', [])]\<rparr>"
  using request_wakes_coordinators [where r = Rev005 and render = demo_text and ob = "demo_env OBSERVER" and wc = "demo_env WC"
      and cfg = default_coordinator, OF demo_ctx_facts(1) demo_listener_facts(2) demo_ctx_facts(2) demo_rows_facts(1)]
  by (simp add: demo_env_def demo_ctx_facts demo_listener_facts wake_channel_def default_redis_channel_def)


end
