(* ===== verification/Endings.thy ===== *)
theory Endings
  imports Coordinator Streams
begin

text \<open>
  That the long-running loops end.  A coordinator or a stream runs until its task is cancelled or its browser
  leaves; here the world carries how many more waits the cancellation, or how many more checks the browser,
  allows, and the loops end within as many rounds, whatever Redis, the database and the reconciliation do.
\<close>

section \<open>A coordinator whose task is cancelled\<close>

text \<open>\<open>sleep\<close> and \<open>get_message\<close> are the waits of the loop; one of them is answered by the cancellation.\<close>

definition counted :: "('w, 'a) io \<Rightarrow> ('w \<times> nat, 'a) io" where
  "counted m = (\<lambda>(w, b). if b = 0 then (Inl CancelledError, (w, 0)) else case m w of (r, w') \<Rightarrow> (r, (w', b - 1)))"

definition counted_leader :: "'w leader_election \<Rightarrow> ('w \<times> nat) leader_election" where
  "counted_leader le =
     \<lparr>le_is_leader = (\<lambda>(w, b). le_is_leader le w), le_try_acquire = io_fst (le_try_acquire le),
      le_release = io_fst (le_release le), le_verify_holding = io_fst (le_verify_holding le)\<rparr>"

definition counted_subscriber :: "'w channel_subscriber \<Rightarrow> ('w \<times> nat) channel_subscriber" where
  "counted_subscriber cs =
     \<lparr>cs_subscribe = (\<lambda>ch. io_fst (cs_subscribe cs ch)), cs_unsubscribe = io_fst (cs_unsubscribe cs),
      cs_get_message = (\<lambda>d. counted (cs_get_message cs d))\<rparr>"

definition counted_env :: "'w coord_env \<Rightarrow> ('w \<times> nat) coord_env" where
  "counted_env env =
     \<lparr>ce_class = ce_class env, ce_channels = ce_channels env, ce_now = (\<lambda>(w, b). ce_now env w),
      ce_uniform = (\<lambda>a c (w, b). ce_uniform env a c w), ce_sleep = (\<lambda>d. counted (ce_sleep env d)),
      ce_rollback = io_fst (ce_rollback env), ce_reconcile = io_fst (ce_reconcile env)\<rparr>"

lemmas counted_simps = counted_leader_def counted_subscriber_def counted_env_def

definition allows :: "nat \<Rightarrow> coordinator \<times> 'w \<times> nat \<Rightarrow> bool" where
  "allows k = (\<lambda>(c, w, b). b \<le> k)"

lemma allows_fst [keeps_rules]: "keeps (allows k) (on_world (io_fst m))"
  by (rule keepsI) (auto simp: allows_def on_world_def io_fst_def split: prod.splits)

lemma allows_counted [keeps_rules]: "keeps (allows k) (on_world (counted m))"
  by (rule keepsI) (auto simp: allows_def on_world_def counted_def split: prod.splits if_splits)

lemma allows_coordinator [keeps_rules]: "keeps (allows k) (on_coordinator f)"
  by (rule keepsI) (auto simp: allows_def on_coordinator_def)

lemma parts_allow:
  "keeps (allows k) (ensure_leadership (counted_leader le) (counted_subscriber cs) (counted_env env))"
  "keeps (allows k) (ensure_subscribed (counted_subscriber cs) (counted_env env))"
  "keeps (allows k) (throttle (counted_env env))"
  "keeps (allows k) (execute_reconcile (counted_leader le) (counted_subscriber cs) (counted_env env))"
  unfolding part_defs execute_reconcile_def guarded_reconcile_def mark_reconciled_def counted_simps Let_def
  by (auto intro!: keeps_rules)

text \<open>A wait that is answered uses up one of the answers.\<close>

lemma counted_answered:
  assumes "on_world (counted m) s = (r, t)" "allows k s" "r \<noteq> Inl CancelledError"
  shows "0 < k \<and> allows (k - 1) t"
  using assms by (cases s) (auto simp: allows_def on_world_def counted_def split: prod.splits if_splits)

lemma accelerate_allows: "keeps (allows k) (if b then accelerate env else io_return ())"
  by (auto simp: accelerate_def intro!: keeps_rules)

lemma waited:
  assumes "wait_for_notify (counted_subscriber cs) (counted_env env) d s = (Inr u, t)" "allows k s"
  shows "0 < k \<and> allows (k - 1) t"
proof (cases "listens (counted_env env)")
  case False
  then have "on_world (counted (ce_sleep env d)) s = (Inr u, t)"
    using assms(1) by (simp add: wait_for_notify_def counted_env_def)
  from counted_answered [OF this assms(2)] show ?thesis by simp
next
  case True
  obtain r v where get: "on_world (counted (cs_get_message cs d)) s = (r, v)" by (meson surj_pair)
  show ?thesis
  proof (cases r)
    case (Inr msg)
    have "(if msg \<noteq> None then accelerate (counted_env env) else io_return ()) v = (Inr u, t)"
      using assms(1) True get Inr
      by (auto simp: wait_for_notify_def counted_subscriber_def io_try_def io_bind_def io_return_def split: prod.splits sum.splits if_splits)
        (simp_all add: accelerate_def io_bind_def io_get_def on_coordinator_def split: prod.splits)
    then show ?thesis
      using counted_answered [OF get assms(2)] keepsD [OF accelerate_allows, of "k - 1" v "msg \<noteq> None"] Inr by blast
  next
    case (Inl e)
    then have "on_world (counted (ce_sleep env d)) v = (Inr u, t)" "e \<noteq> CancelledError"
      using assms(1) True get
      by (auto simp: wait_for_notify_def counted_subscriber_def counted_env_def io_try_def io_bind_def split: if_splits)
    then show ?thesis
      using counted_answered [OF get assms(2)] counted_answered [of "ce_sleep env d" v "Inr u" t "k - 1"] Inl
      by (auto simp: allows_def)
  qed
qed

lemma lost_leadership_waited:
  assumes "lost_leadership cs' (counted_env env) now s = (r, t)" "allows k s" "r = Inr b"
    "keeps (allows k) (release_subscription cs' (counted_env env))"
  shows "0 < k \<and> allows (k - 1) t"
proof -
  obtain x y u v where r: "release_subscription cs' (counted_env env) s = (Inr x, u)"
      "on_coordinator (\<lambda>c. c\<lparr>co_waiting_since := (case co_waiting_since c of None \<Rightarrow> Some now | t \<Rightarrow> t)\<rparr>) u = (Inr y, v)"
      "on_world (counted (ce_sleep env (leader_retry_interval (ce_cfg env)))) v = (Inr (), t)"
    using assms(1,3) by (auto simp: lost_leadership_def io_seq_Inr_iff counted_env_def)
  have "allows k v" by (rule keepsD [OF allows_coordinator keepsD [OF assms(4,2) r(1)] r(2)])
  from counted_answered [OF r(3) this] show ?thesis by simp
qed

lemma not_leading_waited:
  assumes "ensure_leadership (counted_leader le) (counted_subscriber cs) (counted_env env) s = (Inr False, t)" "allows k s"
  shows "0 < k \<and> allows (k - 1) t"
proof -
  let ?acquire = "on_world (io_try (le_try_acquire (counted_leader le))
    (\<lambda>_. io_seq (safe_rollback (counted_env env)) (io_return False)))"
  obtain v now where v: "?acquire s = (Inr False, v)"
      "lost_leadership (counted_subscriber cs) (counted_env env) now v = (Inr False, t)"
    using assms(1) by (auto simp: ensure_leadership_def io_bind_Inr_iff io_seq_Inr_iff split: if_splits prod.splits)
  have "keeps (allows k) ?acquire"
    unfolding safe_rollback_def counted_simps by (auto intro!: keeps_rules)
  from keepsD [OF this assms(2) v(1)] have "allows k v" .
  moreover have "keeps (allows k) (release_subscription (counted_subscriber cs) (counted_env env))"
    unfolding release_subscription_def counted_simps by (auto intro!: keeps_rules)
  ultimately show ?thesis using lost_leadership_waited [OF v(2)] by blast
qed

lemma iteration_uses_answer:
  assumes "iteration (counted_leader le) (counted_subscriber cs) (counted_env env) s = (Inr True, t)" "allows k s"
  shows "0 < k \<and> allows (k - 1) t"
proof -
  let ?le = "counted_leader le" and ?cs = "counted_subscriber cs" and ?env = "counted_env env"
  obtain leading s1 where lead: "ensure_leadership ?le ?cs ?env s = (Inr leading, s1)"
    using assms(1) by (auto simp: iteration_def io_bind_Inr_iff)
  show ?thesis
  proof (cases leading)
    case False
    then have "t = s1" using assms(1) lead by (simp add: iteration_def io_bind_def io_return_def)
    then show ?thesis using not_leading_waited [OF lead [simplified False] assms(2)] by simp
  next
    case True
    then obtain x s2 y s3 z s4 u where steps: "ensure_subscribed ?cs ?env s1 = (Inr x, s2)" "throttle ?env s2 = (Inr y, s3)"
        "execute_reconcile ?le ?cs ?env s3 = (Inr z, s4)" "wait_for_notify ?cs ?env (get_interval ?env s4) s4 = (Inr u, t)"
      using assms(1) lead
      by (auto simp: iteration_def io_bind_Inr_iff io_seq_Inr_iff io_get_def split: if_splits)
    have "allows k s4"
      by (intro keepsD [OF parts_allow(4) _ steps(3)] keepsD [OF parts_allow(3) _ steps(2)]
          keepsD [OF parts_allow(2) _ steps(1)] keepsD [OF parts_allow(1) _ lead] assms(2))
    from waited [OF steps(4) this] show ?thesis .
  qed
qed

lemma run_loop_ends:
  assumes "allows k s"
  shows "run_loop (counted_leader le) (counted_subscriber cs) (counted_env env) (Suc k) s \<noteq> None"
  using assms
proof (induction k arbitrary: s)
  case 0
  obtain r t where "iteration (counted_leader le) (counted_subscriber cs) (counted_env env) s = (r, t)" by (meson surj_pair)
  then show ?case
    using iteration_uses_answer [of le cs env s t 0] 0 by (auto simp del: not_None_eq split: sum.splits bool.splits)
next
  case (Suc k)
  obtain r t where it: "iteration (counted_leader le) (counted_subscriber cs) (counted_env env) s = (r, t)" by (meson surj_pair)
  show ?case
    using Suc.IH [of t] iteration_uses_answer [of le cs env s t "Suc k"] Suc.prems it
    by (auto simp del: not_None_eq split: sum.splits bool.splits)
qed


section \<open>A stream whose browser leaves\<close>

text \<open>The browser stays for the checks that the counter allows.\<close>

definition leaving :: "'w sse_env \<Rightarrow> ('w \<times> nat) sse_env" where
  "leaving env =
     \<lparr>se_subscriber =
        \<lparr>cs_subscribe = (\<lambda>ch. io_fst (cs_subscribe (se_subscriber env) ch)),
         cs_unsubscribe = io_fst (cs_unsubscribe (se_subscriber env)),
         cs_get_message = (\<lambda>d. io_fst (cs_get_message (se_subscriber env) d))\<rparr>,
      se_channel = se_channel env, se_loads = se_loads env, se_heartbeat = se_heartbeat env,
      se_disconnected = (\<lambda>(w, b). if b = 0 then (Inr True, (w, 0)) else case se_disconnected env w of (r, w') \<Rightarrow> (r, (w', b - 1))),
      se_now = (\<lambda>(w, b). se_now env w), se_sleep = (\<lambda>d. io_fst (se_sleep env d))\<rparr>"

definition stays :: "nat \<Rightarrow> ('w \<times> nat) stream \<Rightarrow> bool" where
  "stays k s \<longleftrightarrow> snd (st_world s) \<le> k"

lemma stays_fst [keeps_rules]: "keeps (stays k) (on_stream (io_fst m))"
  by (rule keepsI) (auto simp: stays_def on_stream_def io_zoom_def io_fst_def split: prod.splits)

lemma stays_local: "(\<And>s r t. m s = (r, t) \<Longrightarrow> st_world t = st_world s) \<Longrightarrow> keeps (stays k) m"
  by (rule keepsI) (simp add: stays_def)

lemma stays_heartbeat [keeps_rules]: "keeps (stays k) (heartbeat env)"
  by (rule stays_local) (auto simp: heartbeat_def yield_event_def Let_def)

lemma stays_payload [keeps_rules]: "keeps (stays k) (handle_payload env payload)"
  by (rule stays_local)
     (auto simp: handle_payload_def yield_event_def io_bind_def io_get_def io_of_def io_return_def
       split: option.splits sum.splits prod.splits)

lemma stays_read [keeps_rules]: "keeps (stays k) (read_payload (leaving env))"
  unfolding read_payload_def leaving_def by (auto intro!: keeps_rules)

lemma pass_uses_check:
  assumes "stream_pass (leaving env) s = (Inr True, t)" "stays k s"
  shows "0 < k \<and> stays (k - 1) t"
proof -
  let ?env = "leaving env"
  let ?rest = "io_bind (read_payload ?env) (\<lambda>r. case r of None \<Rightarrow> io_return True
    | Some payload \<Rightarrow> io_seq (handle_payload ?env payload) (io_seq (heartbeat ?env) (io_return True)))"
  obtain s1 where s1: "on_stream (se_disconnected ?env) s = (Inr False, s1)" "?rest s1 = (Inr True, t)"
    using assms(1) by (auto simp: stream_pass_def io_bind_Inr_iff split: if_splits)
  have "0 < k \<and> stays (k - 1) s1"
    using s1(1) assms(2) by (auto simp: leaving_def on_stream_def io_zoom_def stays_def split: prod.splits if_splits)
  then have step: "0 < k" "stays (k - 1) s1" by simp_all
  have rest: "keeps (stays (k - 1)) ?rest"
    by (intro keeps_rules) (auto split: option.split intro!: keeps_rules)
  show ?thesis using keepsD [OF rest step(2) s1(2)] step(1) by simp
qed

lemma stream_loop_ends:
  assumes "stays k s"
  shows "stream_loop (leaving env) (Suc k) s \<noteq> None"
  using assms
proof (induction k arbitrary: s)
  case 0
  obtain r t where "stream_pass (leaving env) s = (r, t)" by (meson surj_pair)
  then show ?case using pass_uses_check [of env s t 0] 0 by (auto split: sum.splits bool.splits)
next
  case (Suc k)
  obtain r t where "stream_pass (leaving env) s = (r, t)" by (meson surj_pair)
  then show ?case
    using Suc.IH [of t] pass_uses_check [of env s t "Suc k"] Suc.prems by (auto split: sum.splits bool.splits)
qed

text \<open>A stream ends when its browser has gone, after as many passes as there were checks at the most.\<close>

lemma left_stream_ends:
  "event_generator (leaving env) (Suc k) (w, k) \<noteq> None"
proof -
  let ?s0 = "\<lparr>st_out = [], st_sent = Map.empty, st_beat = 0, st_world = (w, k)\<rparr>"
  let ?sub = "on_stream (cs_subscribe (se_subscriber (leaving env)) (se_channel (leaving env)))"
  obtain r t where sub: "?sub ?s0 = (r, t)" by fastforce
  have "keeps (stays k) ?sub" by (simp add: leaving_def stays_fst)
  from keepsD [OF this _ sub] have "stays k t" by (simp add: stays_def)
  then have "stays k (yield_event e (t\<lparr>st_beat := b\<rparr>))" for e b by (simp add: stays_def yield_event_def)
  then have "stream_body (leaving env) (Suc k) ?s0 \<noteq> None"
    using sub stream_loop_ends [of k _ env] by (auto simp: stream_body_def simp del: stream_loop.simps split: sum.splits)
  then show ?thesis by (simp add: event_generator_def)
qed

end
