(* ===== verification/Logs.thy ===== *)
theory Logs
  imports Requests
begin

text \<open>
  The rest of app/logging.py: the fields of a JSON log line and the set-up of the loggers.  The base class of
  the formatter, the format of time stamps and of tracebacks are parameters; the loggers of the standard
  library are a function from their names.
\<close>

section \<open>The formatter\<close>

record log_event_record =
  le_created :: datetime
  le_levelname :: string
  le_name :: string
  le_process :: nat
  le_filename :: string
  le_lineno :: nat
  le_func_name :: string
  le_exc_info :: "string option"

record formatter =
  fm_schema_version :: string
  fm_service :: string

definition new_formatter :: "logging_config \<Rightarrow> formatter" where
  "new_formatter cfg = \<lparr>fm_schema_version = schema_version cfg, fm_service = service_name cfg\<rparr>"

text \<open>\<open>log_record[k] = v\<close>\<close>

definition put_field :: "string \<Rightarrow> json \<Rightarrow> (string \<times> json) list \<Rightarrow> (string \<times> json) list" where
  "put_field k v d = AList.update k v d"

text \<open>\<open>add_fields\<close> on the fields that the base class gave.\<close>

definition add_fields ::
  "formatter \<Rightarrow> (datetime \<Rightarrow> string) \<Rightarrow> (string \<Rightarrow> string) \<Rightarrow> string option \<Rightarrow> log_event_record \<Rightarrow>
   (string \<times> json) list \<Rightarrow> (string \<times> json) list" where
  "add_fields fm fmt format_exception trace r base =
     (let d = put_field ''service'' (JStr (fm_service fm))
              (put_field ''schema_version'' (JStr (fm_schema_version fm))
              (put_field ''funcName'' (JStr (le_func_name r))
              (put_field ''lineno'' (JInt (int (le_lineno r)))
              (put_field ''filename'' (JStr (le_filename r))
              (put_field ''pid'' (JInt (int (le_process r)))
              (put_field ''logger'' (JStr (le_name r))
              (put_field ''level'' (JStr (le_levelname r))
              (put_field ''timestamp'' (JStr (fmt (le_created r))) base))))))));
          d = (if trace \<noteq> None \<and> trace \<noteq> Some [] then put_field ''trace_id'' (JStr (the trace)) d else d);
          d = (case le_exc_info r of None \<Rightarrow> d | Some e \<Rightarrow> put_field ''exception'' (JStr (format_exception e)) d)
      in AList.delete ''color_message'' d)"

section \<open>The loggers\<close>

datatype log_handler = Handler formatter rate_filter | OtherHandler nat

record logger =
  lo_handlers :: "log_handler list"
  lo_level :: int
  lo_propagate :: bool
  lo_disabled :: bool

text \<open>\<open>getattr(logging, name.upper(), logging.INFO)\<close>; the module has other attributes than the levels,
  which no configuration names.\<close>

definition upper_ascii :: "char \<Rightarrow> char" where
  "upper_ascii c = (if 97 \<le> (of_char c :: nat) \<and> (of_char c :: nat) \<le> 122 then char_of ((of_char c :: nat) - 32) else c)"

definition level_of :: "string \<Rightarrow> int" where
  "level_of n =
     (let u = map upper_ascii n in
      if u = ''CRITICAL'' \<or> u = ''FATAL'' then 50 else if u = ''ERROR'' then 40
      else if u = ''WARNING'' \<or> u = ''WARN'' then 30 else if u = ''INFO'' then 20
      else if u = ''DEBUG'' then 10 else if u = ''NOTSET'' then 0 else 20)"

type_synonym loggers = "string \<Rightarrow> logger"

text \<open>The root logger has the empty name.\<close>

definition setup_uvicorn :: "log_handler \<Rightarrow> string \<Rightarrow> loggers \<Rightarrow> loggers" where
  "setup_uvicorn h n ls = ls(n := (ls n)\<lparr>lo_handlers := [h], lo_propagate := False\<rparr>)"

definition setup_logging :: "logging_config \<Rightarrow> int option \<Rightarrow> loggers \<Rightarrow> loggers" where
  "setup_logging cfg lvl ls =
     (let lv = (case lvl of None \<Rightarrow> level_of (log_level cfg) | Some l \<Rightarrow> l);
          h = Handler (new_formatter cfg) (new_rate_filter (rate_limit_per_minute cfg));
          ls = ls([] := (ls [])\<lparr>lo_handlers := [h], lo_level := lv\<rparr>);
          ls = fold (setup_uvicorn h) [''uvicorn'', ''uvicorn.error''] ls;
          ls = ls(''uvicorn.access'' := (ls ''uvicorn.access'')\<lparr>lo_disabled := True\<rparr>);
          ls = ls(''httpx'' := (ls ''httpx'')\<lparr>lo_level := 30\<rparr>)
      in ls(''httpcore'' := (ls ''httpcore'')\<lparr>lo_level := 30\<rparr>))"

section \<open>What a line and the loggers have\<close>

lemma map_of_put: "map_of (put_field k v d) j = (if j = k then Some v else map_of d j)"
  by (simp add: put_field_def update_conv')

lemma map_of_delete: "map_of (AList.delete k d) j = (if j = k then None else map_of d j)"
  by (simp add: delete_conv')

text \<open>Whatever the base class or an \<open>extra\<close> of the caller put in, the standard fields have their values.\<close>

lemma standard_fields:
  fixes fm fmt fe tr r base
  defines "d \<equiv> map_of (add_fields fm fmt fe tr r base)"
  shows "d ''timestamp'' = Some (JStr (fmt (le_created r)))" "d ''level'' = Some (JStr (le_levelname r))"
    "d ''logger'' = Some (JStr (le_name r))" "d ''service'' = Some (JStr (fm_service fm))"
    "d ''schema_version'' = Some (JStr (fm_schema_version fm))" "d ''color_message'' = None"
    "tr = Some t \<Longrightarrow> t \<noteq> [] \<Longrightarrow> d ''trace_id'' = Some (JStr t)"
    "tr = None \<Longrightarrow> d ''trace_id'' = map_of base ''trace_id''"
  by (auto simp: d_def add_fields_def Let_def map_of_put map_of_delete split: option.split)

lemma setup_twice: "setup_logging cfg l (setup_logging cfg l ls) = setup_logging cfg l ls"
  by (simp add: setup_logging_def setup_uvicorn_def Let_def fun_eq_iff)

text \<open>Each record of the application or of uvicorn is written once: one handler, and no propagation to the
  root from the loggers that have it themselves.\<close>

lemma handled_once:
  fixes cfg l ls
  defines "ls' \<equiv> setup_logging cfg l ls"
  shows "length (lo_handlers (ls' [])) = 1" "lo_handlers (ls' ''uvicorn'') = lo_handlers (ls' [])"
    "lo_handlers (ls' ''uvicorn.error'') = lo_handlers (ls' [])" "\<not> lo_propagate (ls' ''uvicorn'')"
    "\<not> lo_propagate (ls' ''uvicorn.error'')" "lo_disabled (ls' ''uvicorn.access'')"
  by (simp_all add: ls'_def setup_logging_def setup_uvicorn_def Let_def)

end
