(* ===== verification/Legacy.thy ===== *)
theory Legacy
  imports Legacy_Config Database
begin

text \<open>
  The data and the platform of the retired backend (src/.archive/backend/app): db/models.py, the interfaces of
  services and their local implementations over a directory and the Docker SDK.  The file system and the SDK
  are records of parameters.
\<close>

section \<open>Rows (db/models.py)\<close>

datatype workspace_status = CREATED | PROVISIONING | RUNNING | STOPPING | STOPPED | DELETING | ERROR | DELETED

text \<open>The transitions that the class documents.\<close>

fun documented :: "workspace_status \<Rightarrow> workspace_status set" where
  "documented CREATED = {PROVISIONING}"
| "documented PROVISIONING = {RUNNING, ERROR}"
| "documented RUNNING = {STOPPING, ERROR}"
| "documented STOPPING = {STOPPED, ERROR}"
| "documented STOPPED = {PROVISIONING, DELETING}"
| "documented ERROR = {PROVISIONING, STOPPING, DELETING}"
| "documented DELETING = {DELETED, ERROR}"
| "documented DELETED = {}"

record old_workspace =
  ow_id :: string
  ow_owner_user_id :: string
  ow_name :: string
  ow_description :: "string option"
  ow_memo :: "string option"
  ow_status :: workspace_status
  ow_image_ref :: string
  ow_instance_backend :: string
  ow_storage_backend :: string
  ow_home_store_key :: string
  ow_home_ctx :: "string option"
  ow_created_at :: datetime
  ow_updated_at :: datetime
  ow_deleted_at :: "datetime option"

definition old_writes :: "(old_workspace \<Rightarrow> old_workspace) \<Rightarrow> bool" where
  "old_writes f \<longleftrightarrow> (\<forall>w. ow_id (f w) = ow_id w)"

interpretation old_table: keyed_table ow_id old_writes
  by unfold_locales (simp add: old_writes_def)

section \<open>Interfaces (services/instance/interface.py, services/storage/interface.py)\<close>

record upstream_v1 =
  up_host :: string
  up_port :: int

record instance_status =
  is_exists :: bool
  is_running :: bool
  is_healthy :: bool

record provision_result =
  pr_home_mount :: string
  pr_home_ctx :: string

record storage_status =
  st_provisioned :: bool
  st_home_ctx :: "string option"
  st_home_mount :: "string option"

record 'w old_instance =
  oi_start_workspace :: "string \<Rightarrow> string \<Rightarrow> string \<Rightarrow> ('w, unit) io"
  oi_stop_workspace :: "string \<Rightarrow> ('w, unit) io"
  oi_delete_workspace :: "string \<Rightarrow> ('w, unit) io"
  oi_resolve_upstream :: "string \<Rightarrow> ('w, upstream_v1) io"
  oi_get_status :: "string \<Rightarrow> ('w, instance_status) io"

record 'w old_storage =
  os_provision :: "string \<Rightarrow> string option \<Rightarrow> ('w, provision_result) io"
  os_deprovision :: "string option \<Rightarrow> ('w, unit) io"
  os_purge :: "string \<Rightarrow> ('w, unit) io"
  os_get_status :: "string \<Rightarrow> ('w, storage_status) io"

section \<open>The local directory (services/storage/local_dir.py)\<close>

record 'w file_system =
  fs_makedirs :: "string \<Rightarrow> ('w, unit) io"
  fs_chown :: "string \<Rightarrow> nat \<Rightarrow> nat \<Rightarrow> ('w, unit) io"
  fs_exists :: "string \<Rightarrow> ('w, bool) io"
  fs_isdir :: "string \<Rightarrow> ('w, bool) io"
  fs_rmtree :: "string \<Rightarrow> ('w, unit) io"

record local_dir =
  ld_control_plane_base_dir :: string
  ld_workspace_base_dir :: string

definition new_local_dir :: "string \<Rightarrow> string \<Rightarrow> local_dir" where
  "new_local_dir c w = \<lparr>ld_control_plane_base_dir = rstrip_slash c, ld_workspace_base_dir = rstrip_slash w\<rparr>"

definition internal_path :: "local_dir \<Rightarrow> string \<Rightarrow> string" where
  "internal_path ld key = ld_control_plane_base_dir ld @ ''/'' @ key"

definition external_path :: "local_dir \<Rightarrow> string \<Rightarrow> string" where
  "external_path ld key = ld_workspace_base_dir ld @ ''/'' @ key"

definition dir_deprovision :: "string option \<Rightarrow> ('w, unit) io" where
  "dir_deprovision home_ctx = io_return ()"

definition dir_provision ::
  "'w file_system \<Rightarrow> local_dir \<Rightarrow> string \<Rightarrow> string option \<Rightarrow> ('w, provision_result) io" where
  "dir_provision fs ld key existing_ctx =
     io_seq (if existing_ctx \<noteq> None \<and> existing_ctx \<noteq> Some [] then dir_deprovision existing_ctx else io_return ())
       (io_seq (fs_makedirs fs (internal_path ld key))
         (io_seq
           (io_except (fs_chown fs (internal_path ld key) 1000 1000)
              (\<lambda>e. if e = OtherError ''PermissionError'' then Some (io_return ()) else None))
           (io_return \<lparr>pr_home_mount = external_path ld key, pr_home_ctx = external_path ld key\<rparr>)))"

definition dir_purge :: "'w file_system \<Rightarrow> local_dir \<Rightarrow> string \<Rightarrow> ('w, unit) io" where
  "dir_purge fs ld key = io_bind (fs_exists fs (internal_path ld key)) (\<lambda>there.
     if there then fs_rmtree fs (internal_path ld key) else io_return ())"

definition dir_get_status :: "'w file_system \<Rightarrow> local_dir \<Rightarrow> string \<Rightarrow> ('w, storage_status) io" where
  "dir_get_status fs ld key = io_bind (fs_isdir fs (internal_path ld key)) (\<lambda>there.
     io_return (if there
       then \<lparr>st_provisioned = True, st_home_ctx = Some (external_path ld key), st_home_mount = Some (external_path ld key)\<rparr>
       else \<lparr>st_provisioned = False, st_home_ctx = None, st_home_mount = None\<rparr>))"

definition local_dir_storage :: "'w file_system \<Rightarrow> local_dir \<Rightarrow> 'w old_storage" where
  "local_dir_storage fs ld =
     \<lparr>os_provision = dir_provision fs ld, os_deprovision = dir_deprovision, os_purge = dir_purge fs ld,
      os_get_status = dir_get_status fs ld\<rparr>"

section \<open>The local Docker engine (services/instance/local_docker.py)\<close>

text \<open>What the SDK answers: the status of a container, and NotFound as the exception it raises.\<close>

record run_options =
  ro_image :: string
  ro_command :: "string list"
  ro_name :: string
  ro_network :: string
  ro_volumes :: "(string \<times> string \<times> string) list"
  ro_user :: string
  ro_environment :: "(string \<times> string) list"

record 'w docker_sdk =
  ds_get :: "string \<Rightarrow> ('w, string) io"
  ds_start :: "string \<Rightarrow> ('w, unit) io"
  ds_stop :: "string \<Rightarrow> ('w, unit) io"
  ds_remove :: "string \<Rightarrow> ('w, unit) io"
  ds_run :: "run_options \<Rightarrow> ('w, unit) io"
  ds_network_get :: "string \<Rightarrow> ('w, unit) io"
  ds_network_create :: "string \<Rightarrow> ('w, unit) io"

definition NotFound :: exn where
  "NotFound = OtherError ''NotFound''"

record local_docker =
  lo_container_prefix :: string
  lo_network_name :: string

text \<open>\<open>x or DEFAULT\<close>\<close>

definition new_local_docker :: "string option \<Rightarrow> string option \<Rightarrow> local_docker" where
  "new_local_docker container_prefix net =
     \<lparr>lo_container_prefix = (case container_prefix of Some (c # cs) \<Rightarrow> c # cs | _ \<Rightarrow> ''codehub-ws-''),
      lo_network_name = (case net of Some (c # cs) \<Rightarrow> c # cs | _ \<Rightarrow> ''codehub-net'')\<rparr>"

definition old_container_name :: "local_docker \<Rightarrow> string \<Rightarrow> string" where
  "old_container_name lc wid = lo_container_prefix lc @ wid"

text \<open>The status of the container, or None.\<close>

definition get_container :: "'w docker_sdk \<Rightarrow> local_docker \<Rightarrow> string \<Rightarrow> ('w, string option) io" where
  "get_container ds lc wid =
     io_except (io_bind (ds_get ds (old_container_name lc wid)) (\<lambda>st. io_return (Some st)))
       (\<lambda>e. if e = NotFound then Some (io_return None) else None)"

definition ensure_network :: "'w docker_sdk \<Rightarrow> local_docker \<Rightarrow> ('w, unit) io" where
  "ensure_network ds lc =
     io_except (ds_network_get ds (lo_network_name lc))
       (\<lambda>e. if e = NotFound then Some (ds_network_create ds (lo_network_name lc)) else None)"

definition old_run_options :: "local_docker \<Rightarrow> string \<Rightarrow> string \<Rightarrow> string \<Rightarrow> run_options" where
  "old_run_options lc wid image_ref home_mount =
     \<lparr>ro_image = image_ref, ro_command = [''--auth'', ''none''], ro_name = old_container_name lc wid,
      ro_network = lo_network_name lc, ro_volumes = [(home_mount, ''/home/coder'', ''rw'')], ro_user = ''1000:1000'',
      ro_environment = [(''HOME'', ''/home/coder'')]\<rparr>"

definition docker_start :: "'w docker_sdk \<Rightarrow> local_docker \<Rightarrow> string \<Rightarrow> string \<Rightarrow> string \<Rightarrow> ('w, unit) io" where
  "docker_start ds lc wid image_ref home_mount =
     io_bind (get_container ds lc wid) (\<lambda>c.
       case c of
         Some st \<Rightarrow> if st \<noteq> ''running'' then ds_start ds (old_container_name lc wid) else io_return ()
       | None \<Rightarrow> io_seq (ensure_network ds lc) (ds_run ds (old_run_options lc wid image_ref home_mount)))"

definition docker_stop :: "'w docker_sdk \<Rightarrow> local_docker \<Rightarrow> string \<Rightarrow> ('w, unit) io" where
  "docker_stop ds lc wid =
     io_bind (get_container ds lc wid) (\<lambda>c.
       if c = Some ''running'' then ds_stop ds (old_container_name lc wid) else io_return ())"

definition docker_delete :: "'w docker_sdk \<Rightarrow> local_docker \<Rightarrow> string \<Rightarrow> ('w, unit) io" where
  "docker_delete ds lc wid =
     io_bind (get_container ds lc wid) (\<lambda>c.
       if c = None then io_return () else ds_remove ds (old_container_name lc wid))"

definition docker_resolve_upstream :: "'w docker_sdk \<Rightarrow> local_docker \<Rightarrow> string \<Rightarrow> ('w, upstream_v1) io" where
  "docker_resolve_upstream ds lc wid =
     io_bind (get_container ds lc wid) (\<lambda>c.
       if c = Some ''running'' then io_return \<lparr>up_host = old_container_name lc wid, up_port = 8080\<rparr>
       else io_raise (OtherError ''ValueError''))"

definition docker_get_status :: "'w docker_sdk \<Rightarrow> local_docker \<Rightarrow> string \<Rightarrow> ('w, instance_status) io" where
  "docker_get_status ds lc wid =
     io_bind (get_container ds lc wid) (\<lambda>c.
       io_return (case c of
         None \<Rightarrow> \<lparr>is_exists = False, is_running = False, is_healthy = False\<rparr>
       | Some st \<Rightarrow> \<lparr>is_exists = True, is_running = (st = ''running''), is_healthy = (st = ''running'')\<rparr>))"

definition local_docker_instance :: "'w docker_sdk \<Rightarrow> local_docker \<Rightarrow> 'w old_instance" where
  "local_docker_instance ds lc =
     \<lparr>oi_start_workspace = docker_start ds lc, oi_stop_workspace = docker_stop ds lc,
      oi_delete_workspace = docker_delete ds lc, oi_resolve_upstream = docker_resolve_upstream ds lc,
      oi_get_status = docker_get_status ds lc\<rparr>"

section \<open>What the pieces do\<close>

text \<open>The engine reports a container as healthy when it runs, whatever runs in it.\<close>

lemma healthy_is_running: "docker_get_status ds lc wid s = (Inr st, t) \<Longrightarrow> is_healthy st = is_running st \<and> (is_running st \<longrightarrow> is_exists st)"
  by (auto simp: docker_get_status_def io_bind_Inr_iff split: option.splits)

text \<open>Stopping and deleting what is not there does nothing.\<close>

lemma absent_container:
  assumes "ds_get ds (old_container_name lc wid) s = (Inl NotFound, t)"
  shows "docker_stop ds lc wid s = (Inr (), t)" "docker_delete ds lc wid s = (Inr (), t)"
    "docker_resolve_upstream ds lc wid s = (Inl (OtherError ''ValueError''), t)"
    "docker_get_status ds lc wid s = (Inr \<lparr>is_exists = False, is_running = False, is_healthy = False\<rparr>, t)"
  using assms
  by (simp_all add: docker_stop_def docker_delete_def docker_resolve_upstream_def docker_get_status_def get_container_def
      io_defs)

text \<open>The home of a workspace is mounted from the same directory at every start.\<close>

lemma provision_mount:
  "dir_provision fs ld key ctx s = (Inr r, t) \<Longrightarrow> pr_home_mount r = external_path ld key \<and> pr_home_ctx r = external_path ld key"
  by (auto simp: dir_provision_def io_seq_Inr_iff io_bind_Inr_iff split: if_splits)

end
