(* ===== verification/Legacy_Service.thy ===== *)
theory Legacy_Service
  imports Legacy
begin

text \<open>
  services/workspace_service.py and core/events.py of the retired backend: requests move the status of a
  workspace by a compare-and-set, and a background task carries the change out and writes the outcome.  A task
  has its own session, which ends with a rollback of what it did not commit.  Codes of errors the live backend
  does not have are named by their class; the order in which Python prints a set, in the message of
  InvalidStateError, is not modelled.
\<close>

section \<open>State and environment\<close>

record 'w old_app =
  oa_db :: "old_workspace list database"
  oa_world :: 'w

record 'w old_env =
  oe_storage :: "'w old_storage"
  oe_instance :: "'w old_instance"
  oe_publish :: "string \<Rightarrow> string \<Rightarrow> ('w, unit) io"
  oe_dumps :: "json \<Rightarrow> string"
  oe_isoformat :: "datetime \<Rightarrow> string"
  oe_now :: "'w \<Rightarrow> datetime"
  oe_sleep :: "real \<Rightarrow> ('w, unit) io"
  oe_health :: healthcheck_config
  oe_default_image :: string
  oe_home_backend :: string

definition on_old_db :: "(old_workspace list database, 'a) io \<Rightarrow> ('w old_app, 'a) io" where
  "on_old_db m = io_zoom oa_db (\<lambda>d s. s\<lparr>oa_db := d\<rparr>) m"

definition on_old_world :: "('w, 'a) io \<Rightarrow> ('w old_app, 'a) io" where
  "on_old_world m = io_zoom oa_world (\<lambda>w s. s\<lparr>oa_world := w\<rparr>) m"

definition InvalidStateError :: exn where
  "InvalidStateError = OtherError ''InvalidStateError''"

definition old_select :: "(old_workspace \<Rightarrow> bool) \<Rightarrow> old_workspace list \<Rightarrow> old_workspace option \<times> old_workspace list" where
  "old_select p rs = (sql_one_or_none p rs, rs)"

text \<open>UPDATE with its row count.\<close>

definition old_update ::
  "(old_workspace \<Rightarrow> bool) \<Rightarrow> (old_workspace \<Rightarrow> old_workspace) \<Rightarrow> old_workspace list \<Rightarrow> nat \<times> old_workspace list" where
  "old_update p f rs = (sql_count p rs, sql_update p f rs)"

text \<open>\<open>session.refresh\<close> of a row that is gone raises.\<close>

definition old_refresh :: "string \<Rightarrow> ('w old_app, old_workspace) io" where
  "old_refresh wid =
     io_bind (on_old_db (db_execute (old_select (\<lambda>w. ow_id w = wid)))) (\<lambda>r.
       case r of None \<Rightarrow> io_raise (OtherError ''InvalidRequestError'') | Some w \<Rightarrow> io_return w)"

section \<open>Notifications (core/events.py)\<close>

definition get_user_channel :: "string \<Rightarrow> string" where
  "get_user_channel uid = ''events:user:'' @ uid"

definition publish_workspace_event :: "'w old_env \<Rightarrow> string \<Rightarrow> string \<Rightarrow> json \<Rightarrow> ('w old_app, unit) io" where
  "publish_workspace_event env event_type owner data =
     (if owner = [] then io_return ()
      else io_try
        (on_old_world (oe_publish env (get_user_channel owner)
          (oe_dumps env (JObj [(''type'', JStr event_type), (''data'', data)]))))
        (\<lambda>_. io_return ()))"

fun old_status_value :: "workspace_status \<Rightarrow> string" where
  "old_status_value CREATED = ''CREATED''"
| "old_status_value PROVISIONING = ''PROVISIONING''"
| "old_status_value RUNNING = ''RUNNING''"
| "old_status_value STOPPING = ''STOPPING''"
| "old_status_value STOPPED = ''STOPPED''"
| "old_status_value DELETING = ''DELETING''"
| "old_status_value ERROR = ''ERROR''"
| "old_status_value DELETED = ''DELETED''"

definition opt_str :: "string option \<Rightarrow> json" where
  "opt_str x = (case x of None \<Rightarrow> JNull | Some s \<Rightarrow> JStr s)"

definition event_payload :: "(datetime \<Rightarrow> string) \<Rightarrow> old_workspace \<Rightarrow> json" where
  "event_payload fmt w = JObj
     [(''id'', JStr (ow_id w)), (''name'', JStr (ow_name w)), (''description'', opt_str (ow_description w)),
      (''memo'', opt_str (ow_memo w)), (''status'', JStr (old_status_value (ow_status w))),
      (''path'', JStr (''/w/'' @ ow_id w @ ''/'')), (''owner_user_id'', JStr (ow_owner_user_id w)),
      (''created_at'', JStr (fmt (ow_created_at w))), (''updated_at'', JStr (fmt (ow_updated_at w)))]"

definition notify_workspace_updated :: "'w old_env \<Rightarrow> old_workspace \<Rightarrow> ('w old_app, unit) io" where
  "notify_workspace_updated env w =
     publish_workspace_event env ''workspace_updated'' (ow_owner_user_id w) (event_payload (oe_isoformat env) w)"

definition notify_workspace_deleted :: "'w old_env \<Rightarrow> string \<Rightarrow> string \<Rightarrow> ('w old_app, unit) io" where
  "notify_workspace_deleted env wid owner =
     publish_workspace_event env ''workspace_deleted'' owner (JObj [(''id'', JStr wid), (''owner_user_id'', JStr owner)])"

section \<open>Requests\<close>

definition DELETABLE_STATES :: "workspace_status set" where
  "DELETABLE_STATES = {CREATED, STOPPED, ERROR}"

definition STARTABLE_STATES :: "workspace_status set" where
  "STARTABLE_STATES = {CREATED, STOPPED, ERROR}"

definition STOPPABLE_STATES :: "workspace_status set" where
  "STOPPABLE_STATES = {RUNNING, ERROR}"

definition set_status :: "datetime \<Rightarrow> workspace_status \<Rightarrow> old_workspace \<Rightarrow> old_workspace" where
  "set_status now st w = w\<lparr>ow_status := st, ow_updated_at := now\<rparr>"

definition cas_transition ::
  "'w old_env \<Rightarrow> string \<Rightarrow> workspace_status set \<Rightarrow> workspace_status \<Rightarrow> ('w old_app, old_workspace) io" where
  "cas_transition env wid from_states to_state = io_bind io_get (\<lambda>s.
     io_bind (on_old_db (db_execute (old_update (\<lambda>w. ow_id w = wid \<and> ow_status w \<in> from_states)
         (set_status (oe_now env (oa_world s)) to_state))))
       (\<lambda>n. if n = 0 then io_raise InvalidStateError
            else io_seq (on_old_db db_commit) (old_refresh wid)))"

definition build_home_store_key :: "string \<Rightarrow> string \<Rightarrow> string" where
  "build_home_store_key uid wid = ''users/'' @ uid @ ''/workspaces/'' @ wid @ ''/home''"

text \<open>The owner's rows that are not deleted, newest first.\<close>

definition old_owned :: "string \<Rightarrow> old_workspace \<Rightarrow> bool" where
  "old_owned uid w \<longleftrightarrow> ow_owner_user_id w = uid \<and> ow_deleted_at w = None"

definition old_list_workspaces :: "string \<Rightarrow> nat \<Rightarrow> nat \<Rightarrow> ('w old_app, old_workspace list \<times> nat) io" where
  "old_list_workspaces uid page per_page =
     io_bind (on_old_db (db_execute (\<lambda>rs. (sql_count (old_owned uid) rs, rs)))) (\<lambda>total.
       io_bind (on_old_db (db_execute (\<lambda>rs.
         (take per_page (drop ((page - 1) * per_page) (sort_key (\<lambda>w. - ow_created_at w) (sql_select (old_owned uid) rs))), rs))))
         (\<lambda>ws. io_return (ws, total)))"

definition old_create_workspace ::
  "'w old_env \<Rightarrow> string \<Rightarrow> string \<Rightarrow> string \<Rightarrow> string option \<Rightarrow> string option \<Rightarrow> ('w old_app, old_workspace) io" where
  "old_create_workspace env ulid uid name description memo = io_bind io_get (\<lambda>s.
     let now = oe_now env (oa_world s);
         w = \<lparr>ow_id = ulid, ow_owner_user_id = uid, ow_name = name, ow_description = description, ow_memo = memo,
              ow_status = CREATED, ow_image_ref = oe_default_image env, ow_instance_backend = ''local-docker'',
              ow_storage_backend = oe_home_backend env, ow_home_store_key = build_home_store_key uid ulid,
              ow_home_ctx = None, ow_created_at = now, ow_updated_at = now, ow_deleted_at = None\<rparr>
     in io_seq (on_old_db (db_execute (\<lambda>rs. ((), rs @ [w])))) (io_seq (on_old_db db_commit) (old_refresh ulid)))"

definition old_get_workspace :: "string \<Rightarrow> string \<Rightarrow> ('w old_app, old_workspace) io" where
  "old_get_workspace uid wid =
     io_bind (on_old_db (db_execute (old_select (\<lambda>w. ow_id w = wid \<and> old_owned uid w)))) (\<lambda>r.
       case r of None \<Rightarrow> io_raise WorkspaceNotFoundError | Some w \<Rightarrow> io_return w)"

definition old_update_columns :: "string option \<Rightarrow> string option \<Rightarrow> string option \<Rightarrow> old_workspace \<Rightarrow> old_workspace" where
  "old_update_columns name description memo w =
     (let w = (case name of None \<Rightarrow> w | Some v \<Rightarrow> w\<lparr>ow_name := v\<rparr>);
          w = (case description of None \<Rightarrow> w | Some v \<Rightarrow> w\<lparr>ow_description := Some v\<rparr>)
      in (case memo of None \<Rightarrow> w | Some v \<Rightarrow> w\<lparr>ow_memo := Some v\<rparr>))"

definition old_update_workspace ::
  "'w old_env \<Rightarrow> string \<Rightarrow> string \<Rightarrow> string option \<Rightarrow> string option \<Rightarrow> string option \<Rightarrow> ('w old_app, old_workspace) io" where
  "old_update_workspace env uid wid name description memo =
     io_bind (old_get_workspace uid wid) (\<lambda>w. io_bind io_get (\<lambda>s.
       if name = None \<and> description = None \<and> memo = None then io_return w
       else io_seq (on_old_db (db_execute (old_update (\<lambda>x. ow_id x = wid)
                (\<lambda>x. (old_update_columns name description memo x)\<lparr>ow_updated_at := oe_now env (oa_world s)\<rparr>))))
              (io_seq (on_old_db db_commit) (old_refresh wid))))"

text \<open>\<open>initiate_delete\<close>, \<open>initiate_start\<close> and \<open>initiate_stop\<close> differ in the states.\<close>

definition initiate ::
  "'w old_env \<Rightarrow> workspace_status set \<Rightarrow> workspace_status \<Rightarrow> string \<Rightarrow> string \<Rightarrow> ('w old_app, old_workspace) io" where
  "initiate env from_states to_state uid wid =
     io_bind (old_get_workspace uid wid) (\<lambda>w.
       if ow_status w \<notin> from_states then io_raise InvalidStateError
       else cas_transition env wid from_states to_state)"

definition initiate_delete :: "'w old_env \<Rightarrow> string \<Rightarrow> string \<Rightarrow> ('w old_app, old_workspace) io" where
  "initiate_delete env = initiate env DELETABLE_STATES DELETING"

definition initiate_start :: "'w old_env \<Rightarrow> string \<Rightarrow> string \<Rightarrow> ('w old_app, old_workspace) io" where
  "initiate_start env = initiate env STARTABLE_STATES PROVISIONING"

definition initiate_stop :: "'w old_env \<Rightarrow> string \<Rightarrow> string \<Rightarrow> ('w old_app, old_workspace) io" where
  "initiate_stop env = initiate env STOPPABLE_STATES STOPPING"

section \<open>Background tasks\<close>

text \<open>The end of \<open>_background_session\<close>: what was not committed is rolled back.\<close>

definition end_session :: "(exn + 'a) \<times> 'w old_app \<Rightarrow> (exn + 'a) \<times> 'w old_app" where
  "end_session = (\<lambda>(r, s). (r, s\<lparr>oa_db := db_rolled_back (oa_db s)\<rparr>))"

text \<open>Write columns and a status, commit, and tell the clients of the row as it is then.\<close>

definition write_row :: "string \<Rightarrow> (old_workspace \<Rightarrow> old_workspace) \<Rightarrow> ('w old_app, unit) io" where
  "write_row wid f =
     io_seq (on_old_db (db_execute (old_update (\<lambda>w. ow_id w = wid) f))) (on_old_db db_commit)"

definition tell_row :: "'w old_env \<Rightarrow> string \<Rightarrow> ('w old_app, unit) io" where
  "tell_row env wid =
     io_bind (on_old_db (db_execute (old_select (\<lambda>w. ow_id w = wid)))) (\<lambda>r.
       case r of None \<Rightarrow> io_return () | Some w \<Rightarrow> notify_workspace_updated env w)"

definition write_status :: "'w old_env \<Rightarrow> string \<Rightarrow> workspace_status \<Rightarrow> ('w old_app, unit) io" where
  "write_status env wid st = io_bind io_get (\<lambda>s.
     io_seq (write_row wid (set_status (oe_now env (oa_world s)) st)) (tell_row env wid))"

text \<open>\<open>except Exception\<close> of all three tasks\<close>

definition or_error :: "'w old_env \<Rightarrow> string \<Rightarrow> (exn + unit) \<times> 'w old_app \<Rightarrow> (exn + unit) \<times> 'w old_app" where
  "or_error env wid = (\<lambda>(r, s).
     case r of
       Inl e \<Rightarrow> if is_Exception e then write_status env wid ERROR s else (r, s)
     | Inr _ \<Rightarrow> (r, s))"

text \<open>Step 4 of a start: True when the container became healthy, False at the time-out.\<close>

fun poll_health :: "'w old_env \<Rightarrow> string \<Rightarrow> real \<Rightarrow> real \<Rightarrow> nat \<Rightarrow> real \<Rightarrow> 'w old_app \<Rightarrow> ((exn + bool) \<times> 'w old_app) option" where
  "poll_health env wid interval timeout 0 elapsed s = None"
| "poll_health env wid interval timeout (Suc n) elapsed s =
     (if \<not> elapsed < timeout then Some (Inr False, s)
      else case io_seq (on_old_world (oe_sleep env interval)) (on_old_world (oi_get_status (oe_instance env) wid)) s of
          (Inl e, t) \<Rightarrow> Some (Inl e, t)
        | (Inr st, t) \<Rightarrow>
            if is_running st \<and> is_healthy st then Some (Inr True, t)
            else poll_health env wid interval timeout n (elapsed + interval) t)"

definition start_steps :: "'w old_env \<Rightarrow> string \<Rightarrow> string \<Rightarrow> string option \<Rightarrow> string \<Rightarrow> ('w old_app, real \<times> real) io" where
  "start_steps env wid home_store_key existing_ctx image_ref =
     io_bind (on_old_world (os_provision (oe_storage env) home_store_key existing_ctx)) (\<lambda>pr.
       io_bind io_get (\<lambda>s.
         io_seq (write_row wid (\<lambda>w. w\<lparr>ow_home_ctx := Some (pr_home_ctx pr), ow_updated_at := oe_now env (oa_world s)\<rparr>))
           (io_seq (on_old_world (oi_start_workspace (oe_instance env) wid image_ref (pr_home_mount pr)))
             (io_bind (io_of (parse_duration (hc_interval (oe_health env)))) (\<lambda>interval.
               io_bind (io_of (parse_duration (hc_timeout (oe_health env)))) (\<lambda>timeout.
                 io_return (interval, timeout)))))))"

definition start_outcome :: "'w old_env \<Rightarrow> string \<Rightarrow> (exn + bool) \<times> 'w old_app \<Rightarrow> (exn + unit) \<times> 'w old_app" where
  "start_outcome env wid = (\<lambda>(r, s).
     case r of Inl e \<Rightarrow> (Inl e, s) | Inr healthy \<Rightarrow> write_status env wid (if healthy then RUNNING else ERROR) s)"

definition old_start_workspace ::
  "'w old_env \<Rightarrow> nat \<Rightarrow> string \<Rightarrow> string \<Rightarrow> string option \<Rightarrow> string \<Rightarrow> 'w old_app \<Rightarrow> ((exn + unit) \<times> 'w old_app) option" where
  "old_start_workspace env n wid home_store_key existing_ctx image_ref s =
     map_option (\<lambda>r. end_session (or_error env wid r))
       (case start_steps env wid home_store_key existing_ctx image_ref s of
          (Inl e, t) \<Rightarrow> Some (Inl e, t)
        | (Inr (interval, timeout), t) \<Rightarrow> map_option (start_outcome env wid) (poll_health env wid interval timeout n 0 t))"

definition stop_steps :: "'w old_env \<Rightarrow> string \<Rightarrow> string option \<Rightarrow> ('w old_app, unit) io" where
  "stop_steps env wid home_ctx =
     io_seq (on_old_world (oi_stop_workspace (oe_instance env) wid))
       (io_seq (on_old_world (os_deprovision (oe_storage env) home_ctx))
         (io_bind io_get (\<lambda>s.
           io_seq (write_row wid (\<lambda>w. (set_status (oe_now env (oa_world s)) STOPPED w)\<lparr>ow_home_ctx := None\<rparr>))
             (tell_row env wid))))"

definition old_stop_workspace :: "'w old_env \<Rightarrow> string \<Rightarrow> string option \<Rightarrow> ('w old_app, unit) io" where
  "old_stop_workspace env wid home_ctx = (\<lambda>s. end_session (or_error env wid (stop_steps env wid home_ctx s)))"

definition delete_steps :: "'w old_env \<Rightarrow> string \<Rightarrow> string option \<Rightarrow> string \<Rightarrow> ('w old_app, unit) io" where
  "delete_steps env wid home_ctx owner =
     io_seq (on_old_world (oi_delete_workspace (oe_instance env) wid))
       (io_seq (if home_ctx \<noteq> None \<and> home_ctx \<noteq> Some []
                then on_old_world (os_deprovision (oe_storage env) home_ctx) else io_return ())
         (io_bind io_get (\<lambda>s.
           let now = oe_now env (oa_world s) in
           io_seq (write_row wid (\<lambda>w. (set_status now DELETED w)\<lparr>ow_home_ctx := None, ow_deleted_at := Some now\<rparr>))
             (notify_workspace_deleted env wid owner))))"

definition old_delete_workspace :: "'w old_env \<Rightarrow> string \<Rightarrow> string option \<Rightarrow> string \<Rightarrow> ('w old_app, unit) io" where
  "old_delete_workspace env wid home_ctx owner =
     (\<lambda>s. end_session (or_error env wid (delete_steps env wid home_ctx owner s)))"

section \<open>Requests follow the documented transitions\<close>

lemma on_old_db_Inr:
  "on_old_db m s = (r, t) \<longleftrightarrow> (\<exists>d. m (oa_db s) = (r, d) \<and> t = s\<lparr>oa_db := d\<rparr>)"
  by (auto simp: on_old_db_def io_zoom_def split: prod.splits)

lemma on_old_world_Inr:
  "on_old_world m s = (r, t) \<longleftrightarrow> (\<exists>w. m (oa_world s) = (r, w) \<and> t = s\<lparr>oa_world := w\<rparr>)"
  by (auto simp: on_old_world_def io_zoom_def split: prod.splits)

text \<open>A compare-and-set that returned found the row in one of the states, wrote it, and committed.\<close>

lemma cas_changed:
  assumes "cas_transition env wid from_states to_state s = (Inr w, t)"
  shows "\<exists>r \<in> set (db_tables (oa_db s)). ow_id r = wid \<and> ow_status r \<in> from_states"
    and "db_committed (oa_db t) = sql_update (\<lambda>r. ow_id r = wid \<and> ow_status r \<in> from_states)
      (set_status (oe_now env (oa_world s)) to_state) (db_tables (oa_db s))"
proof -
  let ?p = "\<lambda>r. ow_id r = wid \<and> ow_status r \<in> from_states" and ?f = "set_status (oe_now env (oa_world s)) to_state"
  obtain n d1 u d2 where steps: "db_execute (old_update ?p ?f) (oa_db s) = (Inr n, d1)" "n \<noteq> 0"
      "db_commit d1 = (Inr u, d2)" "old_refresh wid (s\<lparr>oa_db := d2\<rparr>) = (Inr w, t)"
    using assms
    by (auto simp: cas_transition_def io_bind_Inr_iff io_seq_Inr_iff on_old_db_Inr io_get_def split: if_splits)
  obtain d3 where d3: "db_execute (old_select (\<lambda>w. ow_id w = wid)) d2 = (Inr (Some w), d3)" "t = s\<lparr>oa_db := d3\<rparr>"
    using steps(4) by (auto simp: old_refresh_def io_bind_Inr_iff on_old_db_Inr split: option.splits)
  note e = db_execute_Inr [OF steps(1)]
  show "\<exists>r \<in> set (db_tables (oa_db s)). ?p r"
    using e steps(2) by (auto simp: old_update_def sql_count_def filter_empty_conv)
  show "db_committed (oa_db t) = sql_update ?p ?f (db_tables (oa_db s))"
    using e db_commit_Inr [OF steps(3)] db_execute_Inr [OF d3(1)] d3(2) by (simp add: old_update_def)
qed

text \<open>A request changes the status of rows by documented transitions only, but for a deletion or a start
  of a workspace that was never started.\<close>

lemma requests_documented:
  "st \<in> STARTABLE_STATES \<Longrightarrow> PROVISIONING \<in> documented st"
  "st \<in> STOPPABLE_STATES \<Longrightarrow> STOPPING \<in> documented st"
  "st \<in> DELETABLE_STATES \<Longrightarrow> st \<noteq> CREATED \<Longrightarrow> DELETING \<in> documented st"
  "DELETING \<notin> documented CREATED"
  by (auto simp: STARTABLE_STATES_def STOPPABLE_STATES_def DELETABLE_STATES_def)

text \<open>Two requests cannot both win: after one of them the row is in none of the states the others need.\<close>

lemma no_second_request:
  "PROVISIONING \<notin> STARTABLE_STATES \<union> STOPPABLE_STATES \<union> DELETABLE_STATES"
  "STOPPING \<notin> STARTABLE_STATES \<union> STOPPABLE_STATES \<union> DELETABLE_STATES"
  "DELETING \<notin> STARTABLE_STATES \<union> STOPPABLE_STATES \<union> DELETABLE_STATES"
  by (simp_all add: STARTABLE_STATES_def STOPPABLE_STATES_def DELETABLE_STATES_def)

section \<open>What a task leaves\<close>

text \<open>On a connection that works: everything is committed, the other rows are those of \<open>d0\<close>, and the row has
  one of the states.\<close>

definition settled ::
  "string \<Rightarrow> old_workspace list \<Rightarrow> workspace_status set \<Rightarrow> 'w old_app \<Rightarrow> bool" where
  "settled wid rs0 sts s \<longleftrightarrow>
     db_ok (oa_db s) \<and> db_committed (oa_db s) = db_tables (oa_db s) \<and>
     filter (\<lambda>w. ow_id w \<noteq> wid) (db_tables (oa_db s)) = filter (\<lambda>w. ow_id w \<noteq> wid) rs0 \<and>
     (\<forall>w \<in> set (db_tables (oa_db s)). ow_id w = wid \<longrightarrow> ow_status w \<in> sts)"

lemma settled_mono: "settled wid rs0 sts s \<Longrightarrow> sts \<subseteq> sts' \<Longrightarrow> settled wid rs0 sts' s"
  by (auto simp: settled_def)

lemma keeps_settled_world [keeps_rules]: "keeps (settled wid rs0 sts) (on_old_world m)"
  by (rule keepsI) (auto simp: settled_def on_old_world_Inr)

lemma keeps_settled_select [keeps_rules]: "keeps (settled wid rs0 sts) (on_old_db (db_execute (old_select p)))"
  by (rule keepsI) (auto simp: settled_def on_old_db_Inr db_execute_ok old_select_def)

lemma keeps_settled_tell [keeps_rules]: "keeps (settled wid rs0 sts) (tell_row env i)"
  unfolding tell_row_def notify_workspace_updated_def publish_workspace_event_def
  by (intro keeps_rules) (auto split: option.split intro!: keeps_rules)

lemma keeps_settled_deleted [keeps_rules]: "keeps (settled wid rs0 sts) (notify_workspace_deleted env i owner)"
  unfolding notify_workspace_deleted_def publish_workspace_event_def by (intro keeps_rules)

lemma filter_others: "(\<And>w. ow_id (f w) = ow_id w) \<Longrightarrow>
  filter (\<lambda>w. ow_id w \<noteq> wid) (sql_update (\<lambda>w. ow_id w = wid) f rs) = filter (\<lambda>w. ow_id w \<noteq> wid) rs"
  by (induction rs) (auto simp: sql_update_def)

lemma write_row_ok:
  assumes "db_ok (oa_db s)"
  shows "write_row wid f s = (Inr (), s\<lparr>oa_db := (oa_db s)\<lparr>db_tables := sql_update (\<lambda>w. ow_id w = wid) f (db_tables (oa_db s)),
    db_committed := sql_update (\<lambda>w. ow_id w = wid) f (db_tables (oa_db s))\<rparr>\<rparr>)"
  using assms
  by (simp add: write_row_def io_seq_def io_bind_def on_old_db_def io_zoom_def db_execute_ok db_commit_ok old_update_def)

lemma write_settles:
  assumes "settled wid rs0 sts s" "\<And>w. ow_id (f w) = ow_id w \<and> ow_status (f w) \<in> sts'"
  shows "\<exists>t. write_row wid f s = (Inr (), t) \<and> settled wid rs0 sts' t"
proof -
  have ok: "db_ok (oa_db s)" using assms(1) by (simp add: settled_def)
  show ?thesis using assms by (auto simp: write_row_ok [OF ok] settled_def filter_others set_sql_update)
qed

lemma status_settles:
  assumes "settled wid rs0 sts s" "write_status env wid st s = (r, t)"
  shows "settled wid rs0 {st} t"
proof -
  obtain u where u: "write_row wid (set_status (oe_now env (oa_world s)) st) s = (Inr (), u)" "settled wid rs0 {st} u"
    using write_settles [OF assms(1), of "set_status (oe_now env (oa_world s)) st" "{st}"] by (auto simp: set_status_def)
  then show ?thesis
    using assms(2) keepsD [OF keeps_settled_tell u(2)] by (auto simp: write_status_def io_bind_def io_get_def io_seq_def)
qed

lemma error_settles:
  assumes "settled wid rs0 sts s" "or_error env wid (r, s) = (Inr (), t)"
  shows "settled wid rs0 (insert ERROR (if r = Inr () then sts else {})) t"
  using assms status_settles [OF assms(1), of env ERROR]
  by (cases r) (auto simp: or_error_def split: if_splits intro: settled_mono)

lemma end_settles: "settled wid rs0 sts s \<Longrightarrow> settled wid rs0 sts (snd (end_session (r, s)))"
  by (simp add: end_session_def settled_def db_rolled_back_def db_ok_def)

text \<open>The shape of a task: calls of the platform, the write of the outcome, the notification.\<close>

lemma task_settles:
  assumes s: "settled wid rs0 sts s" and k: "keeps (settled wid rs0 sts) calls" "keeps (settled wid rs0 {st}) tell"
    and f: "\<And>s w. ow_id (f s w) = ow_id w \<and> ow_status (f s w) = st"
    and run: "end_session (or_error env wid (io_seq calls (io_bind io_get (\<lambda>s. io_seq (write_row wid (f s)) tell)) s)) = (Inr (), t)"
  shows "settled wid rs0 {st, ERROR} t"
proof -
  let ?rest = "io_bind io_get (\<lambda>s. io_seq (write_row wid (f s)) tell)"
  obtain r u where steps: "io_seq calls ?rest s = (r, u)" by (meson surj_pair)
  obtain x v where calls: "calls s = (x, v)" by (meson surj_pair)
  have v: "settled wid rs0 sts v" by (rule keepsD [OF k(1) s calls])
  obtain q where q: "write_row wid (f v) v = (Inr (), q)" "settled wid rs0 {st} q"
    using write_settles [OF v, of "f v" "{st}"] f by auto
  have "\<exists>sts'. settled wid rs0 sts' u \<and> (r = Inr () \<longrightarrow> sts' = {st})"
  proof (cases x)
    case (Inl e)
    then show ?thesis using steps calls v by (auto simp: io_seq_def io_bind_def)
  next
    case (Inr y)
    then have "tell q = (r, u)" using steps calls q(1) by (auto simp: io_seq_def io_bind_def io_get_def)
    then show ?thesis using keepsD [OF k(2) q(2)] by blast
  qed
  then obtain sts' where s': "settled wid rs0 sts' u" "r = Inr () \<longrightarrow> sts' = {st}" by blast
  obtain t' where t': "or_error env wid (r, u) = (Inr (), t')" "t = snd (end_session (Inr () :: exn + unit, t'))"
    using run steps by (cases "or_error env wid (r, u)") (auto simp: end_session_def)
  have "settled wid rs0 {st, ERROR} t'"
    by (rule settled_mono [OF error_settles [OF s'(1) t'(1)]]) (use s'(2) in auto)
  then show ?thesis using end_settles t'(2) by simp
qed

lemma io_seq_assoc: "io_seq (io_seq a b) c = io_seq a (io_seq b c)"
  by (auto simp: fun_eq_iff io_seq_def io_bind_def split: prod.split sum.split)

text \<open>A stop ends as STOPPED or ERROR, a deletion as DELETED or ERROR, a start as RUNNING or ERROR, and
  no other row changes; all of these are documented transitions.\<close>

lemma stop_settles:
  assumes "settled wid rs0 sts s" "old_stop_workspace env wid ctx s = (Inr (), t)"
  shows "settled wid rs0 {STOPPED, ERROR} t"
proof (rule task_settles [OF assms(1)])
  show "keeps (settled wid rs0 sts)
      (io_seq (on_old_world (oi_stop_workspace (oe_instance env) wid)) (on_old_world (os_deprovision (oe_storage env) ctx)))"
    by (intro keeps_rules)
  show "end_session (or_error env wid (io_seq
      (io_seq (on_old_world (oi_stop_workspace (oe_instance env) wid)) (on_old_world (os_deprovision (oe_storage env) ctx)))
      (io_bind io_get (\<lambda>s. io_seq (write_row wid (\<lambda>w. (set_status (oe_now env (oa_world s)) STOPPED w)\<lparr>ow_home_ctx := None\<rparr>))
        (tell_row env wid))) s)) = (Inr (), t)"
    using assms(2) by (simp add: old_stop_workspace_def stop_steps_def io_seq_assoc)
qed (intro keeps_rules, simp add: set_status_def)

lemma delete_settles:
  assumes "settled wid rs0 sts s" "old_delete_workspace env wid ctx owner s = (Inr (), t)"
  shows "settled wid rs0 {DELETED, ERROR} t"
proof (rule task_settles [OF assms(1)])
  let ?calls = "io_seq (on_old_world (oi_delete_workspace (oe_instance env) wid))
    (if ctx \<noteq> None \<and> ctx \<noteq> Some [] then on_old_world (os_deprovision (oe_storage env) ctx) else io_return ())"
  show "keeps (settled wid rs0 sts) ?calls" by (intro keeps_rules)
  show "end_session (or_error env wid (io_seq ?calls (io_bind io_get (\<lambda>s. io_seq
      (write_row wid (\<lambda>w. (set_status (oe_now env (oa_world s)) DELETED w)
        \<lparr>ow_home_ctx := None, ow_deleted_at := Some (oe_now env (oa_world s))\<rparr>))
      (notify_workspace_deleted env wid owner))) s)) = (Inr (), t)"
    using assms(2) by (simp add: old_delete_workspace_def delete_steps_def io_seq_assoc Let_def)
qed (intro keeps_rules, simp add: set_status_def)

lemma write_keeps [keeps_rules]:
  assumes "\<And>w. ow_id (f w) = ow_id w \<and> ow_status (f w) = ow_status w"
  shows "keeps (settled wid rs0 sts) (write_row wid f)"
proof (rule keepsI)
  fix s r t
  assume s: "settled wid rs0 sts s" and run: "write_row wid f s = (r, t)"
  then have "t = s\<lparr>oa_db := (oa_db s)\<lparr>db_tables := sql_update (\<lambda>w. ow_id w = wid) f (db_tables (oa_db s)),
      db_committed := sql_update (\<lambda>w. ow_id w = wid) f (db_tables (oa_db s))\<rparr>\<rparr>"
    using write_row_ok [of s wid f] by (simp add: settled_def)
  moreover have ids: "\<And>w. ow_id (f w) = ow_id w" and sts: "\<And>w. ow_status (f w) = ow_status w"
    using assms by blast+
  have "ow_status x \<in> sts"
    if "x \<in> set (sql_update (\<lambda>w. ow_id w = wid) f (db_tables (oa_db s)))" "ow_id x = wid" for x
  proof -
    obtain w where "w \<in> set (db_tables (oa_db s))" "x = w \<or> x = f w"
      using \<open>x \<in> _\<close> by (auto simp: sql_update_def split: if_splits)
    then show ?thesis using s \<open>ow_id x = wid\<close> ids [of w] sts [of w] unfolding settled_def by metis
  qed
  ultimately show "settled wid rs0 sts t"
    using s filter_others [OF ids, of wid] unfolding settled_def by (simp add: db_ok_def)
qed

lemma start_steps_keep: "keeps (settled wid rs0 sts) (start_steps env wid key ctx img)"
  unfolding start_steps_def by (intro keeps_rules write_keeps) simp

lemma poll_keeps:
  "settled wid rs0 sts s \<Longrightarrow> poll_health env wid i tmo n el s = Some (r, t) \<Longrightarrow> settled wid rs0 sts t"
proof (induction n arbitrary: el s)
  case (Suc n)
  let ?step = "io_seq (on_old_world (oe_sleep env i)) (on_old_world (oi_get_status (oe_instance env) wid))"
  obtain x u where x: "?step s = (x, u)" by (meson surj_pair)
  have "keeps (settled wid rs0 sts) ?step" by (intro keeps_rules)
  from keepsD [OF this Suc.prems(1) x] have "settled wid rs0 sts u" .
  then show ?case using Suc x by (auto split: if_splits sum.splits)
qed simp

lemma start_settles:
  assumes "settled wid rs0 sts s" "old_start_workspace env n wid key ctx img s = Some (Inr (), t)"
  shows "settled wid rs0 {RUNNING, ERROR} t"
proof -
  obtain x u where steps: "start_steps env wid key ctx img s = (x, u)" by (meson surj_pair)
  have u: "settled wid rs0 sts u" by (rule keepsD [OF start_steps_keep assms(1) steps])
  obtain r v where v: "end_session (or_error env wid (r, v)) = (Inr (), t)"
      "\<exists>sts'. settled wid rs0 sts' v \<and> (r = Inr () \<longrightarrow> sts' \<subseteq> {RUNNING, ERROR})"
  proof (cases x)
    case (Inl e)
    then show ?thesis using that [of "Inl e" u] assms(2) steps u by (auto simp: old_start_workspace_def)
  next
    case (Inr y)
    obtain y1 y2 where y: "y = (y1, y2)" by (cases y)
    obtain p q where p: "poll_health env wid y1 y2 n 0 u = Some (p, q)"
        "end_session (or_error env wid (start_outcome env wid (p, q))) = (Inr (), t)"
      using assms(2) steps Inr y by (auto simp: old_start_workspace_def)
    have q: "settled wid rs0 sts q" by (rule poll_keeps [OF u p(1)])
    obtain r v where r: "start_outcome env wid (p, q) = (r, v)" by (meson surj_pair)
    have "\<exists>sts'. settled wid rs0 sts' v \<and> (r = Inr () \<longrightarrow> sts' \<subseteq> {RUNNING, ERROR})"
    proof (cases p)
      case (Inl e)
      then show ?thesis using r q by (auto simp: start_outcome_def)
    next
      case (Inr b)
      then show ?thesis
        using r status_settles [OF q, of env "if b then RUNNING else ERROR"] by (cases b) (auto simp: start_outcome_def)
    qed
    then show ?thesis using that [of r v] p(2) r by auto
  qed
  obtain t' where t': "or_error env wid (r, v) = (Inr (), t')" "t = snd (end_session (Inr () :: exn + unit, t'))"
    using v(1) by (cases "or_error env wid (r, v)") (auto simp: end_session_def)
  from v(2) obtain sts' where "settled wid rs0 sts' v" "r = Inr () \<longrightarrow> sts' \<subseteq> {RUNNING, ERROR}" by blast
  then have "settled wid rs0 (insert ERROR (if r = Inr () then sts' else {})) t'" "r = Inr () \<longrightarrow> sts' \<subseteq> {RUNNING, ERROR}"
    using error_settles [OF _ t'(1)] by blast+
  then have "settled wid rs0 {RUNNING, ERROR} t'" by (elim settled_mono) auto
  then show ?thesis using end_settles t'(2) by simp
qed

section \<open>Waiting for health\<close>

text \<open>With a positive interval the loop ends: after \<open>timeout / interval\<close> rounds the time is up.\<close>

lemma poll_ends:
  "timeout \<le> el + of_nat n * interval \<Longrightarrow> poll_health env wid interval timeout (Suc n) el s \<noteq> None"
proof (induction n arbitrary: el s)
  case (Suc n)
  have "timeout \<le> el + interval + of_nat n * interval" using Suc.prems by (simp add: algebra_simps)
  then show ?case using Suc.IH by (simp split: prod.split sum.split)
qed (simp split: prod.split)

lemma start_returns:
  assumes "\<And>k. number_and_unit [''ms'', ''s'', ''m''] (hc_interval (oe_health env)) = Some k \<Longrightarrow> fst k \<noteq> 0"
  shows "\<exists>n. old_start_workspace env n wid key ctx img s \<noteq> None"
proof -
  obtain x u where steps: "start_steps env wid key ctx img s = (x, u)" by (meson surj_pair)
  show ?thesis
  proof (cases x)
    case (Inl e)
    then show ?thesis using steps by (simp add: old_start_workspace_def)
  next
    case (Inr p)
    then obtain i tmo where p: "x = Inr (i, tmo)" by (cases p) simp
    have "parse_duration (hc_interval (oe_health env)) = Inr i"
      using steps p by (auto simp: start_steps_def io_bind_Inr_iff io_seq_Inr_iff io_return_def)
    then have "0 < i"
      using assms
      by (fastforce simp: parse_duration_def Let_def split: option.splits if_splits prod.splits)
    then obtain n where "tmo \<le> of_nat n * i"
      using reals_Archimedean3 [of i] by (metis less_imp_le)
    then have "poll_health env wid i tmo (Suc n) 0 u \<noteq> None" by (intro poll_ends) simp
    then have "old_start_workspace env (Suc n) wid key ctx img s \<noteq> None"
      using steps p by (simp add: old_start_workspace_def del: poll_health.simps)
    then show ?thesis by blast
  qed
qed

text \<open>With an interval of zero, which the settings accept, the time never runs: a container that does not
  become healthy is polled for ever.\<close>

lemma zero_interval_polls_forever:
  assumes "0 < timeout" "\<And>w. \<exists>t. oe_sleep env 0 w = (Inr (), t)"
    "\<And>w. \<exists>st t. oi_get_status (oe_instance env) wid w = (Inr st, t) \<and> \<not> is_running st"
  shows "poll_health env wid 0 timeout n 0 s = None"
proof (induction n arbitrary: s)
  case (Suc n)
  obtain t where t: "oe_sleep env 0 (oa_world s) = (Inr (), t)" using assms(2) by blast
  obtain st u where u: "oi_get_status (oe_instance env) wid t = (Inr st, u)" "\<not> is_running st" using assms(3) by blast
  show ?case using Suc assms(1) t u by (simp add: io_seq_def io_bind_def on_old_world_def io_zoom_def)
qed simp

section \<open>A task whose database fails\<close>

text \<open>The handler of a task writes ERROR in the same transaction: when the write of the outcome fails, the
  transaction is aborted, the handler fails too, and the row keeps its transitional status until the next
  recovery.\<close>

lemma failed_stop_stays:
  assumes "oi_stop_workspace (oe_instance env) wid (oa_world s) = (Inr (), w1)"
    and "os_deprovision (oe_storage env) ctx w1 = (Inr (), w2)"
    and "db_faults (oa_db s) = [Some e]" "is_Exception e"
  shows "\<exists>t. old_stop_workspace env wid ctx s = (Inl (OtherError ''InFailedSqlTransaction''), t) \<and>
    db_tables (oa_db t) = db_committed (oa_db s)"
  using assms
  by (simp add: old_stop_workspace_def stop_steps_def write_row_def write_status_def or_error_def end_session_def
      io_seq_def io_bind_def on_old_db_def on_old_world_def io_zoom_def db_execute_def db_rolled_back_def io_get_def)

end
