(* ===== verification/Legacy_Recovery.thy ===== *)
theory Legacy_Recovery
  imports Legacy_Service
begin

text \<open>
  services/recovery.py and scripts/recovery.py of the retired backend: before the workers start, every workspace
  in a transitional state gets the status that its instance calls for, and a running workspace without a
  container becomes an error.  The theorem compares the pass with the table of its documentation.
\<close>

section \<open>The pass\<close>

definition TRANSITIONAL_STATES :: "workspace_status set" where
  "TRANSITIONAL_STATES = {PROVISIONING, STOPPING, DELETING}"

text \<open>New status, whether \<open>home_ctx\<close> is cleared, whether \<open>deleted_at\<close> is set.\<close>

definition recovery_outcome :: "workspace_status \<Rightarrow> instance_status \<Rightarrow> (workspace_status \<times> bool \<times> bool) option" where
  "recovery_outcome st i =
     (case st of
        PROVISIONING \<Rightarrow> Some (if is_running i \<and> is_healthy i then (RUNNING, False, False) else (ERROR, False, False))
      | STOPPING \<Rightarrow> Some (if \<not> is_running i then (STOPPED, True, False) else (RUNNING, False, False))
      | DELETING \<Rightarrow> Some (if \<not> is_exists i then (DELETED, True, True) else (ERROR, False, False))
      | _ \<Rightarrow> None)"

definition recovery_values :: "datetime \<Rightarrow> workspace_status \<Rightarrow> bool \<Rightarrow> bool \<Rightarrow> old_workspace \<Rightarrow> old_workspace" where
  "recovery_values now st clear_home_ctx set_deleted_at w =
     (let w = set_status now st w;
          w = (if clear_home_ctx then w\<lparr>ow_home_ctx := None\<rparr> else w)
      in (if set_deleted_at then w\<lparr>ow_deleted_at := Some now\<rparr> else w))"

text \<open>A home that is cleared is released first, whatever comes of it.\<close>

definition release_home :: "'w old_env \<Rightarrow> bool \<Rightarrow> string option \<Rightarrow> ('w old_app, unit) io" where
  "release_home env clear ctx =
     (if clear \<and> ctx \<noteq> None \<and> ctx \<noteq> Some []
      then io_try (on_old_world (os_deprovision (oe_storage env) ctx)) (\<lambda>_. io_return ())
      else io_return ())"

definition recover_workspace :: "'w old_env \<Rightarrow> old_workspace \<Rightarrow> ('w old_app, bool) io" where
  "recover_workspace env ws =
     io_bind (on_old_world (oi_get_status (oe_instance env) (ow_id ws))) (\<lambda>i.
       case recovery_outcome (ow_status ws) i of
         None \<Rightarrow> io_return False
       | Some (st, clear, del) \<Rightarrow>
           io_seq
             (release_home env clear (ow_home_ctx ws))
             (io_bind io_get (\<lambda>s.
               io_seq (write_row (ow_id ws) (recovery_values (oe_now env (oa_world s)) st clear del)) (io_return True))))"

definition count_true :: "bool list \<Rightarrow> nat" where
  "count_true bs = length (filter id bs)"

definition recover_transitional_workspaces :: "'w old_env \<Rightarrow> ('w old_app, nat) io" where
  "recover_transitional_workspaces env =
     io_bind (on_old_db (db_execute (\<lambda>rs. (sql_select (\<lambda>w. ow_status w \<in> TRANSITIONAL_STATES) rs, rs)))) (\<lambda>stuck.
       io_bind (io_mapM (\<lambda>ws. io_try (recover_workspace env ws) (\<lambda>_. io_return False)) stuck) (\<lambda>bs.
         io_return (count_true bs)))"

definition verify_running :: "'w old_env \<Rightarrow> datetime \<Rightarrow> old_workspace \<Rightarrow> ('w old_app, bool) io" where
  "verify_running env now ws =
     io_bind (on_old_world (oi_get_status (oe_instance env) (ow_id ws))) (\<lambda>i.
       if \<not> is_exists i \<or> \<not> is_running i
       then io_seq (write_row (ow_id ws) (set_status now ERROR)) (io_return True)
       else io_return False)"

definition verify_running_workspaces :: "'w old_env \<Rightarrow> ('w old_app, nat) io" where
  "verify_running_workspaces env =
     io_bind (on_old_db (db_execute (\<lambda>rs.
         (sql_select (\<lambda>w. ow_status w = RUNNING \<and> ow_deleted_at w = None) rs, rs)))) (\<lambda>running.
       io_bind io_get (\<lambda>s.
         io_bind (io_mapM (\<lambda>ws. io_try (verify_running env (oe_now env (oa_world s)) ws) (\<lambda>_. io_return False)) running) (\<lambda>bs.
           io_return (count_true bs))))"

definition startup_recovery :: "'w old_env \<Rightarrow> ('w old_app, nat) io" where
  "startup_recovery env =
     io_bind (recover_transitional_workspaces env) (\<lambda>m.
       io_bind (verify_running_workspaces env) (\<lambda>n. io_return (m + n)))"

text \<open>The script: the exit code is 0 when the pass returned.\<close>

definition recovery_main :: "'w old_env \<Rightarrow> ('w old_app, int) io" where
  "recovery_main env = (\<lambda>s. end_session (io_bind (startup_recovery env) (\<lambda>_. io_return 0) s))"

section \<open>Updates of the rows one after the other\<close>

text \<open>What the theorem looks at in a row.\<close>

type_synonym row_view = "string \<times> workspace_status \<times> bool"

definition view :: "old_workspace \<Rightarrow> row_view" where
  "view w = (ow_id w, ow_status w, ow_deleted_at w = None)"

definition on_row :: "string \<Rightarrow> (row_view \<Rightarrow> row_view) \<Rightarrow> row_view list \<Rightarrow> row_view list" where
  "on_row k g vs = map (\<lambda>v. if fst v = k then g v else v) vs"

lemma on_rows:
  assumes "distinct (map ow_id xs)" "\<And>x v. fst (g x v) = fst v"
  shows "fold (\<lambda>x. on_row (ow_id x) (g x)) xs vs =
    map (\<lambda>v. case List.find (\<lambda>x. ow_id x = fst v) xs of None \<Rightarrow> v | Some x \<Rightarrow> g x v) vs"
  using assms(1)
proof (induction xs arbitrary: vs)
  case (Cons x xs)
  have "List.find (\<lambda>y. ow_id y = ow_id x) xs = None"
    using Cons.prems by (simp add: find_None_iff) (metis image_eqI)
  then show ?case using Cons assms(2) by (auto simp: on_row_def)
qed simp

lemma find_filter_key:
  assumes "distinct (map ow_id rs)" "w \<in> set rs"
  shows "List.find (\<lambda>x. ow_id x = ow_id w) (filter p rs) = (if p w then Some w else None)"
  using assms by (induction rs) (auto simp: find_None_iff image_iff)

text \<open>The rows a pass changes are those it selected.\<close>

lemma selected_rows:
  assumes "distinct (map ow_id rs)" "\<And>x v. fst (g x v) = fst v"
  shows "fold (\<lambda>x. on_row (ow_id x) (g x)) (filter p rs) (map view rs) =
    map (\<lambda>w. if p w then g w (view w) else view w) rs"
proof -
  have "distinct (map ow_id (filter p rs))" using assms(1) by (simp add: distinct_map_filter)
  then show ?thesis
    using assms find_filter_key [OF assms(1), of _ p] by (auto simp: on_rows view_def)
qed

section \<open>The documented table\<close>

fun recovery_matrix :: "workspace_status \<Rightarrow> instance_status \<Rightarrow> bool \<Rightarrow> workspace_status" where
  "recovery_matrix PROVISIONING i _ = (if is_running i \<and> is_healthy i then RUNNING else ERROR)"
| "recovery_matrix STOPPING i _ = (if is_running i then RUNNING else STOPPED)"
| "recovery_matrix DELETING i _ = (if is_exists i then ERROR else DELETED)"
| "recovery_matrix RUNNING i live = (if live \<and> \<not> (is_exists i \<and> is_running i) then ERROR else RUNNING)"
| "recovery_matrix st _ _ = st"

text \<open>The platform answers with the state \<open>look\<close> of every instance; releasing a home may fail.\<close>

definition answers :: "'w old_env \<Rightarrow> (string \<Rightarrow> instance_status) \<Rightarrow> bool" where
  "answers env look \<longleftrightarrow>
     (\<forall>i w. \<exists>t. oi_get_status (oe_instance env) i w = (Inr (look i), t)) \<and>
     (\<forall>c w e t. os_deprovision (oe_storage env) c w = (Inl e, t) \<longrightarrow> is_Exception e)"

definition calm_db :: "'w old_app \<Rightarrow> bool" where
  "calm_db s \<longleftrightarrow> db_ok (oa_db s) \<and> db_committed (oa_db s) = db_tables (oa_db s)"

definition views :: "'w old_app \<Rightarrow> row_view list" where
  "views s = map view (db_tables (oa_db s))"

lemma views_world [simp]: "views (s\<lparr>oa_world := w\<rparr>) = views s" "calm_db (s\<lparr>oa_world := w\<rparr>) = calm_db s"
  by (simp_all add: views_def calm_db_def)

lemma write_row_views:
  assumes "calm_db s" "\<And>w. view (f w) = g (view w)"
  shows "\<exists>t. write_row wid f s = (Inr (), t) \<and> calm_db t \<and> views t = on_row wid g (views s)"
  using assms write_row_ok [of s wid f]
  by (auto simp: calm_db_def views_def on_row_def sql_update_def) (simp_all add: view_def)

text \<open>A loop over rows, each of whose rounds changes the row it is about.\<close>

lemma rounds_views:
  assumes "\<And>x s. calm_db s \<Longrightarrow> \<exists>b t. f x s = (Inr b, t) \<and> calm_db t \<and> views t = on_row (ow_id x) (g x) (views s)"
    and "calm_db s"
  shows "\<exists>bs t. io_mapM f xs s = (Inr bs, t) \<and> calm_db t \<and> views t = fold (\<lambda>x. on_row (ow_id x) (g x)) xs (views s)"
  using assms
proof (induction xs arbitrary: s)
  case (Cons x xs)
  obtain b u where u: "f x s = (Inr b, u)" "calm_db u" "views u = on_row (ow_id x) (g x) (views s)"
    using Cons.prems by meson
  obtain bs t where t: "io_mapM f xs u = (Inr bs, t)" "calm_db t"
      "views t = fold (\<lambda>x. on_row (ow_id x) (g x)) xs (views u)"
    using Cons.IH [OF Cons.prems(1) u(2)] by auto
  then show ?case using u by (simp add: io_bind_def io_return_def)
qed (simp add: io_return_def)

definition recovered :: "(string \<Rightarrow> instance_status) \<Rightarrow> old_workspace \<Rightarrow> row_view \<Rightarrow> row_view" where
  "recovered look x v =
     (case recovery_outcome (ow_status x) (look (ow_id x)) of
        None \<Rightarrow> v
      | Some (st, _, del) \<Rightarrow> (fst v, st, snd (snd v) \<and> \<not> del))"

definition verified :: "(string \<Rightarrow> instance_status) \<Rightarrow> old_workspace \<Rightarrow> row_view \<Rightarrow> row_view" where
  "verified look x v =
     (if \<not> is_exists (look (ow_id x)) \<or> \<not> is_running (look (ow_id x)) then (fst v, ERROR, snd (snd v)) else v)"

lemma view_recovery_values:
  "view (recovery_values now st clear del w) = (fst (view w), st, snd (snd (view w)) \<and> \<not> del)"
  by (simp add: view_def recovery_values_def set_status_def Let_def)

lemma get_status_step:
  assumes "answers env look"
  shows "\<exists>w. on_old_world (oi_get_status (oe_instance env) i) s = (Inr (look i), s\<lparr>oa_world := w\<rparr>)"
  using assms unfolding answers_def by (metis on_old_world_Inr)

lemma release_step:
  assumes "answers env look"
  shows "\<exists>w. release_home env clear c s = (Inr (), s\<lparr>oa_world := w\<rparr>)"
proof -
  obtain r w where r: "os_deprovision (oe_storage env) c (oa_world s) = (r, w)" by (meson surj_pair)
  moreover have "is_Exception e" if "r = Inl e" for e
    using assms r that unfolding answers_def by blast
  moreover have "\<exists>w. s = s\<lparr>oa_world := w\<rparr>" by (rule exI [of _ "oa_world s"]) simp
  ultimately show ?thesis
    by (cases r) (auto simp: release_home_def io_try_def on_old_world_def io_zoom_def io_return_def)
qed

lemma recover_round:
  assumes "answers env look" "calm_db s"
  shows "\<exists>b t. io_try (recover_workspace env x) (\<lambda>_. io_return False) s = (Inr b, t) \<and> calm_db t \<and>
    views t = on_row (ow_id x) (recovered look x) (views s)"
proof -
  obtain w where w: "on_old_world (oi_get_status (oe_instance env) (ow_id x)) s = (Inr (look (ow_id x)), s\<lparr>oa_world := w\<rparr>)"
    using get_status_step [OF assms(1)] by blast
  show ?thesis
  proof (cases "recovery_outcome (ow_status x) (look (ow_id x))")
    case None
    then have "recovered look x = (\<lambda>v. v)" by (simp add: recovered_def fun_eq_iff)
    then show ?thesis using None w assms(2)
      by (auto simp: recover_workspace_def io_try_def io_bind_def io_return_def on_row_def)
  next
    case (Some p)
    obtain st clear del where p: "p = (st, clear, del)" by (cases p)
    obtain v where v: "release_home env clear (ow_home_ctx x) (s\<lparr>oa_world := w\<rparr>) = (Inr (), s\<lparr>oa_world := v\<rparr>)"
      using release_step [OF assms(1), of clear "ow_home_ctx x" "s\<lparr>oa_world := w\<rparr>"] by auto
    obtain t where t: "write_row (ow_id x) (recovery_values (oe_now env v) st clear del) (s\<lparr>oa_world := v\<rparr>) = (Inr (), t)"
        "calm_db t" "views t = on_row (ow_id x) (recovered look x) (views s)"
      using write_row_views [of "s\<lparr>oa_world := v\<rparr>" "recovery_values (oe_now env v) st clear del" "recovered look x" "ow_id x"]
        assms(2) Some p by (auto simp: recovered_def view_recovery_values)
    then show ?thesis using w v Some p
      by (auto simp: recover_workspace_def io_try_def io_bind_def io_seq_def io_get_def io_return_def)
  qed
qed

lemma verify_round:
  assumes "answers env look" "calm_db s"
  shows "\<exists>b t. io_try (verify_running env now x) (\<lambda>_. io_return False) s = (Inr b, t) \<and> calm_db t \<and>
    views t = on_row (ow_id x) (verified look x) (views s)"
proof -
  obtain w where w: "on_old_world (oi_get_status (oe_instance env) (ow_id x)) s = (Inr (look (ow_id x)), s\<lparr>oa_world := w\<rparr>)"
    using get_status_step [OF assms(1)] by blast
  have same: "verified look x = (\<lambda>v. v)" if "is_exists (look (ow_id x))" "is_running (look (ow_id x))"
    using that by (simp add: verified_def fun_eq_iff)
  obtain t where t: "write_row (ow_id x) (set_status now ERROR) (s\<lparr>oa_world := w\<rparr>) = (Inr (), t)" "calm_db t"
      "views t = on_row (ow_id x) (\<lambda>v. (fst v, ERROR, snd (snd v))) (views s)"
    using write_row_views [of "s\<lparr>oa_world := w\<rparr>" "set_status now ERROR" "\<lambda>v. (fst v, ERROR, snd (snd v))" "ow_id x"]
      assms(2) by (auto simp: view_def set_status_def)
  show ?thesis
    using w t assms(2) same
    by (cases "is_exists (look (ow_id x)) \<and> is_running (look (ow_id x))")
       (auto simp: verify_running_def io_try_def io_bind_def io_seq_def io_return_def on_row_def verified_def)
qed

section \<open>The pass follows the table\<close>

lemma startup_recovery_views:
  assumes "answers env look" "calm_db s" "distinct (map ow_id (db_tables (oa_db s)))"
  shows "\<exists>n t. startup_recovery env s = (Inr n, t) \<and> calm_db t \<and>
    views t = map (\<lambda>w. let v = (if ow_status w \<in> TRANSITIONAL_STATES then recovered look w (view w) else view w) in
      if fst (snd v) = RUNNING \<and> snd (snd v) \<and> \<not> (is_exists (look (ow_id w)) \<and> is_running (look (ow_id w)))
      then (fst v, ERROR, snd (snd v)) else v) (db_tables (oa_db s))"
proof -
  let ?rs = "db_tables (oa_db s)"
  let ?one = "\<lambda>w. if ow_status w \<in> TRANSITIONAL_STATES then recovered look w (view w) else view w"
  have fsts: "fst (recovered look x v) = fst v" "fst (verified look x v) = fst v" for x v
    by (simp_all add: recovered_def verified_def split: option.split prod.split)
  obtain bs u where u: "io_mapM (\<lambda>ws. io_try (recover_workspace env ws) (\<lambda>_. io_return False))
      (filter (\<lambda>w. ow_status w \<in> TRANSITIONAL_STATES) ?rs) s = (Inr bs, u)" "calm_db u" "views u = map ?one ?rs"
    using rounds_views [OF recover_round [OF assms(1)] assms(2), of "filter (\<lambda>w. ow_status w \<in> TRANSITIONAL_STATES) ?rs"]
      selected_rows [OF assms(3), of "recovered look"] fsts(1) by (auto simp: views_def)
  then have one: "recover_transitional_workspaces env s = (Inr (count_true bs), u)"
    using assms(2)
    by (simp add: recover_transitional_workspaces_def io_bind_def io_return_def on_old_db_def io_zoom_def calm_db_def
        db_execute_ok sql_select_def)
  let ?run = "\<lambda>w. ow_status w = RUNNING \<and> ow_deleted_at w = None"
  have "distinct (map ow_id (db_tables (oa_db u)))"
  proof -
    have "map fst (views u) = map ow_id ?rs" using u(3) fsts by (simp add: view_def)
    then have "map ow_id (db_tables (oa_db u)) = map ow_id ?rs" by (simp add: views_def view_def comp_def)
    then show ?thesis using assms(3) by simp
  qed
  then obtain cs t where t: "io_mapM (\<lambda>ws. io_try (verify_running env (oe_now env (oa_world u)) ws) (\<lambda>_. io_return False))
      (filter ?run (db_tables (oa_db u))) u = (Inr cs, t)" "calm_db t"
      "views t = map (\<lambda>w. if ?run w then verified look w (view w) else view w) (db_tables (oa_db u))"
    using rounds_views [OF verify_round [OF assms(1), where now = "oe_now env (oa_world u)"] u(2), of "filter ?run (db_tables (oa_db u))"]
      selected_rows [of "db_tables (oa_db u)" "verified look"] fsts(2) by (auto simp: views_def)
  have "verify_running_workspaces env u = (Inr (count_true cs), t)"
    using u(2) t(1)
    by (simp add: verify_running_workspaces_def io_bind_def io_return_def io_get_def on_old_db_def io_zoom_def calm_db_def
        db_execute_ok sql_select_def)
  moreover have "views t = map (\<lambda>v. if fst (snd v) = RUNNING \<and> snd (snd v) \<and>
      \<not> (is_exists (look (fst v)) \<and> is_running (look (fst v))) then (fst v, ERROR, snd (snd v)) else v) (views u)"
    unfolding t(3) by (auto simp: views_def view_def verified_def)
  ultimately show ?thesis using one t(2) u(3) fsts
    by (auto simp: startup_recovery_def io_bind_def io_return_def Let_def view_def)
qed

text \<open>On a database and an engine that answer, recovery leaves every row in the status that the documented
  table gives for it, and so no row in a transitional state.\<close>

lemma recovery_follows_matrix:
  assumes "answers env look" "calm_db s" "distinct (map ow_id (db_tables (oa_db s)))"
    and "\<And>i. is_running (look i) \<Longrightarrow> is_exists (look i)"
  shows "\<exists>n t. startup_recovery env s = (Inr n, t) \<and> map ow_status (db_committed (oa_db t)) =
    map (\<lambda>w. recovery_matrix (ow_status w) (look (ow_id w)) (ow_deleted_at w = None)) (db_tables (oa_db s))"
proof -
  obtain n t where t: "startup_recovery env s = (Inr n, t)" "calm_db t"
      "views t = map (\<lambda>w. let v = (if ow_status w \<in> TRANSITIONAL_STATES then recovered look w (view w) else view w) in
        if fst (snd v) = RUNNING \<and> snd (snd v) \<and> \<not> (is_exists (look (ow_id w)) \<and> is_running (look (ow_id w)))
        then (fst v, ERROR, snd (snd v)) else v) (db_tables (oa_db s))"
    using startup_recovery_views [OF assms(1-3)] by blast
  have "map ow_status (db_committed (oa_db t)) = map (\<lambda>v. fst (snd v)) (views t)"
    using t(2) by (simp add: calm_db_def views_def view_def comp_def)
  also have "\<dots> = map (\<lambda>w. recovery_matrix (ow_status w) (look (ow_id w)) (ow_deleted_at w = None)) (db_tables (oa_db s))"
    unfolding t(3) map_map
  proof (rule map_cong [OF refl])
    fix w
    show "((\<lambda>v. fst (snd v)) \<circ> (\<lambda>w. let v = (if ow_status w \<in> TRANSITIONAL_STATES then recovered look w (view w) else view w) in
        if fst (snd v) = RUNNING \<and> snd (snd v) \<and> \<not> (is_exists (look (ow_id w)) \<and> is_running (look (ow_id w)))
        then (fst v, ERROR, snd (snd v)) else v)) w =
      recovery_matrix (ow_status w) (look (ow_id w)) (ow_deleted_at w = None)"
      using assms(4) [of "ow_id w"]
      by (cases "ow_status w") (simp_all add: Let_def TRANSITIONAL_STATES_def recovered_def recovery_outcome_def view_def)
  qed
  finally show ?thesis using t(1) by blast
qed

lemma recovery_unsticks: "recovery_matrix st i live \<notin> TRANSITIONAL_STATES"
  by (cases st) (simp_all add: TRANSITIONAL_STATES_def)

text \<open>The local engine keeps the assumption on \<open>look\<close>: a running container exists.  A stop that recovery
  takes back is not among the documented transitions.\<close>

lemma stop_taken_back: "is_running i \<Longrightarrow> recovery_matrix STOPPING i live = RUNNING \<and> RUNNING \<notin> documented STOPPING"
  by simp

end
