(* ===== verification/Legacy_Api.thy ===== *)
theory Legacy_Api
  imports Legacy_Service
begin

text \<open>
  api/v1/workspaces.py, api/v1/events.py and schemas of the retired backend: the endpoints over the service with
  the background task that each starts, the pages of a list, and the stream of events of a user.  The user is
  the one the session was resolved to; FastAPI checks the schemas before an endpoint runs.
\<close>

section \<open>Schemas\<close>

record old_create =
  cw_name :: string
  cw_description :: "string option"
  cw_memo :: "string option"

definition valid_title :: "string \<Rightarrow> bool" where
  "valid_title n \<longleftrightarrow> 1 \<le> length n \<and> length n \<le> 255"

definition valid_description :: "string option \<Rightarrow> bool" where
  "valid_description d \<longleftrightarrow> (case d of None \<Rightarrow> True | Some x \<Rightarrow> length x \<le> 1000)"

definition valid_old_create :: "old_create \<Rightarrow> bool" where
  "valid_old_create b \<longleftrightarrow> valid_title (cw_name b) \<and> valid_description (cw_description b)"

text \<open>A field of a PATCH is absent (None), null (\<open>Some None\<close>) or a string.\<close>

record old_update_body =
  uw_name :: "string option option"
  uw_description :: "string option option"
  uw_memo :: "string option option"

definition sent :: "string option option \<Rightarrow> string option" where
  "sent x = (case x of None \<Rightarrow> None | Some v \<Rightarrow> v)"

definition valid_old_update :: "old_update_body \<Rightarrow> bool" where
  "valid_old_update b \<longleftrightarrow>
     (case sent (uw_name b) of None \<Rightarrow> True | Some n \<Rightarrow> valid_title n) \<and> valid_description (sent (uw_description b))"

record old_response =
  rs_id :: string
  rs_name :: string
  rs_description :: "string option"
  rs_memo :: "string option"
  rs_status :: workspace_status
  rs_path :: string
  rs_created_at :: datetime
  rs_updated_at :: datetime

definition workspace_path :: "string \<Rightarrow> string" where
  "workspace_path wid = ''/w/'' @ wid @ ''/''"

definition workspace_to_response :: "old_workspace \<Rightarrow> old_response" where
  "workspace_to_response w =
     \<lparr>rs_id = ow_id w, rs_name = ow_name w, rs_description = ow_description w, rs_memo = ow_memo w,
      rs_status = ow_status w, rs_path = workspace_path (ow_id w), rs_created_at = ow_created_at w,
      rs_updated_at = ow_updated_at w\<rparr>"

record pagination_meta =
  pm_page :: nat
  pm_per_page :: nat
  pm_total :: nat
  pm_total_pages :: nat
  pm_has_next :: bool
  pm_has_prev :: bool

definition pagination :: "nat \<Rightarrow> nat \<Rightarrow> nat \<Rightarrow> pagination_meta" where
  "pagination page per_page n =
     (let total_pages = (if n > 0 then nat \<lceil>real n / real per_page\<rceil> else 0) in
      \<lparr>pm_page = page, pm_per_page = per_page, pm_total = n, pm_total_pages = total_pages,
       pm_has_next = (page < total_pages), pm_has_prev = (page > 1)\<rparr>)"

section \<open>Endpoints\<close>

text \<open>What an endpoint leaves to run after its response: \<open>background_tasks.add_task(..)\<close>.\<close>

datatype old_task =
    StartTask string string "string option" string
  | StopTask string "string option"
  | DeleteTask string "string option" string

definition api_old_list :: "string \<Rightarrow> nat \<Rightarrow> nat \<Rightarrow> ('w old_app, old_response list \<times> pagination_meta) io" where
  "api_old_list uid page per_page =
     io_bind (old_list_workspaces uid page per_page) (\<lambda>(ws, n).
       io_return (map workspace_to_response ws, pagination page per_page n))"

definition api_old_create :: "'w old_env \<Rightarrow> string \<Rightarrow> string \<Rightarrow> old_create \<Rightarrow> ('w old_app, old_response) io" where
  "api_old_create env ulid uid b =
     io_bind (old_create_workspace env ulid uid (cw_name b) (cw_description b) (cw_memo b)) (\<lambda>w.
       io_seq (notify_workspace_updated env w) (io_return (workspace_to_response w)))"

definition api_old_get :: "string \<Rightarrow> string \<Rightarrow> ('w old_app, old_response) io" where
  "api_old_get uid wid = io_bind (old_get_workspace uid wid) (\<lambda>w. io_return (workspace_to_response w))"

definition api_old_update :: "'w old_env \<Rightarrow> string \<Rightarrow> string \<Rightarrow> old_update_body \<Rightarrow> ('w old_app, old_response) io" where
  "api_old_update env uid wid b =
     io_bind (old_update_workspace env uid wid (sent (uw_name b)) (sent (uw_description b)) (sent (uw_memo b))) (\<lambda>w.
       io_seq (notify_workspace_updated env w) (io_return (workspace_to_response w)))"

definition api_old_delete :: "'w old_env \<Rightarrow> string \<Rightarrow> string \<Rightarrow> ('w old_app, int \<times> old_task) io" where
  "api_old_delete env uid wid =
     io_bind (initiate_delete env uid wid) (\<lambda>w.
       io_seq (notify_workspace_updated env w) (io_return (204, DeleteTask wid (ow_home_ctx w) uid)))"

definition api_old_start :: "'w old_env \<Rightarrow> string \<Rightarrow> string \<Rightarrow> ('w old_app, (string \<times> workspace_status) \<times> old_task) io" where
  "api_old_start env uid wid =
     io_bind (initiate_start env uid wid) (\<lambda>w.
       io_seq (notify_workspace_updated env w)
         (io_return ((wid, PROVISIONING), StartTask wid (ow_home_store_key w) (ow_home_ctx w) (ow_image_ref w))))"

definition api_old_stop :: "'w old_env \<Rightarrow> string \<Rightarrow> string \<Rightarrow> ('w old_app, (string \<times> workspace_status) \<times> old_task) io" where
  "api_old_stop env uid wid =
     io_bind (initiate_stop env uid wid) (\<lambda>w.
       io_seq (notify_workspace_updated env w) (io_return ((wid, STOPPING), StopTask wid (ow_home_ctx w))))"

text \<open>The task, with fuel for the wait of a start.\<close>

definition run_task :: "'w old_env \<Rightarrow> nat \<Rightarrow> old_task \<Rightarrow> 'w old_app \<Rightarrow> ((exn + unit) \<times> 'w old_app) option" where
  "run_task env n task s =
     (case task of
        StartTask wid key ctx img \<Rightarrow> old_start_workspace env n wid key ctx img s
      | StopTask wid ctx \<Rightarrow> Some (old_stop_workspace env wid ctx s)
      | DeleteTask wid ctx owner \<Rightarrow> Some (old_delete_workspace env wid ctx owner s))"

section \<open>From the request to the end of its task\<close>

lemma others_kept:
  "(\<And>w. p w \<Longrightarrow> ow_id w = wid) \<Longrightarrow> (\<And>w. ow_id (f w) = ow_id w) \<Longrightarrow>
   filter (\<lambda>w. ow_id w \<noteq> wid) (sql_update p f rs) = filter (\<lambda>w. ow_id w \<noteq> wid) rs"
  by (induction rs) (auto simp: sql_update_def)

lemma cas_settles [keeps_rules]: "keeps (settled wid rs0 UNIV) (cas_transition env wid from_states to_state)"
proof (rule keepsI)
  fix s :: "'a old_app" and r t
  let ?p = "\<lambda>r. ow_id r = wid \<and> ow_status r \<in> from_states" and ?f = "set_status (oe_now env (oa_world s)) to_state"
  assume s: "settled wid rs0 UNIV s" and run: "cas_transition env wid from_states to_state s = (r, t)"
  have ok: "db_ok (oa_db s)" "db_committed (oa_db s) = db_tables (oa_db s)" using s by (simp_all add: settled_def)
  show "settled wid rs0 UNIV t"
  proof (cases "sql_count ?p (db_tables (oa_db s)) = 0")
    case True
    have "db_execute (old_update ?p ?f) (oa_db s) = (Inr 0, oa_db s)"
      by (simp add: db_execute_ok [OF ok(1)] old_update_def True sql_update_none [OF True])
    then have "t = s" using run
      by (simp add: cas_transition_def io_bind_def io_get_def on_old_db_def io_zoom_def io_raise_def)
    then show ?thesis using s by simp
  next
    case False
    let ?rows = "sql_update ?p ?f (db_tables (oa_db s))"
    let ?u = "s\<lparr>oa_db := (oa_db s)\<lparr>db_tables := ?rows, db_committed := ?rows\<rparr>\<rparr>"
    have "filter (\<lambda>w. ow_id w \<noteq> wid) ?rows = filter (\<lambda>w. ow_id w \<noteq> wid) (db_tables (oa_db s))"
      by (rule others_kept) (simp_all add: set_status_def)
    then have u: "settled wid rs0 UNIV ?u" using s by (simp add: settled_def db_ok_def)
    have "db_execute (old_update ?p ?f) (oa_db s) =
        (Inr (sql_count ?p (db_tables (oa_db s))), (oa_db s)\<lparr>db_tables := ?rows\<rparr>)"
      by (simp add: db_execute_ok [OF ok(1)] old_update_def)
    moreover have "db_commit ((oa_db s)\<lparr>db_tables := ?rows\<rparr>) = (Inr (), oa_db ?u)"
      by (simp add: db_commit_ok ok(1))
    ultimately have refresh: "old_refresh wid ?u = (r, t)" using run False
      by (simp add: cas_transition_def io_bind_def io_seq_def io_get_def on_old_db_def io_zoom_def)
    have k: "keeps (settled wid rs0 UNIV) (old_refresh wid)"
      unfolding old_refresh_def by (intro keeps_rules) (auto split: option.split intro!: keeps_rules)
    show ?thesis by (rule keepsD [OF k u refresh])
  qed
qed

lemma get_settles [keeps_rules]: "keeps (settled wid rs0 sts) (old_get_workspace uid wid)"
  unfolding old_get_workspace_def by (intro keeps_rules) (auto split: option.split intro!: keeps_rules)

lemma notify_settles [keeps_rules]: "keeps (settled wid rs0 sts) (notify_workspace_updated env w)"
  unfolding notify_workspace_updated_def publish_workspace_event_def by (intro keeps_rules)

lemma initiate_settles [keeps_rules]: "keeps (settled wid rs0 UNIV) (initiate env from_states to_state uid wid)"
  unfolding initiate_def by (intro keeps_rules)

text \<open>On a database that works: whatever the platform answers, a request to start, stop or delete that was
  accepted ends, with its task, in the wanted status or in ERROR, and leaves the other rows as they were.\<close>

theorem accepted_requests_end:
  fixes s :: "'w old_app"
  assumes s: "db_ok (oa_db s)" "db_committed (oa_db s) = db_tables (oa_db s)"
  shows "api_old_start env uid wid s = (Inr (r, task), t) \<Longrightarrow> run_task env n task t = Some (Inr (), u) \<Longrightarrow>
      settled wid (db_tables (oa_db s)) {RUNNING, ERROR} u"
    and "api_old_stop env uid wid s = (Inr (r, task), t) \<Longrightarrow> run_task env n task t = Some (Inr (), u) \<Longrightarrow>
      settled wid (db_tables (oa_db s)) {STOPPED, ERROR} u"
    and "api_old_delete env uid wid s = (Inr (k, task), t) \<Longrightarrow> run_task env n task t = Some (Inr (), u) \<Longrightarrow>
      settled wid (db_tables (oa_db s)) {DELETED, ERROR} u"
proof -
  have s0: "settled wid (db_tables (oa_db s)) UNIV s" using s by (simp add: settled_def)
  have k: "keeps (settled wid (db_tables (oa_db s)) UNIV) (api_old_start env uid wid)"
    "keeps (settled wid (db_tables (oa_db s)) UNIV) (api_old_stop env uid wid)"
    "keeps (settled wid (db_tables (oa_db s)) UNIV) (api_old_delete env uid wid)"
    unfolding api_old_start_def api_old_stop_def api_old_delete_def initiate_start_def initiate_stop_def initiate_delete_def
    by (intro keeps_rules)+
  show "settled wid (db_tables (oa_db s)) {RUNNING, ERROR} u"
    if run: "api_old_start env uid wid s = (Inr (r, task), t)" "run_task env n task t = Some (Inr (), u)"
    using start_settles [OF keepsD [OF k(1) s0 run(1)]] run
    by (auto simp: api_old_start_def io_bind_Inr_iff io_seq_Inr_iff io_return_def run_task_def)
  show "settled wid (db_tables (oa_db s)) {STOPPED, ERROR} u"
    if run: "api_old_stop env uid wid s = (Inr (r, task), t)" "run_task env n task t = Some (Inr (), u)"
    using stop_settles [OF keepsD [OF k(2) s0 run(1)]] run
    by (auto simp: api_old_stop_def io_bind_Inr_iff io_seq_Inr_iff io_return_def run_task_def)
  show "settled wid (db_tables (oa_db s)) {DELETED, ERROR} u"
    if run: "api_old_delete env uid wid s = (Inr (k, task), t)" "run_task env n task t = Some (Inr (), u)"
    using delete_settles [OF keepsD [OF k(3) s0 run(1)]] run
    by (auto simp: api_old_delete_def io_bind_Inr_iff io_seq_Inr_iff io_return_def run_task_def)
qed

text \<open>An explicit null is taken for an absent field: a description cannot be cleared.\<close>

lemma null_is_absent: "sent (Some None) = sent None"
  by (simp add: sent_def)

text \<open>There is a next page when there are rows after this one.\<close>

lemma next_page_iff:
  assumes "0 < per_page"
  shows "pm_has_next (pagination page per_page n) \<longleftrightarrow> page * per_page < n"
proof (cases "n = 0")
  case False
  have "page < nat \<lceil>real n / real per_page\<rceil> \<longleftrightarrow> real page < real n / real per_page"
    by (metis ceiling_of_nat less_ceiling_iff of_nat_ceiling zless_nat_conj zless_nat_eq_int_zless of_int_of_nat_eq)
  also have "\<dots> \<longleftrightarrow> page * per_page < n"
    using assms by (simp add: pos_less_divide_eq flip: of_nat_mult)
  finally show ?thesis using False by (simp add: pagination_def)
qed (simp add: pagination_def)

section \<open>The stream of events (api/v1/events.py)\<close>

record 'w event_env =
  ee_subscribe :: "string \<Rightarrow> ('w, unit) io"
  ee_unsubscribe :: "string \<Rightarrow> ('w, unit) io"
  ee_aclose :: "('w, unit) io"
  ee_disconnected :: "('w, bool) io"
  ee_get_message :: "real \<Rightarrow> ('w, (string \<times> string) option) io"
  ee_loads :: "string \<Rightarrow> exn + json"
  ee_dumps :: "json \<Rightarrow> string"
  ee_str :: "json \<Rightarrow> string"

text \<open>What was yielded, and the world.\<close>

record 'w event_stream =
  ev_out :: "string list"
  ev_world :: 'w

definition on_ev :: "('w, 'a) io \<Rightarrow> ('w event_stream, 'a) io" where
  "on_ev m = io_zoom ev_world (\<lambda>w s. s\<lparr>ev_world := w\<rparr>) m"

definition emit :: "string \<Rightarrow> ('w event_stream, unit) io" where
  "emit e = (\<lambda>s. (Inr (), s\<lparr>ev_out := ev_out s @ [e]\<rparr>))"

definition plain_event :: "string \<Rightarrow> string" where
  "plain_event name = ''event: '' @ name @ [CHR 0x0A] @ ''data: {}'' @ [CHR 0x0A, CHR 0x0A]"

text \<open>\<open>d[k]\<close> of a decoded value.\<close>

definition json_item :: "json \<Rightarrow> string \<Rightarrow> exn + json" where
  "json_item j k =
     (case j of
        JObj d \<Rightarrow> (case map_of d k of None \<Rightarrow> Inl (OtherError ''KeyError'') | Some v \<Rightarrow> Inr v)
      | _ \<Rightarrow> Inl (OtherError ''TypeError''))"

definition event_line :: "'w event_env \<Rightarrow> string \<Rightarrow> exn + string" where
  "event_line env data =
     ex_bind (ee_loads env data) (\<lambda>event.
       ex_bind (json_item event ''type'') (\<lambda>event_type.
         ex_bind (json_item event ''data'') (\<lambda>workspace_data.
           case workspace_data of
             JObj d \<Rightarrow> Inr (''event: '' @ ee_str env event_type @ [CHR 0x0A] @ ''data: ''
               @ ee_dumps env (JObj (filter (\<lambda>(k, v). k \<noteq> ''owner_user_id'') d)) @ [CHR 0x0A, CHR 0x0A])
           | _ \<Rightarrow> Inl (OtherError ''AttributeError''))))"

definition malformed :: "exn \<Rightarrow> bool" where
  "malformed e \<longleftrightarrow> e \<in> {OtherError ''JSONDecodeError'', OtherError ''KeyError'', OtherError ''TypeError''}"

definition forward_message :: "'w event_env \<Rightarrow> (string \<times> string) option \<Rightarrow> ('w event_stream, unit) io" where
  "forward_message env m =
     (case m of
        Some (ty, data) \<Rightarrow>
          if ty = ''message'' then
            io_except (io_bind (io_of (event_line env data)) emit)
              (\<lambda>e. if malformed e then Some (io_return ()) else None)
          else io_return ()
      | None \<Rightarrow> io_return ())"

text \<open>One pass of the loop; False is the \<open>break\<close>.\<close>

definition old_stream_pass :: "'w event_env \<Rightarrow> ('w event_stream, bool) io" where
  "old_stream_pass env =
     io_bind (on_ev (ee_disconnected env)) (\<lambda>gone.
       if gone then io_return False
       else io_except
         (io_bind (on_ev (io_wait_for (ee_get_message env 1))) (\<lambda>m. io_seq (forward_message env m) (io_return True)))
         (\<lambda>e. if e = TimeoutError then Some (io_seq (emit (plain_event ''heartbeat'')) (io_return True)) else None))"

fun old_stream_loop :: "'w event_env \<Rightarrow> nat \<Rightarrow> 'w event_stream \<Rightarrow> ((exn + unit) \<times> 'w event_stream) option" where
  "old_stream_loop env 0 s = None"
| "old_stream_loop env (Suc n) s =
     (case old_stream_pass env s of
        (Inl e, t) \<Rightarrow> Some (Inl e, t)
      | (Inr False, t) \<Rightarrow> Some (Inr (), t)
      | (Inr True, t) \<Rightarrow> old_stream_loop env n t)"

definition old_event_generator :: "'w event_env \<Rightarrow> nat \<Rightarrow> string \<Rightarrow> 'w \<Rightarrow> ((exn + unit) \<times> 'w event_stream) option" where
  "old_event_generator env n uid w =
     (let chan = get_user_channel uid in
      map_option
        (\<lambda>(r, s). io_finally (\<lambda>t. (r, t)) (io_seq (on_ev (ee_unsubscribe env chan)) (on_ev (ee_aclose env))) s)
        (case on_ev (ee_subscribe env chan) \<lparr>ev_out = [], ev_world = w\<rparr> of
           (Inl e, t) \<Rightarrow> Some (Inl e, t)
         | (Inr _, t) \<Rightarrow> old_stream_loop env n (snd (emit (plain_event ''connected'') t))))"

text \<open>What the service publishes reaches the browser without its owner.\<close>

lemma published_is_shown:
  assumes "ee_loads ev (oe_dumps env (JObj [(''type'', JStr ty), (''data'', event_payload fmt w)])) =
    Inr (JObj [(''type'', JStr ty), (''data'', event_payload fmt w)])"
    and "ee_str ev (JStr ty) = ty"
  shows "event_line ev (oe_dumps env (JObj [(''type'', JStr ty), (''data'', event_payload fmt w)])) =
    Inr (''event: '' @ ty @ [CHR 0x0A] @ ''data: '' @ ee_dumps ev (JObj
      [(''id'', JStr (ow_id w)), (''name'', JStr (ow_name w)), (''description'', opt_str (ow_description w)),
       (''memo'', opt_str (ow_memo w)), (''status'', JStr (old_status_value (ow_status w))),
       (''path'', JStr (''/w/'' @ ow_id w @ ''/'')), (''created_at'', JStr (fmt (ow_created_at w))),
       (''updated_at'', JStr (fmt (ow_updated_at w)))]) @ [CHR 0x0A, CHR 0x0A])"
  using assms by (simp add: event_line_def ex_bind_def json_item_def event_payload_def)

text \<open>A payload whose data is not an object is not among the errors that are skipped: it ends the stream.\<close>

lemma bare_data_ends_stream:
  assumes "ee_disconnected env (ev_world s) = (Inr False, w1)"
    and "ee_get_message env 1 w1 = (Inr (Some (''message'', p)), w2)"
    and "ee_loads env p = Inr (JObj [(''type'', ty), (''data'', JNull)])"
  shows "old_stream_loop env (Suc n) s = Some (Inl (OtherError ''AttributeError''), s\<lparr>ev_world := w2\<rparr>)"
  using assms
  by (simp add: old_stream_pass_def forward_message_def event_line_def malformed_def json_item_def ex_bind_def
      io_bind_def io_seq_def io_except_def io_wait_for_def io_of_def on_ev_def io_zoom_def)

text \<open>The wait of 30 seconds is around a read that gives up after one: while nothing is published the reads
  return None, never a time-out, and no heartbeat is sent.\<close>

lemma quiet_stream_has_no_heartbeat:
  assumes quiet: "\<And>w. \<exists>t. ee_get_message env 1 w = (Inr None, t)"
    and run: "old_event_generator env n uid w = Some (r, s)"
  shows "ev_out s \<in> {[], [plain_event ''connected'']}"
proof -
  have world: "keeps (\<lambda>s. ev_out s = out) (on_ev m)" for out m
    by (rule keepsI) (auto simp: on_ev_def io_zoom_def split: prod.splits)
  have pass: "keeps (\<lambda>s. ev_out s = out) (old_stream_pass env)" for out
  proof (rule keepsI)
    fix s x t
    assume s: "ev_out s = out" and x: "old_stream_pass env s = (x, t)"
    obtain g w1 where g: "ee_disconnected env (ev_world s) = (g, w1)" by (meson surj_pair)
    obtain w2 where w2: "ee_get_message env 1 w1 = (Inr None, w2)" using quiet by blast
    show "ev_out t = out"
      using s x g w2
      by (cases g) (auto simp: old_stream_pass_def forward_message_def io_bind_def io_seq_def io_except_def
          io_wait_for_def io_return_def on_ev_def io_zoom_def split: if_splits)
  qed
  have loop: "old_stream_loop env n u = Some (x, t) \<Longrightarrow> ev_out t = ev_out u" for n u x t
  proof (induction n arbitrary: u)
    case (Suc n)
    obtain y v where y: "old_stream_pass env u = (y, v)" by (meson surj_pair)
    have "ev_out v = ev_out u" by (rule keepsD [OF pass refl y])
    then show ?case using Suc y by (auto split: sum.splits bool.splits)
  qed simp
  have close: "keeps (\<lambda>s. ev_out s = out) (io_finally (\<lambda>t. (r, t)) (io_seq (on_ev a) (on_ev b)))" for out a b and r :: "exn + unit"
    by (intro keeps_finally keeps_seq world) (simp add: keeps_def)
  have closed: "io_finally (\<lambda>t. (x, t)) (io_seq (on_ev a) (on_ev b)) v = (y, t) \<Longrightarrow> ev_out t = ev_out v"
    for a b v t and x y :: "exn + unit"
    by (rule keepsD [OF close refl])
  obtain x u where u: "on_ev (ee_subscribe env (get_user_channel uid)) \<lparr>ev_out = [], ev_world = w\<rparr> = (x, u)"
    by (meson surj_pair)
  have out: "ev_out u = []" using keepsD [OF world refl u] by simp
  show ?thesis
  proof (cases x)
    case (Inl e)
    then have "io_finally (\<lambda>t. (x, t)) (io_seq (on_ev (ee_unsubscribe env (get_user_channel uid))) (on_ev (ee_aclose env))) u = (r, s)"
      using run u by (auto simp: old_event_generator_def Let_def)
    then show ?thesis using closed out by fastforce
  next
    case (Inr y)
    obtain q v where v: "old_stream_loop env n (snd (emit (plain_event ''connected'') u)) = Some (q, v)"
        "io_finally (\<lambda>t. (q, t)) (io_seq (on_ev (ee_unsubscribe env (get_user_channel uid))) (on_ev (ee_aclose env))) v = (r, s)"
      using run u Inr by (auto simp: old_event_generator_def Let_def)
    then show ?thesis using loop [OF v(1)] closed [OF v(2)] out by (simp add: emit_def)
  qed
qed

end
