(* ===== verification/Legacy_Access.thy ===== *)
theory Legacy_Access
  imports Sessions Legacy_Service
begin

text \<open>
  Users of the retired backend: core/security.py, services/session_service.py, api/v1/auth.py,
  api/v1/dependencies.py and the start of main.py.  Users and sessions have the columns of the present ones, so
  their rows and statements are those of Sessions; the lemmas compare the operations with the present ones.
\<close>

section \<open>Passwords (core/security.py)\<close>

definition old_verify_password :: "argon2 \<Rightarrow> string \<Rightarrow> string \<Rightarrow> ('s, bool) io" where
  "old_verify_password hasher password password_hash =
     (case hasher password_hash password of
        Verified \<Rightarrow> io_return True
      | VerifyMismatchError \<Rightarrow> io_return False
      | HasherError e \<Rightarrow> io_raise e)"

definition LOGIN_LOCKOUT_THRESHOLD :: int where
  "LOGIN_LOCKOUT_THRESHOLD = 5"

definition LOGIN_LOCKOUT_BASE_SECONDS :: int where
  "LOGIN_LOCKOUT_BASE_SECONDS = 30"

definition LOGIN_LOCKOUT_MAX_SECONDS :: int where
  "LOGIN_LOCKOUT_MAX_SECONDS = 1800"

definition old_lockout_duration :: "int \<Rightarrow> int" where
  "old_lockout_duration failed_attempts =
     (if failed_attempts < LOGIN_LOCKOUT_THRESHOLD then 0
      else min (LOGIN_LOCKOUT_BASE_SECONDS * 2 ^ nat (failed_attempts - LOGIN_LOCKOUT_THRESHOLD)) LOGIN_LOCKOUT_MAX_SECONDS)"

section \<open>Sessions (services/session_service.py)\<close>

definition old_is_valid :: "datetime \<Rightarrow> session \<Rightarrow> bool" where
  "old_is_valid now x \<longleftrightarrow> (if session_revoked_at x \<noteq> None then False else session_expires_at x > now)"

text \<open>The settings give the life of a session; the row is read back after the commit.\<close>

definition old_session_create :: "old_session_settings \<Rightarrow> string \<Rightarrow> datetime \<Rightarrow> string \<Rightarrow> (db, session) io" where
  "old_session_create cfg ulid now uid =
     io_seq (db_execute (q_delete_sessions uid))
       (io_bind (io_of (ttl_seconds (oc_ttl cfg))) (\<lambda>ttl.
          let x = \<lparr>session_id = ulid, session_user_id = uid, session_created_at = now,
                   session_expires_at = now + timedelta_seconds ttl, session_revoked_at = None\<rparr>
          in io_seq (db_execute (q_insert_session x)) (io_seq db_commit
               (io_bind (db_execute (q_session ulid)) (\<lambda>r.
                  case r of None \<Rightarrow> io_raise (OtherError ''InvalidRequestError'') | Some y \<Rightarrow> io_return y)))))"

definition old_get_valid :: "datetime \<Rightarrow> string \<Rightarrow> (db, session option) io" where
  "old_get_valid now sid =
     io_bind (db_execute (q_session sid)) (\<lambda>r.
       case r of
         None \<Rightarrow> io_return None
       | Some x \<Rightarrow> if \<not> old_is_valid now x then io_return None else io_return (Some x))"

definition old_get_valid_with_user :: "datetime \<Rightarrow> string \<Rightarrow> (db, (session \<times> user) option) io" where
  "old_get_valid_with_user now sid =
     io_bind (db_execute (q_session_user sid)) (\<lambda>r.
       case r of
         None \<Rightarrow> io_return None
       | Some (x, u) \<Rightarrow> if \<not> old_is_valid now x then io_return None else io_return (Some (x, u)))"

definition old_revoke :: "datetime \<Rightarrow> string \<Rightarrow> (db, bool) io" where
  "old_revoke now sid =
     io_bind (db_execute (q_session sid)) (\<lambda>r.
       case r of
         None \<Rightarrow> io_return False
       | Some x \<Rightarrow> io_seq (db_execute (q_revoke_session sid now)) (io_seq db_commit (io_return True)))"

section \<open>Endpoints (api/v1/auth.py)\<close>

record old_cookie =
  ck_key :: string
  ck_value :: string
  ck_max_age :: int

definition old_record_failure :: "datetime \<Rightarrow> user \<Rightarrow> user \<Rightarrow> user" where
  "old_record_failure now u x =
     (let n = user_failed_login_attempts u + 1;
          x = x\<lparr>user_failed_login_attempts := n, user_last_failed_at := Some now\<rparr>;
          secs = old_lockout_duration n
      in if secs > 0 then x\<lparr>user_locked_until := Some (now + timedelta_seconds secs)\<rparr> else x)"

text \<open>The user, and the cookie of the response.\<close>

definition old_login ::
  "old_session_settings \<Rightarrow> argon2 \<Rightarrow> string \<Rightarrow> datetime \<Rightarrow> string \<Rightarrow> string \<Rightarrow> (db, (string \<times> string) \<times> old_cookie) io" where
  "old_login cfg hasher ulid now username password =
     io_bind (db_execute (q_user (\<lambda>u. user_username u = username))) (\<lambda>r.
       case r of
         None \<Rightarrow> io_raise invalid_credentials
       | Some u \<Rightarrow>
           (case lock_remaining now u of
              Some retry_after \<Rightarrow> io_raise (locked_out retry_after)
            | None \<Rightarrow>
                io_bind (old_verify_password hasher password (user_password_hash u)) (\<lambda>ok.
                  if \<not> ok then
                    io_seq (db_execute (q_update_user (user_id u) (old_record_failure now u)))
                      (io_seq db_commit (io_raise invalid_credentials))
                  else
                    io_seq (db_execute (q_update_user (user_id u) record_login))
                      (io_seq db_commit
                        (io_bind (old_session_create cfg ulid now (user_id u)) (\<lambda>x.
                           io_bind (io_of (ttl_seconds (oc_ttl cfg))) (\<lambda>ttl.
                             io_return ((user_id u, user_username u),
                               \<lparr>ck_key = oc_cookie_name cfg, ck_value = session_id x, ck_max_age = ttl\<rparr>))))))))"

text \<open>The endpoints read the cookie \<open>session\<close>, whatever the settings call it.\<close>

definition session_cookie_of :: "(string \<rightharpoonup> string) \<Rightarrow> string option" where
  "session_cookie_of cookies = cookies ''session''"

text \<open>The key of the cookie that the response deletes.\<close>

definition old_logout :: "old_session_settings \<Rightarrow> datetime \<Rightarrow> string option \<Rightarrow> (db, string) io" where
  "old_logout cfg now cookie =
     io_seq (if py_truthy cookie then io_bind (old_revoke now (the cookie)) (\<lambda>_. io_return ()) else io_return ())
       (io_return (oc_cookie_name cfg))"

definition old_get_session :: "datetime \<Rightarrow> string option \<Rightarrow> (db, string \<times> string) io" where
  "old_get_session now cookie =
     (case cookie of
        None \<Rightarrow> io_raise (UnauthorizedError auth_required)
      | Some sid \<Rightarrow>
          io_bind (old_get_valid_with_user now sid) (\<lambda>r.
            case r of
              None \<Rightarrow> io_raise (UnauthorizedError auth_required)
            | Some (_, u) \<Rightarrow> io_return (user_id u, user_username u)))"

section \<open>Dependencies (api/v1/dependencies.py)\<close>

definition get_current_user :: "datetime \<Rightarrow> string option \<Rightarrow> (db, user) io" where
  "get_current_user now cookie =
     (case cookie of
        None \<Rightarrow> io_raise (UnauthorizedError auth_required)
      | Some sid \<Rightarrow>
          io_bind (old_get_valid_with_user now sid) (\<lambda>r.
            case r of None \<Rightarrow> io_raise (UnauthorizedError auth_required) | Some (_, u) \<Rightarrow> io_return u))"

text \<open>The singletons, as the configuration gives them.\<close>

definition get_storage_provider :: "old_settings \<Rightarrow> exn + local_dir" where
  "get_storage_provider st =
     (if oc_backend (oc_home_store st) = ''local-dir''
      then Inr (new_local_dir (oc_control_plane_base_dir (oc_home_store st)) (the (oc_workspace_base_dir (oc_home_store st))))
      else ValueError)"

definition get_instance_controller :: "old_settings \<Rightarrow> local_docker" where
  "get_instance_controller st =
     new_local_docker (Some (oc_container_prefix (oc_workspace st))) (Some (oc_network_name (oc_workspace st)))"

section \<open>The first user (main.py)\<close>

definition q_insert_user :: "user \<Rightarrow> tables \<Rightarrow> unit \<times> tables" where
  "q_insert_user u t = ((), t\<lparr>tb_users := tb_users t @ [u]\<rparr>)"

definition create_initial_admin :: "(string \<Rightarrow> string) \<Rightarrow> string \<Rightarrow> string \<Rightarrow> (db, unit) io" where
  "create_initial_admin hash_password ulid password =
     io_bind (db_execute (q_user (\<lambda>u. user_username u = ''admin''))) (\<lambda>r.
       if r \<noteq> None then io_return ()
       else io_seq (db_execute (q_insert_user
           \<lparr>user_id = ulid, user_username = ''admin'', user_password_hash = hash_password password,
            user_failed_login_attempts = 0, user_locked_until = None, user_last_failed_at = None\<rparr>)) db_commit)"

section \<open>Comparison with the present backend\<close>

text \<open>The present security settings with the life of a session that the old ones give.\<close>

lemma old_lockout_is_default: "old_lockout_duration n = calculate_lockout_duration default_security n"
  by (simp add: old_lockout_duration_def lockout_duration_default LOGIN_LOCKOUT_THRESHOLD_def
      LOGIN_LOCKOUT_BASE_SECONDS_def LOGIN_LOCKOUT_MAX_SECONDS_def)

lemma old_validity: "old_is_valid = session_is_valid"
  by (simp add: fun_eq_iff old_is_valid_def session_is_valid_def)

lemma old_sessions_are_sessions:
  "old_get_valid now sid = get_valid now sid" "old_get_valid_with_user now sid = get_valid_with_user now sid"
  "old_revoke now sid = revoke now sid" "old_get_session now cookie = get_session_info now cookie"
  "old_verify_password hasher p h = verify_password hasher p h"
  unfolding old_get_valid_def get_valid_def old_get_valid_with_user_def get_valid_with_user_def old_revoke_def
    revoke_def old_get_session_def get_session_info_def old_verify_password_def verify_password_def old_validity
  by (rule refl)+

lemma old_failure_is_failure:
  "lockout_threshold cfg = 5 \<Longrightarrow> lockout_base cfg = 30 \<Longrightarrow> lockout_max cfg = 1800 \<Longrightarrow>
   old_record_failure = record_failure cfg"
  by (simp add: fun_eq_iff old_record_failure_def record_failure_def old_lockout_duration_def Let_def
      calculate_lockout_duration_def LOGIN_LOCKOUT_THRESHOLD_def LOGIN_LOCKOUT_BASE_SECONDS_def LOGIN_LOCKOUT_MAX_SECONDS_def)

text \<open>On a database that works and with a fresh id, the old login answers and writes what the present one does
  under the same settings, so its theorems hold of the old one too.\<close>

lemma old_login_is_login:
  assumes ok: "db_ok d" and ttl: "ttl_seconds (oc_ttl old) = Inr (session_ttl cfg)"
    and cfg: "lockout_threshold cfg = 5" "lockout_base cfg = 30" "lockout_max cfg = 1800"
    and fresh: "\<And>x. x \<in> set (tb_sessions (db_tables d)) \<Longrightarrow> session_id x \<noteq> ulid"
  shows "old_login old hasher ulid now username password d =
    (case login cfg hasher ulid now username password d of
       (Inl e, t) \<Rightarrow> (Inl e, t)
     | (Inr r, t) \<Rightarrow> (Inr ((lr_user_id r, lr_username r),
         \<lparr>ck_key = oc_cookie_name old, ck_value = lr_cookie r, ck_max_age = session_ttl cfg\<rparr>), t))"
proof (cases "find_user username (db_tables d)")
  case None
  then show ?thesis using ok
    by (simp add: old_login_def login_def io_bind_def db_execute_ok q_user_def find_user_def io_raise_def)
next
  case (Some u)
  have found: "db_execute (q_user (\<lambda>u. user_username u = username)) d = (Inr (Some u), d)"
    using ok Some by (simp add: db_execute_ok q_user_def find_user_def)
  show ?thesis
  proof (cases "lock_remaining now u")
    case None
    note same = old_failure_is_failure [OF cfg] old_sessions_are_sessions(5)
    have none: "filter (\<lambda>x. session_id x = ulid) (filter (\<lambda>y. session_user_id y \<noteq> uid) (tb_sessions (db_tables d))) = []" for uid
      using fresh by (auto simp: filter_empty_conv)
    show ?thesis
    proof (cases "hasher (user_password_hash u) password")
      case Verified
      show ?thesis
        unfolding login_right [where d = d and u = u and hasher = hasher and password = password and now = now, OF ok Some None Verified]
        using ok Verified None found none
        by (simp add: old_login_def old_verify_password_def old_session_create_def io_bind_def io_seq_def io_return_def
            io_of_def ttl db_execute_ok db_commit_ok q_session_defs Let_def sql_one_or_none_def)
    qed (use ok None found in \<open>simp_all add: old_login_def login_def same verify_password_def io_bind_def io_seq_def
        io_raise_def io_return_def db_execute_ok db_commit_ok\<close>)
  qed (use found in \<open>simp add: old_login_def login_def io_bind_def io_raise_def\<close>)
qed

text \<open>A session cookie with another name is set but never read.\<close>

lemma renamed_cookie_is_not_read:
  "ck_key c \<noteq> ''session'' \<Longrightarrow> session_cookie_of (cookies(ck_key c \<mapsto> ck_value c)) = session_cookie_of cookies"
  by (simp add: session_cookie_of_def)

text \<open>Every start after the first leaves the admin as it is.\<close>

lemma admin_created_once:
  assumes "db_ok d"
  shows "\<exists>t. create_initial_admin h ulid pw d = (Inr (), t) \<and> db_ok t \<and>
    create_initial_admin h2 ulid2 pw2 t = (Inr (), t)"
  using assms
  by (cases "find_user ''admin'' (db_tables d)")
     (auto simp: create_initial_admin_def io_bind_def io_seq_def io_return_def db_execute_ok db_commit_ok q_user_def
        q_insert_user_def find_user_def sql_one_or_none_def split: list.splits)

end
