(* ===== verification/Legacy_Proxy.thy ===== *)
theory Legacy_Proxy
  imports Proxy Legacy_Access
begin

text \<open>
  proxy/ of the retired backend: every request under \<open>/w/<id>/\<close> of the owner goes to the container, whatever the
  status of the row.  httpx and websockets are the records of Proxy; the two lookups run on one session, which
  is kept in two parts (users and sessions, workspaces): a failed statement ends the handler in either.
\<close>

section \<open>State and parameters\<close>

record 'w old_gateway =
  og_auth :: db
  og_app :: "'w old_app"
  og_client :: "nat option"

record 'w old_proxy_env =
  op_env :: "'w old_env"
  op_now :: datetime
  op_new_client :: "real \<Rightarrow> real \<Rightarrow> ('w, nat) io"
  op_http :: "'w http_api"
  op_connect :: "string \<Rightarrow> headers \<Rightarrow> ('w, unit) io"
  op_ws :: "'w ws_api"

definition on_old_auth :: "(db, 'a) io \<Rightarrow> ('w old_gateway, 'a) io" where
  "on_old_auth m = io_zoom og_auth (\<lambda>x s. s\<lparr>og_auth := x\<rparr>) m"

definition on_old_app :: "('w old_app, 'a) io \<Rightarrow> ('w old_gateway, 'a) io" where
  "on_old_app m = io_zoom og_app (\<lambda>x s. s\<lparr>og_app := x\<rparr>) m"

definition on_og_world :: "('w, 'a) io \<Rightarrow> ('w old_gateway, 'a) io" where
  "on_og_world m = on_old_app (on_old_world m)"

section \<open>Access (proxy/auth.py)\<close>

definition old_user_id_from_session :: "datetime \<Rightarrow> string option \<Rightarrow> (db, string) io" where
  "old_user_id_from_session now session_cookie =
     (case session_cookie of
        None \<Rightarrow> io_raise (UnauthorizedError auth_required)
      | Some sid \<Rightarrow>
          io_bind (old_get_valid_with_user now sid) (\<lambda>r.
            case r of None \<Rightarrow> io_raise (UnauthorizedError auth_required) | Some (_, u) \<Rightarrow> io_return (user_id u)))"

definition old_workspace_for_user :: "string \<Rightarrow> string \<Rightarrow> ('w old_app, old_workspace) io" where
  "old_workspace_for_user wid uid =
     io_bind (on_old_db (db_execute (old_select (\<lambda>w. ow_id w = wid \<and> ow_deleted_at w = None)))) (\<lambda>r.
       case r of
         None \<Rightarrow> io_raise WorkspaceNotFoundError
       | Some w \<Rightarrow> if ow_owner_user_id w \<noteq> uid then io_raise (ForbiddenError no_access) else io_return w)"

definition old_access :: "datetime \<Rightarrow> string \<Rightarrow> string option \<Rightarrow> ('w old_gateway, old_workspace) io" where
  "old_access now wid cookie =
     io_bind (on_old_auth (old_user_id_from_session now cookie)) (\<lambda>uid. on_old_app (old_workspace_for_user wid uid))"

section \<open>The shared client and the headers (proxy/client.py)\<close>

definition PROXY_TIMEOUT_TOTAL :: real where
  "PROXY_TIMEOUT_TOTAL = 30"

definition PROXY_TIMEOUT_CONNECT :: real where
  "PROXY_TIMEOUT_CONNECT = 10"

definition OLD_HOP_BY_HOP_HEADERS :: "string list" where
  "OLD_HOP_BY_HOP_HEADERS =
     [''connection'', ''keep-alive'', ''proxy-authenticate'', ''proxy-authorization'', ''te'', ''trailers'',
      ''transfer-encoding'', ''upgrade'', ''host'']"

definition OLD_WS_HOP_BY_HOP_HEADERS :: "string list" where
  "OLD_WS_HOP_BY_HOP_HEADERS = OLD_HOP_BY_HOP_HEADERS @ [''sec-websocket-key'', ''sec-websocket-version'', ''origin'']"

definition old_filter_headers :: "headers \<Rightarrow> headers" where
  "old_filter_headers hs = filter (\<lambda>(k, v). py_lower k \<notin> set OLD_HOP_BY_HOP_HEADERS) hs"

definition old_http_client :: "'w old_proxy_env \<Rightarrow> ('w old_gateway, nat) io" where
  "old_http_client env = io_bind io_get (\<lambda>s.
     case og_client s of
       Some k \<Rightarrow> io_return k
     | None \<Rightarrow> io_bind (on_og_world (op_new_client env PROXY_TIMEOUT_TOTAL PROXY_TIMEOUT_CONNECT)) (\<lambda>k. \<lambda>s.
           (Inr k, s\<lparr>og_client := Some k\<rparr>)))"

definition old_close_http_client :: "'w old_proxy_env \<Rightarrow> ('w old_gateway, unit) io" where
  "old_close_http_client env = io_bind io_get (\<lambda>s.
     case og_client s of
       None \<Rightarrow> io_return ()
     | Some k \<Rightarrow> io_seq (on_og_world (hx_close (op_http env) k)) (\<lambda>s. (Inr (), s\<lparr>og_client := None\<rparr>)))"

section \<open>HTTP (proxy/router.py)\<close>

definition old_trailing_slash_redirect :: "string \<Rightarrow> string \<times> int" where
  "old_trailing_slash_redirect wid = (''/w/'' @ wid @ ''/'', 308)"

definition old_upstream :: "'w old_proxy_env \<Rightarrow> string \<Rightarrow> ('w old_gateway, upstream_v1) io" where
  "old_upstream env wid = on_og_world (oi_resolve_upstream (oe_instance (op_env env)) wid)"

definition old_target :: "string \<Rightarrow> string \<Rightarrow> string" where
  "old_target path query =
     (let p = (if path \<noteq> [] then ''/'' @ path else ''/'') in if query \<noteq> [] then p @ ''?'' @ query else p)"

definition authority :: "upstream_v1 \<Rightarrow> string" where
  "authority up = up_host up @ '':'' @ str_int (up_port up)"

text \<open>The status, the headers and the handle of the streamed answer; its body is \<open>old_stream_response\<close>.\<close>

definition old_proxy_http ::
  "'w old_proxy_env \<Rightarrow> string \<Rightarrow> string \<Rightarrow> proxied_request \<Rightarrow> string option \<Rightarrow> ('w old_gateway, int \<times> headers \<times> nat) io" where
  "old_proxy_http env wid path rq cookie =
     io_seq (old_access (op_now env) wid cookie)
       (io_bind (io_try (old_upstream env wid) (\<lambda>_. io_raise UpstreamUnavailableError)) (\<lambda>up.
         io_bind (old_http_client env) (\<lambda>k.
           io_except
             (io_bind (on_og_world (hx_send (op_http env) k (px_method rq)
                 (''http://'' @ authority up @ old_target path (px_query rq)) (old_filter_headers (px_headers rq))
                 (if px_method rq \<in> {''POST'', ''PUT'', ''PATCH''} then Some (px_body rq) else None))) (\<lambda>r.
               io_return (ur_status r, old_filter_headers (ur_headers r), ur_handle r)))
             (\<lambda>e. if is_upstream_failure e then Some (io_raise UpstreamUnavailableError) else None))))"

definition old_stream_response :: "'w http_api \<Rightarrow> nat \<Rightarrow> nat \<Rightarrow> 'w \<Rightarrow> ((exn + unit) \<times> string list \<times> 'w) option" where
  "old_stream_response hx h n w =
     map_option (\<lambda>(r, cs, w'). case io_finally (\<lambda>x. (r, x)) (hx_aclose hx h) w' of (r', w'') \<Rightarrow> (r', cs, w''))
       (raw_chunks hx h n w)"

section \<open>WebSockets (proxy/websocket.py, proxy/router.py)\<close>

text \<open>One message of the client; True ends the task.\<close>

definition relay_client_to_backend :: "'w old_proxy_env \<Rightarrow> asgi_message \<Rightarrow> ('w old_gateway, bool) io" where
  "relay_client_to_backend env data =
     (if am_type data = ''websocket.receive'' then
        io_seq (case (am_text data, am_bytes data) of
            (Some t, _) \<Rightarrow> on_og_world (wa_send_backend (op_ws env) (TextData t))
          | (None, Some b) \<Rightarrow> on_og_world (wa_send_backend (op_ws env) (BytesData b))
          | (None, None) \<Rightarrow> io_return ())
          (io_return False)
      else io_return (am_type data = ''websocket.disconnect''))"

definition relay_backend_to_client :: "'w old_proxy_env \<Rightarrow> ws_data \<Rightarrow> ('w old_gateway, unit) io" where
  "relay_backend_to_client env message = on_og_world (wa_send_client (op_ws env) message)"

definition old_relay_step :: "'w old_proxy_env \<Rightarrow> relay_event \<Rightarrow> bool \<times> bool \<Rightarrow> ('w old_gateway, bool \<times> bool) io" where
  "old_relay_step env ev = (\<lambda>(client_done, backend_done).
     case ev of
       ClientMessage m \<Rightarrow>
         if client_done then io_return (client_done, backend_done)
         else io_bind (relay_client_to_backend env m) (\<lambda>ends. io_return (ends, backend_done))
     | ClientFails e \<Rightarrow> if client_done then io_return (client_done, backend_done) else io_raise e
     | BackendMessage m \<Rightarrow>
         if backend_done then io_return (client_done, backend_done)
         else io_seq (relay_backend_to_client env m) (io_return (client_done, backend_done))
     | BackendEnds \<Rightarrow> io_return (client_done, True)
     | BackendFails e \<Rightarrow> if backend_done then io_return (client_done, backend_done) else io_raise e
     | RequestCancelled \<Rightarrow> io_raise CancelledError)"

text \<open>The task group over the answered awaits, as in Proxy; None: it still runs.\<close>

fun old_relay ::
  "'w old_proxy_env \<Rightarrow> relay_event list \<Rightarrow> bool \<times> bool \<Rightarrow> 'w old_gateway \<Rightarrow> ((exn + unit) \<times> 'w old_gateway) option" where
  "old_relay env [] d s = (if d = (True, True) then Some (Inr (), s) else None)"
| "old_relay env (ev # evs) d s =
     (if d = (True, True) then Some (Inr (), s)
      else (case old_relay_step env ev d s of
          (Inl e, t) \<Rightarrow> Some (Inl e, t)
        | (Inr d', t) \<Rightarrow> old_relay env evs d' t))"

definition old_relay_and_close :: "'w old_proxy_env \<Rightarrow> relay_event list \<Rightarrow> 'w old_gateway \<Rightarrow> ((exn + unit) \<times> 'w old_gateway) option" where
  "old_relay_and_close env evs s =
     map_option
       (\<lambda>(r, t). io_finally
          (suppress (io_finally (\<lambda>t. (relay_handled r, t)) (on_og_world (wa_backend_exit (op_ws env)))))
          (suppress (on_og_world (wa_close (op_ws env) 1000 []))) t)
       (old_relay env evs (False, False) s)"

definition old_close_ws :: "'w old_proxy_env \<Rightarrow> int \<Rightarrow> string \<Rightarrow> ('w old_gateway, unit) io" where
  "old_close_ws env code reason = on_og_world (wa_close (op_ws env) code reason)"

definition old_proxy_websocket ::
  "'w old_proxy_env \<Rightarrow> string \<Rightarrow> string \<Rightarrow> proxied_request \<Rightarrow> string option \<Rightarrow> relay_event list \<Rightarrow> 'w old_gateway
   \<Rightarrow> ((exn + unit) \<times> 'w old_gateway) option" where
  "old_proxy_websocket env wid path rq cookie evs s =
     (case old_access (op_now env) wid cookie s of
        (Inl e, t) \<Rightarrow> Some (case refusal e of None \<Rightarrow> (Inl e, t) | Some reason \<Rightarrow> old_close_ws env 1008 reason t)
      | (Inr _, t) \<Rightarrow>
          (case old_upstream env wid t of
             (Inl e, u) \<Rightarrow> Some (if is_Exception e then old_close_ws env 1011 ''Upstream unavailable'' u else (Inl e, u))
           | (Inr up, u) \<Rightarrow>
               (case on_og_world (op_connect env (''ws://'' @ authority up @ old_target path (px_query rq))
                   (filter (\<lambda>(k, v). py_lower k \<notin> set OLD_WS_HOP_BY_HOP_HEADERS) (px_headers rq))) u of
                  (Inl e, v) \<Rightarrow> Some (if is_Exception e then old_close_ws env 1011 (connect_failure e) v else (Inl e, v))
                | (Inr _, v) \<Rightarrow>
                    (case on_og_world (wa_accept (op_ws env)) v of
                       (Inl e, x) \<Rightarrow> Some (Inl e, x)
                     | (Inr _, x) \<Rightarrow> old_relay_and_close env evs x))))"

section \<open>Who reaches a workspace\<close>

lemma on_old_auth_iff: "on_old_auth m s = (r, t) \<longleftrightarrow> (\<exists>d. m (og_auth s) = (r, d) \<and> t = s\<lparr>og_auth := d\<rparr>)"
  by (auto simp: on_old_auth_def io_zoom_def split: prod.splits)

lemma on_old_app_iff: "on_old_app m s = (r, t) \<longleftrightarrow> (\<exists>a. m (og_app s) = (r, a) \<and> t = s\<lparr>og_app := a\<rparr>)"
  by (auto simp: on_old_app_def io_zoom_def split: prod.splits)

text \<open>Both parts of the access check only read.\<close>

lemma access_reads:
  assumes "old_access now wid cookie s = (r, t)"
  shows "oa_world (og_app t) = oa_world (og_app s)" and "db_tables (og_auth t) = db_tables (og_auth s)"
    and "db_tables (oa_db (og_app t)) = db_tables (oa_db (og_app s))"
proof -
  have auth: "keeps (\<lambda>d. db_tables d = T) (old_user_id_from_session now cookie)" for T
    unfolding old_user_id_from_session_def old_get_valid_with_user_def
    by (rule keepsI)
       (auto simp: io_bind_def io_raise_def io_return_def q_session_user_def dest!: db_execute_Inl db_execute_Inr
         split: option.splits prod.splits sum.splits if_splits)
  have app: "keeps (\<lambda>a. oa_world a = w \<and> db_tables (oa_db a) = T) (old_workspace_for_user wid uid)" for w T and uid
    unfolding old_workspace_for_user_def
    by (rule keepsI)
       (auto simp: io_bind_def io_raise_def io_return_def on_old_db_def io_zoom_def old_select_def
         dest!: db_execute_Inl db_execute_Inr split: option.splits prod.splits sum.splits if_splits)
  show "oa_world (og_app t) = oa_world (og_app s)" "db_tables (og_auth t) = db_tables (og_auth s)"
    "db_tables (oa_db (og_app t)) = db_tables (oa_db (og_app s))"
    using assms keepsD [OF auth refl] keepsD [OF app conjI [OF refl refl]]
    by (auto simp: old_access_def io_bind_def on_old_auth_def on_old_app_def io_zoom_def
        split: prod.splits sum.splits) blast+
qed

lemma valid_session_row:
  assumes "old_get_valid_with_user now sid d = (Inr (Some (x, v)), e)"
  shows "db_execute (q_session_user sid) d = (Inr (Some (x, v)), e) \<and> old_is_valid now x"
proof -
  obtain r t where r: "db_execute (q_session_user sid) d = (Inr r, t)"
      "(case r of None \<Rightarrow> io_return None
        | Some (x, u) \<Rightarrow> if \<not> old_is_valid now x then io_return None else io_return (Some (x, u))) t = (Inr (Some (x, v)), e)"
    using assms unfolding old_get_valid_with_user_def io_bind_Inr_iff by blast
  then show ?thesis by (cases r) (auto simp: io_return_def split: if_splits)
qed

text \<open>Access is granted to the owner with a session that is neither revoked nor expired, and to nobody else.\<close>

lemma access_granted:
  assumes "old_access now wid cookie s = (Inr w, t)"
  shows "ow_id w = wid \<and> ow_deleted_at w = None \<and> w \<in> set (db_tables (oa_db (og_app s)))"
    and "\<exists>x \<in> set (tb_sessions (db_tables (og_auth s))). cookie = Some (session_id x) \<and> old_is_valid now x \<and>
      session_user_id x = ow_owner_user_id w"
proof -
  obtain uid s1 where u: "old_user_id_from_session now cookie (og_auth s) = (Inr uid, s1)"
      and w: "\<exists>s2. old_workspace_for_user wid uid (og_app s) = (Inr w, s2)"
    using assms by (auto simp: old_access_def io_bind_Inr_iff on_old_auth_iff on_old_app_iff)
  let ?p = "\<lambda>w. ow_id w = wid \<and> ow_deleted_at w = None"
  obtain d where d: "db_execute (old_select ?p) (oa_db (og_app s)) = (Inr (Some w), d)" and own: "ow_owner_user_id w = uid"
    using w by (auto simp: old_workspace_for_user_def io_bind_Inr_iff on_old_db_Inr split: option.splits if_splits)
  have row: "sql_one_or_none ?p (db_tables (oa_db (og_app s))) = Some w"
    using db_execute_Inr [OF d] by (simp add: old_select_def)
  have "w \<in> set (filter (\<lambda>w. ow_id w = wid \<and> ow_deleted_at w = None) (db_tables (oa_db (og_app s))))"
    using row by (cases "filter ?p (db_tables (oa_db (og_app s)))") (simp_all only: sql_one_or_none_def list.case option.inject list.set_intros option.distinct)
  then show "ow_id w = wid \<and> ow_deleted_at w = None \<and> w \<in> set (db_tables (oa_db (og_app s)))" by simp
  obtain sid x v e where g: "cookie = Some sid" "old_get_valid_with_user now sid (og_auth s) = (Inr (Some (x, v)), e)"
      "user_id v = uid"
    using u by (cases cookie) (auto simp: old_user_id_from_session_def io_bind_Inr_iff split: option.splits)
  have x: "db_execute (q_session_user sid) (og_auth s) = (Inr (Some (x, v)), e)" "old_is_valid now x"
    using valid_session_row [OF g(2)] by blast+
  have joined: "fst (q_session_user sid (db_tables (og_auth s))) = Some (x, v)"
    using db_execute_Inr [OF x(1)] by simp
  let ?join = "concat (map (\<lambda>x. map (Pair x) (filter (\<lambda>u. user_id u = session_user_id x) (tb_users (db_tables (og_auth s)))))
      (filter (\<lambda>x. session_id x = sid) (tb_sessions (db_tables (og_auth s)))))"
  have "(case ?join of [] \<Rightarrow> None | r # _ \<Rightarrow> Some r) = Some (x, v)"
    using joined unfolding q_session_user_def fst_conv .
  then have "(x, v) \<in> set ?join"
    by (cases ?join) (simp_all only: list.case option.inject list.set_intros option.distinct)
  then show "\<exists>x \<in> set (tb_sessions (db_tables (og_auth s))). cookie = Some (session_id x) \<and> old_is_valid now x \<and>
      session_user_id x = ow_owner_user_id w"
    using x(2) g own by auto
qed

text \<open>Both ways in reach the platform and the container only through that check.\<close>

lemma proxied_only_with_access:
  assumes "old_access (op_now env) wid cookie s = (Inl e, t)"
  shows "old_proxy_http env wid path rq cookie s = (Inl e, t)"
    and "old_proxy_websocket env wid path rq cookie evs s =
      Some (case refusal e of None \<Rightarrow> (Inl e, t) | Some reason \<Rightarrow> old_close_ws env 1008 reason t)"
    and "oa_world (og_app t) = oa_world (og_app s)"
  using assms access_reads(1) [OF assms]
  by (simp_all add: old_proxy_http_def old_proxy_websocket_def io_seq_def io_bind_def)

lemma http_answer_has_access:
  "old_proxy_http env wid path rq cookie s = (Inr a, t) \<Longrightarrow> \<exists>w u. old_access (op_now env) wid cookie s = (Inr w, u)"
  by (auto simp: old_proxy_http_def io_seq_Inr_iff)

text \<open>The present header filters are the old ones.\<close>

lemma same_filters:
  "old_filter_headers = filter_headers" "OLD_WS_HOP_BY_HOP_HEADERS = WS_HOP_BY_HOP_HEADERS" "old_target = target_path"
  by (simp_all add: fun_eq_iff old_filter_headers_def filter_headers_def OLD_HOP_BY_HOP_HEADERS_def HOP_BY_HOP_HEADERS_def
      OLD_WS_HOP_BY_HOP_HEADERS_def WS_HOP_BY_HOP_HEADERS_def old_target_def target_path_def Let_def)

text \<open>A request is never sent with a hop-by-hop header, nor does the answer carry one.\<close>

lemma no_hop_by_hop:
  "old_proxy_http env wid path rq cookie s = (Inr (st, hs, h), t) \<Longrightarrow> (k, v) \<in> set hs \<Longrightarrow>
   py_lower k \<notin> set OLD_HOP_BY_HOP_HEADERS"
  by (auto simp: old_proxy_http_def io_seq_Inr_iff io_bind_Inr_iff io_except_Inr_iff old_filter_headers_def split: if_splits)

text \<open>A client that leaves ends its own task only: the group waits on until the backend ends or fails.\<close>

lemma departed_client_keeps_backend:
  "am_type m = ''websocket.disconnect'' \<Longrightarrow> old_relay env [ClientMessage m] (False, False) s = None"
  "am_type m = ''websocket.disconnect'' \<Longrightarrow> old_relay env [ClientMessage m, BackendEnds] (False, False) s = Some (Inr (), s)"
  by (simp_all add: old_relay_step_def relay_client_to_backend_def io_bind_def io_return_def)

end
