(* ===== verification/Legacy_Main.thy ===== *)
theory Legacy_Main
  imports Legacy_Recovery Legacy_Api Legacy_Proxy
begin

text \<open>
  main.py, core/errors.py, core/middleware.py and core/redis.py of the retired backend, and scripts/cleanup.py:
  the answers to exceptions, the id of a request, start and end of a process, and the removal of left-over
  containers.  What the scripts print is not modelled.
\<close>

section \<open>Errors (core/errors.py)\<close>

datatype old_error_code =
    OLD_INVALID_REQUEST | OLD_UNAUTHORIZED | OLD_FORBIDDEN | OLD_WORKSPACE_NOT_FOUND | OLD_INVALID_STATE
  | OLD_TOO_MANY_REQUESTS | OLD_UPSTREAM_UNAVAILABLE | OLD_INTERNAL_ERROR

fun old_code_value :: "old_error_code \<Rightarrow> string" where
  "old_code_value OLD_INVALID_REQUEST = ''INVALID_REQUEST''"
| "old_code_value OLD_UNAUTHORIZED = ''UNAUTHORIZED''"
| "old_code_value OLD_FORBIDDEN = ''FORBIDDEN''"
| "old_code_value OLD_WORKSPACE_NOT_FOUND = ''WORKSPACE_NOT_FOUND''"
| "old_code_value OLD_INVALID_STATE = ''INVALID_STATE''"
| "old_code_value OLD_TOO_MANY_REQUESTS = ''TOO_MANY_REQUESTS''"
| "old_code_value OLD_UPSTREAM_UNAVAILABLE = ''UPSTREAM_UNAVAILABLE''"
| "old_code_value OLD_INTERNAL_ERROR = ''INTERNAL_ERROR''"

record old_error =
  oe_code :: old_error_code
  oe_message :: string
  oe_status :: int

text \<open>The classes, with the message that replaces the default one.\<close>

definition old_error_of :: "old_error_code \<Rightarrow> string option \<Rightarrow> old_error" where
  "old_error_of c message =
     (let (dflt, st) = (case c of
          OLD_INVALID_REQUEST \<Rightarrow> (''Invalid request'', 400)
        | OLD_UNAUTHORIZED \<Rightarrow> (''Authentication required'', 401)
        | OLD_FORBIDDEN \<Rightarrow> (''Permission denied'', 403)
        | OLD_WORKSPACE_NOT_FOUND \<Rightarrow> (''Workspace not found'', 404)
        | OLD_INVALID_STATE \<Rightarrow> (''Invalid state for this operation'', 409)
        | OLD_TOO_MANY_REQUESTS \<Rightarrow> (''Too many failed attempts'', 429)
        | OLD_UPSTREAM_UNAVAILABLE \<Rightarrow> (''Upstream service unavailable'', 502)
        | OLD_INTERNAL_ERROR \<Rightarrow> (''Internal server error'', 500))
      in \<lparr>oe_code = c, oe_message = (case message of None \<Rightarrow> dflt | Some m \<Rightarrow> m), oe_status = st\<rparr>)"

definition old_to_response :: "old_error \<Rightarrow> json" where
  "old_to_response e =
     JObj [(''error'', JObj [(''code'', JStr (old_code_value (oe_code e))), (''message'', JStr (oe_message e))])]"

section \<open>Exception handlers (main.py)\<close>

text \<open>What was raised: an error of the program, with the wait of a TooManyRequestsError, or anything else.\<close>

datatype old_raised = Too_Many int old_error | Code_Hub old_error | Unexpected

definition old_handler :: "old_raised \<Rightarrow> int \<times> json \<times> (string \<times> string) list" where
  "old_handler x =
     (case x of
        Too_Many retry_after e \<Rightarrow> (oe_status e, old_to_response e, [(''Retry-After'', str_int retry_after)])
      | Code_Hub e \<Rightarrow> (oe_status e, old_to_response e, [])
      | Unexpected \<Rightarrow> (let e = old_error_of OLD_INTERNAL_ERROR None in (oe_status e, old_to_response e, [])))"

section \<open>The id of a request (core/middleware.py)\<close>

definition REQUEST_ID_HEADER :: string where
  "REQUEST_ID_HEADER = ''X-Request-ID''"

definition old_request_id :: "string option \<Rightarrow> string \<Rightarrow> string" where
  "old_request_id header fresh = (if py_truthy header then the header else fresh)"

text \<open>\<open>dispatch\<close>: the handler runs with the id in the context, and the answer carries it.\<close>

definition old_dispatch ::
  "string option \<Rightarrow> string \<Rightarrow> (string \<Rightarrow> ('w, (string \<rightharpoonup> string) \<times> 'a) io) \<Rightarrow> ('w, (string \<rightharpoonup> string) \<times> 'a) io" where
  "old_dispatch header fresh call_next =
     (let rid = old_request_id header fresh in
      io_bind (call_next rid) (\<lambda>(headers, body). io_return (headers(REQUEST_ID_HEADER \<mapsto> rid), body)))"

section \<open>Start and end of a process (main.py)\<close>

record 'w old_connections =
  oc_init_db :: "string \<Rightarrow> bool \<Rightarrow> ('w, unit) io"
  oc_init_redis :: "string \<Rightarrow> ('w, unit) io"
  oc_ping :: "('w, unit) io"
  oc_close_http :: "('w, unit) io"
  oc_close_redis :: "('w, unit) io"
  oc_close_db :: "('w, unit) io"

text \<open>core/redis.py: the connection is checked by a ping.\<close>

definition old_init_redis :: "'w old_connections \<Rightarrow> old_settings \<Rightarrow> ('w, unit) io" where
  "old_init_redis cn st = io_seq (oc_init_redis cn (oc_redis_url st)) (oc_ping cn)"

definition old_startup ::
  "'w old_connections \<Rightarrow> (string \<Rightarrow> string) \<Rightarrow> string \<Rightarrow> old_settings \<Rightarrow> (db \<times> 'w, unit) io" where
  "old_startup cn hash_password ulid st =
     io_bind (io_of (validate_settings st)) (\<lambda>c.
       io_seq (io_zoom snd (\<lambda>y s. (fst s, y)) (oc_init_db cn (oc_database_url c) (oc_database_echo c)))
         (io_seq (io_zoom snd (\<lambda>y s. (fst s, y)) (old_init_redis cn c))
           (io_zoom fst (\<lambda>x s. (x, snd s)) (create_initial_admin hash_password ulid (oc_initial_admin_password (oc_auth c))))))"

definition old_shutdown :: "'w old_connections \<Rightarrow> ('w, unit) io" where
  "old_shutdown cn = io_seq (oc_close_http cn) (io_seq (oc_close_redis cn) (oc_close_db cn))"

section \<open>Removal of left-over containers (scripts/cleanup.py)\<close>

definition CONTAINER_PREFIX :: string where
  "CONTAINER_PREFIX = ''codehub-ws-''"

definition NETWORK_NAME :: string where
  "NETWORK_NAME = ''codehub-net''"

text \<open>The SDK and the answer to the prompt; a container is known by its name, which may be missing.\<close>

record 'w cleanup_api =
  ca_connect :: "('w, unit) io"
  ca_list :: "('w, string option list) io"
  ca_remove :: "string \<Rightarrow> ('w, unit) io"
  ca_network_get :: "string \<Rightarrow> ('w, unit) io"
  ca_network_reload :: "('w, unit) io"
  ca_attached :: "('w, string list) io"
  ca_network_remove :: "('w, unit) io"
  ca_input :: "('w, string) io"

definition get_workspace_containers :: "'w cleanup_api \<Rightarrow> ('w, string list) io" where
  "get_workspace_containers ca =
     io_bind (ca_list ca) (\<lambda>cs.
       io_return (map the (filter (\<lambda>c. py_truthy c \<and> py_startswith (the c) CONTAINER_PREFIX) cs)))"

definition cleanup_containers :: "'w cleanup_api \<Rightarrow> bool \<Rightarrow> ('w, nat) io" where
  "cleanup_containers ca dry_run =
     io_bind (get_workspace_containers ca) (\<lambda>cs.
       if cs = [] then io_return 0
       else if dry_run then io_return 0
       else io_bind (io_mapM (\<lambda>c. io_try (io_seq (ca_remove ca c) (io_return True)) (\<lambda>_. io_return False)) cs) (\<lambda>rs.
         io_return (count_true rs)))"

definition cleanup_network :: "'w cleanup_api \<Rightarrow> bool \<Rightarrow> ('w, bool) io" where
  "cleanup_network ca dry_run =
     io_bind (io_except (io_seq (ca_network_get ca NETWORK_NAME) (io_return True))
         (\<lambda>e. if e = NotFound then Some (io_return False) else None)) (\<lambda>found.
       if \<not> found then io_return False
       else io_seq (ca_network_reload ca) (io_bind (ca_attached ca) (\<lambda>attached.
         if attached \<noteq> [] then io_return False
         else if dry_run then io_return False
         else io_try (io_seq (ca_network_remove ca) (io_return True)) (\<lambda>_. io_return False))))"

text \<open>The exit code.\<close>

definition cleanup_main :: "'w cleanup_api \<Rightarrow> bool \<Rightarrow> bool \<Rightarrow> bool \<Rightarrow> ('w, int) io" where
  "cleanup_main ca dry_run force include_network =
     io_bind (io_except (io_seq (ca_connect ca) (io_return True))
         (\<lambda>e. if e = OtherError ''DockerException'' then Some (io_return False) else None)) (\<lambda>connected.
       if \<not> connected then io_return 1
       else io_bind (get_workspace_containers ca) (\<lambda>cs.
         if cs = [] \<and> \<not> include_network then io_return 0
         else io_bind (if cs \<noteq> [] \<and> \<not> force \<and> \<not> dry_run
             then io_bind (ca_input ca) (\<lambda>a. io_return (py_lower a \<in> {''y'', ''yes''})) else io_return True) (\<lambda>go.
           if \<not> go then io_return 0
           else io_seq (cleanup_containers ca dry_run)
             (io_seq (if include_network then io_bind (cleanup_network ca dry_run) (\<lambda>_. io_return ()) else io_return ())
               (io_return 0)))))"

section \<open>What they do\<close>

text \<open>The default answer of every class is an error status, the same class always the same one.\<close>

lemma error_statuses: "400 \<le> oe_status (old_error_of c m) \<and> oe_status (old_error_of c m) \<le> 502"
  by (cases c) (simp_all add: old_error_of_def)

lemma codes_differ: "old_code_value c = old_code_value c' \<longleftrightarrow> c = c'"
  by (cases c; cases c') simp_all

text \<open>A client id passes through, and an empty one is replaced.\<close>

lemma request_id_echoed:
  "old_dispatch header fresh f s = (Inr (hs, b), t) \<Longrightarrow>
   hs REQUEST_ID_HEADER = Some (if py_truthy header then the header else fresh)"
  by (auto simp: old_dispatch_def old_request_id_def io_bind_Inr_iff Let_def)

text \<open>Refused settings stop the process before anything is connected.\<close>

lemma bad_settings_connect_nothing:
  "validate_settings st = Inl e \<Longrightarrow> old_startup cn h ulid st s = (Inl e, s)"
  by (simp add: old_startup_def io_bind_def io_of_def)

text \<open>A dry run is the same run whatever removal would do: it removes nothing.\<close>

lemma dry_run_removes_nothing:
  "cleanup_main (ca\<lparr>ca_remove := f, ca_network_remove := g\<rparr>) True force net = cleanup_main ca True force net"
proof -
  have "get_workspace_containers (ca\<lparr>ca_remove := f, ca_network_remove := g\<rparr>) = get_workspace_containers ca"
    by (simp add: get_workspace_containers_def)
  moreover have "cleanup_network (ca\<lparr>ca_remove := f, ca_network_remove := g\<rparr>) True = cleanup_network ca True"
    by (simp add: cleanup_network_def cong: if_cong)
  ultimately show ?thesis by (simp add: cleanup_main_def cleanup_containers_def cong: if_cong)
qed

lemma io_mapM_cong: "(\<And>x. x \<in> set xs \<Longrightarrow> f x = g x) \<Longrightarrow> io_mapM f xs = io_mapM g xs"
  by (induction xs) simp_all

text \<open>No run removes a container without the prefix.\<close>

lemma only_prefixed_removed:
  assumes "\<And>n. py_startswith n CONTAINER_PREFIX \<Longrightarrow> f n = ca_remove ca n"
  shows "cleanup_containers (ca\<lparr>ca_remove := f\<rparr>) dry s = cleanup_containers ca dry s"
proof -
  have same: "get_workspace_containers (ca\<lparr>ca_remove := f\<rparr>) = get_workspace_containers ca"
    by (simp add: get_workspace_containers_def)
  obtain r t where r: "get_workspace_containers ca s = (r, t)" by (meson surj_pair)
  show ?thesis
  proof (cases r)
    case (Inr cs)
    have "py_startswith c CONTAINER_PREFIX" if "c \<in> set cs" for c
      using r Inr that by (auto simp: get_workspace_containers_def io_bind_Inr_iff io_return_def)
    then have "io_mapM (\<lambda>c. io_try (io_seq (f c) (io_return True)) (\<lambda>_. io_return False)) cs =
        io_mapM (\<lambda>c. io_try (io_seq (ca_remove ca c) (io_return True)) (\<lambda>_. io_return False)) cs"
      using assms by (intro io_mapM_cong) simp
    then show ?thesis using r Inr by (simp add: cleanup_containers_def same io_bind_def)
  qed (simp add: cleanup_containers_def same io_bind_def r)
qed

end
