(* ===== verification/Legacy_Schema.thy ===== *)
theory Legacy_Schema
  imports Schema Legacy_Service
begin

text \<open>
  The migration of the retired backend (alembic/versions/0359b8100232) and its table classes (db/models.py).
  An enumeration is a type of its own in PostgreSQL: creating a table creates the types of its columns, and
  fails when one exists; dropping the table leaves them.
\<close>

record enum_schema =
  es_schema :: schema
  es_types :: "string list"

definition enum_types :: "sql_column list \<Rightarrow> string list" where
  "enum_types cs = concat (map (\<lambda>c. case sc_type c of SqlEnum n _ \<Rightarrow> [n] | _ \<Rightarrow> []) cs)"

definition create_enum_table :: "string \<Rightarrow> sql_column list \<Rightarrow> enum_schema \<Rightarrow> exn + enum_schema" where
  "create_enum_table t cs s =
     (if list_ex (\<lambda>n. n \<in> set (es_types s)) (enum_types cs) then Inl (OtherError ''DuplicateObject'')
      else Inr (s\<lparr>es_schema := create_table t cs (es_schema s), es_types := es_types s @ enum_types cs\<rparr>))"

definition status_enum :: sql_type where
  "status_enum = SqlEnum ''workspacestatus''
     [''CREATED'', ''PROVISIONING'', ''RUNNING'', ''STOPPING'', ''STOPPED'', ''DELETING'', ''ERROR'', ''DELETED'']"

text \<open>The index of one column is part of the column.\<close>

definition old_user_columns :: "sql_column list" where
  "old_user_columns =
     [primary_key (column ''id'' (VarChar None)),
      indexed (unique (not_null (column ''username'' (VarChar None)))),
      not_null (column ''password_hash'' (VarChar None)),
      not_null (column ''created_at'' Timestamptz),
      not_null (column ''failed_login_attempts'' SqlInteger),
      column ''locked_until'' Timestamptz,
      column ''last_failed_at'' Timestamptz]"

definition old_session_columns :: "sql_column list" where
  "old_session_columns =
     [primary_key (column ''id'' (VarChar None)),
      references ''users.id'' (indexed (not_null (column ''user_id'' (VarChar None)))),
      not_null (column ''created_at'' Timestamptz),
      not_null (column ''expires_at'' Timestamptz),
      column ''revoked_at'' Timestamptz]"

definition old_workspace_columns :: "sql_column list" where
  "old_workspace_columns =
     [primary_key (column ''id'' (VarChar None)),
      references ''users.id'' (indexed (not_null (column ''owner_user_id'' (VarChar None)))),
      not_null (column ''name'' (VarChar None)),
      column ''description'' (VarChar None),
      column ''memo'' SqlText,
      not_null (column ''status'' status_enum),
      not_null (column ''image_ref'' (VarChar None)),
      not_null (column ''instance_backend'' (VarChar None)),
      not_null (column ''storage_backend'' (VarChar None)),
      not_null (column ''home_store_key'' (VarChar None)),
      column ''home_ctx'' SqlText,
      not_null (column ''created_at'' Timestamptz),
      not_null (column ''updated_at'' Timestamptz),
      indexed (column ''deleted_at'' Timestamptz)]"

definition old_upgrade :: "enum_schema \<Rightarrow> exn + enum_schema" where
  "old_upgrade s =
     ex_bind (create_enum_table ''users'' old_user_columns s) (\<lambda>s.
       ex_bind (create_enum_table ''sessions'' old_session_columns s) (\<lambda>s.
         create_enum_table ''workspaces'' old_workspace_columns s))"

definition old_downgrade :: "enum_schema \<Rightarrow> enum_schema" where
  "old_downgrade s =
     s\<lparr>es_schema := drop_table ''users'' (drop_table ''sessions'' (drop_table ''workspaces'' (es_schema s)))\<rparr>"

text \<open>db/models.py\<close>

definition old_model_users :: "sql_column list" where
  "old_model_users =
     [primary_key (column ''id'' (VarChar None)),
      indexed (unique (not_null (column ''username'' (VarChar None)))),
      not_null (column ''password_hash'' (VarChar None)),
      column ''created_at'' Timestamptz,
      not_null (column ''failed_login_attempts'' SqlInteger),
      column ''locked_until'' Timestamptz,
      column ''last_failed_at'' Timestamptz]"

definition old_model_sessions :: "sql_column list" where
  "old_model_sessions =
     [primary_key (column ''id'' (VarChar None)),
      references ''users.id'' (indexed (not_null (column ''user_id'' (VarChar None)))),
      column ''created_at'' Timestamptz,
      column ''expires_at'' Timestamptz,
      column ''revoked_at'' Timestamptz]"

definition old_model_workspaces :: "sql_column list" where
  "old_model_workspaces =
     [primary_key (column ''id'' (VarChar None)),
      references ''users.id'' (indexed (not_null (column ''owner_user_id'' (VarChar None)))),
      not_null (column ''name'' (VarChar None)),
      column ''description'' (VarChar None),
      column ''memo'' SqlText,
      not_null (column ''status'' status_enum),
      not_null (column ''image_ref'' (VarChar None)),
      not_null (column ''instance_backend'' (VarChar None)),
      not_null (column ''storage_backend'' (VarChar None)),
      not_null (column ''home_store_key'' (VarChar None)),
      column ''home_ctx'' SqlText,
      column ''created_at'' Timestamptz,
      column ''updated_at'' Timestamptz,
      indexed (column ''deleted_at'' Timestamptz)]"

definition empty_enum_schema :: enum_schema where
  "empty_enum_schema = \<lparr>es_schema = empty_schema, es_types = []\<rparr>"

section \<open>Up, down, and up again\<close>

text \<open>The migration builds the tables of the models, but for the times, which the models let be NULL.\<close>

lemma old_models_match:
  "\<exists>s. old_upgrade empty_enum_schema = Inr s \<and>
    set old_model_users - set (columns_of (es_schema s) ''users'') = {column ''created_at'' Timestamptz} \<and>
    set old_model_sessions - set (columns_of (es_schema s) ''sessions'') = {column ''created_at'' Timestamptz, column ''expires_at'' Timestamptz} \<and>
    set old_model_workspaces - set (columns_of (es_schema s) ''workspaces'') = {column ''created_at'' Timestamptz, column ''updated_at'' Timestamptz}"
proof -
  let ?s = "projr (old_upgrade empty_enum_schema)"
  have "old_upgrade empty_enum_schema = Inr ?s" by code_simp
  moreover have "set old_model_users - set (columns_of (es_schema ?s) ''users'') = {column ''created_at'' Timestamptz}"
    by code_simp
  moreover have "set old_model_sessions - set (columns_of (es_schema ?s) ''sessions'') =
      {column ''created_at'' Timestamptz, column ''expires_at'' Timestamptz}"
    by code_simp
  moreover have "set old_model_workspaces - set (columns_of (es_schema ?s) ''workspaces'') =
      {column ''created_at'' Timestamptz, column ''updated_at'' Timestamptz}"
    by code_simp
  ultimately show ?thesis by blast
qed

text \<open>The downgrade removes the tables and leaves the type, so the migration cannot be applied again.\<close>

lemma downgrade_leaves_type:
  "map_option old_downgrade (case old_upgrade empty_enum_schema of Inl e \<Rightarrow> None | Inr s \<Rightarrow> Some s) =
    Some \<lparr>es_schema = empty_schema, es_types = [''workspacestatus'']\<rparr>"
  "old_upgrade \<lparr>es_schema = empty_schema, es_types = [''workspacestatus'']\<rparr> = Inl (OtherError ''DuplicateObject'')"
  by code_simp+

text \<open>The values of the type are those of the class.\<close>

lemma enum_is_status: "\<exists>vs. status_enum = SqlEnum ''workspacestatus'' vs \<and> set vs = range old_status_value"
proof -
  have "x \<in> {CREATED, PROVISIONING, RUNNING, STOPPING, STOPPED, DELETING, ERROR, DELETED}" for x
    by (cases x) simp_all
  then have "range old_status_value =
      old_status_value ` {CREATED, PROVISIONING, RUNNING, STOPPING, STOPPED, DELETING, ERROR, DELETED}" by blast
  then show ?thesis by (simp add: status_enum_def)
qed

end
