(* ===== verification/Spec2Isabelle.thy ===== *)
theory Spec2Isabelle
  imports Planner Retry Sessions ProxyAuth Workspaces Observer Activity Scheduler Controller Guarantees Convergence
    Process Streams Proxy Requests Application Triggers Endings Logs Metrics
    Legacy_Main Legacy_Schema
begin

text \<open>
  A verification development for CodeHub (src/src/codehub), a control plane that runs cloud workspaces:
  containers with a home volume that can be archived to object storage and restored.

  The program.  A row of the table workspaces holds what the user wants (desired_state), what the observer saw
  (conditions), what the controller makes of it (phase) and what it is doing about it (operation).  Three
  coordinators share that row, each the only one of its kind by an advisory lock of PostgreSQL: the observer
  writes the conditions, the workspace controller judges the phase, plans and executes one operation and
  persists the outcome by a compare-and-set on the operation, the scheduler lowers the desired state of idle
  workspaces and collects resources that no row claims.  The API and the proxy in front of the containers only
  write the desired state.  A trigger on the table notifies an event listener, which wakes the coordinators and
  publishes rows on Redis channels, from which the SSE endpoint feeds the browsers.

  Theories and sources (paths under src/src/codehub).

  Prelude: exceptions, effectful computations, Python's strings and JSON, rows of a table; nothing specific.
  Config: app/config.py.  Domain: core/domain, core/errors.py, core/models, the data of core/interfaces.
  Database: transactions over the three tables, with failing statements (infra/postgresql.py).
  Judge, Planner: control/coordinator/wc_judge.py and wc_planner.py, pure functions of a row.
  Breaker, Retry: core/circuit_breaker.py and core/retryable.py.
  Interfaces: core/interfaces, the methods as records and their contracts as locales.
  Controller, Observer, Scheduler: control/coordinator/wc.py, observer.py, scheduler.py, scheduler_ttl.py and
  scheduler_gc.py, each one pass over the database and the platform.
  Docker, Adapters: infra/docker.py and adapters/, the platform over an HTTP client and an S3 client.
  Engine: the documented behaviour of the Docker Engine API, of S3 and of the storage job as laws on a view.
  Platform, Backend: the adapters satisfy the contracts of Interfaces on every backend that obeys these laws.
  Reference: a backend in memory that obeys them, on which the witnesses run.
  Guarantees: what the coordinators guarantee on the adapters, through these interpretations.
  Lifecycle, Convergence: rounds of observer and controller, and that they reach the desired state.
  Sessions: services/session_service.py, core/security.py, app/api/v1/auth.py.
  ProxyAuth: app/proxy/auth.py, infra/cache.py.
  Workspaces: services/workspace_service.py, app/api/v1/workspaces.py.
  Activity: app/proxy/activity.py, infra/redis_kv.py, control/tasks.py.
  Leader, Cluster: infra/pg_leader.py, core/interfaces/leader.py, and several processes with one lock server.
  Channels: infra/redis_pubsub.py.  Coordinator: control/coordinator/base.py.
  Process: the coordinators as control/__init__.py starts them.
  Events, Streams: control/coordinator/event_listener.py and app/api/v1/events.py, handlers and loops.
  Schema, Triggers: src/src/alembic/versions, the migrations and the trigger function of every revision.
  Endings: that coordinators and streams end.
  Pages, Proxy: app/proxy/policy.py, pages.py, client.py, router.py, transport.py, and the script of
  app/static/proxy/limit.html.
  Requests, Logs: app/middleware/logging.py, app/logging.py.
  Metrics: app/metrics/collector.py and the pool gauges of app/main.py.
  Application: app/main.py, the connections of infra, control/__init__.py.
  The first version of the backend, kept under src/.archive/backend: Legacy_Config (core/config.py), Legacy
  (db/models.py, services/instance, services/storage), Legacy_Service (services/workspace_service.py,
  core/events.py), Legacy_Recovery (services/recovery.py), Legacy_Api (api/v1/workspaces.py, api/v1/events.py),
  Legacy_Access (core/security.py, services/session_service.py, api/v1/auth.py), Legacy_Proxy (proxy),
  Legacy_Main (main.py, core/errors.py, scripts/cleanup.py), Legacy_Schema (its migration).

  How the code is modelled.  An awaited call is a function from the state to an exception or a result and the
  next state; try, except, finally and asyncio.wait_for are combinators of Prelude, and every raise and early
  return is a branch.  A time-out or a cancellation is a CancelledError at an await.  What the source reads from
  the outside (clock, random ids, configuration) is an argument.  Third-party code (Docker Engine, S3, the Redis
  and PostgreSQL clients, httpx, argon2, cachetools, the JSON codec) is a record of parameters; what a theorem
  needs of it is a named predicate among its hypotheses, and the witness instantiates it by a concrete function.
  Floats are reals, Python's integers are integers, the digest of a lock key is a list of bytes, a datetime
  is a number of microseconds, a character is a code point below 256.  The branches of asyncio.gather run in
  order; where the interleaving matters it is explicit: events of the circuit breaker, answered awaits of the
  WebSocket relay, steps of the cluster, and changes by others between the calls of an execution.

  What the lemmas show, by group of properties.
  Decisions: the judge is the documented table, the planner is not pre-emptive, starts an operation exactly when
  and as documented, and moves monotonically.
  Resilience: the breaker opens on the threshold and keeps its invariant, the retry loop has the stated outcome
  and number of calls.
  Users: isolation, the running limit on a start, lock-out, single session, revocation.
  Coordinators: one pass rewrites each row by its own plan and keeps rows well-formed, the observer is all or
  nothing, TTL is one transaction, the flush loses nothing.
  Platform: no execution loses a home, volumes outlive containers, executions do not interfere, a returned
  operation is achieved, jobs clean up, observed conditions are the facts, the collector spares what is claimed,
  and a live workspace reaches its desired state.
  Leadership: at most one leader, a verified leader excludes, reconciliations are spaced and under the lock.
  Loops: coordinators exit clean, survive failures and end when cancelled.
  Events: a visible change reaches the browser, a changed request wakes its coordinators, a stream shows exactly
  the changes, and a failed query silences the listener.
  Proxy: only the owner of a running workspace reaches its container, the relay keeps the order, the limit page
  reads back what it was given; the log is rate-limited.
  First version of the backend: an accepted request ends, with its task, in the wanted status or in ERROR, the
  wait for health ends when the interval is positive, recovery follows its documented table, its login and
  sessions are the present ones, its proxy lets only the owner through, and its script removes only containers
  with the prefix and nothing in a dry run.

  Fuel.  The loops that need not end take a number of rounds and return None when it is used up: run_loop,
  stream_loop, notify_loop, wait_for_leadership, raw_chunks, metrics_updater_loop, and of the first version
  poll_health (start_returns gives enough fuel for a positive interval) and old_stream_loop.  Safety properties
  hold for every fuel; Endings proves that a loop whose task is cancelled at wait k + 1, or whose browser leaves at check
  k + 1, returns with fuel k + 1.  The retry loop and all others recurse on data.  Convergence takes at most seven rounds, the
  greatest value of rounds_left in Lifecycle: two for each operation on the way to the desired phase, and those
  that end the operation in progress.

  Not modelled.  Log messages, and the updates of metrics inside the components.  The queue between the
  listening loop and its worker: a notification is handled when it is queued.  SQL text: a statement is a
  function on the tables.  The FastAPI wiring and the static routes.  The JavaScript and HTML of the dashboard.
  The shell scripts of the storage job, which enter as a law of Engine.  The log format and
  the database engine of the first version of the backend.
\<close>

end
